(* ===== verification/Gateway_Prelude.thy ===== *)
theory Gateway_Prelude
  imports Main "HOL-Library.Word" "HOL-Library.Sublist"
begin

text \<open>
  What every component of the development shares.

  \<^item> The machine integers of the sources (\<open>uint8_t\<close> \dots \<open>uint64_t\<close>) as words, a
    \<open>std::vector<uint8_t>\<close> as a list of bytes and a \<open>std::string\<close> as a list of chars.
  \<^item> The part of the C++ standard library the sources format and parse text with: stream
    insertion of unsigned integers in decimal and under \<open>std::hex\<close>, \<open>std::setw\<close> with
    \<open>std::setfill\<close>, \<open>std::tolower\<close>, \<open>std::isdigit\<close>, \<open>std::isspace\<close>,
    \<open>std::string::find\<close> and \<open>rfind\<close>, and \<open>std::stoul\<close>, with its exceptions as values.
  \<^item> The lemmas about them the component theories use: digit strings have a fixed width,
    contain no separator and determine the number, and a search for a prefix or suffix is the
    library's \<open>prefix\<close> or \<open>suffix\<close>.
\<close>

unbundle bit_operations_syntax

named_theorems topic_simps \<open>definitions of the topic, key and name builders\<close>
named_theorems base_simps \<open>definitions of the operations of GatewayBase\<close>

type_synonym u8 = "8 word"
type_synonym u16 = "16 word"
type_synonym u32 = "32 word"
type_synonym u64 = "64 word"
type_synonym bytes = "8 word list"


subsection \<open>Characters and bytes\<close>

definition byte_of_char :: "char \<Rightarrow> u8" where
  "byte_of_char c = word_of_nat (of_char c)"

definition char_of_byte :: "u8 \<Rightarrow> char" where
  "char_of_byte b = char_of (unat b)"

text \<open>\<open>std::vector<uint8_t>(s.begin(), s.end())\<close> and \<open>std::string(v.begin(), v.end())\<close>.\<close>

definition bytes_of_string :: "string \<Rightarrow> bytes" where
  "bytes_of_string s = map byte_of_char s"

definition string_of_bytes :: "bytes \<Rightarrow> string" where
  "string_of_bytes bs = map char_of_byte bs"

text \<open>
  \<open>std::tolower\<close>, \<open>std::isdigit\<close> and \<open>std::isspace\<close> in the C locale, on the character's code.
\<close>

definition tolower :: "char \<Rightarrow> char" where
  "tolower c = (let n = (of_char c :: nat) in if 65 \<le> n \<and> n \<le> 90 then char_of (n + 32) else c)"

definition isdigit :: "char \<Rightarrow> bool" where
  "isdigit c = (let n = (of_char c :: nat) in 48 \<le> n \<and> n \<le> 57)"

definition isspace :: "char \<Rightarrow> bool" where
  "isspace c = (let n = (of_char c :: nat) in n = 32 \<or> 9 \<le> n \<and> n \<le> 13)"


subsection \<open>Stream insertion of unsigned integers\<close>

definition dec_digit :: "nat \<Rightarrow> char" where
  "dec_digit d = char_of (48 + d)"

definition hex_digit :: "bool \<Rightarrow> nat \<Rightarrow> char" where
  "hex_digit upper d =
     (if d < 10 then char_of (48 + d) else if upper then char_of (55 + d) else char_of (87 + d))"

text \<open>\<open>os << n\<close> in decimal: no leading zero, one digit for zero.\<close>

fun show_dec :: "nat \<Rightarrow> string" where
  "show_dec n = (if n < 10 then [dec_digit n] else show_dec (n div 10) @ [dec_digit (n mod 10)])"

text \<open>\<open>os << std::hex << n\<close>; the flag is \<open>std::uppercase\<close>.\<close>

fun show_hex :: "bool \<Rightarrow> nat \<Rightarrow> string" where
  "show_hex upper n =
     (if n < 16 then [hex_digit upper n]
      else show_hex upper (n div 16) @ [hex_digit upper (n mod 16)])"

declare show_dec.simps [simp del]
declare show_hex.simps [simp del]

text \<open>\<open>std::setfill(c) << std::setw(w)\<close>, with the default right adjustment.\<close>

definition pad_left :: "char \<Rightarrow> nat \<Rightarrow> string \<Rightarrow> string" where
  "pad_left c w s = replicate (w - length s) c @ s"

text \<open>
  The four-digit hexadecimal rendering of a 16-bit identifier that every naming scheme of the
  gateways uses, \<open>std::hex << std::setfill('0') << std::setw(4) << id\<close> or \<open>"%04x"\<close>.
\<close>

definition hex4 :: "bool \<Rightarrow> u16 \<Rightarrow> string" where
  "hex4 upper v = pad_left (CHR ''0'') 4 (show_hex upper (unat v))"


subsection \<open>Searching a string\<close>

text \<open>\<open>s.find(pat)\<close>: the least position where \<open>pat\<close> occurs, \<open>None\<close> for \<open>npos\<close>.\<close>

fun str_find :: "string \<Rightarrow> string \<Rightarrow> nat option" where
  "str_find pat [] = (if pat = [] then Some 0 else None)"
| "str_find pat (c # s) = (if prefix pat (c # s) then Some 0 else map_option Suc (str_find pat s))"

text \<open>\<open>s.rfind(pat)\<close>: the greatest such position.\<close>

fun str_rfind :: "string \<Rightarrow> string \<Rightarrow> nat option" where
  "str_rfind pat [] = (if pat = [] then Some 0 else None)"
| "str_rfind pat (c # s) =
     (case str_rfind pat s of
        Some k \<Rightarrow> Some (Suc k)
      | None \<Rightarrow> if prefix pat (c # s) then Some 0 else None)"


subsection \<open>Conversion of text to integers\<close>

datatype cpp_exception = invalid_argument | out_of_range

definition hex_value :: "char \<Rightarrow> nat option" where
  "hex_value c =
     (let n = (of_char c :: nat) in
      if 48 \<le> n \<and> n \<le> 57 then Some (n - 48)
      else if 97 \<le> n \<and> n \<le> 102 then Some (n - 87)
      else if 65 \<le> n \<and> n \<le> 70 then Some (n - 55)
      else None)"

definition digit_value :: "nat \<Rightarrow> char \<Rightarrow> nat option" where
  "digit_value base c =
     (case hex_value c of None \<Rightarrow> None | Some d \<Rightarrow> if d < base then Some d else None)"

text \<open>The longest run of digits of the base, and its value.\<close>

fun digits_value :: "nat \<Rightarrow> nat \<Rightarrow> string \<Rightarrow> nat" where
  "digits_value base acc [] = acc"
| "digits_value base acc (c # s) =
     (case digit_value base c of
        None \<Rightarrow> acc
      | Some d \<Rightarrow> digits_value base (acc * base + d) s)"

definition starts_with_digit :: "nat \<Rightarrow> string \<Rightarrow> bool" where
  "starts_with_digit base s = (case s of [] \<Rightarrow> False | c # _ \<Rightarrow> digit_value base c \<noteq> None)"

text \<open>
  \<open>std::stoul(s, nullptr, base)\<close> for base 10 and 16 where \<open>unsigned long\<close> has 64 bits: leading
  white space, an optional sign, an optional \<open>0x\<close> for base 16, the digits. No digit throws
  \<open>std::invalid_argument\<close>, a magnitude above \<open>ULONG_MAX\<close> throws \<open>std::out_of_range\<close>, and a
  minus sign negates the result as an unsigned integer.
\<close>

definition stoul :: "nat \<Rightarrow> string \<Rightarrow> cpp_exception + u64" where
  "stoul base s =
     (let s1 = dropWhile isspace s;
          neg = (case s1 of c # _ \<Rightarrow> c = CHR ''-'' | [] \<Rightarrow> False);
          s2 = (case s1 of c # t \<Rightarrow> if c = CHR ''-'' \<or> c = CHR ''+'' then t else s1 | [] \<Rightarrow> []);
          s3 = (if base = 16 \<and> (prefix ''0x'' s2 \<or> prefix ''0X'' s2) \<and> starts_with_digit 16 (drop 2 s2)
                then drop 2 s2 else s2)
      in if \<not> starts_with_digit base s3 then Inl invalid_argument
         else let v = digits_value base 0 s3 in
           if v \<ge> 2 ^ 64 then Inl out_of_range
           else Inr (if neg then - word_of_nat v else word_of_nat v))"


subsection \<open>Facts about characters and bytes\<close>

lemma char_of_byte_of_char [simp]: "char_of_byte (byte_of_char c) = c"
proof -
  have "(of_char c :: nat) < 256" by simp
  then show ?thesis by (simp add: char_of_byte_def byte_of_char_def unat_of_nat)
qed

lemma byte_of_char_of_byte [simp]: "byte_of_char (char_of_byte b) = b"
proof -
  have "unat b < 2 ^ LENGTH(8)" by (rule unsigned_less)
  then show ?thesis by (simp add: char_of_byte_def byte_of_char_def)
qed

lemma string_of_bytes_of_string [simp]: "string_of_bytes (bytes_of_string s) = s"
  by (simp add: string_of_bytes_def bytes_of_string_def comp_def)

lemma bytes_of_string_of_bytes [simp]: "bytes_of_string (string_of_bytes bs) = bs"
  by (simp add: string_of_bytes_def bytes_of_string_def comp_def)

lemma bytes_of_string_inject [simp]: "bytes_of_string s = bytes_of_string t \<longleftrightarrow> s = t"
  by (metis string_of_bytes_of_string)

lemma length_bytes_of_string [simp]: "length (bytes_of_string s) = length s"
  by (simp add: bytes_of_string_def)

lemma of_char_char_of [simp]: "n < 256 \<Longrightarrow> (of_char (char_of n) :: nat) = n"
  by simp


text \<open>Taking the low byte: the mask before the narrowing cast changes nothing.\<close>

lemma ucast_u8_and_FF [simp]: "ucast (v AND 0xFF) = (ucast v :: u8)" for v :: "'a::len word"
proof -
  have m: "(0xFF :: 'a word) = mask 8" by (simp add: mask_eq_exp_minus_1)
  show ?thesis unfolding m by (intro bit_word_eqI) (auto simp: bit_simps dest: bit_imp_le_length)
qed


subsection \<open>Facts about digits\<close>

lemma hex_value_hex_digit [simp]: "d < 16 \<Longrightarrow> hex_value (hex_digit upper d) = Some d"
  by (auto simp: hex_value_def hex_digit_def Let_def)

lemma digit_value_hex_digit [simp]: "d < 16 \<Longrightarrow> digit_value 16 (hex_digit upper d) = Some d"
  by (simp add: digit_value_def)

lemma hex_value_dec_digit [simp]: "d < 10 \<Longrightarrow> hex_value (dec_digit d) = Some d"
  by (auto simp: hex_value_def dec_digit_def Let_def)

lemma digit_value_dec_digit [simp]: "d < 10 \<Longrightarrow> digit_value 10 (dec_digit d) = Some d"
  by (simp add: digit_value_def)

lemma isdigit_dec_digit [simp]: "d < 10 \<Longrightarrow> isdigit (dec_digit d)"
  by (simp add: isdigit_def dec_digit_def)

lemma show_dec_nonempty [simp]: "show_dec n \<noteq> []"
  by (subst show_dec.simps) simp

lemma show_dec_digits: "c \<in> set (show_dec n) \<Longrightarrow> isdigit c"
proof (induction n rule: show_dec.induct)
  case (1 n)
  then show ?case by (cases "n < 10") (auto simp: show_dec.simps [of n])
qed

lemma digits_value_append_dec:
  "digits_value 10 acc (s @ [dec_digit d]) = digits_value 10 acc s * 10 + d"
  if "\<And>c. c \<in> set s \<Longrightarrow> isdigit c" and "d < 10"
  using that
proof (induction s arbitrary: acc)
  case Nil
  then show ?case by simp
next
  case (Cons c s)
  have "digit_value 10 c \<noteq> None"
    using Cons.prems(1) [of c] by (auto simp: digit_value_def hex_value_def isdigit_def Let_def)
  with Cons show ?case by auto
qed

lemma digits_value_show_dec [simp]: "digits_value 10 0 (show_dec n) = n"
proof (induction n rule: show_dec.induct)
  case (1 n)
  show ?case
  proof (cases "n < 10")
    case True
    then show ?thesis by (simp add: show_dec.simps [of n])
  next
    case False
    have "digits_value 10 0 (show_dec (n div 10) @ [dec_digit (n mod 10)])
        = digits_value 10 0 (show_dec (n div 10)) * 10 + n mod 10"
      by (rule digits_value_append_dec) (auto intro: show_dec_digits)
    with False 1 show ?thesis by (simp add: show_dec.simps [of n])
  qed
qed

lemma show_dec_inject [simp]: "show_dec m = show_dec n \<longleftrightarrow> m = n"
  by (metis digits_value_show_dec)


subsection \<open>Four-digit hexadecimal identifiers\<close>

lemma pad_left_length [simp]: "length s \<le> w \<Longrightarrow> length (pad_left c w s) = w"
  by (simp add: pad_left_def)

lemma unat_u16_less: "unat (v :: u16) < 65536"
proof -
  have "unat v < 2 ^ LENGTH(16)" by (rule unsigned_less)
  then show ?thesis by simp
qed

text \<open>The nibbles of a 16-bit value, most significant first.\<close>

definition nibbles :: "u16 \<Rightarrow> nat list" where
  "nibbles v = [unat v div 4096, unat v div 256 mod 16, unat v div 16 mod 16, unat v mod 16]"

lemma pad_left_4:
  "pad_left c 4 [x] = [c, c, c, x]" "pad_left c 4 [w, x] = [c, c, w, x]"
  "pad_left c 4 [v, w, x] = [c, v, w, x]" "pad_left c 4 [u, v, w, x] = [u, v, w, x]"
  by (simp_all add: pad_left_def numeral_eq_Suc)

lemma hex_digit_0: "hex_digit upper 0 = CHR ''0''"
  by (cases upper) code_simp+

lemma show_hex_digits:
  "n < 16 \<Longrightarrow> show_hex upper n = [hex_digit upper n]"
  "16 \<le> n \<Longrightarrow> show_hex upper n = show_hex upper (n div 16) @ [hex_digit upper (n mod 16)]"
  by (simp_all add: show_hex.simps [of upper n])

lemma hex4_nibbles: "hex4 upper v = map (hex_digit upper) (nibbles v)"
proof -
  let ?n = "unat v"
  have b: "?n div 4096 < 16" using unat_u16_less [of v] by simp
  consider "?n < 16" | "16 \<le> ?n" "?n < 256" | "256 \<le> ?n" "?n < 4096" | "4096 \<le> ?n" by linarith
  then show ?thesis
  proof cases
    case 1
    then show ?thesis by (simp add: hex4_def nibbles_def pad_left_4 show_hex_digits hex_digit_0)
  next
    case 2
    then show ?thesis by (simp add: hex4_def nibbles_def pad_left_4 show_hex_digits hex_digit_0)
  next
    case 3
    then have "16 \<le> ?n div 16" by simp
    with 3 show ?thesis
      by (simp add: hex4_def nibbles_def pad_left_4 show_hex_digits hex_digit_0 flip: div_mult2_eq)
  next
    case 4
    then have "16 \<le> ?n div 16" "16 \<le> ?n div 256" by simp_all
    with 4 b show ?thesis
      by (simp add: hex4_def nibbles_def pad_left_4 show_hex_digits flip: div_mult2_eq)
  qed
qed

lemma nibbles_bound: "d \<in> set (nibbles v) \<Longrightarrow> d < 16"
  using unat_u16_less [of v] by (auto simp: nibbles_def)

lemma length_hex4 [simp]: "length (hex4 upper v) = 4"
  by (simp add: hex4_nibbles nibbles_def)

lemma hex4_nonempty [simp]: "hex4 upper v \<noteq> []"
  using length_hex4 [of upper v] by (metis list.size(3) zero_neq_numeral)

lemma hex4_hex_value: "c \<in> set (hex4 upper v) \<Longrightarrow> hex_value c \<noteq> None"
  by (auto simp: hex4_nibbles dest: nibbles_bound)

lemma slash_not_hex: "hex_value (CHR ''/'') = None" "hex_value (CHR ''-'') = None" "hex_value (CHR ''.'') = None"
  by code_simp+

lemma hex4_no_slash [simp]: "CHR ''/'' \<notin> set (hex4 upper v)"
  using hex4_hex_value slash_not_hex(1) by blast

lemma radix16_step: "(n :: nat) div (k * 16) * 16 + n div k mod 16 = n div k"
  by (simp add: div_mult2_eq div_mult_mod_eq)

lemma nibbles_value:
  "((n div 4096 * 16 + n div 256 mod 16) * 16 + n div 16 mod 16) * 16 + n mod 16 = (n :: nat)"
  using radix16_step [of n 256] radix16_step [of n 16] radix16_step [of n 1] by simp

lemma digits_value_hex4: "digits_value 16 0 (hex4 upper v) = unat v"
proof -
  have "unat v div 4096 < 16" using unat_u16_less [of v] by simp
  then show ?thesis using nibbles_value [of "unat v"] by (simp add: hex4_nibbles nibbles_def)
qed

lemma hex4_inject [simp]: "hex4 upper v = hex4 upper w \<longleftrightarrow> v = w"
  by (metis digits_value_hex4 unsigned_word_eqI)

lemma hex4_append_inject [simp]:
  "hex4 upper v @ s = hex4 upper w @ t \<longleftrightarrow> v = w \<and> s = t"
  by (metis append_eq_append_conv hex4_inject length_hex4)


subsection \<open>Facts about searching\<close>

lemma str_find_0: "str_find pat s = Some 0 \<longleftrightarrow> prefix pat s"
  by (cases s) auto

lemma str_find_None: "str_find pat s = None \<longleftrightarrow> \<not> sublist pat s"
  by (induction s) (auto simp: sublist_Cons_right)

lemma str_rfind_bound: "str_rfind pat s = Some k \<Longrightarrow> k + length pat \<le> length s"
proof (induction s arbitrary: k)
  case Nil
  then show ?case by (simp split: if_splits)
next
  case (Cons c s)
  then show ?case by (fastforce split: option.splits if_splits dest: prefix_length_le)
qed

lemma str_rfind_suffix:
  assumes "pat \<noteq> []"
  shows "str_rfind pat s = Some (length s - length pat) \<and> length pat \<le> length s \<longleftrightarrow> suffix pat s"
proof (induction s)
  case Nil
  then show ?case using assms by simp
next
  case (Cons c s)
  show ?case
  proof (cases "length pat \<le> length s")
    case True
    then have "suffix pat (c # s) \<longleftrightarrow> suffix pat s"
      by (auto simp: suffix_Cons)
    moreover have "str_rfind pat (c # s) = Some (length (c # s) - length pat) \<longleftrightarrow>
        str_rfind pat s = Some (length s - length pat)"
      using True by (auto split: option.splits)
    ultimately show ?thesis using Cons True by simp
  next
    case False
    then have "str_rfind pat s = None"
      using str_rfind_bound [of pat s] by (cases "str_rfind pat s") auto
    moreover have "pat = c # s" if "suffix pat (c # s)"
      using that False by (auto simp: suffix_Cons dest: suffix_length_le)
    moreover have "pat = c # s" if "prefix pat (c # s)"
      using that False by (auto simp: prefix_def) (metis append_Nil2 length_append length_Cons
          le_add1 not_less_eq_eq antisym_conv list.size(4) length_0_conv add_cancel_right_right)
    ultimately show ?thesis using False by auto
  qed
qed

end
