(* ===== verification/Someip_Api.thy ===== *)
theory Someip_Api
  imports Gateway_Prelude
begin

text \<open>
  The opensomeip core library the gateways link against (\<open>someip/message.h\<close>,
  \<open>common/result.h\<close>, \<open>transport/\<close>, \<open>sd/\<close>, \<open>rpc/\<close>, \<open>events/\<close>, \<open>e2e/\<close>) is a separate
  repository and enters this development as a parameter.

  \<^item> \<open>message_api\<close> is the interface of \<open>someip::Message\<close> the sources call: constructors, getters,
    setters, predicates, (de)serialization, and the enumerators of \<open>someip::MessageType\<close> and
    \<open>someip::ReturnCode\<close>. Both enumerations are 8-bit fields of the SOME/IP header, so a value
    is a byte and \<open>static_cast\<close> from and to \<open>uint8_t\<close> is the identity. \<open>message_laws\<close> states the
    documented behaviour the gateways rely on: a getter returns what the constructor or setter
    stored, a setter changes nothing else, the enumerators are distinct.
  \<^item> \<open>Result\<close> and \<open>RpcResult\<close> list the enumerators the sources name; every other enumerator of
    the library is a value of the last constructor.
  \<^item> Calls on the library's objects (transports, service discovery, RPC, events, end-to-end
    protection, the clock) are entries of a call history, and an \<open>env\<close> answers each call as a
    function of the history so far: a theorem about every \<open>env\<close> covers every behaviour of the
    library, including answers that change from call to call.

  \<open>ref_api\<close> is a concrete instance of the interface on which the witnesses are evaluated.
\<close>

subsection \<open>Result codes\<close>

datatype Result =
    SUCCESS | NOT_INITIALIZED | INVALID_STATE | NETWORK_ERROR | NOT_CONNECTED
  | SERVICE_NOT_FOUND | INVALID_SERVICE_ID | INTERNAL_ERROR | Result_other nat

datatype RpcResult =
    RPC_SUCCESS | RPC_TIMEOUT | RPC_NETWORK_ERROR | RPC_INVALID_PARAMETERS | RPC_METHOD_NOT_FOUND
  | RPC_SERVICE_NOT_AVAILABLE | RPC_INTERNAL_ERROR | RpcResult_other nat

text \<open>The predicates \<open>someip::is_success\<close> and \<open>someip::is_error\<close> of the library, with what their names promise.\<close>

record result_api =
  is_success :: "Result \<Rightarrow> bool"
  is_error :: "Result \<Rightarrow> bool"

definition result_laws :: "result_api \<Rightarrow> bool" where
  "result_laws P \<longleftrightarrow> (\<forall>r. is_success P r \<longleftrightarrow> r = SUCCESS) \<and> (\<forall>r. is_error P r \<longleftrightarrow> r \<noteq> SUCCESS)"

definition ref_results :: result_api where
  "ref_results = \<lparr>is_success = (\<lambda>r. r = SUCCESS), is_error = (\<lambda>r. r \<noteq> SUCCESS)\<rparr>"

lemma ref_results_laws [simp]: "result_laws ref_results"
  by (simp add: result_laws_def ref_results_def)

type_synonym MessageType = u8
type_synonym ReturnCode = u8


subsection \<open>The message interface\<close>

record 'm message_api =
  mt_REQUEST :: MessageType
  mt_REQUEST_NO_RETURN :: MessageType
  mt_NOTIFICATION :: MessageType
  mt_RESPONSE :: MessageType
  mt_ERROR :: MessageType
  mt_TP_REQUEST :: MessageType
  mt_TP_REQUEST_NO_RETURN :: MessageType
  mt_TP_NOTIFICATION :: MessageType
  rc_E_OK :: ReturnCode
  Message_default :: 'm
  Message_ctor :: "u16 \<times> u16 \<Rightarrow> u16 \<times> u16 \<Rightarrow> MessageType \<Rightarrow> 'm"
  Message_ctor_rc :: "u16 \<times> u16 \<Rightarrow> u16 \<times> u16 \<Rightarrow> MessageType \<Rightarrow> ReturnCode \<Rightarrow> 'm"
  get_service_id :: "'m \<Rightarrow> u16"
  get_method_id :: "'m \<Rightarrow> u16"
  get_client_id :: "'m \<Rightarrow> u16"
  get_session_id :: "'m \<Rightarrow> u16"
  get_message_type :: "'m \<Rightarrow> MessageType"
  get_return_code :: "'m \<Rightarrow> ReturnCode"
  get_payload :: "'m \<Rightarrow> bytes"
  set_service_id :: "u16 \<Rightarrow> 'm \<Rightarrow> 'm"
  set_method_id :: "u16 \<Rightarrow> 'm \<Rightarrow> 'm"
  set_message_type :: "MessageType \<Rightarrow> 'm \<Rightarrow> 'm"
  set_payload :: "bytes \<Rightarrow> 'm \<Rightarrow> 'm"
  is_request :: "'m \<Rightarrow> bool"
  is_response :: "'m \<Rightarrow> bool"
  is_valid :: "'m \<Rightarrow> bool"
  has_valid_header :: "'m \<Rightarrow> bool"
  get_total_size :: "'m \<Rightarrow> nat"
  serialize :: "'m \<Rightarrow> bytes"
  deserialize :: "bytes \<Rightarrow> bool \<Rightarrow> 'm \<Rightarrow> bool \<times> 'm"

text \<open>The fields of a message a header getter reads, in one tuple.\<close>

definition header_of :: "'m message_api \<Rightarrow> 'm \<Rightarrow> u16 \<times> u16 \<times> u16 \<times> u16 \<times> MessageType \<times> ReturnCode" where
  "header_of A m =
     (get_service_id A m, get_method_id A m, get_client_id A m, get_session_id A m,
      get_message_type A m, get_return_code A m)"

definition message_types :: "'m message_api \<Rightarrow> MessageType list" where
  "message_types A =
     [mt_REQUEST A, mt_REQUEST_NO_RETURN A, mt_NOTIFICATION A, mt_RESPONSE A, mt_ERROR A,
      mt_TP_REQUEST A, mt_TP_REQUEST_NO_RETURN A, mt_TP_NOTIFICATION A]"

definition ctor_laws :: "'m message_api \<Rightarrow> bool" where
  "ctor_laws A \<longleftrightarrow>
     (\<forall>sid mid cid ses t rc.
        header_of A (Message_ctor_rc A (sid, mid) (cid, ses) t rc) = (sid, mid, cid, ses, t, rc)) \<and>
     (\<forall>sid mid cid ses t.
        header_of A (Message_ctor A (sid, mid) (cid, ses) t) = (sid, mid, cid, ses, t, rc_E_OK A))"

definition payload_laws :: "'m message_api \<Rightarrow> bool" where
  "payload_laws A \<longleftrightarrow>
     (\<forall>m p. header_of A (set_payload A p m) = header_of A m) \<and>
     (\<forall>m p. get_payload A (set_payload A p m) = p)"

definition setter_laws :: "'m message_api \<Rightarrow> bool" where
  "setter_laws A \<longleftrightarrow>
     (\<forall>m v. header_of A (set_service_id A v m) = (v, snd (header_of A m))) \<and>
     (\<forall>m v. header_of A (set_method_id A v m) = (get_service_id A m, v, snd (snd (header_of A m)))) \<and>
     (\<forall>m t. header_of A (set_message_type A t m) =
              (get_service_id A m, get_method_id A m, get_client_id A m, get_session_id A m, t,
               get_return_code A m)) \<and>
     (\<forall>m v. get_payload A (set_service_id A v m) = get_payload A m) \<and>
     (\<forall>m v. get_payload A (set_method_id A v m) = get_payload A m) \<and>
     (\<forall>m t. get_payload A (set_message_type A t m) = get_payload A m)"

definition message_laws :: "'m message_api \<Rightarrow> bool" where
  "message_laws A \<longleftrightarrow>
     distinct (message_types A) \<and> ctor_laws A \<and> payload_laws A \<and> setter_laws A"

text \<open>
  The round trip of the library's own wire format, used only where a gateway carries whole frames.
\<close>

definition framing_law :: "'m message_api \<Rightarrow> 'm \<Rightarrow> bool" where
  "framing_law A m \<longleftrightarrow> (\<forall>m0. deserialize A (serialize A m) False m0 = (True, m))"

lemma distinct_message_types: "message_laws A \<Longrightarrow> distinct (message_types A)"
  by (simp add: message_laws_def)

lemma header_laws:
  assumes "message_laws A"
  shows "header_of A (Message_ctor_rc A (sid, mid) (cid, ses) t rc) = (sid, mid, cid, ses, t, rc)"
    and "header_of A (Message_ctor A (sid, mid) (cid, ses) t) = (sid, mid, cid, ses, t, rc_E_OK A)"
    and "header_of A (set_payload A p m) = header_of A m"
    and "header_of A (set_service_id A v m) = (v, snd (header_of A m))"
    and "header_of A (set_method_id A v m) = (get_service_id A m, v, snd (snd (header_of A m)))"
    and "header_of A (set_message_type A t m) =
           (get_service_id A m, get_method_id A m, get_client_id A m, get_session_id A m, t,
            get_return_code A m)"
  using assms by (simp_all add: message_laws_def ctor_laws_def payload_laws_def setter_laws_def)

lemma content_laws:
  assumes "message_laws A"
  shows "get_payload A (set_payload A p m) = p"
    and "get_payload A (set_service_id A v m) = get_payload A m"
    and "get_payload A (set_method_id A v m) = get_payload A m"
    and "get_payload A (set_message_type A t m) = get_payload A m"
  using assms by (simp_all add: message_laws_def payload_laws_def setter_laws_def)

lemma message_ctor_rc [simp]:
  assumes "message_laws A"
  shows "get_service_id A (Message_ctor_rc A (sid, mid) (cid, ses) t rc) = sid"
    and "get_method_id A (Message_ctor_rc A (sid, mid) (cid, ses) t rc) = mid"
    and "get_client_id A (Message_ctor_rc A (sid, mid) (cid, ses) t rc) = cid"
    and "get_session_id A (Message_ctor_rc A (sid, mid) (cid, ses) t rc) = ses"
    and "get_message_type A (Message_ctor_rc A (sid, mid) (cid, ses) t rc) = t"
    and "get_return_code A (Message_ctor_rc A (sid, mid) (cid, ses) t rc) = rc"
  using header_laws(1) [OF assms, of sid mid cid ses t rc] by (simp_all add: header_of_def)

lemma message_ctor [simp]:
  assumes "message_laws A"
  shows "get_service_id A (Message_ctor A (sid, mid) (cid, ses) t) = sid"
    and "get_method_id A (Message_ctor A (sid, mid) (cid, ses) t) = mid"
    and "get_client_id A (Message_ctor A (sid, mid) (cid, ses) t) = cid"
    and "get_session_id A (Message_ctor A (sid, mid) (cid, ses) t) = ses"
    and "get_message_type A (Message_ctor A (sid, mid) (cid, ses) t) = t"
    and "get_return_code A (Message_ctor A (sid, mid) (cid, ses) t) = rc_E_OK A"
  using header_laws(2) [OF assms, of sid mid cid ses t] by (simp_all add: header_of_def)

lemma message_set_payload [simp]:
  assumes "message_laws A"
  shows "get_payload A (set_payload A p m) = p"
    and "get_service_id A (set_payload A p m) = get_service_id A m"
    and "get_method_id A (set_payload A p m) = get_method_id A m"
    and "get_client_id A (set_payload A p m) = get_client_id A m"
    and "get_session_id A (set_payload A p m) = get_session_id A m"
    and "get_message_type A (set_payload A p m) = get_message_type A m"
    and "get_return_code A (set_payload A p m) = get_return_code A m"
  using header_laws(3) [OF assms, of p m] by (simp_all add: header_of_def content_laws assms)

lemma message_set_ids [simp]:
  assumes "message_laws A"
  shows "get_service_id A (set_service_id A v m) = v"
    and "get_method_id A (set_service_id A v m) = get_method_id A m"
    and "get_message_type A (set_service_id A v m) = get_message_type A m"
    and "get_payload A (set_service_id A v m) = get_payload A m"
    and "get_service_id A (set_method_id A v m) = get_service_id A m"
    and "get_method_id A (set_method_id A v m) = v"
    and "get_message_type A (set_method_id A v m) = get_message_type A m"
    and "get_payload A (set_method_id A v m) = get_payload A m"
  using header_laws(4,5) [OF assms, of v m] by (simp_all add: header_of_def content_laws assms)

lemma message_set_type [simp]:
  assumes "message_laws A"
  shows "get_message_type A (set_message_type A t m) = t"
    and "get_service_id A (set_message_type A t m) = get_service_id A m"
    and "get_method_id A (set_message_type A t m) = get_method_id A m"
    and "get_client_id A (set_message_type A t m) = get_client_id A m"
    and "get_session_id A (set_message_type A t m) = get_session_id A m"
    and "get_return_code A (set_message_type A t m) = get_return_code A m"
    and "get_payload A (set_message_type A t m) = get_payload A m"
  using header_laws(6) [OF assms, of t m] by (simp_all add: header_of_def content_laws assms)


subsection \<open>Calls on the library's objects and their answers\<close>

text \<open>
  An object behind a \<open>unique_ptr\<close> or \<open>shared_ptr\<close> is a handle. \<open>'c\<close> is \<open>someip::e2e::E2EConfig\<close>
  and \<open>'x\<close> the calls on the external middleware of one gateway.
\<close>

type_synonym handle = nat

text \<open>\<open>someip::transport::Endpoint\<close>: address and port.\<close>

type_synonym endpoint = "string \<times> u16"

datatype ('m, 'c, 'x) io =
    Clock_now
  | Udp_new handle
  | Udp_set_listener handle
  | Udp_start handle
  | Udp_stop handle
  | Udp_send_message handle 'm endpoint
  | SdClient_new handle
  | SdClient_initialize handle
  | SdClient_find_service handle u16
  | SdClient_shutdown handle
  | SdServer_new handle
  | SdServer_initialize handle
  | SdServer_offer_service handle u16 u16 string
  | SdServer_shutdown handle
  | RpcClient_new handle u16
  | RpcClient_set_remote_endpoint handle
  | RpcClient_initialize handle
  | RpcClient_shutdown handle
  | RpcClient_call_method_sync handle u16 u16 bytes
  | RpcServer_new handle u16
  | RpcServer_initialize handle
  | RpcServer_register_method handle u16
  | RpcServer_is_method_registered handle u16
  | RpcServer_shutdown handle
  | EventSubscriber_new handle u16
  | EventSubscriber_initialize handle
  | EventSubscriber_subscribe_eventgroup handle u16 u16 u16
  | EventSubscriber_unsubscribe_eventgroup handle u16 u16 u16
  | EventSubscriber_shutdown handle
  | EventPublisher_new handle u16 u16
  | EventPublisher_initialize handle
  | EventPublisher_register_event handle u16 u16
  | EventPublisher_publish_event handle u16 bytes
  | EventPublisher_shutdown handle
  | E2e_validate 'm 'c
  | E2e_protect 'm 'c
  | Outbound_sink 'm
  | External_callback u16 u16 bytes
  | External 'x

type_synonym ('m, 'c, 'x) history = "('m, 'c, 'x) io list"

record ('m, 'c, 'x) env =
  answer_now :: "('m, 'c, 'x) history \<Rightarrow> int"
  answer_new :: "('m, 'c, 'x) history \<Rightarrow> handle"
  answer_bool :: "('m, 'c, 'x) history \<Rightarrow> ('m, 'c, 'x) io \<Rightarrow> bool"
  answer_result :: "('m, 'c, 'x) history \<Rightarrow> ('m, 'c, 'x) io \<Rightarrow> Result"
  answer_int :: "('m, 'c, 'x) history \<Rightarrow> ('m, 'c, 'x) io \<Rightarrow> int"
  answer_message :: "('m, 'c, 'x) history \<Rightarrow> ('m, 'c, 'x) io \<Rightarrow> 'm"
  answer_rpc :: "('m, 'c, 'x) history \<Rightarrow> ('m, 'c, 'x) io \<Rightarrow> RpcResult \<times> bytes"


text \<open>\<open>someip::events::EventNotification\<close>, the fields the sources read.\<close>

record EventNotification =
  ev_service_id :: u16
  ev_instance_id :: u16
  ev_event_id :: u16
  ev_client_id :: u16
  ev_session_id :: u16
  ev_event_data :: bytes


subsection \<open>A concrete instance\<close>

record ref_message =
  ref_service :: u16
  ref_method :: u16
  ref_client :: u16
  ref_session :: u16
  ref_type :: u8
  ref_return :: u8
  ref_payload :: bytes

definition be16 :: "u16 \<Rightarrow> bytes" where
  "be16 v = [ucast (drop_bit 8 v), ucast v]"

definition of_be16 :: "u8 \<Rightarrow> u8 \<Rightarrow> u16" where
  "of_be16 hi lo = push_bit 8 (ucast hi) OR ucast lo"

definition ref_serialize :: "ref_message \<Rightarrow> bytes" where
  "ref_serialize m =
     be16 (ref_service m) @ be16 (ref_method m) @ be16 (ref_client m) @ be16 (ref_session m) @
     [ref_type m, ref_return m] @ ref_payload m"

fun ref_deserialize :: "bytes \<Rightarrow> bool \<Rightarrow> ref_message \<Rightarrow> bool \<times> ref_message" where
  "ref_deserialize (a # b # c # d # e # f # g # h # t # r # p) flag m =
     (True, \<lparr>ref_service = of_be16 a b, ref_method = of_be16 c d, ref_client = of_be16 e f,
             ref_session = of_be16 g h, ref_type = t, ref_return = r, ref_payload = p\<rparr>)"
| "ref_deserialize bs flag m = (False, m)"

definition ref_api :: "ref_message message_api" where
  "ref_api = \<lparr>
     mt_REQUEST = 0x00, mt_REQUEST_NO_RETURN = 0x01, mt_NOTIFICATION = 0x02, mt_RESPONSE = 0x80,
     mt_ERROR = 0x81, mt_TP_REQUEST = 0x20, mt_TP_REQUEST_NO_RETURN = 0x21,
     mt_TP_NOTIFICATION = 0x22, rc_E_OK = 0x00,
     Message_default = \<lparr>ref_service = 0, ref_method = 0, ref_client = 0, ref_session = 0,
                        ref_type = 0, ref_return = 0, ref_payload = []\<rparr>,
     Message_ctor = (\<lambda>(s, m) (c, e) t. \<lparr>ref_service = s, ref_method = m, ref_client = c,
                        ref_session = e, ref_type = t, ref_return = 0, ref_payload = []\<rparr>),
     Message_ctor_rc = (\<lambda>(s, m) (c, e) t r. \<lparr>ref_service = s, ref_method = m, ref_client = c,
                        ref_session = e, ref_type = t, ref_return = r, ref_payload = []\<rparr>),
     get_service_id = ref_service, get_method_id = ref_method, get_client_id = ref_client,
     get_session_id = ref_session, get_message_type = ref_type, get_return_code = ref_return,
     get_payload = ref_payload,
     set_service_id = (\<lambda>v m. m\<lparr>ref_service := v\<rparr>), set_method_id = (\<lambda>v m. m\<lparr>ref_method := v\<rparr>),
     set_message_type = (\<lambda>t m. m\<lparr>ref_type := t\<rparr>), set_payload = (\<lambda>p m. m\<lparr>ref_payload := p\<rparr>),
     is_request = (\<lambda>m. ref_type m = 0x00), is_response = (\<lambda>m. ref_type m = 0x80),
     is_valid = (\<lambda>m. ref_service m \<noteq> 0),
     has_valid_header = (\<lambda>m. ref_service m \<noteq> 0),
     get_total_size = (\<lambda>m. 16 + length (ref_payload m)),
     serialize = ref_serialize, deserialize = ref_deserialize \<rparr>"

lemma ref_simps:
  "mt_REQUEST ref_api = 0x00" "mt_REQUEST_NO_RETURN ref_api = 0x01" "mt_NOTIFICATION ref_api = 0x02"
  "mt_RESPONSE ref_api = 0x80" "mt_ERROR ref_api = 0x81" "mt_TP_REQUEST ref_api = 0x20"
  "mt_TP_REQUEST_NO_RETURN ref_api = 0x21" "mt_TP_NOTIFICATION ref_api = 0x22" "rc_E_OK ref_api = 0x00"
  "Message_default ref_api = \<lparr>ref_service = 0, ref_method = 0, ref_client = 0, ref_session = 0,
     ref_type = 0, ref_return = 0, ref_payload = []\<rparr>"
  "Message_ctor ref_api (s, m) (c, e) t = \<lparr>ref_service = s, ref_method = m, ref_client = c,
     ref_session = e, ref_type = t, ref_return = 0, ref_payload = []\<rparr>"
  "Message_ctor_rc ref_api (s, m) (c, e) t r = \<lparr>ref_service = s, ref_method = m, ref_client = c,
     ref_session = e, ref_type = t, ref_return = r, ref_payload = []\<rparr>"
  "get_service_id ref_api = ref_service" "get_method_id ref_api = ref_method"
  "get_client_id ref_api = ref_client" "get_session_id ref_api = ref_session"
  "get_message_type ref_api = ref_type" "get_return_code ref_api = ref_return"
  "get_payload ref_api = ref_payload"
  "set_service_id ref_api v msg = msg\<lparr>ref_service := v\<rparr>" "set_method_id ref_api v msg = msg\<lparr>ref_method := v\<rparr>"
  "set_message_type ref_api t msg = msg\<lparr>ref_type := t\<rparr>" "set_payload ref_api p msg = msg\<lparr>ref_payload := p\<rparr>"
  "is_request ref_api msg = (ref_type msg = 0)" "is_response ref_api msg = (ref_type msg = 0x80)"
  "is_valid ref_api msg = (ref_service msg \<noteq> 0)" "has_valid_header ref_api msg = (ref_service msg \<noteq> 0)"
  "serialize ref_api = ref_serialize" "deserialize ref_api = ref_deserialize"
  by (simp_all add: ref_api_def)

lemma ref_api_laws [simp]: "message_laws ref_api"
  by (simp add: message_laws_def ctor_laws_def payload_laws_def setter_laws_def header_of_def
      message_types_def ref_api_def)

lemma of_be16_be16: "of_be16 (ucast (drop_bit 8 v)) (ucast v) = v"
  by (rule bit_word_eqI) (auto simp: of_be16_def bit_simps)

lemma ref_framing [simp]: "framing_law ref_api m"
  by (simp add: framing_law_def ref_api_def ref_serialize_def be16_def of_be16_be16)

definition ref_env :: "(ref_message, unit, 'x) env" where
  "ref_env = \<lparr> answer_now = (\<lambda>h. int (length h) + 1), answer_new = length,
     answer_bool = (\<lambda>_ _. True), answer_result = (\<lambda>_ _. SUCCESS), answer_int = (\<lambda>_ _. 1),
     answer_message = (\<lambda>_ c. case c of E2e_protect m _ \<Rightarrow> m | _ \<Rightarrow> Message_default ref_api),
     answer_rpc = (\<lambda>_ c. case c of RpcClient_call_method_sync h s m p \<Rightarrow> (RPC_SUCCESS, p) | _ \<Rightarrow> (RPC_SUCCESS, [])) \<rparr>"

end
