(* ===== verification/Config.thy ===== *)
theory Config
  imports Gateway_Prelude
begin

text \<open>
  \<open>common/include/opensomeip/gateway/config.h\<close> and \<open>common/src/config.cpp\<close>: the enumerations of
  the YAML configuration, their parsers and printers, and the parser of 16-bit identifiers. The
  enumerations \<open>GatewayDirection\<close> and \<open>TranslationMode\<close> of \<open>gateway_base.h\<close> are here too, since the
  parsers produce them. The lemmas state the print/parse round trips, that parsing ignores case,
  what the substring tests of \<open>parse_direction\<close> amount to, and how \<open>parse_hex_or_decimal\<close> narrows,
  wraps and fails.
\<close>

datatype GatewayDirection = SOMEIP_TO_EXTERNAL | EXTERNAL_TO_SOMEIP | BIDIRECTIONAL

text \<open>
  \<open>enum class TranslationMode : uint8_t\<close>: a \<open>static_cast\<close> from a byte may produce a value that is
  no enumerator, which the code carries and compares like any other.
\<close>

datatype TranslationMode = OPAQUE | TYPED | TranslationMode_cast u8

definition TranslationMode_of_byte :: "u8 \<Rightarrow> TranslationMode" where
  "TranslationMode_of_byte b = (if b = 0 then OPAQUE else if b = 1 then TYPED else TranslationMode_cast b)"

fun byte_of_TranslationMode :: "TranslationMode \<Rightarrow> u8" where
  "byte_of_TranslationMode OPAQUE = 0"
| "byte_of_TranslationMode TYPED = 1"
| "byte_of_TranslationMode (TranslationMode_cast b) = b"

lemma byte_of_TranslationMode_of_byte [simp]: "byte_of_TranslationMode (TranslationMode_of_byte b) = b"
  by (simp add: TranslationMode_of_byte_def)

lemma TranslationMode_of_enumerator [simp]:
  "TranslationMode_of_byte (byte_of_TranslationMode OPAQUE) = OPAQUE"
  "TranslationMode_of_byte (byte_of_TranslationMode TYPED) = TYPED"
  by (simp_all add: TranslationMode_of_byte_def)

datatype LogLevel = DEBUG | INFO | WARN | ERROR

record SomeipEndpointConfig =
  local_address :: string
  local_port :: u16
  sd_multicast :: string
  sd_port :: u16
  use_tcp :: bool

definition SomeipEndpointConfig_default :: SomeipEndpointConfig where
  "SomeipEndpointConfig_default = \<lparr>local_address = ''0.0.0.0'', local_port = 30500,
     sd_multicast = ''239.255.255.251'', sd_port = 30490, use_tcp = False\<rparr>"


subsection \<open>Parsers and printers\<close>

definition parse_log_level :: "string \<Rightarrow> LogLevel" where
  "parse_log_level level =
     (let lower = map tolower level in
      if lower = ''debug'' then DEBUG
      else if lower = ''info'' then INFO
      else if lower = ''warn'' \<or> lower = ''warning'' then WARN
      else if lower = ''error'' then ERROR
      else INFO)"

fun to_string_LogLevel :: "LogLevel \<Rightarrow> string" where
  "to_string_LogLevel DEBUG = ''debug''"
| "to_string_LogLevel INFO = ''info''"
| "to_string_LogLevel WARN = ''warn''"
| "to_string_LogLevel ERROR = ''error''"

definition parse_direction :: "string \<Rightarrow> GatewayDirection" where
  "parse_direction direction =
     (let lower = map tolower direction in
      if lower = ''someip_to_external'' \<or> str_find ''someip_to_'' lower = Some 0
      then SOMEIP_TO_EXTERNAL
      else if lower = ''external_to_someip'' \<or>
              (length lower > 10 \<and> str_rfind ''_to_someip'' lower = Some (length lower - 10))
      then EXTERNAL_TO_SOMEIP
      else BIDIRECTIONAL)"

fun to_string_GatewayDirection :: "GatewayDirection \<Rightarrow> string" where
  "to_string_GatewayDirection SOMEIP_TO_EXTERNAL = ''someip_to_external''"
| "to_string_GatewayDirection EXTERNAL_TO_SOMEIP = ''external_to_someip''"
| "to_string_GatewayDirection BIDIRECTIONAL = ''bidirectional''"

definition parse_translation_mode :: "string \<Rightarrow> TranslationMode" where
  "parse_translation_mode mode =
     (let lower = map tolower mode in
      if lower = ''typed'' \<or> lower = ''schema'' then TYPED else OPAQUE)"

fun to_string_TranslationMode :: "TranslationMode \<Rightarrow> string" where
  "to_string_TranslationMode OPAQUE = ''opaque''"
| "to_string_TranslationMode TYPED = ''typed''"
| "to_string_TranslationMode (TranslationMode_cast b) = ''opaque''"

text \<open>\<open>static_cast<uint16_t>\<close> keeps the low 16 bits; \<open>std::stoul\<close> may throw.\<close>

definition parse_hex_or_decimal :: "string \<Rightarrow> cpp_exception + u16" where
  "parse_hex_or_decimal value =
     (if length value > 2 \<and> value ! 0 = CHR ''0'' \<and> (value ! 1 = CHR ''x'' \<or> value ! 1 = CHR ''X'')
      then map_sum id ucast (stoul 16 value)
      else map_sum id ucast (stoul 10 value))"


subsection \<open>Round trips and case\<close>

lemma tolower_tolower [simp]: "tolower (tolower c) = tolower c"
  by (simp add: tolower_def Let_def)

lemma parse_log_level_to_string: "parse_log_level (to_string_LogLevel l) = l"
  by (cases l) (hypsubst, code_simp)+

lemma parse_direction_to_string: "parse_direction (to_string_GatewayDirection d) = d"
  by (cases d) (hypsubst, code_simp)+

lemma parse_translation_mode_to_string:
  "parse_translation_mode (to_string_TranslationMode OPAQUE) = OPAQUE"
  "parse_translation_mode (to_string_TranslationMode TYPED) = TYPED"
  by code_simp+

lemma parse_case_insensitive:
  assumes "map tolower s = map tolower t"
  shows "parse_log_level s = parse_log_level t"
    and "parse_direction s = parse_direction t"
    and "parse_translation_mode s = parse_translation_mode t"
  using assms by (simp_all add: parse_log_level_def parse_direction_def parse_translation_mode_def)

lemma suffix_to_someip:
  "length l > 10 \<and> str_rfind ''_to_someip'' l = Some (length l - 10) \<longleftrightarrow>
   suffix ''_to_someip'' l \<and> l \<noteq> ''_to_someip''"
proof -
  have len: "length ''_to_someip'' = 10" by simp
  have "str_rfind ''_to_someip'' l = Some (length l - 10) \<and> 10 \<le> length l \<longleftrightarrow> suffix ''_to_someip'' l"
    using str_rfind_suffix [of "''_to_someip''" l] unfolding len by simp
  moreover have "l = ''_to_someip''" if "suffix ''_to_someip'' l" "length l = 10"
    using that by (auto simp: suffix_def)
  moreover note len
  ultimately show ?thesis by (metis le_neq_implies_less less_imp_le nat_less_le)
qed

lemma parse_direction_eq:
  "parse_direction s =
     (if prefix ''someip_to_'' (map tolower s) then SOMEIP_TO_EXTERNAL
      else if suffix ''_to_someip'' (map tolower s) \<and> map tolower s \<noteq> ''_to_someip''
      then EXTERNAL_TO_SOMEIP
      else BIDIRECTIONAL)"
proof -
  let ?l = "map tolower s"
  have p: "?l = ''someip_to_external'' \<or> str_find ''someip_to_'' ?l = Some 0 \<longleftrightarrow> prefix ''someip_to_'' ?l"
    by (auto simp: str_find_0)
  have "suffix ''_to_someip'' ''external_to_someip''" by code_simp
  then have q: "?l = ''external_to_someip'' \<or>
      (length ?l > 10 \<and> str_rfind ''_to_someip'' ?l = Some (length ?l - 10)) \<longleftrightarrow>
      suffix ''_to_someip'' ?l \<and> ?l \<noteq> ''_to_someip''"
    unfolding suffix_to_someip by auto
  show ?thesis unfolding parse_direction_def Let_def p q by simp
qed


subsection \<open>Identifiers\<close>

lemma digit_not_space_or_sign:
  "digit_value b c \<noteq> None \<Longrightarrow> \<not> isspace c \<and> c \<noteq> CHR ''-'' \<and> c \<noteq> CHR ''+''"
  by (auto simp: digit_value_def hex_value_def isspace_def Let_def split: option.splits if_splits)

lemma stoul_unsigned:
  assumes "starts_with_digit b s" and "b = 16 \<Longrightarrow> \<not> prefix ''0x'' s \<and> \<not> prefix ''0X'' s"
  shows "stoul b s =
    (if digits_value b 0 s \<ge> 2 ^ 64 then Inl out_of_range else Inr (word_of_nat (digits_value b 0 s)))"
proof -
  obtain c t where s: "s = c # t" and c: "digit_value b c \<noteq> None"
    using assms(1) by (auto simp: starts_with_digit_def split: list.splits)
  have "\<not> isspace c" "c \<noteq> CHR ''-''" "c \<noteq> CHR ''+''"
    using digit_not_space_or_sign [OF c] by auto
  then show ?thesis using assms s by (auto simp: stoul_def Let_def)
qed

lemma hex4_starts: "starts_with_digit 16 (hex4 upper v)"
  using unat_u16_less [of v] by (simp add: starts_with_digit_def hex4_nibbles nibbles_def)

lemma stoul_0x_hex4: "stoul 16 (''0x'' @ hex4 upper v) = Inr (word_of_nat (unat v))"
proof -
  have "unat v < 2 ^ 64" using unat_u16_less [of v] by simp
  moreover have "\<not> isspace (CHR ''0'')" by code_simp
  ultimately show ?thesis by (simp add: stoul_def Let_def hex4_starts digits_value_hex4)
qed

lemma ucast_word_of_nat_u16: "ucast (word_of_nat n :: u64) = (word_of_nat n :: u16)"
  by (rule bit_word_eqI) (simp add: bit_simps)

lemma ucast_ucast_u64 [simp]: "ucast (ucast v :: u64) = (v :: u16)"
  by (rule bit_word_eqI) (simp add: bit_simps)

lemma parse_hex4: "parse_hex_or_decimal (''0x'' @ hex4 upper v) = Inr v"
  using stoul_0x_hex4 [of upper v]
  by (simp add: parse_hex_or_decimal_def ucast_word_of_nat_u16)

lemma show_dec_starts: "starts_with_digit 10 (show_dec n)"
proof -
  obtain c t where s: "show_dec n = c # t" by (cases "show_dec n") auto
  then have "isdigit c" using show_dec_digits [of c n] by simp
  with s show ?thesis
    by (auto simp: starts_with_digit_def digit_value_def hex_value_def isdigit_def Let_def)
qed

lemma parse_decimal:
  "parse_hex_or_decimal (show_dec n) = (if n < 2 ^ 64 then Inr (word_of_nat n) else Inl out_of_range)"
proof -
  have "\<not> isdigit (CHR ''x'')" "\<not> isdigit (CHR ''X'')" by code_simp+
  then have "\<not> (length (show_dec n) > 2 \<and> (show_dec n ! 1 = CHR ''x'' \<or> show_dec n ! 1 = CHR ''X''))"
    using show_dec_digits [of "show_dec n ! 1" n] by force
  then have "parse_hex_or_decimal (show_dec n) = map_sum id ucast (stoul 10 (show_dec n))"
    by (auto simp: parse_hex_or_decimal_def)
  then show ?thesis by (simp add: stoul_unsigned show_dec_starts ucast_word_of_nat_u16)
qed

subsection \<open>Properties\<close>

text \<open>Printing a log level, a direction or a translation mode and parsing the text back gives the same
  enumerator.\<close>

lemma config_enums_round_trip:
  "parse_log_level (to_string_LogLevel l) = l \<and>
   parse_direction (to_string_GatewayDirection d) = d \<and>
   parse_translation_mode (to_string_TranslationMode OPAQUE) = OPAQUE \<and>
   parse_translation_mode (to_string_TranslationMode TYPED) = TYPED"
  by (simp only: parse_log_level_to_string parse_direction_to_string parse_translation_mode_to_string simp_thms)

text \<open>\<open>parse_direction\<close> is total and ignores case: a text that starts with \<open>someip_to_\<close> is outbound, else a
  text that properly ends in \<open>_to_someip\<close> is inbound, and everything else is bidirectional.\<close>

theorem parse_direction_spec:
  "parse_direction s =
     (if prefix ''someip_to_'' (map tolower s) then SOMEIP_TO_EXTERNAL
      else if suffix ''_to_someip'' (map tolower s) \<and> map tolower s \<noteq> ''_to_someip''
      then EXTERNAL_TO_SOMEIP
      else BIDIRECTIONAL)"
  by (rule parse_direction_eq)

text \<open>\<open>parse_hex_or_decimal\<close> inverts the four-digit hexadecimal rendering of every 16-bit identifier in
  either case of digits, and on a decimal numeral it returns the number modulo \<open>2 ^ 16\<close> without any
  range check, up to the 64-bit limit where \<open>std::stoul\<close> throws.\<close>

lemma parse_hex_or_decimal_inverts:
  "parse_hex_or_decimal (''0x'' @ hex4 upper v) = Inr v \<and>
   parse_hex_or_decimal (show_dec n) = (if n < 2 ^ 64 then Inr (word_of_nat n) else Inl out_of_range)"
  by (simp only: parse_hex4 parse_decimal simp_thms)

end
