(* ===== verification/Gateway_Base.thy ===== *)
theory Gateway_Base
  imports Someip_Api Config "HOL-Library.Multiset"
begin

text \<open>
  \<open>common/include/opensomeip/gateway/gateway_base.h\<close> and \<open>common/src/gateway_base.cpp\<close>: the
  statistics, the service mappings and the state and operations every gateway inherits.

  \<open>GatewayBase\<close> is an extensible record; a gateway class is a record that extends it, so the
  operations here apply to every gateway. The data member \<open>running_\<close> is the field \<open>gw_running\<close>, and so
  on for the others; the field \<open>gw_io\<close> is the history of calls made on
  library objects (\<open>Someip_Api\<close>). Operations guarded by one mutex are single steps. The five
  counters are separate atomics: \<open>fetch_add\<close> models one atomic addition, and
  \<open>run_fetch_adds_mset\<close> shows that the totals do not depend on how threads interleave.

  The locale \<open>someip_forwarder\<close> is the contract of \<open>IGateway::on_someip_message\<close>: what a gateway
  may do to the inherited state per message. Each gateway interprets it, and the facts about
  message sequences proved here then hold for it.
\<close>

subsection \<open>Statistics\<close>

record GatewayStats =
  messages_someip_to_external :: u64
  messages_external_to_someip :: u64
  translation_errors :: u64
  bytes_someip_to_external :: u64
  bytes_external_to_someip :: u64
  started_at :: int

definition GatewayStats_default :: GatewayStats where
  "GatewayStats_default = \<lparr>messages_someip_to_external = 0, messages_external_to_someip = 0,
     translation_errors = 0, bytes_someip_to_external = 0, bytes_external_to_someip = 0,
     started_at = 0\<rparr>"

text \<open>
  \<open>uptime()\<close>, with the clock reading and the clock's ticks per millisecond as arguments;
  \<open>duration_cast\<close> rounds towards zero and the default time point is tick 0.
\<close>

definition uptime :: "int \<Rightarrow> int \<Rightarrow> GatewayStats \<Rightarrow> int" where
  "uptime ticks_per_ms now st =
     (if started_at st = 0 then 0
      else sgn (now - started_at st) * (\<bar>now - started_at st\<bar> div ticks_per_ms))"

text \<open>The copy constructor and the copy assignment load every counter and store it.\<close>

definition GatewayStats_copy :: "GatewayStats \<Rightarrow> GatewayStats" where
  "GatewayStats_copy other = \<lparr>
     messages_someip_to_external = messages_someip_to_external other,
     messages_external_to_someip = messages_external_to_someip other,
     translation_errors = translation_errors other,
     bytes_someip_to_external = bytes_someip_to_external other,
     bytes_external_to_someip = bytes_external_to_someip other,
     started_at = started_at other\<rparr>"

lemma GatewayStats_copy_same [simp]: "GatewayStats_copy st = st"
  by (simp add: GatewayStats_copy_def)

definition GatewayStats_assign :: "GatewayStats \<Rightarrow> GatewayStats \<Rightarrow> GatewayStats" where
  "GatewayStats_assign self other = self\<lparr>
     messages_someip_to_external := messages_someip_to_external other,
     messages_external_to_someip := messages_external_to_someip other,
     translation_errors := translation_errors other,
     bytes_someip_to_external := bytes_someip_to_external other,
     bytes_external_to_someip := bytes_external_to_someip other,
     started_at := started_at other\<rparr>"


subsection \<open>Mappings\<close>

record ServiceMapping =
  someip_service_id :: u16
  someip_instance_id :: u16
  someip_method_ids :: "u16 list"
  someip_event_group_ids :: "u16 list"
  external_identifier :: string
  direction :: GatewayDirection
  mode :: TranslationMode

definition ServiceMapping_default :: ServiceMapping where
  "ServiceMapping_default = \<lparr>someip_service_id = 0, someip_instance_id = 0, someip_method_ids = [],
     someip_event_group_ids = [], external_identifier = [], direction = BIDIRECTIONAL, mode = OPAQUE\<rparr>"

record GatewayBaseConfig =
  config_name :: string
  config_log_level :: LogLevel
  config_someip :: SomeipEndpointConfig
  config_service_mappings :: "ServiceMapping list"

definition format_hex16 :: "u16 \<Rightarrow> string" where
  "format_hex16 v = ''0x'' @ hex4 False v"


subsection \<open>The inherited state and its operations\<close>

record ('m, 'c, 'x) GatewayBase =
  gw_name :: string
  gw_protocol :: string
  gw_running :: bool
  gw_stats :: GatewayStats
  gw_service_mappings :: "ServiceMapping list"
  gw_external_message_callback :: bool
  gw_io :: "('m, 'c, 'x) history"

definition GatewayBase_new :: "string \<Rightarrow> string \<Rightarrow> ('m, 'c, 'x) GatewayBase" where
  "GatewayBase_new nm proto = \<lparr>gw_name = nm, gw_protocol = proto, gw_running = False,
     gw_stats = GatewayStats_default, gw_service_mappings = [], gw_external_message_callback = False, gw_io = []\<rparr>"

definition call :: "('m, 'c, 'x) io \<Rightarrow> ('m, 'c, 'x, 'z) GatewayBase_scheme \<Rightarrow> ('m, 'c, 'x, 'z) GatewayBase_scheme" where
  "call ev g = g\<lparr>gw_io := gw_io g @ [ev]\<rparr>"

definition is_running :: "('m, 'c, 'x, 'z) GatewayBase_scheme \<Rightarrow> bool" where
  "is_running g = gw_running g"

definition get_name :: "('m, 'c, 'x, 'z) GatewayBase_scheme \<Rightarrow> string" where
  "get_name g = gw_name g"

definition get_protocol :: "('m, 'c, 'x, 'z) GatewayBase_scheme \<Rightarrow> string" where
  "get_protocol g = gw_protocol g"

definition get_stats :: "('m, 'c, 'x, 'z) GatewayBase_scheme \<Rightarrow> GatewayStats" where
  "get_stats g = GatewayStats_copy (gw_stats g)"

definition add_service_mapping ::
  "ServiceMapping \<Rightarrow> ('m, 'c, 'x, 'z) GatewayBase_scheme \<Rightarrow> ('m, 'c, 'x, 'z) GatewayBase_scheme" where
  "add_service_mapping mapping g = g\<lparr>gw_service_mappings := gw_service_mappings g @ [mapping]\<rparr>"

definition get_service_mappings :: "('m, 'c, 'x, 'z) GatewayBase_scheme \<Rightarrow> ServiceMapping list" where
  "get_service_mappings g = gw_service_mappings g"

text \<open>The argument says whether the \<open>std::function\<close> is non-empty.\<close>

definition set_external_message_callback ::
  "bool \<Rightarrow> ('m, 'c, 'x, 'z) GatewayBase_scheme \<Rightarrow> ('m, 'c, 'x, 'z) GatewayBase_scheme" where
  "set_external_message_callback callback g = g\<lparr>gw_external_message_callback := callback\<rparr>"

definition set_running ::
  "('m, 'c, 'x) env \<Rightarrow> bool \<Rightarrow> ('m, 'c, 'x, 'z) GatewayBase_scheme \<Rightarrow> ('m, 'c, 'x, 'z) GatewayBase_scheme" where
  "set_running E running g =
     (let g1 = g\<lparr>gw_running := running\<rparr> in
      if running
      then call Clock_now (g1\<lparr>gw_stats := (gw_stats g1)\<lparr>started_at := answer_now E (gw_io g1)\<rparr>\<rparr>)
      else g1)"

definition record_someip_to_external ::
  "nat \<Rightarrow> ('m, 'c, 'x, 'z) GatewayBase_scheme \<Rightarrow> ('m, 'c, 'x, 'z) GatewayBase_scheme" where
  "record_someip_to_external n g = g\<lparr>gw_stats := (gw_stats g)\<lparr>
     messages_someip_to_external := messages_someip_to_external (gw_stats g) + 1,
     bytes_someip_to_external := bytes_someip_to_external (gw_stats g) + word_of_nat n\<rparr>\<rparr>"

definition record_external_to_someip ::
  "nat \<Rightarrow> ('m, 'c, 'x, 'z) GatewayBase_scheme \<Rightarrow> ('m, 'c, 'x, 'z) GatewayBase_scheme" where
  "record_external_to_someip n g = g\<lparr>gw_stats := (gw_stats g)\<lparr>
     messages_external_to_someip := messages_external_to_someip (gw_stats g) + 1,
     bytes_external_to_someip := bytes_external_to_someip (gw_stats g) + word_of_nat n\<rparr>\<rparr>"

definition record_translation_error ::
  "('m, 'c, 'x, 'z) GatewayBase_scheme \<Rightarrow> ('m, 'c, 'x, 'z) GatewayBase_scheme" where
  "record_translation_error g = g\<lparr>gw_stats := (gw_stats g)\<lparr>
     translation_errors := translation_errors (gw_stats g) + 1\<rparr>\<rparr>"

definition find_mapping_if ::
  "(ServiceMapping \<Rightarrow> bool) \<Rightarrow> ('m, 'c, 'x, 'z) GatewayBase_scheme \<Rightarrow> ServiceMapping option" where
  "find_mapping_if pred g = find pred (gw_service_mappings g)"

definition find_mapping_for_service ::
  "u16 \<Rightarrow> u16 \<Rightarrow> ('m, 'c, 'x, 'z) GatewayBase_scheme \<Rightarrow> ServiceMapping option" where
  "find_mapping_for_service service_id instance_id g =
     find (\<lambda>m. someip_service_id m = service_id \<and> someip_instance_id m = instance_id) (gw_service_mappings g)"

definition should_forward_to_external :: "ServiceMapping \<Rightarrow> bool" where
  "should_forward_to_external mapping \<longleftrightarrow>
     direction mapping = SOMEIP_TO_EXTERNAL \<or> direction mapping = BIDIRECTIONAL"

definition should_forward_to_someip :: "ServiceMapping \<Rightarrow> bool" where
  "should_forward_to_someip mapping \<longleftrightarrow>
     direction mapping = EXTERNAL_TO_SOMEIP \<or> direction mapping = BIDIRECTIONAL"

text \<open>
  \<open>GatewayUdpBridgeListener\<close>: \<open>on_message_received\<close> forwards a non-null message to the gateway's
  \<open>on_someip_message\<close> (the argument) and drops the result.
\<close>

definition GatewayUdpBridgeListener_on_message_received ::
  "('m \<Rightarrow> 'g \<Rightarrow> Result \<times> 'g) \<Rightarrow> 'm option \<Rightarrow> 'g \<Rightarrow> 'g" where
  "GatewayUdpBridgeListener_on_message_received on_msg message gw =
     (case message of Some m \<Rightarrow> snd (on_msg m gw) | None \<Rightarrow> gw)"


lemmas base_defs [base_simps] =
  is_running_def get_stats_def get_service_mappings_def record_someip_to_external_def
  record_external_to_someip_def record_translation_error_def call_def

subsection \<open>Looking a mapping up\<close>

lemma find_mapping_for_service_Some:
  "find_mapping_for_service sid iid g = Some m \<Longrightarrow>
   m \<in> set (gw_service_mappings g) \<and> someip_service_id m = sid \<and> someip_instance_id m = iid"
  by (auto simp: find_mapping_for_service_def find_Some_iff)

lemma find_mapping_for_service_None:
  "find_mapping_for_service sid iid g = None \<longleftrightarrow>
   (\<forall>m \<in> set (gw_service_mappings g). \<not> (someip_service_id m = sid \<and> someip_instance_id m = iid))"
  by (auto simp: find_mapping_for_service_def find_None_iff)

lemma find_append: "find P (xs @ ys) = (case find P xs of None \<Rightarrow> find P ys | Some x \<Rightarrow> Some x)"
  by (induction xs) auto

lemma find_mapping_add:
  "find_mapping_for_service sid iid (add_service_mapping mp g) =
     (case find_mapping_for_service sid iid g of
        Some m \<Rightarrow> Some m
      | None \<Rightarrow> if someip_service_id mp = sid \<and> someip_instance_id mp = iid then Some mp else None)"
  by (auto simp: find_mapping_for_service_def add_service_mapping_def find_append split: option.split)

lemma find_mapping_frame [simp]:
  "find_mapping_for_service sid iid (g\<lparr>gw_stats := st\<rparr>) = find_mapping_for_service sid iid g"
  "find_mapping_for_service sid iid (g\<lparr>gw_io := h\<rparr>) = find_mapping_for_service sid iid g"
  "find_mapping_for_service sid iid (g\<lparr>gw_running := b\<rparr>) = find_mapping_for_service sid iid g"
  by (simp_all add: find_mapping_for_service_def)


subsection \<open>Atomic counters under interleaving\<close>

datatype fetch_add =
    Add_messages_someip_to_external u64
  | Add_messages_external_to_someip u64
  | Add_translation_errors u64
  | Add_bytes_someip_to_external u64
  | Add_bytes_external_to_someip u64

fun apply_fetch_add :: "fetch_add \<Rightarrow> GatewayStats \<Rightarrow> GatewayStats" where
  "apply_fetch_add (Add_messages_someip_to_external v) s =
     s\<lparr>messages_someip_to_external := messages_someip_to_external s + v\<rparr>"
| "apply_fetch_add (Add_messages_external_to_someip v) s =
     s\<lparr>messages_external_to_someip := messages_external_to_someip s + v\<rparr>"
| "apply_fetch_add (Add_translation_errors v) s = s\<lparr>translation_errors := translation_errors s + v\<rparr>"
| "apply_fetch_add (Add_bytes_someip_to_external v) s =
     s\<lparr>bytes_someip_to_external := bytes_someip_to_external s + v\<rparr>"
| "apply_fetch_add (Add_bytes_external_to_someip v) s =
     s\<lparr>bytes_external_to_someip := bytes_external_to_someip s + v\<rparr>"

definition steps_someip_to_external :: "nat \<Rightarrow> fetch_add list" where
  "steps_someip_to_external n = [Add_messages_someip_to_external 1, Add_bytes_someip_to_external (word_of_nat n)]"

definition steps_external_to_someip :: "nat \<Rightarrow> fetch_add list" where
  "steps_external_to_someip n = [Add_messages_external_to_someip 1, Add_bytes_external_to_someip (word_of_nat n)]"

definition steps_translation_error :: "fetch_add list" where
  "steps_translation_error = [Add_translation_errors 1]"

definition run_fetch_adds :: "fetch_add list \<Rightarrow> GatewayStats \<Rightarrow> GatewayStats" where
  "run_fetch_adds steps s = fold apply_fetch_add steps s"

lemma record_by_steps:
  "record_someip_to_external n g = g\<lparr>gw_stats := run_fetch_adds (steps_someip_to_external n) (gw_stats g)\<rparr>"
  "record_external_to_someip n g = g\<lparr>gw_stats := run_fetch_adds (steps_external_to_someip n) (gw_stats g)\<rparr>"
  "record_translation_error g = g\<lparr>gw_stats := run_fetch_adds steps_translation_error (gw_stats g)\<rparr>"
  by (simp_all add: base_simps run_fetch_adds_def steps_someip_to_external_def
      steps_external_to_someip_def steps_translation_error_def)

lemma apply_fetch_add_commute:
  "apply_fetch_add a (apply_fetch_add b s) = apply_fetch_add b (apply_fetch_add a s)"
  by (cases a; cases b; cases s) (simp_all add: ac_simps)

lemma run_fetch_adds_mset:
  assumes "mset steps = mset steps'"
  shows "run_fetch_adds steps s = run_fetch_adds steps' s"
proof -
  have "fold apply_fetch_add steps = fold apply_fetch_add steps'"
    by (rule fold_multiset_equiv) (auto simp: assms fun_eq_iff apply_fetch_add_commute)
  then show ?thesis by (simp add: run_fetch_adds_def)
qed

lemma run_fetch_adds_append: "run_fetch_adds (a @ b) s = run_fetch_adds b (run_fetch_adds a s)"
  by (simp add: run_fetch_adds_def)

text \<open>A schedule interleaves the step lists of the threads, keeping each thread's order.\<close>

fun interleaves :: "'a list \<Rightarrow> 'a list list \<Rightarrow> bool" where
  "interleaves [] ts = list_all (\<lambda>t. t = []) ts"
| "interleaves (x # w) ts =
     list_ex (\<lambda>i. ts ! i \<noteq> [] \<and> hd (ts ! i) = x \<and> interleaves w (ts[i := tl (ts ! i)])) [0..<length ts]"

lemma mset_concat_update:
  assumes "i < length ts" and "ts ! i = x # t"
  shows "mset (concat ts) = add_mset x (mset (concat (ts[i := t])))"
  using assms
proof (induction ts arbitrary: i)
  case Nil
  then show ?case by simp
next
  case (Cons u ts)
  then show ?case by (cases i) auto
qed

lemma interleaves_mset: "interleaves w ts \<Longrightarrow> mset w = mset (concat ts)"
proof (induction w arbitrary: ts)
  case Nil
  then have "concat ts = []" by (auto simp: list_all_iff)
  then show ?case by simp
next
  case (Cons x w)
  then obtain i where i: "i < length ts" "ts ! i \<noteq> []" "hd (ts ! i) = x"
    and w: "interleaves w (ts[i := tl (ts ! i)])"
    by (auto simp: list_ex_iff)
  then have "ts ! i = x # tl (ts ! i)" by (metis list.collapse)
  from mset_concat_update [OF i(1) this] Cons.IH [OF w] show ?case by simp
qed


subsection \<open>The contract of on_someip_message\<close>

definition same_base :: "('m, 'c, 'x, 'z) GatewayBase_scheme \<Rightarrow> ('m, 'c, 'x, 'z) GatewayBase_scheme \<Rightarrow> bool" where
  "same_base g g' \<longleftrightarrow>
     gw_name g' = gw_name g \<and> gw_protocol g' = gw_protocol g \<and> gw_running g' = gw_running g \<and>
     gw_service_mappings g' = gw_service_mappings g \<and>
     gw_external_message_callback g' = gw_external_message_callback g"

text \<open>Some mapping of the gateway lets messages of the service out.\<close>

definition permits_service :: "('m, 'c, 'x, 'z) GatewayBase_scheme \<Rightarrow> u16 \<Rightarrow> bool" where
  "permits_service g sid \<longleftrightarrow>
     list_ex (\<lambda>m. someip_service_id m = sid \<and> should_forward_to_external m) (gw_service_mappings g)"

text \<open>
  One message: it is left out of the counters, or it is counted as forwarded with its payload
  size and the result is \<open>SUCCESS\<close>, or it is counted as a translation error and the result is not.
\<close>

inductive forward_step ::
  "u16 \<Rightarrow> ('m, 'c, 'x, 'z) GatewayBase_scheme \<Rightarrow> Result \<Rightarrow> ('m, 'c, 'x, 'z) GatewayBase_scheme \<Rightarrow> bool" where
  dropped: "same_base g g' \<Longrightarrow> gw_stats g' = gw_stats g \<Longrightarrow> forward_step sid g r g'"
| forwarded: "same_base g g' \<Longrightarrow> permits_service g sid \<Longrightarrow>
     gw_stats g' = run_fetch_adds (steps_someip_to_external n) (gw_stats g) \<Longrightarrow>
     forward_step sid g SUCCESS g'"
| failed: "same_base g g' \<Longrightarrow> r \<noteq> SUCCESS \<Longrightarrow>
     gw_stats g' = run_fetch_adds steps_translation_error (gw_stats g) \<Longrightarrow> forward_step sid g r g'"

inductive_cases forward_step_cases: "forward_step sid g r g'"

text \<open>
  The messages a transport listener hands over one after the other, with their results. \<open>None\<close>
  stands for a call that does not return a result (undefined behaviour, an escaping exception).
\<close>

fun deliver_all :: "('m \<Rightarrow> 'g \<Rightarrow> (Result \<times> 'g) option) \<Rightarrow> 'm list \<Rightarrow> 'g \<Rightarrow> (Result list \<times> 'g) option" where
  "deliver_all f [] g = Some ([], g)"
| "deliver_all f (m # ms) g =
     (case f m g of
        None \<Rightarrow> None
      | Some (r, g1) \<Rightarrow>
          (case deliver_all f ms g1 of None \<Rightarrow> None | Some (rs, g2) \<Rightarrow> Some (r # rs, g2)))"

lemma same_base_refl [simp]: "same_base g g"
  by (simp add: same_base_def)

lemma same_base_trans: "same_base g g1 \<Longrightarrow> same_base g1 g2 \<Longrightarrow> same_base g g2"
  by (simp add: same_base_def)

lemma forward_step_same_base: "forward_step sid g r g' \<Longrightarrow> same_base g g'"
  by (cases rule: forward_step.cases)

lemma permits_same_base: "same_base g g' \<Longrightarrow> permits_service g' sid = permits_service g sid"
  by (simp add: same_base_def permits_service_def)

lemma deliver_all_Cons_Some:
  "deliver_all f (m # ms) g = Some (rs, g') \<longleftrightarrow>
     (\<exists>r g1 rs1. f m g = Some (r, g1) \<and> deliver_all f ms g1 = Some (rs1, g') \<and> rs = r # rs1)"
  by (auto split: option.splits)

locale someip_forwarder =
  fixes deliver :: "'m \<Rightarrow> ('m, 'c, 'x, 'z) GatewayBase_scheme \<Rightarrow> (Result \<times> ('m, 'c, 'x, 'z) GatewayBase_scheme) option"
    and service_of :: "'m \<Rightarrow> u16"
  assumes step: "deliver m g = Some (r, g') \<Longrightarrow> forward_step (service_of m) g r g'"
begin

lemma all_same_base: "deliver_all deliver ms g = Some (rs, g') \<Longrightarrow> same_base g g'"
proof (induction ms arbitrary: g rs)
  case Nil
  then show ?case by simp
next
  case (Cons m ms)
  then obtain r g1 rs1 where 1: "deliver m g = Some (r, g1)" and 2: "deliver_all deliver ms g1 = Some (rs1, g')"
    unfolding deliver_all_Cons_Some by blast
  show ?case by (rule same_base_trans [OF forward_step_same_base [OF step [OF 1]] Cons.IH [OF 2]])
qed

text \<open>
  Every counter after a sequence of messages: the forwarded count and the error count are bounded
  by the numbers of \<open>SUCCESS\<close> and other results, and the inbound counters do not move.
\<close>

lemma all_accounted:
  assumes "deliver_all deliver ms g = Some (rs, g')"
  shows "\<exists>k e. messages_someip_to_external (gw_stats g') = messages_someip_to_external (gw_stats g) + word_of_nat k \<and>
           translation_errors (gw_stats g') = translation_errors (gw_stats g) + word_of_nat e \<and>
           k \<le> count_list rs SUCCESS \<and> e + count_list rs SUCCESS \<le> length ms \<and>
           messages_external_to_someip (gw_stats g') = messages_external_to_someip (gw_stats g) \<and>
           bytes_external_to_someip (gw_stats g') = bytes_external_to_someip (gw_stats g)"
  using assms
proof (induction ms arbitrary: g rs)
  case Nil
  then show ?case by (intro exI [of _ 0]) simp
next
  case (Cons m ms)
  then obtain r g1 rs1 where 1: "deliver m g = Some (r, g1)" and 2: "deliver_all deliver ms g1 = Some (rs1, g')"
    and rs: "rs = r # rs1"
    unfolding deliver_all_Cons_Some by blast
  from Cons.IH [OF 2] obtain k e where ke:
    "messages_someip_to_external (gw_stats g') = messages_someip_to_external (gw_stats g1) + word_of_nat k"
    "translation_errors (gw_stats g') = translation_errors (gw_stats g1) + word_of_nat e"
    "k \<le> count_list rs1 SUCCESS" "e + count_list rs1 SUCCESS \<le> length ms"
    "messages_external_to_someip (gw_stats g') = messages_external_to_someip (gw_stats g1)"
    "bytes_external_to_someip (gw_stats g') = bytes_external_to_someip (gw_stats g1)"
    by blast
  note exp = run_fetch_adds_def steps_someip_to_external_def steps_translation_error_def
  from step [OF 1] show ?case
  proof cases
    case dropped
    with ke rs show ?thesis by (intro exI [of _ k] exI [of _ e]) (auto simp: exp)
  next
    case (forwarded n)
    with ke rs show ?thesis by (intro exI [of _ "Suc k"] exI [of _ e]) (auto simp: exp)
  next
    case failed
    with ke rs show ?thesis by (intro exI [of _ k] exI [of _ "Suc e"]) (auto simp: exp)
  qed
qed

lemma none_permitted:
  assumes "deliver_all deliver ms g = Some (rs, g')"
    and "\<And>m. m \<in> set ms \<Longrightarrow> \<not> permits_service g (service_of m)"
  shows "messages_someip_to_external (gw_stats g') = messages_someip_to_external (gw_stats g) \<and>
         bytes_someip_to_external (gw_stats g') = bytes_someip_to_external (gw_stats g)"
  using assms
proof (induction ms arbitrary: g rs)
  case Nil
  then show ?case by simp
next
  case (Cons m ms)
  then obtain r g1 rs1 where 1: "deliver m g = Some (r, g1)" and 2: "deliver_all deliver ms g1 = Some (rs1, g')"
    unfolding deliver_all_Cons_Some by blast
  note sb = forward_step_same_base [OF step [OF 1]]
  have "\<not> permits_service g1 (service_of m')" if "m' \<in> set ms" for m'
    using Cons.prems(2) [of m'] that permits_same_base [OF sb] by simp
  from Cons.IH [OF 2 this] step [OF 1] Cons.prems(2) [of m] show ?case
    by (auto simp: run_fetch_adds_def steps_translation_error_def elim!: forward_step_cases)
qed

end

text \<open>A gateway that in addition refuses messages while it is stopped.\<close>

locale guarded_forwarder = someip_forwarder +
  assumes stopped: "\<not> gw_running g \<Longrightarrow> \<exists>r. deliver m g = Some (r, g) \<and> r \<noteq> SUCCESS"
begin

lemma all_stopped:
  assumes "\<not> gw_running g"
  shows "\<exists>rs. deliver_all deliver ms g = Some (rs, g) \<and> SUCCESS \<notin> set rs"
proof (induction ms)
  case Nil
  then show ?case by simp
next
  case (Cons m ms)
  then show ?case using stopped [OF assms, of m] by (auto simp: deliver_all_Cons_Some)
qed

end

text \<open>A gateway whose message handler always returns in the states of an invariant it keeps.\<close>

locale total_forwarder = someip_forwarder +
  fixes invar :: "('m, 'c, 'x, 'z) GatewayBase_scheme \<Rightarrow> bool"
  assumes returns: "invar g \<Longrightarrow> \<exists>r g'. deliver m g = Some (r, g') \<and> invar g'"
begin

lemma all_returns: "invar g \<Longrightarrow> \<exists>rs g'. deliver_all deliver ms g = Some (rs, g') \<and> length rs = length ms \<and> invar g'"
proof (induction ms arbitrary: g)
  case Nil
  then show ?case by simp
next
  case (Cons m ms)
  from returns [OF Cons.prems, of m] obtain r g1 where 1: "deliver m g = Some (r, g1)" and "invar g1" by blast
  with Cons.IH [of g1] obtain rs g' where "deliver_all deliver ms g1 = Some (rs, g')" "length rs = length ms" "invar g'"
    by blast
  with 1 show ?case unfolding deliver_all_Cons_Some by (metis length_Cons)
qed

end


subsection \<open>Properties\<close>

text \<open>\<open>find_mapping_for_service\<close> after \<open>add_service_mapping\<close> returns the mapping it returned before
  the insertion when there was one (the first mapping for a service and instance wins), and
  otherwise the new mapping exactly when its identifiers are the ones looked up; the result always
  carries the identifiers asked for.\<close>

lemma add_service_mapping_lookup:
  "find_mapping_for_service sid iid (add_service_mapping mp g) =
     (case find_mapping_for_service sid iid g of
        Some m \<Rightarrow> Some m
      | None \<Rightarrow> if someip_service_id mp = sid \<and> someip_instance_id mp = iid then Some mp else None) \<and>
   pred_option (\<lambda>m. m \<in> set (get_service_mappings g) \<and> someip_service_id m = sid \<and> someip_instance_id m = iid)
     (find_mapping_for_service sid iid g)"
  using find_mapping_for_service_Some [of sid iid g]
  by (cases "find_mapping_for_service sid iid g") (simp_all add: find_mapping_add get_service_mappings_def)



end
