(* ===== verification/Gateway_Lifecycle.thy ===== *)
theory Gateway_Lifecycle
  imports Gateway_Base
begin

text \<open>
  The life cycle every gateway promises as an \<open>IGateway\<close> (\<open>common/include/opensomeip/gateway/gateway_base.h\<close>), as an
  abstract machine with two states. A successful start leads to \<open>Running\<close>, a failed one keeps the state, a stop leads
  to \<open>Stopped\<close>, and a guarded gateway refuses messages while it is stopped. The locale \<open>life_cycle\<close> is the contract of
  one gateway's \<open>start\<close>, \<open>stop\<close> and \<open>on_someip_message\<close>; a gateway that keeps it refines the machine over every
  sequence of commands. The facts about the machine (\<open>life_run_success\<close>) carry over to every such gateway.
\<close>

datatype life = Stopped | Running

datatype 'm command = Cmd_start | Cmd_stop | Cmd_message 'm

text \<open>The flag says whether messages are refused while the gateway is stopped.\<close>

inductive life_step :: "bool \<Rightarrow> life \<Rightarrow> 'm command \<Rightarrow> Result \<Rightarrow> life \<Rightarrow> bool" where
  started: "life_step guarded s Cmd_start SUCCESS Running"
| start_failed: "r \<noteq> SUCCESS \<Longrightarrow> life_step guarded s Cmd_start r s"
| stopped: "life_step guarded s Cmd_stop SUCCESS Stopped"
| refused: "r \<noteq> SUCCESS \<Longrightarrow> life_step guarded Stopped (Cmd_message m) r Stopped"
| handled: "s = Running \<or> \<not> guarded \<Longrightarrow> life_step guarded s (Cmd_message m) r s"

inductive_simps life_step_start: "life_step guarded s Cmd_start r s'"
inductive_simps life_step_stop: "life_step guarded s Cmd_stop r s'"
inductive_simps life_step_message: "life_step guarded s (Cmd_message m) r s'"

lemmas life_step_simps = life_step_start life_step_stop life_step_message

inductive life_run :: "bool \<Rightarrow> life \<Rightarrow> 'm command list \<Rightarrow> Result list \<Rightarrow> life \<Rightarrow> bool" where
  run_nil: "life_run guarded s [] [] s"
| run_step: "life_step guarded s c r s1 \<Longrightarrow> life_run guarded s1 cs rs s' \<Longrightarrow> life_run guarded s (c # cs) (r # rs) s'"

inductive_simps life_run_Nil: "life_run guarded s [] rs s'"
inductive_simps life_run_Cons: "life_run guarded s (c # cs) rs s'"

text \<open>The state after a sequence of commands and results: what the last successful start or stop left.\<close>

fun life_after :: "life \<Rightarrow> 'm command list \<Rightarrow> Result list \<Rightarrow> life" where
  "life_after s (Cmd_start # cs) (r # rs) = life_after (if r = SUCCESS then Running else s) cs rs"
| "life_after s (Cmd_stop # cs) (r # rs) = life_after Stopped cs rs"
| "life_after s (Cmd_message m # cs) (r # rs) = life_after s cs rs"
| "life_after s cs rs = s"

lemma life_run_length: "life_run guarded s cs rs s' \<Longrightarrow> length rs = length cs"
  by (induction rule: life_run.induct) auto

lemma life_run_after: "life_run guarded s cs rs s' \<Longrightarrow> s' = life_after s cs rs"
proof (induction rule: life_run.induct)
  case (run_step guarded s c r s1 cs rs s')
  then show ?case by (cases c) (auto simp: life_step_simps)
qed simp

text \<open>A guarded machine answers a message with \<open>SUCCESS\<close> only between a successful start and the next stop.\<close>

lemma life_run_success:
  assumes "life_run True s cs rs s'" and "i < length cs" and "cs ! i = Cmd_message m" and "rs ! i = SUCCESS"
  shows "life_after s (take i cs) (take i rs) = Running"
  using assms
proof (induction True s cs rs s' arbitrary: i rule: life_run.induct)
  case (run_step s c r s1 cs rs s')
  show ?case
  proof (cases i)
    case 0
    with run_step show ?thesis by (auto simp: life_step_message)
  next
    case (Suc j)
    with run_step have "life_after s1 (take j cs) (take j rs) = Running" by simp
    with run_step(1) Suc show ?thesis by (cases c) (auto simp: life_step_simps)
  qed
qed simp


subsection \<open>The contract of a gateway\<close>

definition life_of :: "('m, 'c, 'x, 'z) GatewayBase_scheme \<Rightarrow> life" where
  "life_of g = (if gw_running g then Running else Stopped)"

fun run_command ::
  "('g \<Rightarrow> (Result \<times> 'g) option) \<Rightarrow> ('g \<Rightarrow> (Result \<times> 'g) option) \<Rightarrow> ('m \<Rightarrow> 'g \<Rightarrow> (Result \<times> 'g) option) \<Rightarrow>
   'm command \<Rightarrow> 'g \<Rightarrow> (Result \<times> 'g) option" where
  "run_command start stop deliver Cmd_start g = start g"
| "run_command start stop deliver Cmd_stop g = stop g"
| "run_command start stop deliver (Cmd_message m) g = deliver m g"

text \<open>Every sequence of commands that returns is one of the abstract machine, with the running flag as its state.\<close>

definition refines_life_cycle ::
  "bool \<Rightarrow> (('m, 'c, 'x, 'z) GatewayBase_scheme \<Rightarrow> (Result \<times> ('m, 'c, 'x, 'z) GatewayBase_scheme) option) \<Rightarrow>
   (('m, 'c, 'x, 'z) GatewayBase_scheme \<Rightarrow> (Result \<times> ('m, 'c, 'x, 'z) GatewayBase_scheme) option) \<Rightarrow>
   ('m \<Rightarrow> ('m, 'c, 'x, 'z) GatewayBase_scheme \<Rightarrow> (Result \<times> ('m, 'c, 'x, 'z) GatewayBase_scheme) option) \<Rightarrow> bool" where
  "refines_life_cycle guarded start stop deliver \<longleftrightarrow>
     (\<forall>cs g rs g'. deliver_all (run_command start stop deliver) cs g = Some (rs, g') \<longrightarrow>
        life_run guarded (life_of g) cs rs (life_of g'))"

text \<open>In the states of an invariant every sequence of commands also returns, and keeps the invariant.\<close>

definition implements_life_cycle ::
  "bool \<Rightarrow> (('m, 'c, 'x, 'z) GatewayBase_scheme \<Rightarrow> bool) \<Rightarrow>
   (('m, 'c, 'x, 'z) GatewayBase_scheme \<Rightarrow> (Result \<times> ('m, 'c, 'x, 'z) GatewayBase_scheme) option) \<Rightarrow>
   (('m, 'c, 'x, 'z) GatewayBase_scheme \<Rightarrow> (Result \<times> ('m, 'c, 'x, 'z) GatewayBase_scheme) option) \<Rightarrow>
   ('m \<Rightarrow> ('m, 'c, 'x, 'z) GatewayBase_scheme \<Rightarrow> (Result \<times> ('m, 'c, 'x, 'z) GatewayBase_scheme) option) \<Rightarrow> bool" where
  "implements_life_cycle guarded invar start stop deliver \<longleftrightarrow>
     (\<forall>cs g. invar g \<longrightarrow>
        (\<exists>rs g'. deliver_all (run_command start stop deliver) cs g = Some (rs, g') \<and> invar g' \<and>
           life_run guarded (life_of g) cs rs (life_of g')))"

locale life_cycle =
  fixes guarded :: bool
    and start :: "('m, 'c, 'x, 'z) GatewayBase_scheme \<Rightarrow> (Result \<times> ('m, 'c, 'x, 'z) GatewayBase_scheme) option"
    and stop :: "('m, 'c, 'x, 'z) GatewayBase_scheme \<Rightarrow> (Result \<times> ('m, 'c, 'x, 'z) GatewayBase_scheme) option"
    and deliver :: "'m \<Rightarrow> ('m, 'c, 'x, 'z) GatewayBase_scheme \<Rightarrow> (Result \<times> ('m, 'c, 'x, 'z) GatewayBase_scheme) option"
  assumes start_running: "start g = Some (r, g') \<Longrightarrow> gw_running g' = (r = SUCCESS \<or> gw_running g)"
    and stop_stopped: "stop g = Some (r, g') \<Longrightarrow> r = SUCCESS \<and> \<not> gw_running g'"
    and deliver_running: "deliver m g = Some (r, g') \<Longrightarrow> gw_running g' = gw_running g"
    and deliver_guarded: "guarded \<Longrightarrow> \<not> gw_running g \<Longrightarrow> deliver m g = Some (r, g') \<Longrightarrow> r \<noteq> SUCCESS \<and> g' = g"
begin

lemma command_step:
  assumes "run_command start stop deliver c g = Some (r, g')"
  shows "life_step guarded (life_of g) c r (life_of g')"
proof (cases c)
  case Cmd_start
  then show ?thesis using assms start_running [of g r g'] by (auto simp: life_step_simps life_of_def)
next
  case Cmd_stop
  then show ?thesis using assms stop_stopped [of g r g'] by (auto simp: life_step_simps life_of_def)
next
  case (Cmd_message m)
  then show ?thesis using assms deliver_running [of m g r g'] deliver_guarded [of g m r g']
    by (auto simp: life_step_simps life_of_def)
qed

lemma refines: "refines_life_cycle guarded start stop deliver"
proof -
  have "life_run guarded (life_of g) cs rs (life_of g')"
    if "deliver_all (run_command start stop deliver) cs g = Some (rs, g')" for cs g rs g'
    using that
  proof (induction cs arbitrary: g rs)
    case Nil
    then show ?case by (simp add: life_run_Nil)
  next
    case (Cons c cs)
    then show ?case unfolding deliver_all_Cons_Some by (blast intro: life_run.run_step command_step)
  qed
  then show ?thesis by (simp add: refines_life_cycle_def)
qed

text \<open>A message answered with \<open>SUCCESS\<close> came between a successful start and the next stop.\<close>

lemma success_while_running:
  assumes "deliver_all (run_command start stop deliver) cs g = Some (rs, g')" and guarded
    and "i < length cs" and "cs ! i = Cmd_message m" and "rs ! i = SUCCESS"
  shows "life_after (life_of g) (take i cs) (take i rs) = Running"
  using refines assms life_run_success [of "life_of g" cs rs "life_of g'" i m] by (simp add: refines_life_cycle_def)

end


locale total_life_cycle = life_cycle +
  fixes invar :: "('m, 'c, 'x, 'z) GatewayBase_scheme \<Rightarrow> bool"
  assumes start_returns: "invar g \<Longrightarrow> \<exists>r g'. start g = Some (r, g') \<and> invar g'"
    and stop_returns: "invar g \<Longrightarrow> \<exists>r g'. stop g = Some (r, g') \<and> invar g'"
    and deliver_returns: "invar g \<Longrightarrow> \<exists>r g'. deliver m g = Some (r, g') \<and> invar g'"
begin

lemma command_returns: "invar g \<Longrightarrow> \<exists>r g'. run_command start stop deliver c g = Some (r, g') \<and> invar g'"
  using start_returns stop_returns deliver_returns by (cases c) auto

lemma implements: "implements_life_cycle guarded invar start stop deliver"
proof -
  have "\<exists>rs g'. deliver_all (run_command start stop deliver) cs g = Some (rs, g') \<and> invar g'" if "invar g" for cs g
    using that
  proof (induction cs arbitrary: g)
    case (Cons c cs)
    from command_returns [OF Cons.prems, of c] obtain r g1
      where 1: "run_command start stop deliver c g = Some (r, g1)" "invar g1" by blast
    from Cons.IH [OF 1(2)] 1(1) show ?case unfolding deliver_all_Cons_Some by blast
  qed simp
  then show ?thesis using refines unfolding implements_life_cycle_def refines_life_cycle_def by blast
qed

end

end
