(* ===== verification/Translator.thy ===== *)
theory Translator
  imports Gateway_Base
begin

text \<open>
  \<open>common/include/opensomeip/gateway/translator.h\<close> and \<open>common/src/translator.cpp\<close>: the
  protocol-independent translation helpers every gateway's translator builds on.

  The lemmas show that the topic builder is injective, that the JSON envelope determines the header
  and the payload it was made from, and that an opaque message survives the trip out and back. The
  locale \<open>topic_scheme\<close> is the contract of every naming scheme of the gateways: three identifiers
  between fixed separators; a scheme that meets it gives distinct names to distinct triples.
\<close>

record ExternalMessage =
  topic_or_key :: string
  ext_payload :: bytes
  source_service_id :: u16
  source_method_id :: u16
  source_instance_id :: u16
  ext_is_request :: bool
  ext_is_notification :: bool
  correlation_id :: string

definition ExternalMessage_default :: ExternalMessage where
  "ExternalMessage_default = \<lparr>topic_or_key = [], ext_payload = [], source_service_id = 0,
     source_method_id = 0, source_instance_id = 0, ext_is_request = False,
     ext_is_notification = False, correlation_id = []\<rparr>"

definition format_service_id :: "u16 \<Rightarrow> string" where
  "format_service_id v = ''0x'' @ hex4 False v"

text \<open>The correlation text both \<open>someip_to_external\<close> and the gateway translators stream.\<close>

definition correlation_text :: "u16 \<Rightarrow> u16 \<Rightarrow> string" where
  "correlation_text client_id session_id = hex4 False client_id @ ''-'' @ hex4 False session_id"

definition someip_to_external :: "'m message_api \<Rightarrow> 'm \<Rightarrow> string \<Rightarrow> ExternalMessage" where
  "someip_to_external A msg external_id = ExternalMessage_default\<lparr>
     topic_or_key := external_id,
     ext_payload := get_payload A msg,
     source_service_id := get_service_id A msg,
     source_method_id := get_method_id A msg,
     ext_is_request := is_request A msg,
     ext_is_notification := (get_message_type A msg = mt_NOTIFICATION A),
     correlation_id := correlation_text (get_client_id A msg) (get_session_id A msg)\<rparr>"

definition external_to_someip :: "'m message_api \<Rightarrow> ExternalMessage \<Rightarrow> u16 \<Rightarrow> u16 \<Rightarrow> MessageType \<Rightarrow> 'm" where
  "external_to_someip A ext_msg service_id method_id type =
     set_payload A (ext_payload ext_msg) (Message_ctor A (service_id, method_id) (0x0000, 0x0001) type)"

definition build_topic :: "string \<Rightarrow> u16 \<Rightarrow> u16 \<Rightarrow> u16 \<Rightarrow> string" where
  [topic_simps]: "build_topic pre service_id instance_id method_or_event_id =
     pre @ ''/'' @ format_service_id service_id @ ''/'' @ format_service_id instance_id @ ''/'' @
     format_service_id method_or_event_id"

text \<open>The loop over the payload: a comma before every byte but the first.\<close>

fun json_bytes :: "bytes \<Rightarrow> string" where
  "json_bytes [] = []"
| "json_bytes [b] = show_dec (unat b)"
| "json_bytes (b # c # bs) = show_dec (unat b) @ '','' @ json_bytes (c # bs)"

definition json_text :: "'m message_api \<Rightarrow> 'm \<Rightarrow> string" where
  \<open>json_text A msg =
     ''{'' @
     ''"service_id":'' @ show_dec (unat (get_service_id A msg)) @ '','' @
     ''"method_id":'' @ show_dec (unat (get_method_id A msg)) @ '','' @
     ''"client_id":'' @ show_dec (unat (get_client_id A msg)) @ '','' @
     ''"session_id":'' @ show_dec (unat (get_session_id A msg)) @ '','' @
     ''"message_type":'' @ show_dec (unat (get_message_type A msg)) @ '','' @
     ''"return_code":'' @ show_dec (unat (get_return_code A msg)) @ '','' @
     ''"payload":['' @ json_bytes (get_payload A msg) @ '']}''\<close>

definition payload_to_json :: "'m message_api \<Rightarrow> 'm \<Rightarrow> bytes" where
  "payload_to_json A msg = bytes_of_string (json_text A msg)"

definition json_to_payload :: "bytes \<Rightarrow> bytes" where
  "json_to_payload json_data = json_data"


subsection \<open>Naming schemes\<close>

lemmas format_service_id_simps [simp] = format_service_id_def

locale topic_scheme =
  fixes build :: "u16 \<Rightarrow> u16 \<Rightarrow> u16 \<Rightarrow> string"
    and upper :: bool
    and pre :: string and sep1 :: string and sep2 :: string and post :: string
  assumes shape: "build s i m = pre @ hex4 upper s @ sep1 @ hex4 upper i @ sep2 @ hex4 upper m @ post"
begin

lemma build_inject: "build s i m = build s' i' m' \<longleftrightarrow> s = s' \<and> i = i' \<and> m = m'"
  by (simp add: shape)

lemma build_length: "length (build s i m) = length pre + length sep1 + length sep2 + length post + 12"
  by (simp add: shape)

lemma build_under_prefix: "prefix pre (build s i m)"
  by (simp add: shape)

end

interpretation common_topic: topic_scheme "build_topic p" False "p @ ''/0x''" "''/0x''" "''/0x''" "[]" for p
  by unfold_locales (simp add: topic_simps)

lemma build_topic_inject:
  "build_topic p s i m = build_topic p' s' i' m' \<longleftrightarrow> p = p' \<and> s = s' \<and> i = i' \<and> m = m'"
proof
  assume eq: "build_topic p s i m = build_topic p' s' i' m'"
  have "length (build_topic p s i m) = length p + 21" for p s i m
    by (simp add: common_topic.build_length)
  with eq have "length p = length p'" by (metis add_right_cancel)
  with eq have "p = p'" by (simp add: topic_simps)
  with eq common_topic.build_inject show "p = p' \<and> s = s' \<and> i = i' \<and> m = m'" by blast
qed simp


subsection \<open>The JSON envelope\<close>

lemma show_dec_append_inject:
  assumes "\<not> isdigit c" and "\<not> isdigit d" and "show_dec a @ c # s = show_dec b @ d # t"
  shows "a = b \<and> c = d \<and> s = t"
proof -
  have tw: "takeWhile isdigit (show_dec n @ x # r) = show_dec n" if "\<not> isdigit x" for n x r
    using that show_dec_digits [of _ n] by (simp add: takeWhile_append2)
  have "show_dec a = show_dec b"
    using tw [OF assms(1), of a s] tw [OF assms(2), of b t] assms(3) by simp
  with assms(3) show ?thesis by simp
qed

lemma json_separators [simp]:
  "\<not> isdigit (CHR '','')" "\<not> isdigit (CHR '']'')" "isdigit (CHR ''{'') = False"
  by code_simp+

lemma comma_inject:
  "show_dec a @ CHR '','' # s = show_dec b @ CHR '','' # t \<longleftrightarrow> a = b \<and> s = t"
  using show_dec_append_inject [OF json_separators(1) json_separators(1), of a s b t] by blast

lemma show_dec_not_bracket: "show_dec n @ s \<noteq> CHR '']'' # t"
proof
  assume eq: "show_dec n @ s = CHR '']'' # t"
  obtain c u where c: "show_dec n = c # u" by (cases "show_dec n") auto
  then have "isdigit c" using show_dec_digits [of c n] by simp
  with eq c show False by simp
qed

lemma json_bytes_inject:
  "json_bytes ps @ CHR '']'' # s = json_bytes qs @ CHR '']'' # t \<Longrightarrow> ps = qs \<and> s = t"
proof (induction ps arbitrary: qs rule: json_bytes.induct)
  case 1
  then show ?case
    by (cases qs rule: json_bytes.cases) (auto dest: show_dec_not_bracket [THEN notE, OF sym])
next
  case (2 b)
  then show ?case
    by (cases qs rule: json_bytes.cases)
      (auto simp: show_dec_not_bracket dest: show_dec_append_inject [rotated 2] unsigned_word_eqI)
next
  case (3 b c bs)
  show ?case
  proof (cases qs rule: json_bytes.cases)
    case 1
    with 3 show ?thesis by (auto simp: show_dec_not_bracket)
  next
    case (2 q)
    with 3 show ?thesis by (auto dest: show_dec_append_inject [rotated 2])
  next
    case (3 q r qs')
    with "3.prems" have "unat b = unat q \<and>
        json_bytes (c # bs) @ CHR '']'' # s = json_bytes (r # qs') @ CHR '']'' # t"
      by (simp add: comma_inject)
    with "3.IH" [of "r # qs'"] 3 show ?thesis by (auto dest: unsigned_word_eqI)
  qed
qed

lemma json_text_inject:
  "json_text A m = json_text A m' \<Longrightarrow> header_of A m = header_of A m' \<and> get_payload A m = get_payload A m'"
  using json_bytes_inject [of "get_payload A m" "[]" "get_payload A m'" "[]"]
  by (auto simp: json_text_def header_of_def comma_inject dest: unsigned_word_eqI)

subsection \<open>Properties\<close>

text \<open>\<open>build_topic\<close> is injective: topics built from different prefixes or from different service, instance
  or method identifiers differ, so no two bridged endpoints share a topic.\<close>

theorem build_topic_distinct:
  "build_topic p s i m = build_topic p' s' i' m' \<longleftrightarrow> p = p' \<and> s = s' \<and> i = i' \<and> m = m'"
  by (rule build_topic_inject)

text \<open>The JSON envelope of \<open>payload_to_json\<close> loses nothing: two messages have the same envelope exactly
  when their six header fields and their payloads are the same.\<close>

lemma payload_to_json_lossless:
  "payload_to_json A m = payload_to_json A m' \<longleftrightarrow>
   header_of A m = header_of A m' \<and> get_payload A m = get_payload A m'"
  using json_text_inject [of A m m']
  by (auto simp: payload_to_json_def) (simp add: json_text_def header_of_def)

text \<open>A message that goes out through \<open>someip_to_external\<close> and back through \<open>external_to_someip\<close> under its own
  service, method and type keeps those and its payload; the request identifier is not carried over
  and is always client 0, session 1.\<close>

lemma external_round_trip:
  assumes "message_laws A"
  shows "header_of A (external_to_someip A (someip_to_external A m topic)
             (get_service_id A m) (get_method_id A m) (get_message_type A m)) =
           (get_service_id A m, get_method_id A m, 0, 1, get_message_type A m, rc_E_OK A) \<and>
         get_payload A (external_to_someip A (someip_to_external A m topic)
             (get_service_id A m) (get_method_id A m) (get_message_type A m)) = get_payload A m"
  using assms by (simp add: header_of_def external_to_someip_def someip_to_external_def)

lemma external_round_trip_witness:
  "message_laws ref_api \<and>
   (let m = set_payload ref_api [1, 2] (Message_ctor ref_api (0x1234, 0x8001) (7, 9) 2);
        m' = external_to_someip ref_api (someip_to_external ref_api m ''t'') 0x1234 0x8001 2
    in header_of ref_api m' = (0x1234, 0x8001, 0, 1, 2, 0) \<and> get_payload ref_api m' = [1, 2])"
  using external_round_trip [OF ref_api_laws,
      of "set_payload ref_api [1, 2] (Message_ctor ref_api (0x1234, 0x8001) (7, 9) 2)" "''t''"]
  by (simp add: Let_def, simp add: ref_api_def)

end
