(* ===== verification/Someip_Side.thy ===== *)
theory Someip_Side
  imports Translator
begin

text \<open>
  The SOME/IP side of the MQTT, D-Bus, DDS and ROS 2 gateways. The four classes declare the same
  members and define the same member functions for them (outbound sink, UDP bridge, attached RPC
  and service-discovery objects, event publishers, event subscriber); this theory models that code
  once, as a record between \<open>GatewayBase\<close> and the gateway, and each gateway theory defines its own
  operations from it.

  The lemmas show that the publisher table never confuses two (service, instance) pairs, that a
  subscription creates at most one subscriber, and what the shut-down sequence does to the call
  history.
\<close>

record ('m, 'c, 'x) SomeipSide = "('m, 'c, 'x) GatewayBase" +
  side_outbound_sink :: bool
  side_rpc_client :: "handle option"
  side_sd_client :: "handle option"
  side_sd_server :: "handle option"
  side_event_publishers :: "u64 \<rightharpoonup> handle option"
  side_event_subscriber :: "handle option"
  side_udp_transport :: "handle option"

text \<open>A call on an object behind a pointer, skipped when the pointer is null.\<close>

definition call_on ::
  "(handle \<Rightarrow> ('m, 'c, 'x) io) \<Rightarrow> handle option \<Rightarrow>
   ('m, 'c, 'x, 'z) GatewayBase_scheme \<Rightarrow> ('m, 'c, 'x, 'z) GatewayBase_scheme" where
  "call_on f p g = (case p of Some h \<Rightarrow> call (f h) g | None \<Rightarrow> g)"

definition calls_on :: "(handle \<Rightarrow> ('m, 'c, 'x) io) \<Rightarrow> handle option \<Rightarrow> ('m, 'c, 'x) history" where
  "calls_on f p = (case p of Some h \<Rightarrow> [f h] | None \<Rightarrow> [])"

definition side_set_someip_outbound_sink ::
  "bool \<Rightarrow> ('m, 'c, 'x, 'z) SomeipSide_scheme \<Rightarrow> ('m, 'c, 'x, 'z) SomeipSide_scheme" where
  "side_set_someip_outbound_sink sink g = g\<lparr>side_outbound_sink := sink\<rparr>"

definition side_enable_someip_udp_bridge ::
  "('m, 'c, 'x) env \<Rightarrow> ('m, 'c, 'x, 'z) SomeipSide_scheme \<Rightarrow> ('m, 'c, 'x, 'z) SomeipSide_scheme" where
  "side_enable_someip_udp_bridge E g =
     (let h = answer_new E (gw_io g) in
      call (Udp_set_listener h) (call (Udp_new h) (g\<lparr>side_udp_transport := Some h\<rparr>)))"

definition side_attach_rpc_client ::
  "handle option \<Rightarrow> ('m, 'c, 'x, 'z) SomeipSide_scheme \<Rightarrow> ('m, 'c, 'x, 'z) SomeipSide_scheme" where
  "side_attach_rpc_client rpc g = g\<lparr>side_rpc_client := rpc\<rparr>"

definition side_attach_sd_client ::
  "handle option \<Rightarrow> ('m, 'c, 'x, 'z) SomeipSide_scheme \<Rightarrow> ('m, 'c, 'x, 'z) SomeipSide_scheme" where
  "side_attach_sd_client sd g = g\<lparr>side_sd_client := sd\<rparr>"

definition side_attach_sd_server ::
  "handle option \<Rightarrow> ('m, 'c, 'x, 'z) SomeipSide_scheme \<Rightarrow> ('m, 'c, 'x, 'z) SomeipSide_scheme" where
  "side_attach_sd_server sd_server g = g\<lparr>side_sd_server := sd_server\<rparr>"

definition publisher_key :: "u16 \<Rightarrow> u16 \<Rightarrow> u64" where
  "publisher_key service_id instance_id = push_bit 16 (ucast service_id) OR ucast instance_id"

definition side_register_event_publisher ::
  "u16 \<Rightarrow> u16 \<Rightarrow> handle option \<Rightarrow> ('m, 'c, 'x, 'z) SomeipSide_scheme \<Rightarrow> bool \<times> ('m, 'c, 'x, 'z) SomeipSide_scheme" where
  "side_register_event_publisher service_id instance_id publisher g =
     (True, g\<lparr>side_event_publishers := (side_event_publishers g)(publisher_key service_id instance_id \<mapsto> publisher)\<rparr>)"

definition side_ensure_event_subscriber ::
  "('m, 'c, 'x) env \<Rightarrow> u16 \<Rightarrow> ('m, 'c, 'x, 'z) SomeipSide_scheme \<Rightarrow> handle \<times> ('m, 'c, 'x, 'z) SomeipSide_scheme" where
  "side_ensure_event_subscriber E client_id g =
     (case side_event_subscriber g of
        Some h \<Rightarrow> (h, g)
      | None \<Rightarrow>
          (let h = answer_new E (gw_io g) in
           (h, call (EventSubscriber_initialize h)
                 (call (EventSubscriber_new h client_id) (g\<lparr>side_event_subscriber := Some h\<rparr>)))))"

definition side_subscribe_someip_eventgroup ::
  "('m, 'c, 'x) env \<Rightarrow> u16 \<Rightarrow> u16 \<Rightarrow> u16 \<Rightarrow> u16 \<Rightarrow> ('m, 'c, 'x, 'z) SomeipSide_scheme \<Rightarrow>
   bool \<times> ('m, 'c, 'x, 'z) SomeipSide_scheme" where
  "side_subscribe_someip_eventgroup E client_id service_id instance_id eventgroup_id g =
     (let (h, g1) = side_ensure_event_subscriber E client_id g;
          c = EventSubscriber_subscribe_eventgroup h service_id instance_id eventgroup_id
      in (answer_bool E (gw_io g1) c, call c g1))"

text \<open>The message the subscription callback builds from a notification.\<close>

definition notification_message :: "'m message_api \<Rightarrow> EventNotification \<Rightarrow> 'm" where
  "notification_message A n =
     set_payload A (ev_event_data n)
       (Message_ctor A (ev_service_id n, ev_event_id n) (ev_client_id n, ev_session_id n) (mt_NOTIFICATION A))"

definition notification_message_rc :: "'m message_api \<Rightarrow> EventNotification \<Rightarrow> 'm" where
  "notification_message_rc A n =
     set_payload A (ev_event_data n)
       (Message_ctor_rc A (ev_service_id n, ev_event_id n) (ev_client_id n, ev_session_id n)
          (mt_NOTIFICATION A) (rc_E_OK A))"

text \<open>\<open>if (someip_outbound_sink_) someip_outbound_sink_(msg);\<close> under the sink's mutex.\<close>

definition emit_to_sink :: "'m \<Rightarrow> ('m, 'c, 'x, 'z) SomeipSide_scheme \<Rightarrow> ('m, 'c, 'x, 'z) SomeipSide_scheme" where
  "emit_to_sink msg g = (if side_outbound_sink g then call (Outbound_sink msg) g else g)"

text \<open>
  \<open>on_someip_message\<close> of these gateways looks the mapping up under the configured default instance
  first and under instance 1 next.
\<close>

definition find_inbound_mapping ::
  "u16 \<Rightarrow> u16 \<Rightarrow> ('m, 'c, 'x, 'z) GatewayBase_scheme \<Rightarrow> ServiceMapping option" where
  "find_inbound_mapping service_id default_instance g =
     (case find_mapping_for_service service_id default_instance g of
        Some m \<Rightarrow> Some m
      | None \<Rightarrow> find_mapping_for_service service_id 0x0001 g)"

text \<open>
  The end-to-end check of the MQTT, DDS and ROS 2 gateways: skipped (\<open>SUCCESS\<close>) unless it is switched
  on and configured.
\<close>

definition side_e2e_validate ::
  "('m, 'c, 'x) env \<Rightarrow> bool \<Rightarrow> 'c option \<Rightarrow> 'm \<Rightarrow> ('m, 'c, 'x, 'z) GatewayBase_scheme \<Rightarrow>
   Result \<times> ('m, 'c, 'x, 'z) GatewayBase_scheme" where
  "side_e2e_validate E use_e2e e2e_config msg g =
     (case e2e_config of
        Some c \<Rightarrow>
          if use_e2e then (answer_result E (gw_io g) (E2e_validate msg c), call (E2e_validate msg c) g)
          else (SUCCESS, g)
      | None \<Rightarrow> (SUCCESS, g))"


subsection \<open>Lemmas\<close>

lemma gw_io_call [simp]: "gw_io (call ev g) = gw_io g @ [ev]"
  by (simp add: call_def)

lemma call_frame [simp]:
  "gw_running (call ev g) = gw_running g" "gw_stats (call ev g) = gw_stats g"
  "gw_service_mappings (call ev g) = gw_service_mappings g" "gw_name (call ev g) = gw_name g"
  "gw_protocol (call ev g) = gw_protocol g"
  "gw_external_message_callback (call ev g) = gw_external_message_callback g"
  by (simp_all add: call_def)

lemma gw_io_call_on [simp]: "gw_io (call_on f p g) = gw_io g @ calls_on f p"
  by (simp add: call_on_def calls_on_def split: option.split)

lemma call_on_eq: "call_on f p g = g\<lparr>gw_io := gw_io g @ calls_on f p\<rparr>"
  by (simp add: call_on_def calls_on_def call_def split: option.split)

lemma emit_to_sink_frame [simp]:
  "gw_running (emit_to_sink m g) = gw_running g" "gw_stats (emit_to_sink m g) = gw_stats g"
  "gw_service_mappings (emit_to_sink m g) = gw_service_mappings g"
  by (simp_all add: emit_to_sink_def)

lemma find_inbound_frame [simp]:
  "find_inbound_mapping sid d (g\<lparr>gw_stats := st\<rparr>) = find_inbound_mapping sid d g"
  "find_inbound_mapping sid d (g\<lparr>gw_io := h\<rparr>) = find_inbound_mapping sid d g"
  by (simp_all add: find_inbound_mapping_def split: option.split)

lemma find_inbound_mapping_Some:
  "find_inbound_mapping sid d g = Some m \<Longrightarrow>
   m \<in> set (gw_service_mappings g) \<and> someip_service_id m = sid \<and>
   (someip_instance_id m = d \<or> someip_instance_id m = 1)"
  by (auto simp: find_inbound_mapping_def split: option.splits dest: find_mapping_for_service_Some)

lemma find_inbound_permits:
  assumes "find_inbound_mapping sid d g = Some m" and "should_forward_to_external m"
  shows "permits_service g sid"
  using find_inbound_mapping_Some [OF assms(1)] assms(2)
  by (auto simp: permits_service_def list_ex_iff)

lemma publisher_key_ids: "ucast (drop_bit 16 (publisher_key s i)) = s" "ucast (publisher_key s i) = i"
  by (rule bit_word_eqI; auto simp: publisher_key_def bit_simps dest: bit_imp_le_length)+

lemma publisher_key_inject [simp]: "publisher_key s i = publisher_key s' i' \<longleftrightarrow> s = s' \<and> i = i'"
  by (metis publisher_key_ids)

lemma register_lookup:
  "side_event_publishers (snd (side_register_event_publisher s i p g)) (publisher_key s' i') =
     (if s' = s \<and> i' = i then Some p else side_event_publishers g (publisher_key s' i'))"
  by (auto simp: side_register_event_publisher_def)

lemma ensure_subscriber_idem:
  assumes "side_ensure_event_subscriber E c g = (h, g1)"
  shows "side_event_subscriber g1 = Some h \<and> side_ensure_event_subscriber E' c' g1 = (h, g1)"
  using assms by (auto simp: side_ensure_event_subscriber_def Let_def call_def split: option.splits)


lemma side_e2e_frame:
  "side_e2e_validate E u c msg g = (r, g1) \<Longrightarrow> \<exists>h. g1 = g\<lparr>gw_io := h\<rparr>"
  by (auto simp: side_e2e_validate_def call_def split: option.splits if_splits intro: exI [of _ "gw_io g"])

lemma side_e2e_off: "\<not> u \<Longrightarrow> side_e2e_validate E u c msg g = (SUCCESS, g)"
  by (simp add: side_e2e_validate_def split: option.split)

text \<open>The three ways a message handler of this family ends, as steps of the contract.\<close>

lemma forward_recorded:
  assumes "find_inbound_mapping sid d g = Some mapping" and "should_forward_to_external mapping"
    and "same_base g g1" and "gw_stats g1 = gw_stats g"
  shows "forward_step sid g SUCCESS (record_someip_to_external n g1)"
  using find_inbound_permits [OF assms(1,2)] assms(3,4)
  by (intro forward_step.forwarded [where n = n]) (simp_all add: record_by_steps(1) same_base_def)

lemma forward_error:
  assumes "r \<noteq> SUCCESS" and "same_base g g1" and "gw_stats g1 = gw_stats g"
  shows "forward_step sid g r (record_translation_error g1)"
  using assms by (intro forward_step.failed) (simp_all add: record_by_steps(3) same_base_def)

lemma forward_dropped [simp]: "forward_step sid g r g"
  by (simp add: forward_step.dropped)

end
