(* ===== verification/Mqtt_Translator.thy ===== *)
theory Mqtt_Translator
  imports Translator
begin

text \<open>
  \<open>gateway-mqtt/include/opensomeip/gateway/mqtt/mqtt_translator.h\<close> and
  \<open>gateway-mqtt/src/mqtt_translator.cpp\<close>: topics, payload encodings, correlation data and quality of
  service of the MQTT gateway. The lemmas show that topics are injective and separate requests from
  events, that correlation data determines the request identifier, which payload encodings invert,
  and the range of the selected quality of service.
\<close>

datatype MqttPayloadEncoding =
  MQTT_RAW | MQTT_JSON | MQTT_SOMEIP_FRAMED | MqttPayloadEncoding_cast u8

record MqttTranslator =
  mqtt_topic_prefix :: string
  mqtt_vin :: string

definition build_mqtt_topic :: "MqttTranslator \<Rightarrow> u16 \<Rightarrow> u16 \<Rightarrow> u16 \<Rightarrow> bool \<Rightarrow> string" where
  [topic_simps]: "build_mqtt_topic tr service_id instance_id method_id is_req =
     mqtt_topic_prefix tr @ ''/'' @ mqtt_vin tr @ ''/someip/'' @ format_service_id service_id @ ''/'' @
     format_service_id instance_id @ ''/'' @
     (if is_req then ''method/'' @ format_service_id method_id @ ''/request''
      else ''event/'' @ format_service_id method_id)"

definition build_topic_with_vin :: "string \<Rightarrow> string \<Rightarrow> u16 \<Rightarrow> u16 \<Rightarrow> u16 \<Rightarrow> string" where
  [topic_simps]: "build_topic_with_vin topic_prefix vin service_id instance_id method_or_event_id =
     topic_prefix @ ''/'' @ vin @ ''/someip/'' @ format_service_id service_id @ ''/'' @
     format_service_id instance_id @ ''/'' @ format_service_id method_or_event_id"

definition build_rpc_request_topic :: "string \<Rightarrow> string \<Rightarrow> u16 \<Rightarrow> u16 \<Rightarrow> u16 \<Rightarrow> string" where
  [topic_simps]: "build_rpc_request_topic topic_prefix vin service_id instance_id method_id =
     build_topic_with_vin topic_prefix vin service_id instance_id method_id @ ''/rpc/req''"

definition build_rpc_response_topic :: "string \<Rightarrow> string \<Rightarrow> u16 \<Rightarrow> u16 \<Rightarrow> u16 \<Rightarrow> string" where
  [topic_simps]: "build_rpc_response_topic topic_prefix vin service_id instance_id method_id =
     build_topic_with_vin topic_prefix vin service_id instance_id method_id @ ''/rpc/rsp''"

definition payload_to_json_envelope :: "'m message_api \<Rightarrow> 'm \<Rightarrow> bytes" where
  "payload_to_json_envelope A msg = payload_to_json A msg"

fun mqtt_encode_payload :: "'m message_api \<Rightarrow> 'm \<Rightarrow> MqttPayloadEncoding \<Rightarrow> bytes" where
  "mqtt_encode_payload A msg MQTT_RAW = get_payload A msg"
| "mqtt_encode_payload A msg MQTT_JSON = payload_to_json_envelope A msg"
| "mqtt_encode_payload A msg MQTT_SOMEIP_FRAMED = serialize A msg"
| "mqtt_encode_payload A msg (MqttPayloadEncoding_cast b) = get_payload A msg"

fun mqtt_decode_payload :: "'m message_api \<Rightarrow> bytes \<Rightarrow> MqttPayloadEncoding \<Rightarrow> bytes" where
  "mqtt_decode_payload A mqtt_payload MQTT_RAW = mqtt_payload"
| "mqtt_decode_payload A mqtt_payload MQTT_JSON = json_to_payload mqtt_payload"
| "mqtt_decode_payload A mqtt_payload MQTT_SOMEIP_FRAMED =
     (case deserialize A mqtt_payload False (Message_default A) of
        (True, m) \<Rightarrow> get_payload A m
      | (False, _) \<Rightarrow> [])"
| "mqtt_decode_payload A mqtt_payload (MqttPayloadEncoding_cast b) = mqtt_payload"

definition mqtt_encode_outbound :: "'m message_api \<Rightarrow> 'm \<Rightarrow> MqttPayloadEncoding \<Rightarrow> bytes" where
  "mqtt_encode_outbound A msg encoding = mqtt_encode_payload A msg encoding"

definition mqtt_decode_inbound :: "'m message_api \<Rightarrow> bytes \<Rightarrow> MqttPayloadEncoding \<Rightarrow> 'm" where
  "mqtt_decode_inbound A pl encoding =
     (if encoding = MQTT_SOMEIP_FRAMED then
        (case deserialize A pl False (Message_default A) of
           (True, m) \<Rightarrow> m
         | (False, _) \<Rightarrow> Message_default A)
      else set_payload A (mqtt_decode_payload A pl encoding)
             (Message_ctor A (0x0000, 0x0000) (0x0000, 0x0001) (mt_REQUEST A)))"

definition build_correlation_data :: "u16 \<Rightarrow> u16 \<Rightarrow> bytes" where
  "build_correlation_data client_id session_id =
     [ucast (drop_bit 8 client_id AND 0xFF), ucast (client_id AND 0xFF),
      ucast (drop_bit 8 session_id AND 0xFF), ucast (session_id AND 0xFF)]"

definition someip_to_mqtt ::
  "'m message_api \<Rightarrow> 'm \<Rightarrow> string \<Rightarrow> string \<Rightarrow> u16 \<Rightarrow> MqttPayloadEncoding \<Rightarrow> ExternalMessage" where
  "someip_to_mqtt A msg topic_prefix vin instance_id encoding =
     (let ext = someip_to_external A msg
                  (build_topic_with_vin topic_prefix vin (get_service_id A msg) instance_id (get_method_id A msg))
      in ext\<lparr>topic_or_key :=
               build_topic_with_vin topic_prefix vin (get_service_id A msg) instance_id (get_method_id A msg),
             ext_payload := mqtt_encode_payload A msg encoding\<rparr>)"

definition select_qos :: "bool \<Rightarrow> bool \<Rightarrow> int \<Rightarrow> int \<Rightarrow> int" where
  "select_qos is_notification is_req default_event_qos default_rpc_qos =
     (let q = (if is_req \<or> \<not> is_notification then default_rpc_qos else default_event_qos);
          q1 = (if q < 0 then 0 else q)
      in if q1 > 2 then 2 else q1)"


subsection \<open>Topics\<close>

interpretation mqtt_request: topic_scheme
  "\<lambda>s i m. build_mqtt_topic tr s i m True" False
  "mqtt_topic_prefix tr @ ''/'' @ mqtt_vin tr @ ''/someip/0x''" "''/0x''" "''/method/0x''" "''/request''" for tr
  by unfold_locales (simp add: topic_simps)

interpretation mqtt_event: topic_scheme
  "\<lambda>s i m. build_mqtt_topic tr s i m False" False
  "mqtt_topic_prefix tr @ ''/'' @ mqtt_vin tr @ ''/someip/0x''" "''/0x''" "''/event/0x''" "[]" for tr
  by unfold_locales (simp add: topic_simps)

interpretation mqtt_vin_topic: topic_scheme
  "build_topic_with_vin p v" False "p @ ''/'' @ v @ ''/someip/0x''" "''/0x''" "''/0x''" "[]" for p v
  by unfold_locales (simp add: topic_simps)

lemma mqtt_request_not_event: "build_mqtt_topic tr s i m True \<noteq> build_mqtt_topic tr s' i' m' False"
  by (simp add: topic_simps)

lemma build_mqtt_topic_inject:
  "build_mqtt_topic tr s i m r = build_mqtt_topic tr s' i' m' r' \<longleftrightarrow> s = s' \<and> i = i' \<and> m = m' \<and> r = r'"
  by (cases r; cases r')
    (simp_all add: mqtt_request.build_inject mqtt_event.build_inject mqtt_request_not_event
      mqtt_request_not_event [symmetric])


subsection \<open>Sizes\<close>

lemma show_dec_length: "1 \<le> length (show_dec n)"
  by (cases "show_dec n") auto

lemma json_bytes_length: "length bs \<le> length (json_bytes bs)"
proof (induction bs rule: json_bytes.induct)
  case (2 b)
  then show ?case using show_dec_length [of "unat b"] by simp
next
  case (3 b c bs)
  then show ?case using show_dec_length [of "unat b"] by simp
qed simp

lemma payload_to_json_longer: "length (get_payload A m) < length (payload_to_json A m)"
  using json_bytes_length [of "get_payload A m"] by (simp add: payload_to_json_def json_text_def)


subsection \<open>Properties\<close>

text \<open>Under one translator the MQTT topics of two messages are equal only when service, instance and
  method agree and both are requests or both are not; request and response topics of the
  request/response scheme never coincide.\<close>

lemma mqtt_topics_distinct:
  "(build_mqtt_topic tr s i m r = build_mqtt_topic tr s' i' m' r' \<longleftrightarrow> s = s' \<and> i = i' \<and> m = m' \<and> r = r') \<and>
   build_rpc_request_topic p v s i m \<noteq> build_rpc_response_topic p v s' i' m'"
  by (simp add: build_mqtt_topic_inject) (simp add: topic_simps)

text \<open>The correlation data of a request is four bytes, big-endian, from which client and session are
  recovered; different requests have different correlation data.\<close>

lemma correlation_data_round_trip:
  "\<exists>a b c d. build_correlation_data client session = [a, b, c, d] \<and>
     of_be16 a b = client \<and> of_be16 c d = session"
  by (simp add: build_correlation_data_def of_be16_be16)

text \<open>Which encodings \<open>mqtt_decode_payload\<close> inverts: raw payloads always, and whole frames whenever the
  library reads back the frame it wrote. The JSON encoding is not inverted: decoding returns the
  envelope text itself, which is always longer than the payload it was made from.\<close>

lemma mqtt_payload_round_trip:
  assumes "framing_law A m"
  shows "mqtt_decode_payload A (mqtt_encode_payload A m MQTT_RAW) MQTT_RAW = get_payload A m \<and>
         mqtt_decode_payload A (mqtt_encode_payload A m MQTT_SOMEIP_FRAMED) MQTT_SOMEIP_FRAMED = get_payload A m \<and>
         mqtt_decode_payload A (mqtt_encode_payload A m MQTT_JSON) MQTT_JSON = payload_to_json A m \<and>
         length (payload_to_json A m) > length (get_payload A m)"
  using assms payload_to_json_longer [of A m]
  by (simp add: framing_law_def payload_to_json_envelope_def json_to_payload_def)

lemma mqtt_payload_round_trip_witness:
  "framing_law ref_api (Message_default ref_api) \<and>
   mqtt_decode_payload ref_api (mqtt_encode_payload ref_api (Message_default ref_api) MQTT_SOMEIP_FRAMED)
     MQTT_SOMEIP_FRAMED = []"
  using mqtt_payload_round_trip [OF ref_framing, of "Message_default ref_api"]
  by (simp only: ref_framing simp_thms) (simp add: ref_simps)

text \<open>\<open>select_qos\<close> always returns an MQTT quality of service (0, 1 or 2), and returns the configured
  default of the message's class unchanged when that default is one.\<close>

lemma select_qos_bounds:
  "select_qos n r e c \<in> {0, 1, 2} \<and>
   select_qos n r e c = max 0 (min 2 (if n \<and> \<not> r then e else c))"
  by (auto simp: select_qos_def Let_def)

end
