(* ===== verification/Bounded_Queue.thy ===== *)
theory Bounded_Queue
  imports Main
begin

text \<open>
  The contract of a bounded queue that makes room by dropping its oldest element. Two components
  provide it: the offline buffer of the MQTT gateway and the in-process bus of the iceoryx2 gateway.
  The abstract specification is a list of which only the newest \<open>cap\<close> elements are kept;
  \<open>push_all_contents\<close> lifts it from one insertion to a sequence. A \<open>push\<close> may fail
  (\<open>None\<close>), which the contract rules out for a queue with room for at least one element.
\<close>

definition newest :: "nat \<Rightarrow> 'a list \<Rightarrow> 'a list" where
  "newest n xs = drop (length xs - n) xs"

lemma length_newest [simp]: "length (newest n xs) = min n (length xs)"
  by (simp add: newest_def)

lemma newest_all [simp]: "length xs \<le> n \<Longrightarrow> newest n xs = xs"
  by (simp add: newest_def)

lemma newest_append: "newest n (newest n xs @ ys) = newest n (xs @ ys)"
  by (cases "length xs \<le> n") (auto simp: newest_def add.commute)

fun push_all :: "('a \<Rightarrow> 'q \<Rightarrow> 'q option) \<Rightarrow> 'a list \<Rightarrow> 'q \<Rightarrow> 'q option" where
  "push_all p [] q = Some q"
| "push_all p (x # xs) q = (case p x q of None \<Rightarrow> None | Some q1 \<Rightarrow> push_all p xs q1)"

locale drop_oldest_queue =
  fixes push :: "'a \<Rightarrow> 'q \<Rightarrow> 'q option"
    and contents :: "'q \<Rightarrow> 'a list"
    and cap :: "'q \<Rightarrow> nat"
  assumes push_spec: "0 < cap q \<Longrightarrow> length (contents q) \<le> cap q \<Longrightarrow>
    \<exists>q'. push x q = Some q' \<and> cap q' = cap q \<and> contents q' = newest (cap q) (contents q @ [x])"
begin

lemma push_all_contents:
  assumes "0 < cap q" and "length (contents q) \<le> cap q"
  shows "\<exists>q'. push_all push xs q = Some q' \<and> cap q' = cap q \<and> contents q' = newest (cap q) (contents q @ xs)"
  using assms
proof (induction xs arbitrary: q)
  case Nil
  then show ?case by simp
next
  case (Cons x xs)
  from push_spec [OF Cons.prems] obtain q1 where q1: "push x q = Some q1" "cap q1 = cap q"
    "contents q1 = newest (cap q) (contents q @ [x])" by blast
  with Cons.prems have "0 < cap q1" "length (contents q1) \<le> cap q1" by simp_all
  from Cons.IH [OF this] q1 show ?case by (auto simp: newest_append)
qed

lemma push_all_bounded:
  assumes "0 < cap q" and "length (contents q) \<le> cap q" and "push_all push xs q = Some q'"
  shows "length (contents q') \<le> cap q'"
  using push_all_contents [OF assms(1,2), of xs] assms(3) by auto

end

end
