(* ===== verification/Mqtt_Gateway.thy ===== *)
theory Mqtt_Gateway
  imports Gateway_Lifecycle Someip_Side Mqtt_Translator Bounded_Queue
begin

text \<open>
  \<open>gateway-mqtt/include/opensomeip/gateway/mqtt/mqtt_gateway.h\<close> and
  \<open>gateway-mqtt/src/mqtt_gateway.cpp\<close>: the offline buffer and the MQTT gateway. The broker client is
  not linked in this code (\<open>publish_mqtt\<close> succeeds without a call when connected), so the gateway
  makes no external call beyond the SOME/IP side.

  The functions of the buffer and of the publish path return an option: \<open>None\<close> is \<open>pop_front\<close> on an
  empty \<open>std::deque\<close> (undefined behaviour, possible with capacity 0) or a loop that does not end. The
  properties show the buffer keeps the newest publishes in order, when the message handler returns,
  what it does on every branch, and when \<open>flush_offline_buffer\<close> returns.
\<close>

subsection \<open>OfflineMqttRingBuffer\<close>

record BufferedMqttPublish =
  buf_topic :: string
  buf_payload :: bytes
  buf_qos :: int
  buf_retain :: bool

record OfflineMqttRingBuffer =
  ring_capacity :: nat
  ring_queue :: "BufferedMqttPublish list"

definition ring_new :: "nat \<Rightarrow> OfflineMqttRingBuffer" where
  "ring_new capacity = \<lparr>ring_capacity = capacity, ring_queue = []\<rparr>"

definition ring_push :: "BufferedMqttPublish \<Rightarrow> OfflineMqttRingBuffer \<Rightarrow> OfflineMqttRingBuffer option" where
  "ring_push item b =
     (if length (ring_queue b) \<ge> ring_capacity b
      then (case ring_queue b of
              [] \<Rightarrow> None
            | _ # rest \<Rightarrow> Some (b\<lparr>ring_queue := rest @ [item]\<rparr>))
      else Some (b\<lparr>ring_queue := ring_queue b @ [item]\<rparr>))"

definition ring_pop :: "OfflineMqttRingBuffer \<Rightarrow> (BufferedMqttPublish \<times> OfflineMqttRingBuffer) option" where
  "ring_pop b = (case ring_queue b of [] \<Rightarrow> None | x # rest \<Rightarrow> Some (x, b\<lparr>ring_queue := rest\<rparr>))"

definition ring_size :: "OfflineMqttRingBuffer \<Rightarrow> nat" where
  "ring_size b = length (ring_queue b)"

definition ring_clear :: "OfflineMqttRingBuffer \<Rightarrow> OfflineMqttRingBuffer" where
  "ring_clear b = b\<lparr>ring_queue := []\<rparr>"


subsection \<open>Configuration\<close>

record MqttTlsConfig =
  tls_enable :: bool
  tls_trust_store :: string
  tls_key_store :: string
  tls_private_key :: string
  tls_private_key_password :: string
  tls_enable_server_cert_auth :: bool

record MqttLastWill =
  will_enable :: bool
  will_topic :: string
  will_payload :: bytes
  will_qos :: int
  will_retain :: bool

record 'c MqttConfig =
  mc_broker_uri :: string
  mc_client_id :: string
  mc_topic_prefix :: string
  mc_vin :: string
  mc_default_someip_instance_id :: u16
  mc_mqtt_protocol_version :: int
  mc_keep_alive_seconds :: int
  mc_clean_session :: bool
  mc_connect_timeout_ms :: int
  mc_auto_reconnect :: bool
  mc_reconnect_min_delay_ms :: int
  mc_reconnect_max_delay_ms :: int
  mc_tls :: MqttTlsConfig
  mc_last_will :: MqttLastWill
  mc_default_publish_qos :: int
  mc_default_subscribe_qos :: int
  mc_qos_by_event_id :: "u16 \<rightharpoonup> int"
  mc_qos_by_method_id :: "u16 \<rightharpoonup> int"
  mc_outbound_encoding :: MqttPayloadEncoding
  mc_inbound_encoding :: MqttPayloadEncoding
  mc_offline_buffer_capacity :: nat
  mc_use_mqtt_v5_request_response :: bool
  mc_use_e2e :: bool
  mc_e2e_config :: "'c option"
  mc_flush_offline_on_connect :: bool

definition MqttConfig_default :: "'c MqttConfig" where
  "MqttConfig_default = \<lparr>
     mc_broker_uri = ''tcp://localhost:1883'', mc_client_id = ''opensomeip-mqtt-gateway'',
     mc_topic_prefix = ''vehicle'', mc_vin = ''UNKNOWN'', mc_default_someip_instance_id = 0x0001,
     mc_mqtt_protocol_version = 4, mc_keep_alive_seconds = 60, mc_clean_session = True,
     mc_connect_timeout_ms = 10000, mc_auto_reconnect = True, mc_reconnect_min_delay_ms = 1000,
     mc_reconnect_max_delay_ms = 60000,
     mc_tls = \<lparr>tls_enable = False, tls_trust_store = [], tls_key_store = [], tls_private_key = [],
               tls_private_key_password = [], tls_enable_server_cert_auth = True\<rparr>,
     mc_last_will = \<lparr>will_enable = False, will_topic = [], will_payload = [], will_qos = 0, will_retain = False\<rparr>,
     mc_default_publish_qos = 1, mc_default_subscribe_qos = 1,
     mc_qos_by_event_id = Map.empty, mc_qos_by_method_id = Map.empty,
     mc_outbound_encoding = MQTT_JSON, mc_inbound_encoding = MQTT_RAW,
     mc_offline_buffer_capacity = 256, mc_use_mqtt_v5_request_response = True,
     mc_use_e2e = False, mc_e2e_config = None, mc_flush_offline_on_connect = True\<rparr>"


subsection \<open>State and wiring\<close>

record ('m, 'c, 'x) MqttGateway = "('m, 'c, 'x) SomeipSide" +
  mq_config :: "'c MqttConfig"
  mq_translator :: MqttTranslator
  mq_offline_buffer :: OfflineMqttRingBuffer
  mq_connected :: bool
  mq_stop_reconnect :: bool
  mq_current_backoff :: int
  mq_rpc_server :: "handle option"
  mq_someip_client_id :: u16

definition MqttGateway_new :: "'c MqttConfig \<Rightarrow> ('m, 'c, 'x) MqttGateway" where
  "MqttGateway_new config = \<lparr>
     gw_name = mc_client_id config, gw_protocol = ''mqtt'', gw_running = False,
     gw_stats = GatewayStats_default, gw_service_mappings = [],
     gw_external_message_callback = False, gw_io = [],
     side_outbound_sink = False, side_rpc_client = None, side_sd_client = None, side_sd_server = None,
     side_event_publishers = Map.empty, side_event_subscriber = None, side_udp_transport = None,
     mq_config = config,
     mq_translator = \<lparr>mqtt_topic_prefix = mc_topic_prefix config, mqtt_vin = mc_vin config\<rparr>,
     mq_offline_buffer = ring_new (mc_offline_buffer_capacity config),
     mq_connected = False, mq_stop_reconnect = False,
     mq_current_backoff = mc_reconnect_min_delay_ms config,
     mq_rpc_server = None, mq_someip_client_id = 0x4200\<rparr>"

type_synonym ('m, 'c, 'x) mqtt = "('m, 'c, 'x) MqttGateway"

definition Mqtt_set_someip_outbound_sink :: "bool \<Rightarrow> ('m, 'c, 'x) mqtt \<Rightarrow> ('m, 'c, 'x) mqtt" where
  "Mqtt_set_someip_outbound_sink = side_set_someip_outbound_sink"

definition Mqtt_enable_someip_udp_bridge :: "('m, 'c, 'x) env \<Rightarrow> ('m, 'c, 'x) mqtt \<Rightarrow> ('m, 'c, 'x) mqtt" where
  "Mqtt_enable_someip_udp_bridge = side_enable_someip_udp_bridge"

definition Mqtt_attach_rpc_client :: "handle option \<Rightarrow> ('m, 'c, 'x) mqtt \<Rightarrow> ('m, 'c, 'x) mqtt" where
  "Mqtt_attach_rpc_client = side_attach_rpc_client"

definition Mqtt_attach_rpc_server :: "handle option \<Rightarrow> ('m, 'c, 'x) mqtt \<Rightarrow> ('m, 'c, 'x) mqtt" where
  "Mqtt_attach_rpc_server server g = g\<lparr>mq_rpc_server := server\<rparr>"

definition Mqtt_attach_sd_client :: "handle option \<Rightarrow> ('m, 'c, 'x) mqtt \<Rightarrow> ('m, 'c, 'x) mqtt" where
  "Mqtt_attach_sd_client = side_attach_sd_client"

definition Mqtt_attach_sd_server :: "handle option \<Rightarrow> ('m, 'c, 'x) mqtt \<Rightarrow> ('m, 'c, 'x) mqtt" where
  "Mqtt_attach_sd_server = side_attach_sd_server"

definition Mqtt_register_event_publisher ::
  "u16 \<Rightarrow> u16 \<Rightarrow> handle option \<Rightarrow> ('m, 'c, 'x) mqtt \<Rightarrow> bool \<times> ('m, 'c, 'x) mqtt" where
  "Mqtt_register_event_publisher = side_register_event_publisher"

definition Mqtt_subscribe_someip_eventgroup ::
  "('m, 'c, 'x) env \<Rightarrow> u16 \<Rightarrow> u16 \<Rightarrow> u16 \<Rightarrow> ('m, 'c, 'x) mqtt \<Rightarrow> bool \<times> ('m, 'c, 'x) mqtt" where
  "Mqtt_subscribe_someip_eventgroup E service_id instance_id eventgroup_id g =
     side_subscribe_someip_eventgroup E (mq_someip_client_id g) service_id instance_id eventgroup_id g"


subsection \<open>Life cycle\<close>

definition Mqtt_started :: "('m, 'c, 'x) env \<Rightarrow> ('m, 'c, 'x) mqtt \<Rightarrow> ('m, 'c, 'x) mqtt" where
  "Mqtt_started E g =
     (let g1 = call_on SdClient_initialize (side_sd_client g) g;
          g2 = call_on SdServer_initialize (side_sd_server g1) g1
      in set_running E True
           (g2\<lparr>mq_connected := False, mq_stop_reconnect := False,
               mq_current_backoff := mc_reconnect_min_delay_ms (mq_config g2)\<rparr>))"

definition Mqtt_start :: "('m, 'c, 'x) env \<Rightarrow> ('m, 'c, 'x) mqtt \<Rightarrow> Result \<times> ('m, 'c, 'x) mqtt" where
  "Mqtt_start E g =
     (case side_udp_transport g of
        Some h \<Rightarrow>
          (let r = answer_result E (gw_io g) (Udp_start h); g1 = call (Udp_start h) g
           in if r \<noteq> SUCCESS then (r, g1) else (SUCCESS, Mqtt_started E g1))
      | None \<Rightarrow> (SUCCESS, Mqtt_started E g))"

definition Mqtt_stop :: "('m, 'c, 'x) env \<Rightarrow> ('m, 'c, 'x) mqtt \<Rightarrow> Result \<times> ('m, 'c, 'x) mqtt" where
  "Mqtt_stop E g =
     (let g1 = g\<lparr>mq_stop_reconnect := True\<rparr>;
          g2 = call_on EventSubscriber_shutdown (side_event_subscriber g1) g1;
          g3 = call_on RpcClient_shutdown (side_rpc_client g2) g2;
          g4 = call_on RpcServer_shutdown (mq_rpc_server g3) g3;
          g5 = call_on SdClient_shutdown (side_sd_client g4) g4;
          g6 = call_on SdServer_shutdown (side_sd_server g5) g5;
          g7 = call_on Udp_stop (side_udp_transport g6) g6
      in (SUCCESS, set_running E False g7))"

definition Mqtt_destroy :: "('m, 'c, 'x) env \<Rightarrow> ('m, 'c, 'x) mqtt \<Rightarrow> ('m, 'c, 'x) mqtt" where
  "Mqtt_destroy E g = (if is_running g then snd (Mqtt_stop E g) else g)"


subsection \<open>Outbound path\<close>

definition route_someip_to_mqtt_topic ::
  "'m message_api \<Rightarrow> 'm \<Rightarrow> ServiceMapping \<Rightarrow> ('m, 'c, 'x) mqtt \<Rightarrow> string" where
  "route_someip_to_mqtt_topic A msg mapping g =
     build_mqtt_topic (mq_translator g) (someip_service_id mapping) (someip_instance_id mapping)
       (get_method_id A msg) (is_request A msg)"

definition qos_for_outbound_event :: "u16 \<Rightarrow> ('m, 'c, 'x) mqtt \<Rightarrow> int" where
  "qos_for_outbound_event event_id g =
     (case mc_qos_by_event_id (mq_config g) event_id of
        Some q \<Rightarrow> q
      | None \<Rightarrow> mc_default_publish_qos (mq_config g))"

definition qos_for_outbound_rpc :: "u16 \<Rightarrow> ('m, 'c, 'x) mqtt \<Rightarrow> int" where
  "qos_for_outbound_rpc method_id g =
     (case mc_qos_by_method_id (mq_config g) method_id of Some q \<Rightarrow> q | None \<Rightarrow> 1)"

definition publish_mqtt ::
  "string \<Rightarrow> bytes \<Rightarrow> int \<Rightarrow> bool \<Rightarrow> string \<Rightarrow> bytes \<Rightarrow> ('m, 'c, 'x) mqtt \<Rightarrow> (Result \<times> ('m, 'c, 'x) mqtt) option" where
  "publish_mqtt topic pl qos retain response_topic correlation_data g =
     (if \<not> mq_connected g
      then (case ring_push \<lparr>buf_topic = topic, buf_payload = pl, buf_qos = qos, buf_retain = retain\<rparr>
                   (mq_offline_buffer g) of
              None \<Rightarrow> None
            | Some b \<Rightarrow> Some (NOT_CONNECTED, g\<lparr>mq_offline_buffer := b\<rparr>))
      else Some (SUCCESS, g))"

text \<open>The check of \<open>e2e_.validate\<close> when end-to-end protection is configured.\<close>

definition Mqtt_e2e_validate ::
  "('m, 'c, 'x) env \<Rightarrow> 'm \<Rightarrow> ('m, 'c, 'x) mqtt \<Rightarrow> Result \<times> ('m, 'c, 'x) mqtt" where
  "Mqtt_e2e_validate E msg g =
     side_e2e_validate E (mc_use_e2e (mq_config g)) (mc_e2e_config (mq_config g)) msg g"

definition Mqtt_on_someip_message ::
  "'m message_api \<Rightarrow> ('m, 'c, 'x) env \<Rightarrow> 'm \<Rightarrow> ('m, 'c, 'x) mqtt \<Rightarrow> (Result \<times> ('m, 'c, 'x) mqtt) option" where
  "Mqtt_on_someip_message A E msg g =
     (if \<not> is_running g then Some (NOT_INITIALIZED, g)
      else case find_inbound_mapping (get_service_id A msg) (mc_default_someip_instance_id (mq_config g)) g of
        None \<Rightarrow> Some (SERVICE_NOT_FOUND, g)
      | Some mapping \<Rightarrow>
          if \<not> should_forward_to_external mapping then Some (SUCCESS, g)
          else (let (vr, g1) = Mqtt_e2e_validate E msg g in
            if vr \<noteq> SUCCESS then Some (vr, record_translation_error g1)
            else (let topic = route_someip_to_mqtt_topic A msg mapping g1;
                      pl = mqtt_encode_outbound A msg (mc_outbound_encoding (mq_config g1));
                      qos = (if is_request A msg then qos_for_outbound_rpc (get_method_id A msg) g1
                             else qos_for_outbound_event (get_method_id A msg) g1);
                      rr = is_request A msg \<and> mc_use_mqtt_v5_request_response (mq_config g1);
                      response_topic = (if rr then topic @ ''/response'' else []);
                      correlation_data = (if rr then build_correlation_data (get_client_id A msg) (get_session_id A msg)
                                          else [])
                  in case publish_mqtt topic pl qos False response_topic correlation_data g1 of
                       None \<Rightarrow> None
                     | Some (result, g2) \<Rightarrow>
                         Some (result, if result = SUCCESS then record_someip_to_external (length pl) g2 else g2))))"

text \<open>The callback of \<open>subscribe_someip_eventgroup\<close>.\<close>

definition Mqtt_on_event_notification ::
  "'m message_api \<Rightarrow> ('m, 'c, 'x) env \<Rightarrow> EventNotification \<Rightarrow> ('m, 'c, 'x) mqtt \<Rightarrow> ('m, 'c, 'x) mqtt option" where
  "Mqtt_on_event_notification A E n g =
     map_option snd (Mqtt_on_someip_message A E (notification_message A n) g)"

definition offline_buffer_occupancy :: "('m, 'c, 'x) mqtt \<Rightarrow> nat" where
  "offline_buffer_occupancy g = ring_size (mq_offline_buffer g)"

partial_function (option) flush_offline_buffer :: "('m, 'c, 'x) mqtt \<Rightarrow> (Result \<times> ('m, 'c, 'x) mqtt) option" where
  "flush_offline_buffer g =
     (case ring_pop (mq_offline_buffer g) of
        None \<Rightarrow> Some (SUCCESS, g)
      | Some (item, b) \<Rightarrow>
          Option.bind
            (publish_mqtt (buf_topic item) (buf_payload item) (buf_qos item) (buf_retain item) [] []
               (g\<lparr>mq_offline_buffer := b\<rparr>))
            (\<lambda>rg. flush_offline_buffer (snd rg)))"

definition test_set_mqtt_connected :: "bool \<Rightarrow> ('m, 'c, 'x) mqtt \<Rightarrow> ('m, 'c, 'x) mqtt" where
  "test_set_mqtt_connected connected g = g\<lparr>mq_connected := connected\<rparr>"


subsection \<open>Inbound path\<close>

definition handle_inbound_mqtt_command ::
  "'m message_api \<Rightarrow> string \<Rightarrow> bytes \<Rightarrow> ('m, 'c, 'x) mqtt \<Rightarrow> ('m, 'c, 'x) mqtt" where
  "handle_inbound_mqtt_command A topic body g =
     (let msg = mqtt_decode_inbound A body (mc_inbound_encoding (mq_config g)) in
      if \<not> is_valid A msg then record_translation_error g
      else emit_to_sink msg (record_external_to_someip (length body) g))"

definition find_mapping_by_topic_prefix :: "string \<Rightarrow> ('m, 'c, 'x) mqtt \<Rightarrow> ServiceMapping option" where
  "find_mapping_by_topic_prefix topic g =
     find_mapping_if (\<lambda>m. str_find (external_identifier m) topic \<noteq> None) g"


subsection \<open>The offline buffer is a queue that drops its oldest element\<close>

lemma ring_push_spec:
  assumes "0 < ring_capacity b" and "length (ring_queue b) \<le> ring_capacity b"
  shows "ring_push item b = Some (b\<lparr>ring_queue := newest (ring_capacity b) (ring_queue b @ [item])\<rparr>)"
proof (cases "length (ring_queue b) < ring_capacity b")
  case True
  then show ?thesis by (simp add: ring_push_def)
next
  case False
  with assms obtain x rest where q: "ring_queue b = x # rest" "ring_capacity b = Suc (length rest)"
    by (cases "ring_queue b") auto
  then show ?thesis by (simp add: ring_push_def newest_def)
qed

interpretation mqtt_ring: drop_oldest_queue ring_push ring_queue ring_capacity
  by unfold_locales (simp add: ring_push_spec)


subsection \<open>The message handler\<close>

definition buffer_ok :: "('m, 'c, 'x, 'z) MqttGateway_scheme \<Rightarrow> bool" where
  "buffer_ok g \<longleftrightarrow> 0 < ring_capacity (mq_offline_buffer g) \<and>
     length (ring_queue (mq_offline_buffer g)) \<le> ring_capacity (mq_offline_buffer g)"

lemma buffer_ok_update [simp]:
  "buffer_ok (g\<lparr>gw_stats := st\<rparr>) = buffer_ok g" "buffer_ok (g\<lparr>gw_io := h\<rparr>) = buffer_ok g"
  "buffer_ok (g\<lparr>gw_running := r\<rparr>) = buffer_ok g"
  by (simp_all add: buffer_ok_def)

lemma Mqtt_e2e_validate_frame:
  "Mqtt_e2e_validate E msg g = (r, g1) \<Longrightarrow> \<exists>h. g1 = g\<lparr>gw_io := h\<rparr>"
  unfolding Mqtt_e2e_validate_def by (rule side_e2e_frame)

lemma publish_mqtt_cases:
  assumes "publish_mqtt topic pl qos retain rt cd g = Some (r, g')"
  shows "(r = SUCCESS \<and> mq_connected g \<and> g' = g) \<or>
         (r = NOT_CONNECTED \<and> \<not> mq_connected g \<and> (\<exists>b. g' = g\<lparr>mq_offline_buffer := b\<rparr>))"
  using assms by (auto simp: publish_mqtt_def split: if_splits option.splits)

lemma publish_mqtt_returns:
  assumes "buffer_ok g"
  shows "\<exists>r g'. publish_mqtt topic pl qos retain rt cd g = Some (r, g') \<and> buffer_ok g'"
  using assms by (auto simp: publish_mqtt_def buffer_ok_def ring_push_spec)

lemma Mqtt_forward_step:
  assumes "Mqtt_on_someip_message A E msg g = Some (r, g')"
  shows "forward_step (get_service_id A msg) g r g'"
proof (cases "find_inbound_mapping (get_service_id A msg) (mc_default_someip_instance_id (mq_config g)) g")
  case None
  with assms have "g' = g" by (auto simp: Mqtt_on_someip_message_def split: if_splits)
  then show ?thesis by (simp add: forward_step.dropped)
next
  case (Some mapping)
  obtain vr g1 where v: "Mqtt_e2e_validate E msg g = (vr, g1)" by fastforce
  from Mqtt_e2e_validate_frame [OF v] obtain h where g1: "g1 = g\<lparr>gw_io := h\<rparr>" ..
  consider (drop) "g' = g"
    | (err) "vr \<noteq> SUCCESS" "r = vr" "g' = record_translation_error g1"
    | (pub) n topic pl qos rt cd g2 where "should_forward_to_external mapping"
        "publish_mqtt topic pl qos False rt cd g1 = Some (r, g2)"
        "g' = (if r = SUCCESS then record_someip_to_external n g2 else g2)"
    using assms Some v
    by (auto simp: Mqtt_on_someip_message_def Let_def split: if_splits option.splits prod.splits)
  then show ?thesis
  proof cases
    case drop
    then show ?thesis by simp
  next
    case err
    then show ?thesis by (simp add: forward_error g1 same_base_def)
  next
    case pub
    with publish_mqtt_cases [OF pub(2)] show ?thesis
      by (auto simp: g1 same_base_def intro: forward_recorded [OF Some pub(1)] forward_step.dropped)
  qed
qed

lemma Mqtt_on_someip_message_returns:
  assumes "buffer_ok g"
  shows "\<exists>r g'. Mqtt_on_someip_message A E msg g = Some (r, g') \<and> buffer_ok g'"
proof -
  obtain vr g1 where v: "Mqtt_e2e_validate E msg g = (vr, g1)" by fastforce
  from Mqtt_e2e_validate_frame [OF v] assms have ok: "buffer_ok g1" by auto
  have fin: "\<exists>r g'. (case publish_mqtt topic pl qos False rt cd g1 of
               None \<Rightarrow> None
             | Some (result, g2) \<Rightarrow>
                 Some (result, if result = SUCCESS then record_someip_to_external (length pl) g2 else g2)) = Some (r, g')
             \<and> buffer_ok g'" for topic pl qos rt cd
    using publish_mqtt_returns [OF ok, of topic pl qos False rt cd]
    by (auto simp: record_someip_to_external_def)
  show ?thesis using assms ok v
    by (auto simp: Mqtt_on_someip_message_def Let_def record_translation_error_def fin split: option.split)
qed

interpretation mqtt: guarded_forwarder "Mqtt_on_someip_message A E" "get_service_id A" for A E
  by unfold_locales (auto simp: Mqtt_forward_step Mqtt_on_someip_message_def is_running_def)

interpretation mqtt_total: total_forwarder "Mqtt_on_someip_message A E" "get_service_id A" buffer_ok for A E
  by unfold_locales (rule Mqtt_on_someip_message_returns)


subsection \<open>What an unconnected gateway buffers\<close>

text \<open>The result of a message while the broker is not connected, and the publish it leaves behind.\<close>

definition offline_result :: "'m message_api \<Rightarrow> ('m, 'c, 'x) mqtt \<Rightarrow> 'm \<Rightarrow> Result" where
  "offline_result A g msg =
     (case find_inbound_mapping (get_service_id A msg) (mc_default_someip_instance_id (mq_config g)) g of
        None \<Rightarrow> SERVICE_NOT_FOUND
      | Some mapping \<Rightarrow> if should_forward_to_external mapping then NOT_CONNECTED else SUCCESS)"

definition offline_item :: "'m message_api \<Rightarrow> ('m, 'c, 'x) mqtt \<Rightarrow> 'm \<Rightarrow> BufferedMqttPublish option" where
  "offline_item A g msg =
     (case find_inbound_mapping (get_service_id A msg) (mc_default_someip_instance_id (mq_config g)) g of
        None \<Rightarrow> None
      | Some mapping \<Rightarrow>
          if should_forward_to_external mapping
          then Some \<lparr>buf_topic = route_someip_to_mqtt_topic A msg mapping g,
                     buf_payload = mqtt_encode_outbound A msg (mc_outbound_encoding (mq_config g)),
                     buf_qos = (if is_request A msg then qos_for_outbound_rpc (get_method_id A msg) g
                                else qos_for_outbound_event (get_method_id A msg) g),
                     buf_retain = False\<rparr>
          else None)"

definition with_queue :: "BufferedMqttPublish list \<Rightarrow> ('m, 'c, 'x) mqtt \<Rightarrow> ('m, 'c, 'x) mqtt" where
  "with_queue q g = g\<lparr>mq_offline_buffer := (mq_offline_buffer g)\<lparr>ring_queue := q\<rparr>\<rparr>"

lemma with_queue_simps [simp]:
  "with_queue q (with_queue q' g) = with_queue q g"
  "offline_result A (with_queue q g) = offline_result A g"
  "offline_item A (with_queue q g) = offline_item A g"
  "mq_config (with_queue q g) = mq_config g" "gw_running (with_queue q g) = gw_running g"
  "mq_connected (with_queue q g) = mq_connected g"
  "ring_queue (mq_offline_buffer (with_queue q g)) = q"
  "ring_capacity (mq_offline_buffer (with_queue q g)) = ring_capacity (mq_offline_buffer g)"
  by (auto simp: with_queue_def offline_result_def offline_item_def find_inbound_mapping_def
      find_mapping_for_service_def route_someip_to_mqtt_topic_def qos_for_outbound_rpc_def
      qos_for_outbound_event_def fun_eq_iff split: option.split)

lemma with_queue_self: "with_queue (ring_queue (mq_offline_buffer g)) g = g"
  by (simp add: with_queue_def)

lemma offline_step:
  assumes "buffer_ok g" "gw_running g" "\<not> mq_connected g" "\<not> mc_use_e2e (mq_config g)"
  shows "Mqtt_on_someip_message A E msg g =
    Some (offline_result A g msg,
          with_queue (newest (ring_capacity (mq_offline_buffer g))
            (ring_queue (mq_offline_buffer g) @ List.map_filter (offline_item A g) [msg])) g)"
proof -
  have v: "Mqtt_e2e_validate E msg g = (SUCCESS, g)"
    using assms(4) by (simp add: Mqtt_e2e_validate_def side_e2e_off)
  show ?thesis using assms
    by (auto simp: Mqtt_on_someip_message_def is_running_def offline_result_def offline_item_def Let_def v
        publish_mqtt_def buffer_ok_def ring_push_spec with_queue_def List.map_filter_simps split: option.split)
qed

lemma buffer_ok_with_queue [simp]:
  "buffer_ok g \<Longrightarrow> buffer_ok (with_queue (newest (ring_capacity (mq_offline_buffer g)) q) g)"
  by (simp add: buffer_ok_def)

lemma offline_all:
  assumes "buffer_ok g" "gw_running g" "\<not> mq_connected g" "\<not> mc_use_e2e (mq_config g)"
  shows "deliver_all (Mqtt_on_someip_message A E) ms g =
    Some (map (offline_result A g) ms,
          with_queue (newest (ring_capacity (mq_offline_buffer g))
            (ring_queue (mq_offline_buffer g) @ List.map_filter (offline_item A g) ms)) g)"
  using assms
proof (induction ms arbitrary: g)
  case Nil
  then show ?case by (simp add: List.map_filter_simps buffer_ok_def with_queue_self)
next
  case (Cons m ms)
  have "List.map_filter (offline_item A g) (m # ms) =
      List.map_filter (offline_item A g) [m] @ List.map_filter (offline_item A g) ms"
    by (simp add: List.map_filter_def)
  with Cons show ?case by (simp add: offline_step newest_append del: List.map_filter_simps)
qed


subsection \<open>Draining the buffer\<close>

lemma flush_connected:
  assumes "mq_connected g"
  shows "flush_offline_buffer g = Some (SUCCESS, with_queue [] g)"
  using assms
proof (induction "ring_queue (mq_offline_buffer g)" arbitrary: g)
  case Nil
  then show ?case
    by (subst flush_offline_buffer.simps) (metis (no_types, lifting) list.simps(4) option.simps(4) ring_pop_def with_queue_self)
next
  case (Cons x q)
  let ?g = "g\<lparr>mq_offline_buffer := (mq_offline_buffer g)\<lparr>ring_queue := q\<rparr>\<rparr>"
  have "flush_offline_buffer ?g = Some (SUCCESS, with_queue [] ?g)"
    using Cons.prems by (intro Cons.hyps(1)) simp_all
  then show ?case using Cons.prems Cons.hyps(2) [symmetric]
    by (subst flush_offline_buffer.simps) (simp add: ring_pop_def publish_mqtt_def with_queue_def)
qed

lemma flush_disconnected_never_returns:
  assumes "flush_offline_buffer g = Some rg"
  shows "buffer_ok g \<longrightarrow> \<not> mq_connected g \<longrightarrow> ring_queue (mq_offline_buffer g) = []"
proof (rule flush_offline_buffer.raw_induct [OF _ assms], goal_cases)
  case 1: (1 f g y)
  show ?case
  proof (rule ccontr)
    assume "\<not> ?thesis"
    then obtain x q where ok: "buffer_ok g" "\<not> mq_connected g" and q: "ring_queue (mq_offline_buffer g) = x # q"
      by (auto simp: neq_Nil_conv)
    then have room: "length q < ring_capacity (mq_offline_buffer g)" by (simp add: buffer_ok_def)
    have "f (with_queue (q @ [x]) g) = Some y"
      using 1(2) ok q room
      by (cases x) (simp add: ring_pop_def publish_mqtt_def ring_push_def with_queue_def)
    from 1(1) [OF this] ok room show False by (simp add: buffer_ok_def)
  qed
qed


text \<open>A running, unconnected gateway with one mapping and a buffer of two, for the witnesses.\<close>

definition sample_mqtt :: "(ref_message, unit, unit) mqtt" where
  "sample_mqtt =
     (add_service_mapping
        \<lparr>someip_service_id = 0x1234, someip_instance_id = 1, someip_method_ids = [], someip_event_group_ids = [],
         external_identifier = ''speed'', direction = SOMEIP_TO_EXTERNAL, mode = OPAQUE\<rparr>
        (MqttGateway_new (MqttConfig_default\<lparr>mc_offline_buffer_capacity := 2, mc_outbound_encoding := MQTT_RAW\<rparr>)))
     \<lparr>gw_running := True\<rparr>"

definition sample_message :: "u16 \<Rightarrow> u8 \<Rightarrow> bytes \<Rightarrow> ref_message" where
  "sample_message sid t p = \<lparr>ref_service = sid, ref_method = 0x8001, ref_client = 1, ref_session = 2,
     ref_type = t, ref_return = 0, ref_payload = p\<rparr>"

lemma sample_mqtt_simps [simp]:
  "buffer_ok sample_mqtt" "gw_running sample_mqtt" "\<not> mq_connected sample_mqtt"
  "\<not> mc_use_e2e (mq_config sample_mqtt)" "mq_offline_buffer sample_mqtt = ring_new 2"
  by (simp_all add: sample_mqtt_def MqttGateway_new_def MqttConfig_default_def add_service_mapping_def
      buffer_ok_def ring_new_def)

lemma sample_mqtt_offline:
  "offline_result ref_api sample_mqtt (sample_message 0x1234 2 p) = NOT_CONNECTED"
  "offline_result ref_api sample_mqtt (sample_message 0x9999 2 p) = SERVICE_NOT_FOUND"
  "map_option buf_payload (offline_item ref_api sample_mqtt (sample_message 0x1234 2 p)) =
Some p"
  "offline_item ref_api sample_mqtt (sample_message 0x9999 2 p) = None"
  by (simp_all add: sample_mqtt_def sample_message_def offline_result_def offline_item_def
      find_inbound_mapping_def find_mapping_for_service_def MqttGateway_new_def MqttConfig_default_def
      add_service_mapping_def should_forward_to_external_def ref_simps mqtt_encode_outbound_def)


subsection \<open>Properties\<close>

text \<open>C1: While the broker is not connected, a sequence of SOME/IP messages is handled completely: every
  call returns, the results are the ones of the individual messages (\<open>SERVICE_NOT_FOUND\<close> without a
  mapping, \<open>SUCCESS\<close> for an inbound-only mapping, \<open>NOT_CONNECTED\<close> otherwise), the offline buffer holds
  the newest \<open>capacity\<close> publishes in arrival order, with topic, payload and QoS computed from the
  configuration, and nothing else of the gateway changes.\<close>

theorem mqtt_offline_traffic_buffered:
  assumes "buffer_ok g" and "gw_running g" and "\<not> mq_connected g" and "\<not> mc_use_e2e (mq_config g)"
  shows "deliver_all (Mqtt_on_someip_message A E) ms g =
    Some (map (offline_result A g) ms,
          with_queue (newest (ring_capacity (mq_offline_buffer g))
            (ring_queue (mq_offline_buffer g) @ List.map_filter (offline_item A g) ms)) g)"
  by (rule offline_all [OF assms])

theorem mqtt_offline_traffic_buffered_witness:
  "\<exists>g'. deliver_all (Mqtt_on_someip_message ref_api ref_env)
           [sample_message 0x1234 2 [1], sample_message 0x9999 2 [7], sample_message 0x1234 2 [2],
            sample_message 0x1234 2 [3]] sample_mqtt =
         Some ([NOT_CONNECTED, SERVICE_NOT_FOUND, NOT_CONNECTED, NOT_CONNECTED], g') \<and>
         map buf_payload (ring_queue (mq_offline_buffer g')) = [[2], [3]]"
proof -
  from sample_mqtt_offline(3) obtain i where
    i: "\<And>p. offline_item ref_api sample_mqtt (sample_message 0x1234 2 p) = Some (i p)"
       "\<And>p. buf_payload (i p) = p"
    unfolding map_option_eq_Some by metis
  show ?thesis
    by (subst mqtt_offline_traffic_buffered)
      (simp_all add: sample_mqtt_offline i List.map_filter_simps ring_new_def newest_def)
qed

text \<open>The offline buffer keeps the newest publishes: after pushing a list of items into a buffer with
  room for at least one, the queue is the newest \<open>capacity\<close> elements of the old queue followed by
  the items, in order. A buffer of capacity 0 fails on the first push.\<close>

lemma offline_buffer_keeps_newest:
  "(0 < n \<longrightarrow> push_all ring_push items (ring_new n) = Some \<lparr>ring_capacity = n, ring_queue = newest n items\<rparr>) \<and>
   ring_push item (ring_new 0) = None"
proof -
  have "\<exists>b. push_all ring_push items (ring_new n) = Some b \<and> ring_capacity b = n \<and> ring_queue b = newest n items"
    if "0 < n"
    using mqtt_ring.push_all_contents [of "ring_new n" items] that by (simp add: ring_new_def)
  then show ?thesis by (auto simp: ring_push_def ring_new_def intro: OfflineMqttRingBuffer.equality)
qed

lemma offline_buffer_keeps_newest_witness:
  "push_all ring_push
     [\<lparr>buf_topic = ''a'', buf_payload = [1], buf_qos = 0, buf_retain = False\<rparr>,
      \<lparr>buf_topic = ''b'', buf_payload = [2], buf_qos = 0, buf_retain = False\<rparr>,
      \<lparr>buf_topic = ''c'', buf_payload = [3], buf_qos = 0, buf_retain = False\<rparr>] (ring_new 2) =
   Some \<lparr>ring_capacity = 2, ring_queue =
     [\<lparr>buf_topic = ''b'', buf_payload = [2], buf_qos = 0, buf_retain = False\<rparr>,
      \<lparr>buf_topic = ''c'', buf_payload = [3], buf_qos = 0, buf_retain = False\<rparr>]\<rparr>"
  by (rule trans [OF offline_buffer_keeps_newest [THEN conjunct1, THEN mp]]) (simp_all add: newest_def)

text \<open>C12: \<open>flush_offline_buffer\<close> returns exactly when the broker is connected or the buffer is empty;
  then it reports \<open>SUCCESS\<close> and the buffer is empty. Unconnected with a non-empty buffer the loop
  pushes back what it pops and never ends (\<open>None\<close>).\<close>

theorem flush_returns_iff:
  assumes "buffer_ok g"
  shows "flush_offline_buffer g =
    (if mq_connected g \<or> ring_queue (mq_offline_buffer g) = [] then Some (SUCCESS, with_queue [] g) else None)"
proof (cases "flush_offline_buffer g")
  case None
  have "ring_queue (mq_offline_buffer g) \<noteq> []"
    using None by (auto simp: flush_offline_buffer.simps ring_pop_def split: list.splits)
  then show ?thesis using None flush_connected [of g] by auto
next
  case (Some rg)
  from flush_disconnected_never_returns [OF this] assms
  have c: "mq_connected g \<or> ring_queue (mq_offline_buffer g) = []" by blast
  have "flush_offline_buffer g = Some (SUCCESS, with_queue [] g)" if "ring_queue (mq_offline_buffer g) = []"
    using that with_queue_self [of g] by (subst flush_offline_buffer.simps) (simp add: ring_pop_def)
  with c flush_connected show ?thesis by auto
qed

theorem flush_returns_iff_witness:
  "flush_offline_buffer sample_mqtt = Some (SUCCESS, with_queue [] sample_mqtt) \<and>
   flush_offline_buffer
     (with_queue [\<lparr>buf_topic = ''a'', buf_payload = [1], buf_qos = 0, buf_retain = False\<rparr>] sample_mqtt) = None"
  by (subst (1 2) flush_returns_iff) (simp_all add: ring_new_def buffer_ok_def)

text \<open>Accounting over any sequence of messages to a gateway whose buffer has room for an element:
  every call returns, the number of forwarded messages recorded is at most the number of \<open>SUCCESS\<close>
  results, errors and successes together are at most the number of messages, the inbound counters
  and the mappings do not change, and nothing is counted as forwarded when no mapping permits it.\<close>

lemma mqtt_messages_accounted:
  assumes "buffer_ok g"
  shows "\<exists>rs g' k e. deliver_all (Mqtt_on_someip_message A E) ms g = Some (rs, g') \<and> length rs = length ms \<and>
    messages_someip_to_external (gw_stats g') = messages_someip_to_external (gw_stats g) + word_of_nat k \<and>
    translation_errors (gw_stats g') = translation_errors (gw_stats g) + word_of_nat e \<and>
    k \<le> count_list rs SUCCESS \<and> e + count_list rs SUCCESS \<le> length ms \<and>
    messages_external_to_someip (gw_stats g') = messages_external_to_someip (gw_stats g) \<and>
    gw_service_mappings g' = gw_service_mappings g \<and>
    ((\<exists>m \<in> set ms. permits_service g (get_service_id A m)) \<or>
     messages_someip_to_external (gw_stats g') = messages_someip_to_external (gw_stats g))"
proof -
  obtain rs g' where d: "deliver_all (Mqtt_on_someip_message A E) ms g = Some (rs, g')" "length rs = length ms"
    using mqtt_total.all_returns [OF assms] by blast
  from mqtt.all_accounted [OF d(1)] mqtt.all_same_base [OF d(1)] mqtt.none_permitted [OF d(1)] d
  show ?thesis unfolding same_base_def by blast
qed

lemma mqtt_messages_accounted_witness:
  "\<exists>rs g'. deliver_all (Mqtt_on_someip_message ref_api ref_env) [sample_message 0x1234 2 [1]] sample_mqtt =
     Some (rs, g') \<and> length rs = 1 \<and> gw_service_mappings g' = gw_service_mappings sample_mqtt"
  using mqtt_messages_accounted [OF sample_mqtt_simps(1), of ref_api ref_env "[sample_message 0x1234 2 [1]]"]
  by auto

text \<open>Life cycle. \<open>start\<close> returns the error of the UDP transport when starting it fails, and then
  only that call was made; otherwise the gateway runs, is unconnected, and the attached service
  discovery objects were initialized. \<open>stop\<close> shuts down every attached object in the order of the
  code, leaves the gateway stopped, and every message after it is refused without effect.\<close>

lemma mqtt_lifecycle:
  "(case Mqtt_start E g of (r, g') \<Rightarrow>
      if r = SUCCESS
      then is_running g' \<and> \<not> mq_connected g' \<and> \<not> mq_stop_reconnect g' \<and>
           gw_io g' = gw_io g @ calls_on Udp_start (side_udp_transport g) @
             calls_on SdClient_initialize (side_sd_client g) @
             calls_on SdServer_initialize (side_sd_server g) @ [Clock_now]
      else g' = call_on Udp_start (side_udp_transport g) g) \<and>
   (case Mqtt_stop E g of (r, g') \<Rightarrow>
      r = SUCCESS \<and> \<not> is_running g' \<and> mq_stop_reconnect g' \<and>
      gw_io g' = gw_io g @ calls_on EventSubscriber_shutdown (side_event_subscriber g) @
        calls_on RpcClient_shutdown (side_rpc_client g) @ calls_on RpcServer_shutdown (mq_rpc_server g) @
        calls_on SdClient_shutdown (side_sd_client g) @ calls_on SdServer_shutdown (side_sd_server g) @
        calls_on Udp_stop (side_udp_transport g) \<and>
      (\<exists>rs. deliver_all (Mqtt_on_someip_message A E) ms g' = Some (rs, g') \<and> SUCCESS \<notin> set rs))"
proof -
  have start: "case Mqtt_start E g of (r, g') \<Rightarrow>
      if r = SUCCESS
      then is_running g' \<and> \<not> mq_connected g' \<and> \<not> mq_stop_reconnect g' \<and>
           gw_io g' = gw_io g @ calls_on Udp_start (side_udp_transport g) @
             calls_on SdClient_initialize (side_sd_client g) @
             calls_on SdServer_initialize (side_sd_server g) @ [Clock_now]
      else g' = call_on Udp_start (side_udp_transport g) g"
    by (auto simp: Mqtt_start_def Mqtt_started_def set_running_def is_running_def Let_def call_on_eq
        call_def calls_on_def split: option.split)
  have stop: "Mqtt_stop E g = (SUCCESS, g\<lparr>mq_stop_reconnect := True, gw_running := False,
     gw_io := gw_io g @ calls_on EventSubscriber_shutdown (side_event_subscriber g) @
        calls_on RpcClient_shutdown (side_rpc_client g) @ calls_on RpcServer_shutdown (mq_rpc_server g) @
        calls_on SdClient_shutdown (side_sd_client g) @ calls_on SdServer_shutdown (side_sd_server g) @
        calls_on Udp_stop (side_udp_transport g)\<rparr>)"
    by (simp add: Mqtt_stop_def set_running_def Let_def call_on_eq)
  show ?thesis
    by (intro conjI start) (simp add: stop is_running_def mqtt.all_stopped)
qed


subsection \<open>The life cycle\<close>

interpretation mqtt_life: total_life_cycle True "\<lambda>g. Some (Mqtt_start E g)" "\<lambda>g. Some (Mqtt_stop E g)"
  "Mqtt_on_someip_message A E" buffer_ok for A E
proof
  show "gw_running g' = (r = SUCCESS \<or> gw_running g)" if "Some (Mqtt_start E g) = Some (r, g')" for g r g'
    using that by (auto simp: Mqtt_start_def Mqtt_started_def set_running_def Let_def call_on_eq call_def split: option.splits if_splits)
  show "r = SUCCESS \<and> \<not> gw_running g'" if "Some (Mqtt_stop E g) = Some (r, g')" for g r g'
    using that by (auto simp: Mqtt_stop_def set_running_def Let_def)
  show "gw_running g' = gw_running g" if "Mqtt_on_someip_message A E m g = Some (r, g')" for m g r g'
    using forward_step_same_base [OF mqtt.step [OF that]] by (simp add: same_base_def)
  show "r \<noteq> SUCCESS \<and> g' = g" if "\<not> gw_running g" "Mqtt_on_someip_message A E m g = Some (r, g')" for g m r g'
    using mqtt.stopped [OF that(1), of A E m] that(2) by auto
  show "\<exists>r g'. Some (Mqtt_start E g) = Some (r, g') \<and> buffer_ok g'" if "buffer_ok g" for g
    using that by (auto simp: Mqtt_start_def Mqtt_started_def set_running_def Let_def call_on_eq call_def buffer_ok_def split: option.split)
  show "\<exists>r g'. Some (Mqtt_stop E g) = Some (r, g') \<and> buffer_ok g'" if "buffer_ok g" for g
    using that by (auto simp: Mqtt_stop_def set_running_def Let_def call_on_eq buffer_ok_def)
qed (rule mqtt_total.returns)

end
