(* ===== verification/Mqtt_Threads.thy ===== *)
theory Mqtt_Threads
  imports Mqtt_Gateway "HOL-Library.Multiset"
begin

text \<open>
  The publish path of the MQTT gateway under concurrency. \<open>publish_mqtt\<close> and \<open>flush_offline_buffer\<close>
  (\<open>gateway-mqtt/src/mqtt_gateway.cpp\<close>) hold no lock of their own: they load the atomic \<open>mqtt_connected_\<close> and call
  \<open>OfflineMqttRingBuffer::push\<close> and \<open>pop\<close>, each of which takes the buffer's mutex. The atomic steps are therefore the
  load, the push and the pop; between them any other thread may run. A thread is the point it has reached, a schedule is a
  list of events, and what was accepted, handed to the broker and overwritten is recorded on the side.

  \<open>publish_alone\<close> and \<open>flush_alone\<close> show that a thread which is not interrupted does what the sequential functions of
  \<open>Mqtt_Gateway\<close> do. The property says that no schedule loses or duplicates a publish other than by overwriting the oldest of
  a full buffer; \<open>mqtt_flush_races\<close> has schedules that reorder publishes or leave one behind.
\<close>

text \<open>The flag says whether the call comes from the loop of \<open>flush_offline_buffer\<close>.\<close>

datatype thread_point =
    Outside
  | At_load bool BufferedMqttPublish
  | At_push bool BufferedMqttPublish
  | At_pop

record publish_state =
  ps_connected :: bool
  ps_buffer :: OfflineMqttRingBuffer
  ps_threads :: "thread_point list"
  ps_accepted :: "BufferedMqttPublish list"
  ps_delivered :: "BufferedMqttPublish list"
  ps_dropped :: "BufferedMqttPublish list"

datatype publish_event =
    Call_publish nat BufferedMqttPublish
  | Call_flush nat
  | Run nat
  | Set_connected bool

definition return_point :: "bool \<Rightarrow> thread_point" where
  "return_point fl = (if fl then At_pop else Outside)"

definition publish_point :: "nat \<Rightarrow> publish_state \<Rightarrow> thread_point option" where
  "publish_point i s = (if i < length (ps_threads s) then Some (ps_threads s ! i) else None)"

definition goto_point :: "nat \<Rightarrow> thread_point \<Rightarrow> publish_state \<Rightarrow> publish_state" where
  "goto_point i p s = s\<lparr>ps_threads := (ps_threads s)[i := p]\<rparr>"

text \<open>The next step of a thread; \<open>None\<close> when the event is not possible in the state.\<close>

definition thread_run :: "nat \<Rightarrow> publish_state \<Rightarrow> publish_state option" where
  "thread_run i s =
     (case publish_point i s of
        Some (At_load fl item) \<Rightarrow>
          Some (if ps_connected s then goto_point i (return_point fl) (s\<lparr>ps_delivered := ps_delivered s @ [item]\<rparr>)
                else goto_point i (At_push fl item) s)
      | Some (At_push fl item) \<Rightarrow>
          (case ring_push item (ps_buffer s) of
             None \<Rightarrow> None
           | Some b \<Rightarrow>
               Some (goto_point i (return_point fl) (s\<lparr>ps_buffer := b,
                 ps_dropped := ps_dropped s @
                   (if ring_size (ps_buffer s) \<ge> ring_capacity (ps_buffer s) then [hd (ring_queue (ps_buffer s))] else [])\<rparr>)))
      | Some At_pop \<Rightarrow>
          (case ring_pop (ps_buffer s) of
             None \<Rightarrow> Some (goto_point i Outside s)
           | Some (item, b) \<Rightarrow> Some (goto_point i (At_load True item) (s\<lparr>ps_buffer := b\<rparr>)))
      | _ \<Rightarrow> None)"

fun publish_event_step :: "publish_event \<Rightarrow> publish_state \<Rightarrow> publish_state option" where
  "publish_event_step (Call_publish i item) s =
     (if publish_point i s = Some Outside
      then Some (goto_point i (At_load False item) (s\<lparr>ps_accepted := ps_accepted s @ [item]\<rparr>)) else None)"
| "publish_event_step (Call_flush i) s =
     (if publish_point i s = Some Outside then Some (goto_point i At_pop s) else None)"
| "publish_event_step (Run i) s = thread_run i s"
| "publish_event_step (Set_connected c) s = Some (s\<lparr>ps_connected := c\<rparr>)"

fun publish_run :: "publish_event list \<Rightarrow> publish_state \<Rightarrow> publish_state option" where
  "publish_run [] s = Some s"
| "publish_run (e # es) s = Option.bind (publish_event_step e s) (publish_run es)"

definition publish_init :: "nat \<Rightarrow> nat \<Rightarrow> bool \<Rightarrow> publish_state" where
  "publish_init capacity threads connected =
     \<lparr>ps_connected = connected, ps_buffer = ring_new capacity, ps_threads = replicate threads Outside,
      ps_accepted = [], ps_delivered = [], ps_dropped = []\<rparr>"


subsection \<open>Conservation\<close>

fun carried :: "thread_point \<Rightarrow> BufferedMqttPublish multiset" where
  "carried (At_load fl item) = {#item#}"
| "carried (At_push fl item) = {#item#}"
| "carried _ = {#}"

definition in_flight :: "publish_state \<Rightarrow> BufferedMqttPublish multiset" where
  "in_flight s = sum_list (map carried (ps_threads s))"

definition publish_inv :: "nat \<Rightarrow> publish_state \<Rightarrow> bool" where
  "publish_inv c s \<longleftrightarrow>
     mset (ps_accepted s) = mset (ps_delivered s) + mset (ring_queue (ps_buffer s)) + in_flight s + mset (ps_dropped s) \<and>
     ring_capacity (ps_buffer s) = c \<and> length (ring_queue (ps_buffer s)) \<le> c \<and>
     (length (ps_accepted s) \<le> c \<longrightarrow> ps_dropped s = [])"

lemma carried_return [simp]: "carried (return_point fl) = {#}"
  by (simp add: return_point_def)

lemma in_flight_goto:
  assumes "publish_point i s = Some p"
  shows "in_flight (goto_point i q s) + carried p = in_flight s + carried q"
proof -
  from assms have i: "i < length (ps_threads s)" and p: "p = ps_threads s ! i"
    by (auto simp: publish_point_def split: if_splits)
  have "sum_list (map carried (ts[i := q])) + carried (ts ! i) = sum_list (map carried ts) + carried q"
    if "i < length ts" for ts i
    using that
  proof (induction ts arbitrary: i)
    case (Cons t ts)
    then show ?case by (cases i) (auto simp: ac_simps)
  qed simp
  from this [OF i] show ?thesis by (simp add: in_flight_def goto_point_def p)
qed

lemma goto_point_frame [simp]:
  "ps_connected (goto_point i p s) = ps_connected s" "ps_buffer (goto_point i p s) = ps_buffer s"
  "ps_accepted (goto_point i p s) = ps_accepted s" "ps_delivered (goto_point i p s) = ps_delivered s"
  "ps_dropped (goto_point i p s) = ps_dropped s"
  by (simp_all add: goto_point_def)

lemma publish_point_frame [simp]:
  "publish_point i (s\<lparr>ps_accepted := a\<rparr>) = publish_point i s" "publish_point i (s\<lparr>ps_delivered := d\<rparr>) = publish_point i s"
  "publish_point i (s\<lparr>ps_buffer := b\<rparr>) = publish_point i s" "publish_point i (s\<lparr>ps_dropped := d\<rparr>) = publish_point i s"
  "publish_point i (s\<lparr>ps_connected := c\<rparr>) = publish_point i s"
  by (simp_all add: publish_point_def)

lemma in_flight_frame [simp]:
  "in_flight (s\<lparr>ps_accepted := a\<rparr>) = in_flight s" "in_flight (s\<lparr>ps_delivered := d\<rparr>) = in_flight s"
  "in_flight (s\<lparr>ps_buffer := b\<rparr>) = in_flight s" "in_flight (s\<lparr>ps_dropped := d\<rparr>) = in_flight s"
  "in_flight (s\<lparr>ps_connected := c\<rparr>) = in_flight s"
  by (simp_all add: in_flight_def)

lemma in_flight_goto_frame [simp]:
  "in_flight (goto_point i p (s\<lparr>ps_accepted := a\<rparr>)) = in_flight (goto_point i p s)"
  "in_flight (goto_point i p (s\<lparr>ps_delivered := d\<rparr>)) = in_flight (goto_point i p s)"
  "in_flight (goto_point i p (s\<lparr>ps_buffer := b\<rparr>)) = in_flight (goto_point i p s)"
  "in_flight (goto_point i p (s\<lparr>ps_dropped := d\<rparr>)) = in_flight (goto_point i p s)"
  by (simp_all add: in_flight_def goto_point_def)

lemma in_flight_take:
  assumes "publish_point i s = Some p"
  shows "in_flight s = in_flight (goto_point i Outside s) + carried p"
  using in_flight_goto [OF assms, of Outside] by simp

lemma in_flight_to:
  assumes "publish_point i s = Some p"
  shows "in_flight (goto_point i q s) = in_flight (goto_point i Outside s) + carried q"
proof -
  have "in_flight (goto_point i q s) + carried p = in_flight (goto_point i Outside s) + carried q + carried p"
    using in_flight_goto [OF assms, of q] in_flight_take [OF assms] by (simp add: ac_simps)
  then show ?thesis by simp
qed


lemma push_drops:
  assumes "ring_push item b = Some b'" and "length (ring_queue b) \<le> ring_capacity b"
  shows "mset (ring_queue b) + {#item#} = mset (ring_queue b') +
      mset (if ring_size b \<ge> ring_capacity b then [hd (ring_queue b)] else [])"
    and "ring_capacity b' = ring_capacity b" and "length (ring_queue b') \<le> ring_capacity b"
  using assms by (auto simp: ring_push_def ring_size_def split: if_splits list.splits)

lemma pop_takes:
  "ring_pop b = Some (item, b') \<Longrightarrow> mset (ring_queue b) = mset (ring_queue b') + {#item#} \<and>
     ring_capacity b' = ring_capacity b \<and> length (ring_queue b') \<le> length (ring_queue b)"
  by (auto simp: ring_pop_def split: list.splits)

text \<open>A step of a thread.\<close>

lemma publish_inv_thread:
  assumes "publish_inv c s" and r: "thread_run i s = Some s'"
  shows "publish_inv c s'"
proof -
  from r obtain p where p: "publish_point i s = Some p" by (auto simp: thread_run_def split: option.splits)
  define B where "B = in_flight (goto_point i Outside s)"
  have fl: "in_flight s = B + carried p" "in_flight (goto_point i q s) = B + carried q" for q
    unfolding B_def by (rule in_flight_take [OF p], rule in_flight_to [OF p])
  show ?thesis
  proof (cases p)
    case Outside
    with r p show ?thesis by (simp add: thread_run_def)
  next
    case (At_load f item)
    with r p fl assms(1) show ?thesis
      by (auto simp: thread_run_def publish_inv_def split: if_splits)
  next
    case (At_push f item)
    with r p obtain b where b: "ring_push item (ps_buffer s) = Some b"
      and s': "s' = goto_point i (return_point f) (s\<lparr>ps_buffer := b, ps_dropped := ps_dropped s @
         (if ring_size (ps_buffer s) \<ge> ring_capacity (ps_buffer s) then [hd (ring_queue (ps_buffer s))] else [])\<rparr>)"
      by (auto simp: thread_run_def split: option.splits)
    have cap: "ring_capacity (ps_buffer s) = c" "length (ring_queue (ps_buffer s)) \<le> c"
      using assms(1) by (auto simp: publish_inv_def)
    note pd = push_drops [OF b, unfolded cap(1), OF cap(2)]
    have tot: "mset (ps_accepted s) = mset (ps_delivered s) + mset (ring_queue (ps_buffer s)) + {#item#} + B +
        mset (ps_dropped s)"
      using assms(1) fl(1) At_push by (simp add: publish_inv_def)
    have room: "ring_size (ps_buffer s) < c" if "length (ps_accepted s) \<le> c"
      using arg_cong [OF tot, of size] that by (simp add: ring_size_def)
    have "mset (ps_accepted s') = mset (ps_delivered s') + mset (ring_queue (ps_buffer s')) + in_flight s' + mset (ps_dropped s')"
      using tot pd(1) cap(1) fl(2) [of "return_point f"] by (simp add: s' ac_simps)
    moreover have "length (ps_accepted s') \<le> c \<longrightarrow> ps_dropped s' = []"
      using room assms(1) by (auto simp: s' publish_inv_def)
    ultimately show ?thesis using pd by (simp add: publish_inv_def s')
  next
    case At_pop
    with r p fl assms(1) show ?thesis
      by (auto simp: thread_run_def publish_inv_def dest!: pop_takes split: option.splits)
  qed
qed

lemma publish_inv_step:
  assumes "publish_inv c s" and "publish_event_step e s = Some s'"
  shows "publish_inv c s'"
proof (cases e)
  case (Call_publish i item)
  with assms(2) have p: "publish_point i s = Some Outside"
    and s': "s' = goto_point i (At_load False item) (s\<lparr>ps_accepted := ps_accepted s @ [item]\<rparr>)"
    by (auto split: if_splits)
  have "in_flight s' = in_flight s + {#item#}"
    using in_flight_goto [of i "s\<lparr>ps_accepted := ps_accepted s @ [item]\<rparr>" Outside] p by (simp add: s')
  with assms(1) show ?thesis by (auto simp: publish_inv_def s')
next
  case (Call_flush i)
  with assms(2) have p: "publish_point i s = Some Outside" and s': "s' = goto_point i At_pop s"
    by (auto split: if_splits)
  have "in_flight s' = in_flight s" using in_flight_goto [OF p, of At_pop] by (simp add: s')
  with assms(1) show ?thesis by (simp add: publish_inv_def s')
next
  case (Set_connected b)
  with assms show ?thesis by (auto simp: publish_inv_def)
next
  case (Run i)
  with assms publish_inv_thread show ?thesis by simp
qed

lemma publish_inv_run: "publish_inv c s \<Longrightarrow> publish_run es s = Some s' \<Longrightarrow> publish_inv c s'"
proof (induction es arbitrary: s)
  case (Cons e es)
  then show ?case by (auto simp: bind_eq_Some_conv dest: publish_inv_step)
qed simp

lemma publish_inv_init: "publish_inv c (publish_init c n k)"
proof -
  have "sum_list (map carried (replicate n Outside)) = {#}" by (induction n) auto
  then show ?thesis by (simp add: publish_inv_def publish_init_def in_flight_def ring_new_def)
qed

text \<open>A thread that is inside a call can always take its next step when the buffer has room for an element.\<close>

lemma thread_run_enabled:
  assumes "publish_inv c s" and "0 < c" and "publish_point i s = Some p" and "p \<noteq> Outside"
  shows "thread_run i s \<noteq> None"
  using assms ring_push_spec [of "ps_buffer s"]
  by (cases p) (auto simp: thread_run_def publish_inv_def split: option.split)


subsection \<open>A thread that is not interrupted\<close>

lemma publish_point_goto [simp]:
  "publish_point i s = Some p \<Longrightarrow> publish_point i (goto_point i q s) = Some q"
  by (auto simp: publish_point_def goto_point_def split: if_splits)

lemma publish_alone:
  assumes "publish_point i s = Some Outside" and "ps_buffer s = mq_offline_buffer g" and "ps_connected s = mq_connected g"
    and "publish_mqtt topic pl qos retain rt cd g = Some (r, g')"
    and "item = \<lparr>buf_topic = topic, buf_payload = pl, buf_qos = qos, buf_retain = retain\<rparr>"
  shows "\<exists>s'. publish_run (Call_publish i item # Run i # (if r = SUCCESS then [] else [Run i])) s = Some s' \<and>
    ps_buffer s' = mq_offline_buffer g' \<and> publish_point i s' = Some Outside \<and>
    ps_delivered s' = ps_delivered s @ (if r = SUCCESS then [item] else [])"
  using assms
  by (auto simp: publish_mqtt_def thread_run_def return_point_def split: if_splits option.splits)

lemma flush_alone:
  assumes "publish_point i s = Some At_pop" and "ps_connected s"
  shows "\<exists>s'. publish_run (replicate (2 * ring_size (ps_buffer s) + 1) (Run i)) s = Some s' \<and>
    ring_queue (ps_buffer s') = [] \<and> publish_point i s' = Some Outside \<and>
    ps_delivered s' = ps_delivered s @ ring_queue (ps_buffer s)"
  using assms
proof (induction "ring_queue (ps_buffer s)" arbitrary: s)
  case Nil
  then show ?case by (simp add: ring_size_def thread_run_def ring_pop_def)
next
  case (Cons item q)
  let ?s1 = "goto_point i (At_load True item) (s\<lparr>ps_buffer := (ps_buffer s)\<lparr>ring_queue := q\<rparr>\<rparr>)"
  let ?s2 = "goto_point i At_pop (?s1\<lparr>ps_delivered := ps_delivered ?s1 @ [item]\<rparr>)"
  have "thread_run i s = Some ?s1"
    using Cons.prems(1) Cons.hyps(2) by (simp add: thread_run_def ring_pop_def flip: Cons.hyps(2))
  moreover have "thread_run i ?s1 = Some ?s2"
    using Cons.prems by (simp add: thread_run_def return_point_def)
  moreover have "publish_point i ?s2 = Some At_pop" "ps_connected ?s2" "q = ring_queue (ps_buffer ?s2)"
    using Cons.prems by simp_all
  note Cons.hyps(1) [OF this(3,1,2)]
  ultimately show ?case
    by (simp add: ring_size_def flip: Cons.hyps(2))
qed

subsection \<open>Properties\<close>

text \<open>C4: Whatever threads publish and flush at the same time and however the connection comes and goes, every publish the
  gateway accepted is at each moment exactly once with the broker, in the offline buffer, in a call that has not
  returned, or overwritten; the buffer stays within its capacity, nothing is overwritten before more publishes were accepted
  than it holds, no call gets stuck, and a flush that is left alone while connected hands the whole buffer
  over in order.\<close>

theorem mqtt_publishes_conserved:
  assumes "0 < c" and "publish_run es (publish_init c n k) = Some s"
  shows "mset (ps_accepted s) =
      mset (ps_delivered s) + mset (ring_queue (ps_buffer s)) + in_flight s + mset (ps_dropped s) \<and>
    length (ring_queue (ps_buffer s)) \<le> c \<and>
    (length (ps_accepted s) \<le> c \<longrightarrow> ps_dropped s = []) \<and>
    (\<forall>i p. publish_point i s = Some p \<and> p \<noteq> Outside \<longrightarrow> thread_run i s \<noteq> None) \<and>
    (\<forall>i. publish_point i s = Some At_pop \<and> ps_connected s \<longrightarrow>
       (\<exists>s'. publish_run (replicate (2 * ring_size (ps_buffer s) + 1) (Run i)) s = Some s' \<and>
          ring_queue (ps_buffer s') = [] \<and> ps_delivered s' = ps_delivered s @ ring_queue (ps_buffer s)))"
proof -
  have inv: "publish_inv c s" by (rule publish_inv_run [OF publish_inv_init assms(2)])
  then have "mset (ps_accepted s) =
      mset (ps_delivered s) + mset (ring_queue (ps_buffer s)) + in_flight s + mset (ps_dropped s) \<and>
    length (ring_queue (ps_buffer s)) \<le> c \<and> (length (ps_accepted s) \<le> c \<longrightarrow> ps_dropped s = [])"
    by (simp add: publish_inv_def)
  with thread_run_enabled [OF inv assms(1)] flush_alone show ?thesis by blast
qed

definition sample_publish :: "u8 \<Rightarrow> BufferedMqttPublish" where
  "sample_publish b = \<lparr>buf_topic = ''t'', buf_payload = [b], buf_qos = 0, buf_retain = False\<rparr>"

text \<open>Thread 0 buffers a publish and flushes it; between its pop and its load the connection is away.\<close>

definition reordering_schedule :: "publish_event list" where
  "reordering_schedule =
     [Call_publish 0 (sample_publish 1), Run 0, Run 0, Call_flush 0, Run 0, Run 0,
      Call_publish 1 (sample_publish 2), Run 1, Run 1, Run 0, Set_connected True, Run 0, Run 0, Run 0, Run 0, Run 0]"

definition stranding_schedule :: "publish_event list" where
  "stranding_schedule =
     [Call_publish 0 (sample_publish 1), Run 0, Set_connected True, Call_flush 1, Run 1, Run 0]"

theorem mqtt_publishes_conserved_witness:
  "\<exists>s. publish_run reordering_schedule (publish_init 4 2 False) = Some s \<and>
     mset (ps_accepted s) =
       mset (ps_delivered s) + mset (ring_queue (ps_buffer s)) + in_flight s + mset (ps_dropped s)"
proof -
  have "\<not> Option.is_none (publish_run reordering_schedule (publish_init 4 2 False))"
    by code_simp
  then have "\<exists>s. publish_run reordering_schedule (publish_init 4 2 False) = Some s"
    by (auto simp: Option.is_none_def)
  then show ?thesis using mqtt_publishes_conserved [of 4 reordering_schedule 2 False] by auto
qed

text \<open>Two schedules with two threads and a buffer for four publishes. In the first, a flush that finds the connection gone puts the
  publish it has taken behind a newer one, and the broker receives the two in the wrong order. In the second, a
  publish that has seen no connection is buffered after the flush that followed the reconnect: all calls have
  returned, the gateway is connected, and the publish stays behind.\<close>

lemma mqtt_flush_races:
  "map_option (\<lambda>s. (ps_accepted s, ps_delivered s, ps_threads s)) (publish_run reordering_schedule (publish_init 4 2 False)) =
     Some ([sample_publish 1, sample_publish 2], [sample_publish 2, sample_publish 1], [Outside, Outside])"
  "map_option (\<lambda>s. (ps_connected s, ps_delivered s, ring_queue (ps_buffer s), ps_threads s))
       (publish_run stranding_schedule (publish_init 4 2 False)) =
     Some (True, [], [sample_publish 1], [Outside, Outside])"
  by code_simp+

end
