(* ===== verification/Zenoh_Translator.thy ===== *)
theory Zenoh_Translator
  imports Translator
begin

text \<open>
  \<open>gateway-zenoh/include/opensomeip/gateway/zenoh/zenoh_translator.h\<close> and
  \<open>gateway-zenoh/src/zenoh_translator.cpp\<close>: Zenoh key expressions, their parser, and the raw, JSON and
  CBOR payload encodings.

  A cursor into the wire bytes is the list of the bytes not yet read. A function with an output
  parameter and a \<open>bool\<close> result returns an option where a failure leaves the output alone;
  \<open>parse_someip_key\<close> threads its result record, because a failed key leaves the identifiers read so
  far in it. \<open>decode_json_envelope\<close> calls \<open>std::stoi\<close>, whose \<open>std::out_of_range\<close> escapes: \<open>Inl\<close>.

  The lemmas show that every key the translator builds parses back to the identifiers it was built
  from, that the JSON envelope decodes to the payload it encodes, and what the CBOR decoder makes of
  every envelope the encoder produces.
\<close>

text \<open>The last constructor is a byte cast to the enumeration that is no enumerator.\<close>

datatype ZenohPayloadEncoding = ZENOH_RAW | ZENOH_JSON | ZENOH_CBOR | ZenohPayloadEncoding_cast u8

record ParsedZenohSomeipKey =
  zk_service_id :: u16
  zk_instance_id :: u16
  zk_method_or_event_id :: u16
  zk_is_rpc_path :: bool
  zk_is_liveliness :: bool
  zk_valid :: bool


subsection \<open>Parsing keys\<close>

text \<open>The loop of \<open>parse_hex_u16\<close>, with the 32-bit accumulator.\<close>

fun hex_u16_loop :: "u32 \<Rightarrow> string \<Rightarrow> u32 option" where
  "hex_u16_loop v [] = Some v"
| "hex_u16_loop v (c # s) =
     (case hex_value c of
        None \<Rightarrow> None
      | Some d \<Rightarrow>
          (let v' = push_bit 4 v OR word_of_nat d in
           if v' > 0xFFFF then None else hex_u16_loop v' s))"

definition parse_hex_u16 :: "string \<Rightarrow> u16 option" where
  "parse_hex_u16 token =
     (if token = [] then None
      else let token' = (if prefix ''0x'' token \<or> prefix ''0X'' token then drop 2 token else token) in
        if token' = [] then None else map_option ucast (hex_u16_loop 0 token'))"

function split_path :: "string \<Rightarrow> string list" where
  "split_path path =
     (if path = [] then []
      else let from_i = dropWhile (\<lambda>c. c = CHR ''/'') path;
               part = takeWhile (\<lambda>c. c \<noteq> CHR ''/'') from_i;
               from_j = dropWhile (\<lambda>c. c \<noteq> CHR ''/'') from_i
           in if part \<noteq> [] then part # split_path from_j else split_path from_j)"
  by pat_completeness auto

lemma split_path_decreases:
  assumes "path \<noteq> []"
  shows "length (dropWhile (\<lambda>c. c \<noteq> CHR ''/'') (dropWhile (\<lambda>c. c = CHR ''/'') path)) < length path"
proof (cases path)
  case (Cons c s)
  have "length (dropWhile P (dropWhile Q s)) \<le> length s" for P Q :: "char \<Rightarrow> bool"
    using length_dropWhile_le [of P "dropWhile Q s"] length_dropWhile_le [of Q s] by linarith
  then show ?thesis using Cons length_dropWhile_le [of "\<lambda>c. c \<noteq> CHR ''/''" s] by (auto simp: le_imp_less_Suc)
qed (use assms in simp)

termination split_path
  by (relation "measure length") (auto simp: split_path_decreases simp del: dropWhile.simps)

declare split_path.simps [simp del]

definition strip_prefix_key :: "string \<Rightarrow> string \<Rightarrow> string" where
  "strip_prefix_key key pre =
     (if pre = [] then key
      else if length key < length pre then []
      else if take (length pre) key \<noteq> pre then []
      else if length key = length pre then []
      else if key ! length pre \<noteq> CHR ''/'' then []
      else drop (length pre + 1) key)"

text \<open>\<open>parse_hex_u16(token, r.field)\<close>: success, and the record with the field assigned on success.\<close>

definition read_service :: "string \<Rightarrow> ParsedZenohSomeipKey \<Rightarrow> bool \<times> ParsedZenohSomeipKey" where
  "read_service token r = (case parse_hex_u16 token of Some v \<Rightarrow> (True, r\<lparr>zk_service_id := v\<rparr>) | None \<Rightarrow> (False, r))"

definition read_instance :: "string \<Rightarrow> ParsedZenohSomeipKey \<Rightarrow> bool \<times> ParsedZenohSomeipKey" where
  "read_instance token r = (case parse_hex_u16 token of Some v \<Rightarrow> (True, r\<lparr>zk_instance_id := v\<rparr>) | None \<Rightarrow> (False, r))"

definition read_method :: "string \<Rightarrow> ParsedZenohSomeipKey \<Rightarrow> bool \<times> ParsedZenohSomeipKey" where
  "read_method token r =
     (case parse_hex_u16 token of Some v \<Rightarrow> (True, r\<lparr>zk_method_or_event_id := v\<rparr>) | None \<Rightarrow> (False, r))"

text \<open>Short-circuit \<open>&&\<close> of two such reads.\<close>

definition and_then ::
  "('r \<Rightarrow> bool \<times> 'r) \<Rightarrow> ('r \<Rightarrow> bool \<times> 'r) \<Rightarrow> 'r \<Rightarrow> bool \<times> 'r" where
  "and_then f g r = (case f r of (ok, r1) \<Rightarrow> if ok then g r1 else (False, r1))"

definition parse_someip_key :: "string \<Rightarrow> string \<Rightarrow> ParsedZenohSomeipKey" where
  "parse_someip_key key pre =
     (let r = \<lparr>zk_service_id = 0, zk_instance_id = 0, zk_method_or_event_id = 0, zk_is_rpc_path = False,
               zk_is_liveliness = False, zk_valid = False\<rparr>;
          rest = strip_prefix_key key pre
      in if rest = [] \<and> pre \<noteq> [] then r
         else let parts = split_path rest in
           if length parts \<ge> 3 \<and> parts ! 0 = ''liveliness'' then
             (case and_then (read_service (parts ! 1)) (read_instance (parts ! 2)) r of (ok, r1) \<Rightarrow>
                if ok then r1\<lparr>zk_is_liveliness := True, zk_valid := True\<rparr> else r1)
           else if length parts \<ge> 4 \<and> parts ! 2 = ''rpc'' then
             (case and_then (read_service (parts ! 0)) (and_then (read_instance (parts ! 1)) (read_method (parts ! 3))) r of
                (ok, r1) \<Rightarrow> if ok then r1\<lparr>zk_is_rpc_path := True, zk_valid := True\<rparr> else r1)
           else if length parts \<ge> 4 \<and> parts ! 3 = ''event'' then
             (case and_then (read_service (parts ! 0)) (and_then (read_instance (parts ! 1)) (read_method (parts ! 2))) r of
                (ok, r1) \<Rightarrow> if ok then r1\<lparr>zk_is_rpc_path := False, zk_valid := True\<rparr> else r1)
           else r)"


subsection \<open>Building keys\<close>

definition build_key_expr :: "string \<Rightarrow> u16 \<Rightarrow> u16 \<Rightarrow> u16 \<Rightarrow> bool \<Rightarrow> string" where
  [topic_simps]: "build_key_expr pre service_id instance_id method_or_event_id is_request_response =
     pre @ ''/'' @ format_service_id service_id @ ''/'' @ format_service_id instance_id @ ''/'' @
     format_service_id method_or_event_id @ ''/event''"

definition build_instance_pattern :: "string \<Rightarrow> u16 \<Rightarrow> u16 \<Rightarrow> string" where
  [topic_simps]: "build_instance_pattern pre service_id instance_id =
     pre @ ''/'' @ format_service_id service_id @ ''/'' @ format_service_id instance_id @ ''/**''"

definition build_rpc_key :: "string \<Rightarrow> u16 \<Rightarrow> u16 \<Rightarrow> u16 \<Rightarrow> string" where
  [topic_simps]: "build_rpc_key pre service_id instance_id method_id =
     pre @ ''/'' @ format_service_id service_id @ ''/'' @ format_service_id instance_id @ ''/rpc/'' @
     format_service_id method_id"

definition build_liveliness_key :: "string \<Rightarrow> u16 \<Rightarrow> u16 \<Rightarrow> string" where
  [topic_simps]: "build_liveliness_key pre service_id instance_id =
     pre @ ''/liveliness/'' @ format_service_id service_id @ ''/'' @ format_service_id instance_id"


subsection \<open>CBOR encoding\<close>

definition append_cbor_uint :: "bytes \<Rightarrow> u64 \<Rightarrow> bytes" where
  "append_cbor_uint out v =
     (if v < 24 then out @ [ucast v]
      else if v < 256 then out @ [0x18, ucast v]
      else if v < 65536 then out @ [0x19, ucast (drop_bit 8 v AND 0xFF), ucast (v AND 0xFF)]
      else out @ [0x1A, ucast (drop_bit 24 v AND 0xFF), ucast (drop_bit 16 v AND 0xFF),
                  ucast (drop_bit 8 v AND 0xFF), ucast (v AND 0xFF)])"

definition append_cbor_text_string :: "bytes \<Rightarrow> string \<Rightarrow> bytes" where
  "append_cbor_text_string out s =
     (let n = (word_of_nat (length s) :: u64) in
      (if n < 24 then out @ [ucast (0x60 + n)]
       else if n < 256 then out @ [0x78, ucast n]
       else out @ [0x79, ucast (drop_bit 8 n AND 0xFF), ucast (n AND 0xFF)]) @ bytes_of_string s)"

definition append_cbor_byte_string :: "bytes \<Rightarrow> bytes \<Rightarrow> bytes" where
  "append_cbor_byte_string out data =
     (let n = (word_of_nat (length data) :: u64) in
      (if n < 24 then out @ [ucast (0x40 + n)]
       else if n < 256 then out @ [0x58, ucast n]
       else out @ [0x59, ucast (drop_bit 8 n AND 0xFF), ucast (n AND 0xFF)]) @ data)"

definition build_cbor_envelope :: "'m message_api \<Rightarrow> 'm \<Rightarrow> bytes" where
  "build_cbor_envelope A msg =
     (let out = [0xA4];
          out = append_cbor_text_string out ''svc'';
          out = append_cbor_uint out (ucast (get_service_id A msg));
          out = append_cbor_text_string out ''method'';
          out = append_cbor_uint out (ucast (get_method_id A msg));
          out = append_cbor_text_string out ''type'';
          out = append_cbor_uint out (ucast (get_message_type A msg));
          out = append_cbor_text_string out ''payload''
      in append_cbor_byte_string out (get_payload A msg))"

fun zenoh_encode_payload :: "'m message_api \<Rightarrow> ZenohPayloadEncoding \<Rightarrow> 'm \<Rightarrow> bytes" where
  "zenoh_encode_payload A ZENOH_RAW msg = get_payload A msg"
| "zenoh_encode_payload A ZENOH_JSON msg = payload_to_json A msg"
| "zenoh_encode_payload A ZENOH_CBOR msg = build_cbor_envelope A msg"
| "zenoh_encode_payload A (ZenohPayloadEncoding_cast b) msg = get_payload A msg"


subsection \<open>CBOR decoding\<close>

definition be16_size :: "u8 \<Rightarrow> u8 \<Rightarrow> nat" where
  "be16_size a b = unat (push_bit 8 (ucast a) OR ucast b :: u64)"

text \<open>
  \<open>read_text_key\<close>: the key and the bytes after it. The branches for \<open>0x78\<close> and \<open>0x79\<close> stand after the
  test of the upper three bits, as in the source.
\<close>

definition read_text_key :: "bytes \<Rightarrow> (string \<times> bytes) option" where
  "read_text_key w =
     (case w of
        [] \<Rightarrow> None
      | ib # w1 \<Rightarrow>
          if ib AND 0xE0 \<noteq> 0x60 \<and> ib \<noteq> 0x78 \<and> ib \<noteq> 0x79 then None
          else (let header =
                  (if ib AND 0xE0 = 0x60 then Some (unat (ib AND 0x1F), w1)
                   else if ib = 0x78 \<and> w1 \<noteq> [] then Some (unat (w1 ! 0), drop 1 w1)
                   else if ib = 0x79 \<and> 2 \<le> length w1 then Some (be16_size (w1 ! 0) (w1 ! 1), drop 2 w1)
                   else None)
                in case header of
                     None \<Rightarrow> None
                   | Some (len, w2) \<Rightarrow>
                       if len > length w2 then None
                       else Some (string_of_bytes (take len w2), drop len w2)))"

definition read_uint :: "bytes \<Rightarrow> (u64 \<times> bytes) option" where
  "read_uint w =
     (case w of
        [] \<Rightarrow> None
      | ib # w1 \<Rightarrow>
          if ib < 24 then Some (ucast ib, w1)
          else if ib = 0x18 \<and> w1 \<noteq> [] then Some (ucast (w1 ! 0), drop 1 w1)
          else if ib = 0x19 \<and> 2 \<le> length w1
            then Some (push_bit 8 (ucast (w1 ! 0)) OR ucast (w1 ! 1), drop 2 w1)
          else if ib = 0x1A \<and> 4 \<le> length w1
            then Some (push_bit 24 (ucast (w1 ! 0)) OR push_bit 16 (ucast (w1 ! 1)) OR
                       push_bit 8 (ucast (w1 ! 2)) OR ucast (w1 ! 3), drop 4 w1)
          else None)"

definition read_byte_string :: "bytes \<Rightarrow> (bytes \<times> bytes) option" where
  "read_byte_string w =
     (case w of
        [] \<Rightarrow> None
      | ib # w1 \<Rightarrow>
          (let header =
             (if ib AND 0xE0 = 0x40 then Some (unat (ib AND 0x1F), w1)
              else if ib = 0x58 \<and> w1 \<noteq> [] then Some (unat (w1 ! 0), drop 1 w1)
              else if ib = 0x59 \<and> 2 \<le> length w1 then Some (be16_size (w1 ! 0) (w1 ! 1), drop 2 w1)
              else None)
           in case header of
                None \<Rightarrow> None
              | Some (len, w2) \<Rightarrow> if len > length w2 then None else Some (take len w2, drop len w2)))"

record cbor_fields =
  cf_svc :: u16
  cf_method :: u16
  cf_mtype :: u8
  cf_payload :: bytes

text \<open>One round of the loop over the four pairs.\<close>

definition decode_cbor_pair :: "bytes \<times> cbor_fields \<Rightarrow> (bytes \<times> cbor_fields) option" where
  "decode_cbor_pair st =
     (case st of (w, f) \<Rightarrow>
        (case read_text_key w of
           None \<Rightarrow> None
         | Some (k, w1) \<Rightarrow>
             if k = ''svc'' then
               (case read_uint w1 of
                  None \<Rightarrow> None
                | Some (v, w2) \<Rightarrow> if v > 0xFFFF then None else Some (w2, f\<lparr>cf_svc := ucast v\<rparr>))
             else if k = ''method'' then
               (case read_uint w1 of
                  None \<Rightarrow> None
                | Some (v, w2) \<Rightarrow> if v > 0xFFFF then None else Some (w2, f\<lparr>cf_method := ucast v\<rparr>))
             else if k = ''type'' then
               (case read_uint w1 of
                  None \<Rightarrow> None
                | Some (v, w2) \<Rightarrow> if v > 0xFF then None else Some (w2, f\<lparr>cf_mtype := ucast v\<rparr>))
             else if k = ''payload'' then
               (case read_byte_string w1 of
                  None \<Rightarrow> None
                | Some (p, w2) \<Rightarrow> Some (w2, f\<lparr>cf_payload := p\<rparr>))
             else None))"

fun decode_cbor_pairs :: "nat \<Rightarrow> bytes \<times> cbor_fields \<Rightarrow> (bytes \<times> cbor_fields) option" where
  "decode_cbor_pairs 0 st = Some st"
| "decode_cbor_pairs (Suc n) st =
     (case decode_cbor_pair st of None \<Rightarrow> None | Some st1 \<Rightarrow> decode_cbor_pairs n st1)"

definition decode_cbor_envelope :: "'m message_api \<Rightarrow> bytes \<Rightarrow> 'm \<Rightarrow> bool \<times> 'm" where
  "decode_cbor_envelope A wire out_msg =
     (if wire = [] \<or> wire ! 0 \<noteq> 0xA4 then (False, out_msg)
      else case decode_cbor_pairs 4 (drop 1 wire, \<lparr>cf_svc = 0, cf_method = 0, cf_mtype = 0, cf_payload = []\<rparr>) of
        None \<Rightarrow> (False, out_msg)
      | Some (_, f) \<Rightarrow>
          (True, set_payload A (cf_payload f)
             (set_message_type A (cf_mtype f) (set_method_id A (cf_method f) (set_service_id A (cf_svc f) out_msg)))))"


subsection \<open>JSON decoding\<close>

text \<open>\<open>std::stoi\<close> on a non-empty run of decimal digits.\<close>

definition stoi_digits :: "string \<Rightarrow> cpp_exception + int" where
  "stoi_digits s = (let v = digits_value 10 0 s in if v \<ge> 2 ^ 31 then Inl out_of_range else Inr (int v))"

text \<open>The loop from the position after the opening bracket; \<open>None\<close> is \<open>return false\<close>.\<close>

function decode_json_loop :: "string \<Rightarrow> bytes \<Rightarrow> cpp_exception + bytes option" where
  "decode_json_loop s bs =
     (case s of
        [] \<Rightarrow> Inr (Some bs)
      | c # t \<Rightarrow>
          if c = CHR '']'' then Inr (Some bs)
          else if isspace c \<or> c = CHR '','' then decode_json_loop t bs
          else if \<not> isdigit c then Inr None
          else (case stoi_digits (takeWhile isdigit s) of
                  Inl e \<Rightarrow> Inl e
                | Inr v \<Rightarrow>
                    if v < 0 \<or> v > 255 then Inr None
                    else decode_json_loop (dropWhile isdigit s) (bs @ [word_of_int v])))"
  by pat_completeness auto
termination decode_json_loop
  by (relation "measure (\<lambda>(s, bs). length s)") (auto simp: le_imp_less_Suc length_dropWhile_le)

declare decode_json_loop.simps [simp del]

definition decode_json_envelope :: "'m message_api \<Rightarrow> bytes \<Rightarrow> 'm \<Rightarrow> cpp_exception + (bool \<times> 'm)" where
  \<open>decode_json_envelope A wire out_msg =
     (let s = string_of_bytes wire in
      case str_find ''"payload":['' s of
        None \<Rightarrow> Inr (False, out_msg)
      | Some pos \<Rightarrow>
          (case decode_json_loop (drop (pos + 11) s) [] of
             Inl e \<Rightarrow> Inl e
           | Inr None \<Rightarrow> Inr (False, out_msg)
           | Inr (Some bs) \<Rightarrow> Inr (True, set_payload A bs out_msg)))\<close>

fun zenoh_decode_payload ::
  "'m message_api \<Rightarrow> ZenohPayloadEncoding \<Rightarrow> bytes \<Rightarrow> 'm \<Rightarrow> cpp_exception + (bool \<times> 'm)" where
  "zenoh_decode_payload A ZENOH_RAW wire out_msg = Inr (True, set_payload A wire out_msg)"
| "zenoh_decode_payload A ZENOH_JSON wire out_msg = decode_json_envelope A wire out_msg"
| "zenoh_decode_payload A ZENOH_CBOR wire out_msg = Inr (decode_cbor_envelope A wire out_msg)"
| "zenoh_decode_payload A (ZenohPayloadEncoding_cast b) wire out_msg = Inr (True, set_payload A wire out_msg)"


subsection \<open>Translation of whole messages\<close>

definition someip_to_zenoh ::
  "'m message_api \<Rightarrow> ZenohPayloadEncoding \<Rightarrow> 'm \<Rightarrow> string \<Rightarrow> ServiceMapping \<Rightarrow> ExternalMessage" where
  "someip_to_zenoh A enc msg external_prefix mapping =
     (let rpcish = is_request A msg \<or> is_response A msg \<or>
            get_message_type A msg = mt_REQUEST_NO_RETURN A \<or> get_message_type A msg = mt_ERROR A \<or>
            get_message_type A msg = mt_TP_REQUEST A \<or> get_message_type A msg = mt_TP_REQUEST_NO_RETURN A
      in \<lparr>topic_or_key =
            (if rpcish then build_rpc_key external_prefix (someip_service_id mapping) (someip_instance_id mapping)
                              (get_method_id A msg)
             else build_key_expr external_prefix (someip_service_id mapping) (someip_instance_id mapping)
                    (get_method_id A msg) False),
          ext_payload = zenoh_encode_payload A enc msg,
          source_service_id = get_service_id A msg,
          source_method_id = get_method_id A msg,
          source_instance_id = someip_instance_id mapping,
          ext_is_request = is_request A msg,
          ext_is_notification = (get_message_type A msg = mt_NOTIFICATION A \<or>
                                 get_message_type A msg = mt_TP_NOTIFICATION A),
          correlation_id = correlation_text (get_client_id A msg) (get_session_id A msg)\<rparr>)"

definition zenoh_to_someip ::
  "'m message_api \<Rightarrow> ZenohPayloadEncoding \<Rightarrow> ExternalMessage \<Rightarrow> u16 \<Rightarrow> u16 \<Rightarrow> MessageType \<Rightarrow> cpp_exception + 'm" where
  "zenoh_to_someip A enc ext service_id instance_id type =
     (let msg = Message_ctor_rc A (service_id, source_method_id ext) (0x0000, 0x0001) type (rc_E_OK A) in
      if enc = ZENOH_RAW then Inr (set_payload A (ext_payload ext) msg)
      else case zenoh_decode_payload A enc (ext_payload ext) (Message_default A) of
        Inl e \<Rightarrow> Inl e
      | Inr (True, envelope) \<Rightarrow>
          (let msg1 = set_payload A (get_payload A envelope) msg in
           Inr (if enc = ZENOH_CBOR then set_message_type A (get_message_type A envelope) msg1 else msg1))
      | Inr (False, _) \<Rightarrow> Inr (set_payload A (ext_payload ext) msg))"

subsection \<open>Identifiers parse back\<close>

lemma nibble_or:
  assumes "d < 16"
  shows "push_bit 4 n OR d = n * 16 + (d :: nat)"
proof -
  have d: "take_bit 4 d = d" using assms by (simp add: take_bit_nat_eq_self)
  have "\<not> bit d k" if "4 \<le> k" for k
    using that d by (metis bit_take_bit_iff not_less)
  then have "push_bit 4 n + d = push_bit 4 n OR d"
    by (intro disjunctive_add) (auto simp: bit_simps)
  then show ?thesis by (simp add: push_bit_nat_def)
qed

lemma hex_u16_loop_step:
  assumes "hex_value c = Some d" and "d < 16" and "n < 4096"
  shows "hex_u16_loop (word_of_nat n) (c # s) = hex_u16_loop (word_of_nat (n * 16 + d)) s"
proof -
  have v: "push_bit 4 (word_of_nat n :: u32) OR word_of_nat d = word_of_nat (n * 16 + d)"
    using nibble_or [OF assms(2), of n] by (metis of_nat_or_eq push_bit_of_nat)
  have "unat (word_of_nat (n * 16 + d) :: u32) = n * 16 + d"
    unfolding unat_of_nat using assms(2,3) by simp
  then have "\<not> (word_of_nat (n * 16 + d) :: u32) > 0xFFFF"
    unfolding word_less_nat_alt using assms(2,3) by simp
  with v assms(1) show ?thesis by simp
qed

lemma hex_u16_loop_hex4: "hex_u16_loop 0 (hex4 upper v) = Some (word_of_nat (unat v))"
proof -
  let ?n = "unat v"
  have b: "?n div 4096 < 16" "?n div 256 < 256" "?n div 16 < 4096" using unat_u16_less [of v] by simp_all
  have s: "?n div 4096 * 16 + ?n div 256 mod 16 = ?n div 256"
          "?n div 256 * 16 + ?n div 16 mod 16 = ?n div 16"
          "?n div 16 * 16 + ?n mod 16 = ?n"
    using radix16_step [of ?n 256] radix16_step [of ?n 16] radix16_step [of ?n 1] by simp_all
  have l: "hex_u16_loop (word_of_nat m) (hex_digit upper d # t) = hex_u16_loop (word_of_nat (m * 16 + d)) t"
    if "d < 16" "m < 4096" for m d t
    using that by (intro hex_u16_loop_step) simp_all
  have "hex_u16_loop (word_of_nat 0) (hex4 upper v) = Some (word_of_nat ?n)"
    unfolding hex4_nibbles nibbles_def list.map
    using b l [of "?n div 4096" 0] l [of "?n div 256 mod 16" "?n div 4096"]
      l [of "?n div 16 mod 16" "?n div 256"] l [of "?n mod 16" "?n div 16"]
    by (simp add: s del: hex_u16_loop.simps(2) of_nat_add of_nat_mult of_nat_0)
  then show ?thesis by simp
qed

lemma parse_hex_u16_format [simp]: "parse_hex_u16 (CHR ''0'' # CHR ''x'' # hex4 upper v) = Some v"
proof -
  have "ucast (word_of_nat (unat v) :: u32) = v"
    by (intro bit_word_eqI) (auto simp: bit_simps)
  then show ?thesis by (simp add: parse_hex_u16_def hex_u16_loop_hex4)
qed


subsection \<open>Paths split at the separators\<close>

definition path_of :: "string list \<Rightarrow> string" where
  "path_of parts = concat (map (\<lambda>p. CHR ''/'' # p) parts)"

definition segment :: "string \<Rightarrow> bool" where
  "segment p \<longleftrightarrow> p \<noteq> [] \<and> CHR ''/'' \<notin> set p"

lemma split_path_segment:
  assumes "segment p" and "rest = [] \<or> hd rest = CHR ''/''"
  shows "split_path (CHR ''/'' # p @ rest) = p # split_path rest"
    and "split_path (p @ rest) = p # split_path rest"
proof -
  from assms(1) obtain c q where p: "p = c # q" "c \<noteq> CHR ''/''" "\<And>x. x \<in> set p \<Longrightarrow> x \<noteq> CHR ''/''"
    unfolding segment_def by (cases p) auto
  have "takeWhile (\<lambda>c. c \<noteq> CHR ''/'') (p @ rest) = p" "dropWhile (\<lambda>c. c \<noteq> CHR ''/'') (p @ rest) = rest"
    using p(3) assms(2) by (cases rest; simp add: takeWhile_append2 dropWhile_append2)+
  then show "split_path (CHR ''/'' # p @ rest) = p # split_path rest"
    and "split_path (p @ rest) = p # split_path rest"
    using p(1,2)
    by (simp_all add: split_path.simps [of "CHR ''/'' # c # q @ rest"] split_path.simps [of "c # q @ rest"])
qed

lemma hd_path_of: "path_of parts = [] \<or> hd (path_of parts) = CHR ''/''"
  by (cases parts) (simp_all add: path_of_def)

lemma split_path_of: "list_all segment parts \<Longrightarrow> split_path (path_of parts) = parts"
proof (induction parts)
  case Nil
  then show ?case by (simp add: path_of_def split_path.simps)
next
  case (Cons p parts)
  then show ?case using split_path_segment(1) [OF _ hd_path_of, of p parts] by (simp add: path_of_def)
qed

lemma split_path_of_tl: "list_all segment parts \<Longrightarrow> split_path (tl (path_of parts)) = parts"
  using split_path_segment(2) [OF _ hd_path_of, of "hd parts" "tl parts"] split_path_of [of "tl parts"]
  by (cases parts) (auto simp: path_of_def split_path.simps)

lemma strip_prefix_key_path:
  "strip_prefix_key (pre @ path_of parts) pre = (if pre = [] then path_of parts else tl (path_of parts))"
  using hd_path_of [of parts]
  by (cases "path_of parts") (auto simp: strip_prefix_key_def nth_append)

lemma parts_of_key:
  assumes "list_all segment parts"
  shows "split_path (strip_prefix_key (pre @ path_of parts) pre) = parts"
  using split_path_of [OF assms] split_path_of_tl [OF assms] by (simp add: strip_prefix_key_path)

lemma strip_nonempty:
  assumes "segment p"
  shows "strip_prefix_key (pre @ path_of (p # parts)) pre \<noteq> []"
  unfolding strip_prefix_key_path using assms by (simp add: path_of_def segment_def)

lemma segment_ids [simp]:
  "segment (CHR ''0'' # CHR ''x'' # hex4 upper v)" "segment ''rpc''" "segment ''event''" "segment ''liveliness''"
  by (simp_all add: segment_def)

lemma keys_as_paths:
  "build_rpc_key pre s i m = pre @ path_of [format_service_id s, format_service_id i, ''rpc'', format_service_id m]"
  "build_key_expr pre s i m b = pre @ path_of [format_service_id s, format_service_id i, format_service_id m, ''event'']"
  "build_liveliness_key pre s i = pre @ path_of [''liveliness'', format_service_id s, format_service_id i]"
  by (simp_all add: topic_simps path_of_def)

lemmas key_readers = and_then_def read_service_def read_instance_def read_method_def

lemma parse_built_keys:
  "parse_someip_key (build_rpc_key pre s i m) pre = \<lparr>zk_service_id = s, zk_instance_id = i,
     zk_method_or_event_id = m, zk_is_rpc_path = True, zk_is_liveliness = False, zk_valid = True\<rparr>"
  "parse_someip_key (build_key_expr pre s i m b) pre = \<lparr>zk_service_id = s, zk_instance_id = i,
     zk_method_or_event_id = m, zk_is_rpc_path = False, zk_is_liveliness = False, zk_valid = True\<rparr>"
  "parse_someip_key (build_liveliness_key pre s i) pre = \<lparr>zk_service_id = s, zk_instance_id = i,
     zk_method_or_event_id = 0, zk_is_rpc_path = False, zk_is_liveliness = True, zk_valid = True\<rparr>"
  unfolding keys_as_paths parse_someip_key_def
  by (simp_all add: parts_of_key strip_nonempty key_readers numeral_eq_Suc)

subsection \<open>The JSON envelope decodes to its payload\<close>

text \<open>Text that neither contains \<open>"p\<close> nor ends in a quote hides no start of the searched key.\<close>

fun quiet :: "string \<Rightarrow> bool" where
  "quiet [] = True"
| "quiet [c] = (c \<noteq> CHR 0x22)"
| "quiet (c # d # s) = (\<not> (c = CHR 0x22 \<and> d = CHR ''p'') \<and> quiet (d # s))"

lemma quiet_append [simp]: "quiet s \<Longrightarrow> quiet t \<Longrightarrow> quiet (s @ t)"
proof (induction s rule: quiet.induct)
  case (2 c)
  then show ?case by (cases t) auto
qed auto

lemma quiet_digits [simp]: "quiet (show_dec n)"
proof -
  have "quiet s" if "\<And>c. c \<in> set s \<Longrightarrow> isdigit c" for s
    using that
  proof (induction s rule: quiet.induct)
    case (2 c)
    then have "isdigit c" by simp
    then show ?case by (auto simp: isdigit_def)
  next
    case (3 c d s)
    then have "isdigit c" "quiet (d # s)" by simp_all
    then show ?case by (auto simp: isdigit_def)
  qed simp
  then show ?thesis using show_dec_digits by blast
qed

lemma str_find_skip: "\<not> prefix pat (c # s) \<Longrightarrow> str_find pat (c # s) = map_option Suc (str_find pat s)"
  by simp

lemma str_find_quiet:
  "quiet s \<Longrightarrow> str_find (CHR 0x22 # CHR ''p'' # pat) (s @ CHR 0x22 # t) =
     map_option ((+) (length s)) (str_find (CHR 0x22 # CHR ''p'' # pat) (CHR 0x22 # t))"
proof (induction s rule: quiet.induct)
  case 1
  then show ?case by (simp add: option.map_id0 flip: id_def)
next
  case (2 c)
  then show ?case by (simp add: option.map_comp comp_def)
next
  case (3 c d s)
  let ?P = "CHR 0x22 # CHR ''p'' # pat"
  from 3 have "\<not> prefix ?P (c # d # s @ CHR 0x22 # t)" by auto
  then have "str_find ?P (c # d # s @ CHR 0x22 # t) = map_option Suc (str_find ?P ((d # s) @ CHR 0x22 # t))"
    unfolding append_Cons by (rule str_find_skip)
  also have "\<dots> = map_option Suc (map_option ((+) (length (d # s))) (str_find ?P (CHR 0x22 # t)))"
    using 3 by (intro arg_cong [where f = "map_option Suc"] "3.IH") simp
  finally show ?case by (simp add: option.map_comp comp_def del: str_find.simps)
qed

lemma decode_json_loop_unfold:
  "decode_json_loop (CHR '']'' # t) bs = Inr (Some bs)"
  "decode_json_loop (CHR '','' # t) bs = decode_json_loop t bs"
  by (simp_all add: decode_json_loop.simps [of "CHR '']'' # t"] decode_json_loop.simps [of "CHR '','' # t"])

lemma isdigit_not_space: "isdigit c \<Longrightarrow> \<not> isspace c"
  by (auto simp: isdigit_def isspace_def Let_def)

lemma decode_json_loop_byte:
  fixes b :: u8
  assumes "\<not> isdigit c"
  shows "decode_json_loop (show_dec (unat b) @ c # t) bs = decode_json_loop (c # t) (bs @ [b])"
proof -
  let ?n = "unat b"
  have n: "?n < 256" using unsigned_less [of b] by simp
  then have "int ?n < 256" by linarith
  then have u: "uint b < 256" by simp
  obtain x q where q: "show_dec ?n = x # q" by (cases "show_dec ?n") auto
  have ds: "\<And>y. y \<in> set (show_dec ?n) \<Longrightarrow> isdigit y" by (rule show_dec_digits)
  then have x: "isdigit x" "\<not> isspace x" "x \<noteq> CHR '']''" "x \<noteq> CHR '',''"
    using q isdigit_not_space [of x] json_separators by force+
  have tw: "takeWhile isdigit (show_dec ?n @ c # t) = show_dec ?n" "dropWhile isdigit (show_dec ?n @ c # t) = c # t"
    using ds assms by (simp_all add: takeWhile_append2 dropWhile_append2)
  have st: "stoi_digits (show_dec ?n) = Inr (int ?n)" using n by (simp add: stoi_digits_def)
  have "decode_json_loop (show_dec ?n @ c # t) bs = decode_json_loop (c # t) (bs @ [word_of_int (int ?n)])"
    using x tw st u q by (simp add: decode_json_loop.simps [of "x # q @ c # t"])
  then show ?thesis by simp
qed

lemma decode_json_bytes: "decode_json_loop (json_bytes ps @ CHR '']'' # t) bs = Inr (Some (bs @ ps))"
proof (induction ps arbitrary: bs rule: json_bytes.induct)
  case 1
  then show ?case by (simp add: decode_json_loop_unfold)
next
  case (2 b)
  then show ?case by (simp add: decode_json_loop_byte decode_json_loop_unfold)
next
  case (3 b c ps)
  then show ?case by (simp add: decode_json_loop_byte decode_json_loop_unfold)
qed

lemma decode_json_of_encode:
  "decode_json_envelope A (payload_to_json A m) out_msg = Inr (True, set_payload A (get_payload A m) out_msg)"
proof -
  define pre where \<open>pre = ''{'' @
     ''"service_id":'' @ show_dec (unat (get_service_id A m)) @ '','' @
     ''"method_id":'' @ show_dec (unat (get_method_id A m)) @ '','' @
     ''"client_id":'' @ show_dec (unat (get_client_id A m)) @ '','' @
     ''"session_id":'' @ show_dec (unat (get_session_id A m)) @ '','' @
     ''"message_type":'' @ show_dec (unat (get_message_type A m)) @ '','' @
     ''"return_code":'' @ show_dec (unat (get_return_code A m)) @ '',''\<close>
  have q: "quiet pre" unfolding pre_def by (intro quiet_append quiet_digits) simp_all
  have t: \<open>json_text A m = pre @ CHR 0x22 # ''payload":['' @ json_bytes (get_payload A m) @ '']}''\<close>
    by (simp add: json_text_def pre_def)
  have f: \<open>str_find ''"payload":['' (json_text A m) = Some (length pre)\<close>
    unfolding t str_find_quiet [OF q] by simp
  have "drop (length pre + 11) (json_text A m) = json_bytes (get_payload A m) @ '']}''"
    unfolding t by simp
  with f show ?thesis
    by (simp add: decode_json_envelope_def payload_to_json_def decode_json_bytes)
qed

subsection \<open>CBOR envelopes\<close>

lemma append_cbor_appends:
  "append_cbor_uint out v = out @ append_cbor_uint [] v"
  "append_cbor_text_string out s = out @ append_cbor_text_string [] s"
  "append_cbor_byte_string out d = out @ append_cbor_byte_string [] d"
  by (simp_all add: append_cbor_uint_def append_cbor_text_string_def append_cbor_byte_string_def Let_def)

lemma bit_below:
  fixes v :: "'a::len word"
  assumes "unat v < 2 ^ n" and "bit v k"
  shows "k < n"
proof -
  have "bit (take_bit n (unat v)) k"
    using assms by (simp add: take_bit_nat_eq_self bit_unsigned_iff bit_imp_le_length)
  then show ?thesis by (simp add: bit_take_bit_iff)
qed

lemma u64_of_low_byte: "v < 256 \<Longrightarrow> ucast (ucast v :: u8) = (v :: u64)"
proof -
  assume "v < 256"
  then have "bit v k \<Longrightarrow> k < 8" for k using bit_below [of v 8 k] by (simp add: word_less_nat_alt)
  then show ?thesis by (intro bit_word_eqI) (auto simp: bit_simps)
qed

lemma u64_of_two_bytes:
  assumes "v < 65536"
  shows "push_bit 8 (ucast (ucast (drop_bit 8 v) :: u8)) OR ucast (ucast v :: u8) = (v :: u64)"
proof -
  have b: "bit v k \<Longrightarrow> k < 16" for k using bit_below [of v 16 k] assms by (simp add: word_less_nat_alt)
  show ?thesis
  proof (rule bit_word_eqI)
    fix n
    show "bit (push_bit 8 (ucast (ucast (drop_bit 8 v) :: u8)) OR ucast (ucast v :: u8) :: u64) n = bit v n"
      using b [of n] by (cases "n < 8") (auto simp: bit_simps)
  qed
qed

lemma small_byte: "v < 24 \<Longrightarrow> (ucast (v :: u64) :: u8) < 24"
  by (simp add: word_less_nat_alt unsigned_ucast_eq unsigned_take_bit_eq take_bit_nat_eq_self)

lemma not_small: "\<not> v < 256 \<Longrightarrow> \<not> (v :: u64) < 24"
  by (simp add: word_less_nat_alt)

lemma read_uint_append [simp]:
  assumes "v < 65536"
  shows "read_uint (append_cbor_uint [] v @ w) = Some (v, w)"
proof -
  consider (one) "v < 24" "v < 256" | (two) "\<not> v < 24" "v < 256" | (three) "\<not> v < 24" "\<not> v < 256"
    using not_small by blast
  then show ?thesis
  proof cases
    case one
    then show ?thesis by (simp only: read_uint_def append_cbor_uint_def small_byte u64_of_low_byte if_True append.simps list.case)
  next
    case two
    then show ?thesis by (simp add: read_uint_def append_cbor_uint_def u64_of_low_byte)
  next
    case three
    then show ?thesis using u64_of_two_bytes [OF assms] assms
      by (simp only: read_uint_def append_cbor_uint_def if_False if_True append.simps list.case) simp
  qed
qed

lemma u16_as_u64 [simp]:
  "(ucast (v :: u16) :: u64) < 65536" "ucast (ucast v :: u64) = v" "\<not> (0xFFFF :: u64) < ucast v"
  using unat_u16_less [of v]
  by (simp_all add: word_less_nat_alt unsigned_ucast_eq unsigned_take_bit_eq take_bit_nat_eq_self)

lemma u8_as_u64 [simp]:
  "(ucast (v :: u8) :: u64) < 65536" "\<not> (0xFF :: u64) < ucast v"
  using unsigned_less [of v, where 'a = nat]
  by (simp_all add: word_less_nat_alt unsigned_ucast_eq unsigned_take_bit_eq take_bit_nat_eq_self)

lemma u8_of_u64 [simp]: "ucast (ucast v :: u64) = (v :: u8)"
  by (intro bit_word_eqI) (auto simp: bit_simps)

lemma read_text_keys [simp]:
  "read_text_key (append_cbor_text_string [] ''svc'' @ w) = Some (''svc'', w)"
  "read_text_key (append_cbor_text_string [] ''method'' @ w) = Some (''method'', w)"
  "read_text_key (append_cbor_text_string [] ''type'' @ w) = Some (''type'', w)"
  "read_text_key (append_cbor_text_string [] ''payload'' @ w) = Some (''payload'', w)"
  by (simp_all add: read_text_key_def append_cbor_text_string_def)

lemma short_headers:
  "list_all (\<lambda>n. (ucast (0x40 + word_of_nat n :: u64) :: u8) AND 0xE0 = 0x40 \<and>
     unat ((ucast (0x40 + word_of_nat n :: u64) :: u8) AND 0x1F) = n) [0..<24]"
  by code_simp

lemma short_header:
  assumes "n < 24"
  shows "(ucast (0x40 + word_of_nat n :: u64) :: u8) AND 0xE0 = 0x40"
    and "unat ((ucast (0x40 + word_of_nat n :: u64) :: u8) AND 0x1F) = n"
  using short_headers assms unfolding list_all_iff by (auto simp del: upt_conv_Cons)

text \<open>What \<open>read_byte_string\<close> makes of an encoded byte string.\<close>

definition cbor_seen :: "bytes \<Rightarrow> bytes" where
  "cbor_seen p =
     (if length p < 24 then p
      else if length p < 256 then word_of_nat (length p) # take 23 p
      else word_of_nat (length p div 256) # word_of_nat (length p) # take 23 p)"

lemma size_compare:
  assumes "n < 2 ^ 64"
  shows "(word_of_nat n :: u64) < 24 \<longleftrightarrow> n < 24" "(word_of_nat n :: u64) < 256 \<longleftrightarrow> n < 256"
  using assms by (simp_all add: word_less_nat_alt unat_of_nat)

lemma size_bytes:
  "ucast (word_of_nat n :: u64) = (word_of_nat n :: u8)"
  "ucast (drop_bit 8 (word_of_nat n :: u64)) = (word_of_nat (n div 256) :: u8)"
proof -
  show "ucast (word_of_nat n :: u64) = (word_of_nat n :: u8)"
    by (intro bit_word_eqI) (auto simp: bit_simps)
  have "n div 256 = drop_bit 8 n" by (simp add: drop_bit_nat_def)
  then show "ucast (drop_bit 8 (word_of_nat n :: u64)) = (word_of_nat (n div 256) :: u8)"
    by (intro bit_word_eqI) (auto simp: bit_simps)
qed

lemma read_byte_string_append:
  assumes "length p < 2 ^ 64"
  shows "\<exists>w. read_byte_string (append_cbor_byte_string [] p) = Some (cbor_seen p, w)"
proof -
  consider (short) "length p < 24" | (one) "24 \<le> length p" "length p < 256" | (two) "256 \<le> length p"
    by linarith
  then show ?thesis
  proof cases
    case short
    then show ?thesis using short_header [OF short] assms
      by (simp add: read_byte_string_def append_cbor_byte_string_def size_compare cbor_seen_def Let_def)
  next
    case one
    then show ?thesis using assms
      by (simp add: read_byte_string_def append_cbor_byte_string_def size_compare size_bytes cbor_seen_def)
  next
    case two
    then show ?thesis using assms
      by (simp add: read_byte_string_def append_cbor_byte_string_def size_compare size_bytes cbor_seen_def)
  qed
qed

lemma build_cbor_envelope_split:
  "build_cbor_envelope A m = 0xA4 #
      append_cbor_text_string [] ''svc'' @ append_cbor_uint [] (ucast (get_service_id A m)) @
      append_cbor_text_string [] ''method'' @ append_cbor_uint [] (ucast (get_method_id A m)) @
      append_cbor_text_string [] ''type'' @ append_cbor_uint [] (ucast (get_message_type A m)) @
      append_cbor_text_string [] ''payload'' @ append_cbor_byte_string [] (get_payload A m)"
  unfolding build_cbor_envelope_def Let_def
  by (simp add: append_cbor_appends(1) [of "_ @ _"] append_cbor_appends(1) [of "_ # _"]
      append_cbor_appends(2) [of "_ @ _"] append_cbor_appends(2) [of "_ # _"] append_cbor_appends(3) [of "_ @ _"]
      append_cbor_appends(3) [of "_ # _"])

lemma decode_cbor_of_encode:
  assumes "length (get_payload A m) < 2 ^ 64"
  shows "decode_cbor_envelope A (build_cbor_envelope A m) out_msg =
    (True, set_payload A (cbor_seen (get_payload A m)) (set_message_type A (get_message_type A m)
       (set_method_id A (get_method_id A m) (set_service_id A (get_service_id A m) out_msg))))"
proof -
  obtain w where w: "read_byte_string (append_cbor_byte_string [] (get_payload A m)) = Some (cbor_seen (get_payload A m), w)"
    using read_byte_string_append [OF assms] by blast
  show ?thesis unfolding build_cbor_envelope_split decode_cbor_envelope_def
    by (simp add: decode_cbor_pair_def w numeral_eq_Suc)
qed

subsection \<open>Keys as naming schemes\<close>

interpretation zenoh_event: topic_scheme
  "\<lambda>s i m. build_key_expr pre s i m b" False "pre @ ''/0x''" "''/0x''" "''/0x''" "''/event''" for pre b
  by unfold_locales (simp add: topic_simps)

interpretation zenoh_rpc: topic_scheme
  "build_rpc_key pre" False "pre @ ''/0x''" "''/0x''" "''/rpc/0x''" "[]" for pre
  by unfold_locales (simp add: topic_simps)


subsection \<open>Properties\<close>

lemma cbor_seen_lengths:
  "length p < 24 \<Longrightarrow> cbor_seen p = p" "24 \<le> length p \<Longrightarrow> length (cbor_seen p) \<le> 25"
  by (auto simp: cbor_seen_def)

text \<open>Every key the translator builds, under every prefix, parses back under that prefix to the
  identifiers it was built from and to its kind: RPC keys, event keys and liveliness keys.\<close>

lemma zenoh_keys_round_trip:
  "parse_someip_key (build_rpc_key pre s i m) pre = \<lparr>zk_service_id = s, zk_instance_id = i,
     zk_method_or_event_id = m, zk_is_rpc_path = True, zk_is_liveliness = False, zk_valid = True\<rparr> \<and>
   parse_someip_key (build_key_expr pre s i m b) pre = \<lparr>zk_service_id = s, zk_instance_id = i,
     zk_method_or_event_id = m, zk_is_rpc_path = False, zk_is_liveliness = False, zk_valid = True\<rparr> \<and>
   parse_someip_key (build_liveliness_key pre s i) pre = \<lparr>zk_service_id = s, zk_instance_id = i,
     zk_method_or_event_id = 0, zk_is_rpc_path = False, zk_is_liveliness = True, zk_valid = True\<rparr>"
  by (simp only: parse_built_keys simp_thms)

text \<open>A message translated to Zenoh and back, under each encoding: the call returns a message with
  the requested service, the original method, and client 0 and session 1. Under RAW and JSON the
  payload is the original one and the type the requested one; under CBOR the type is the original one
  and the payload is what the decoder reads from the encoded byte string.\<close>

lemma zenoh_message_round_trip:
  assumes "message_laws A" and "length (get_payload A m) < 2 ^ 64"
  shows "\<exists>m'. zenoh_to_someip A enc (someip_to_zenoh A enc m pre mapping) sid iid t = Inr m' \<and>
    header_of A m' = (sid, get_method_id A m, 0, 1, if enc = ZENOH_CBOR then get_message_type A m else t, rc_E_OK A) \<and>
    get_payload A m' = (if enc = ZENOH_CBOR then cbor_seen (get_payload A m) else get_payload A m)"
  using assms
  by (cases enc)
    (simp_all add: zenoh_to_someip_def someip_to_zenoh_def Let_def header_of_def decode_json_of_encode decode_cbor_of_encode)

lemma zenoh_message_round_trip_witness:
  "\<exists>m'. zenoh_to_someip ref_api ZENOH_JSON
      (someip_to_zenoh ref_api ZENOH_JSON
         \<lparr>ref_service = 0x1234, ref_method = 0x8001, ref_client = 7, ref_session = 9, ref_type = 2, ref_return = 0,
          ref_payload = [10, 200, 3]\<rparr> ''vehicle'' ServiceMapping_default) 0x1234 1 2 = Inr m' \<and>
    get_payload ref_api m' = [10, 200, 3]"
  using zenoh_message_round_trip [OF ref_api_laws, where enc = ZENOH_JSON and sid = "0x1234" and iid = 1 and t = 2
      and m = "\<lparr>ref_service = 0x1234, ref_method = 0x8001, ref_client = 7, ref_session = 9, ref_type = 2,
        ref_return = 0, ref_payload = [10, 200, 3]\<rparr>" and pre = "''vehicle''" and mapping = ServiceMapping_default]
  by (auto simp: ref_simps)



end
