(* ===== verification/Wire_Formats.thy ===== *)
theory Wire_Formats
  imports Mqtt_Translator Zenoh_Translator
begin

text \<open>
  The documents the translators write, against the formats they claim to be: the JSON envelope of
  \<open>MessageTranslator::payload_to_json\<close> and the CBOR envelope of \<open>ZenohTranslator::build_cbor_envelope\<close>. Each format has a
  reference reader, written from the format's definition (RFC 8259, RFC 8949) and not from the decoders of the source; the
  readers are specifications and model no code. The properties say what a conforming reader gets out of each document.
\<close>

subsection \<open>Reading sequences\<close>

text \<open>Items separated by commas up to a closing character, at most as many as the first argument says.\<close>

fun read_list :: "nat \<Rightarrow> (string \<Rightarrow> ('a \<times> string) option) \<Rightarrow> char \<Rightarrow> string \<Rightarrow> ('a list \<times> string) option" where
  "read_list 0 rd close s = None"
| "read_list (Suc n) rd close s =
     Option.bind (rd s) (\<lambda>(v, t).
       case t of
         [] \<Rightarrow> None
       | c # t' \<Rightarrow>
           if c = close then Some ([v], t')
           else if c = CHR '','' then map_option (\<lambda>(vs, u). (v # vs, u)) (read_list n rd close t')
           else None)"

definition read_items :: "(string \<Rightarrow> ('a \<times> string) option) \<Rightarrow> char \<Rightarrow> string \<Rightarrow> ('a list \<times> string) option" where
  "read_items rd close s =
     (case s of
        [] \<Rightarrow> None
      | c # t \<Rightarrow> if c = close then Some ([], t) else read_list (length s) rd close s)"

text \<open>A known number of items.\<close>

fun read_many :: "nat \<Rightarrow> ('s \<Rightarrow> ('a \<times> 's) option) \<Rightarrow> 's \<Rightarrow> ('a list \<times> 's) option" where
  "read_many 0 rd s = Some ([], s)"
| "read_many (Suc n) rd s =
     Option.bind (rd s) (\<lambda>(v, t). map_option (\<lambda>(vs, u). (v # vs, u)) (read_many n rd t))"

text \<open>A document is one value and nothing behind it.\<close>

definition whole :: "('a \<times> 'b list) option \<Rightarrow> 'a option" where
  "whole r = (case r of Some (v, []) \<Rightarrow> Some v | _ \<Rightarrow> None)"


subsection \<open>JSON\<close>

text \<open>JSON without white space, escapes, signs, fractions and exponents, none of which the code writes.\<close>

datatype json = JNumber nat | JString string | JArray "json list" | JObject "(string \<times> json) list"

definition quote :: char where
  "quote = CHR 0x22"

definition read_json_string :: "string \<Rightarrow> (string \<times> string) option" where
  "read_json_string s =
     (case s of
        [] \<Rightarrow> None
      | c # t \<Rightarrow>
          if c \<noteq> quote then None
          else let u = takeWhile (\<lambda>c. c \<noteq> quote) t; r = dropWhile (\<lambda>c. c \<noteq> quote) t
               in if r = [] \<or> list_ex (\<lambda>c. c = CHR 0x5C \<or> (of_char c :: nat) < 32) u then None else Some (u, tl r))"

definition read_json_number :: "string \<Rightarrow> (json \<times> string) option" where
  "read_json_number s =
     (let ds = takeWhile isdigit s
      in if ds = [] \<or> hd ds = CHR ''0'' \<and> tl ds \<noteq> [] then None
         else Some (JNumber (digits_value 10 0 ds), dropWhile isdigit s))"

definition read_member :: "(string \<Rightarrow> (json \<times> string) option) \<Rightarrow> string \<Rightarrow> ((string \<times> json) \<times> string) option" where
  "read_member rd s =
     Option.bind (read_json_string s) (\<lambda>(k, t).
       case t of
         [] \<Rightarrow> None
       | c # t' \<Rightarrow> if c = CHR '':'' then map_option (\<lambda>(v, u). ((k, v), u)) (rd t') else None)"

primrec read_json :: "nat \<Rightarrow> string \<Rightarrow> (json \<times> string) option" where
  "read_json 0 s = None"
| "read_json (Suc d) s =
     (case s of
        [] \<Rightarrow> None
      | c # t \<Rightarrow>
          if c = CHR ''{'' then map_option (\<lambda>(ms, u). (JObject ms, u)) (read_items (read_member (read_json d)) (CHR ''}'') t)
          else if c = CHR ''['' then map_option (\<lambda>(vs, u). (JArray vs, u)) (read_items (read_json d) (CHR '']'') t)
          else if c = quote then map_option (\<lambda>(v, u). (JString v, u)) (read_json_string s)
          else read_json_number s)"

text \<open>The nesting of a document is less than its length.\<close>

definition json_document :: "string \<Rightarrow> json option" where
  "json_document s = whole (read_json (length s) s)"

lemma show_dec_leading_zero: "hd (show_dec n) = CHR ''0'' \<Longrightarrow> tl (show_dec n) = []"
proof (induction n rule: show_dec.induct)
  case (1 n)
  show ?case
  proof (cases "n < 10")
    case True
    then show ?thesis by (simp add: show_dec.simps [of n])
  next
    case False
    then have e: "show_dec n = show_dec (n div 10) @ [dec_digit (n mod 10)]" by (simp add: show_dec.simps [of n])
    with "1.prems" have "hd (show_dec (n div 10)) = CHR ''0''" by simp
    with "1.IH" [OF False] have "show_dec (n div 10) = ''0''" by (metis list.collapse show_dec_nonempty)
    moreover have "digits_value 10 0 ''0'' = 0" by code_simp
    ultimately have "n div 10 = 0" by (metis digits_value_show_dec)
    with False show ?thesis by simp
  qed
qed

lemma read_json_number_show:
  assumes "r = [] \<or> \<not> isdigit (hd r)"
  shows "read_json_number (show_dec n @ r) = Some (JNumber n, r)"
proof -
  have "takeWhile isdigit r = []" "dropWhile isdigit r = r"
    using assms by (cases r; simp)+
  then have "takeWhile isdigit (show_dec n @ r) = show_dec n" "dropWhile isdigit (show_dec n @ r) = r"
    using show_dec_digits [of _ n] by (simp_all add: takeWhile_append2 dropWhile_append2)
  then show ?thesis using show_dec_leading_zero [of n] by (auto simp: read_json_number_def Let_def)
qed

lemma digit_no_bracket: "isdigit c \<Longrightarrow> c \<noteq> CHR ''{'' \<and> c \<noteq> CHR ''['' \<and> c \<noteq> quote \<and> c \<noteq> CHR '']''"
  by (auto simp: isdigit_def quote_def)

lemma read_json_number_value:
  assumes "r = [] \<or> \<not> isdigit (hd r)"
  shows "read_json (Suc d) (show_dec n @ r) = Some (JNumber n, r)"
proof -
  obtain c t where c: "show_dec n = c # t" by (cases "show_dec n") auto
  with show_dec_digits [of c n] have "isdigit c" by simp
  with digit_no_bracket [of c] read_json_number_show [OF assms, of n] c show ?thesis by simp
qed

lemma read_list_bytes:
  assumes "length bs < n"
  shows "read_list n (read_json (Suc d)) (CHR '']'') (json_bytes (b # bs) @ CHR '']'' # r) =
    Some (map (\<lambda>b. JNumber (unat b)) (b # bs), r)"
  using assms
proof (induction bs arbitrary: b n)
  case Nil
  then obtain k where "n = Suc k" by (cases n) auto
  then show ?case by (simp add: read_json_number_value del: read_json.simps)
next
  case (Cons c bs)
  then obtain k where k: "n = Suc k" "length bs < k" by (cases n) auto
  with Cons.IH [OF k(2), of c] show ?case by (simp add: read_json_number_value del: read_json.simps)
qed

lemma length_json_bytes: "length bs \<le> length (json_bytes bs)"
proof (induction bs rule: json_bytes.induct)
  case (2 b)
  then show ?case by (cases "show_dec (unat b)") auto
qed auto

lemma read_json_array_bytes:
  "read_json (Suc (Suc d)) (CHR ''['' # json_bytes bs @ CHR '']'' # r) =
     Some (JArray (map (\<lambda>b. JNumber (unat b)) bs), r)"
proof (cases bs)
  case Nil
  then show ?thesis by (simp add: read_items_def quote_def)
next
  case (Cons b bs')
  let ?s = "json_bytes bs @ CHR '']'' # r"
  obtain c t where ct: "json_bytes bs = c # t" "isdigit c"
    using show_dec_digits [of _ "unat b"] by (cases bs'; cases "show_dec (unat b)") (auto simp: Cons)
  with digit_no_bracket have "read_items (read_json (Suc d)) (CHR '']'') ?s = read_list (length ?s) (read_json (Suc d)) (CHR '']'') ?s"
    by (simp add: read_items_def del: read_json.simps)
  also have "\<dots> = Some (map (\<lambda>b. JNumber (unat b)) bs, r)"
    using read_list_bytes [of bs' "length ?s" d b r] length_json_bytes [of bs] by (simp add: Cons del: read_json.simps)
  finally show ?thesis by (simp add: quote_def)
qed

text \<open>Keys that need no escapes.\<close>

definition plain_key :: "string \<Rightarrow> bool" where
  "plain_key k \<longleftrightarrow> list_all (\<lambda>c. c \<noteq> quote \<and> c \<noteq> CHR 0x5C \<and> \<not> (of_char c :: nat) < 32) k"

lemma read_member_key:
  assumes "plain_key k"
  shows "read_member rd (quote # k @ quote # CHR '':'' # t) = map_option (\<lambda>(v, u). ((k, v), u)) (rd t)"
proof -
  have "takeWhile (\<lambda>c. c \<noteq> quote) (k @ quote # x) = k" "dropWhile (\<lambda>c. c \<noteq> quote) (k @ quote # x) = quote # x" for x
    using assms by (induction k) (auto simp: plain_key_def)
  moreover have "\<not> list_ex (\<lambda>c. c = CHR 0x5C \<or> (of_char c :: nat) < 32) k"
    using assms by (auto simp: plain_key_def list_ex_iff list_all_iff)
  ultimately show ?thesis by (simp add: read_member_def read_json_string_def)
qed

lemma envelope_keys [simp]:
  "plain_key ''service_id''" "plain_key ''method_id''" "plain_key ''client_id''" "plain_key ''session_id''"
  "plain_key ''message_type''" "plain_key ''return_code''" "plain_key ''payload''"
  by code_simp+

lemma read_list_number:
  assumes "plain_key k"
  shows "read_list (Suc n) (read_member (read_json (Suc d))) (CHR ''}'') (quote # k @ quote # CHR '':'' # show_dec v @ CHR '','' # t) =
    map_option (\<lambda>(vs, u). ((k, JNumber v) # vs, u)) (read_list n (read_member (read_json (Suc d))) (CHR ''}'') t)"
  using read_member_key [OF assms] read_json_number_value [of "CHR '','' # t" d v] by (simp del: read_json.simps)

text \<open>What the envelope of a message says.\<close>

definition envelope_members :: "'m message_api \<Rightarrow> 'm \<Rightarrow> (string \<times> json) list" where
  "envelope_members A m =
     [(''service_id'', JNumber (unat (get_service_id A m))), (''method_id'', JNumber (unat (get_method_id A m))),
      (''client_id'', JNumber (unat (get_client_id A m))), (''session_id'', JNumber (unat (get_session_id A m))),
      (''message_type'', JNumber (unat (get_message_type A m))), (''return_code'', JNumber (unat (get_return_code A m))),
      (''payload'', JArray (map (\<lambda>b. JNumber (unat b)) (get_payload A m)))]"

lemma read_json_envelope:
  "read_json (Suc (Suc (Suc d))) (json_text A m) = Some (JObject (envelope_members A m), [])"
proof -
  let ?rd = "read_json (Suc (Suc d))" and ?num = "\<lambda>k v t. quote # k @ quote # CHR '':'' # show_dec v @ CHR '','' # t"
  let ?pay = "quote # ''payload'' @ quote # CHR '':'' # CHR ''['' # json_bytes (get_payload A m) @ '']}''"
  let ?body = "?num ''service_id'' (unat (get_service_id A m)) (?num ''method_id'' (unat (get_method_id A m))
     (?num ''client_id'' (unat (get_client_id A m)) (?num ''session_id'' (unat (get_session_id A m))
     (?num ''message_type'' (unat (get_message_type A m)) (?num ''return_code'' (unat (get_return_code A m)) ?pay)))))"
  have e: "json_text A m = CHR ''{'' # ?body" by (simp add: json_text_def quote_def)
  obtain k where k: "length ?body = Suc (Suc (Suc (Suc (Suc (Suc (Suc k))))))" by simp
  have pay: "read_list (Suc k) (read_member ?rd) (CHR ''}'') ?pay =
      Some ([(''payload'', JArray (map (\<lambda>b. JNumber (unat b)) (get_payload A m)))], [])"
    using read_member_key [OF envelope_keys(7), of ?rd] read_json_array_bytes [of d "get_payload A m" "''}''"]
    by (simp del: read_json.simps)
  have "read_items (read_member ?rd) (CHR ''}'') ?body = read_list (length ?body) (read_member ?rd) (CHR ''}'') ?body"
    by (simp add: read_items_def quote_def del: read_json.simps read_list.simps)
  also have "\<dots> = Some (envelope_members A m, [])"
    unfolding k by (simp only: read_list_number envelope_keys pay) (simp add: envelope_members_def)
  finally show ?thesis unfolding e by (simp only: read_json.simps(2) list.case simp_thms if_True option.map prod.case)
qed

text \<open>C20: The JSON envelope is JSON: a conforming reader gets, from what the MQTT and the Zenoh gateways write for every
  message, an object with the six header fields and the payload as an array of numbers, in this order and nothing else.\<close>

theorem json_envelope_conforms:
  "json_document (string_of_bytes (mqtt_encode_payload A m MQTT_JSON)) = Some (JObject (envelope_members A m)) \<and>
   json_document (string_of_bytes (zenoh_encode_payload A ZENOH_JSON m)) = Some (JObject (envelope_members A m))"
proof -
  have "\<exists>d. length (json_text A m) = Suc (Suc (Suc d))" by (simp add: json_text_def)
  then have "json_document (json_text A m) = Some (JObject (envelope_members A m))"
    using read_json_envelope [of _ A m] by (auto simp: json_document_def whole_def simp del: read_json.simps)
  then show ?thesis by (simp add: payload_to_json_envelope_def payload_to_json_def)
qed


subsection \<open>CBOR\<close>

text \<open>Unsigned integers, byte and text strings, arrays and maps of definite length.\<close>

datatype cbor = CUint nat | CBytes bytes | CText bytes | CArray "cbor list" | CMap "(cbor \<times> cbor) list"

definition big_endian :: "bytes \<Rightarrow> nat" where
  "big_endian bs = foldl (\<lambda>n b. n * 256 + unat b) 0 bs"

text \<open>The head of an item: its major type, its argument and the rest.\<close>

definition cbor_head :: "bytes \<Rightarrow> (nat \<times> nat \<times> bytes) option" where
  "cbor_head bs =
     (case bs of
        [] \<Rightarrow> None
      | b # t \<Rightarrow>
          (let major = unat b div 32; info = unat b mod 32; k = 2 ^ (info - 24)
           in if info < 24 then Some (major, info, t)
              else if info \<le> 27 \<and> k \<le> length t then Some (major, big_endian (take k t), drop k t)
              else None))"

definition read_pair :: "(bytes \<Rightarrow> (cbor \<times> bytes) option) \<Rightarrow> bytes \<Rightarrow> ((cbor \<times> cbor) \<times> bytes) option" where
  "read_pair rd bs = Option.bind (rd bs) (\<lambda>(k, t). map_option (\<lambda>(v, u). ((k, v), u)) (rd t))"

primrec read_cbor :: "nat \<Rightarrow> bytes \<Rightarrow> (cbor \<times> bytes) option" where
  "read_cbor 0 bs = None"
| "read_cbor (Suc d) bs =
     Option.bind (cbor_head bs) (\<lambda>(major, n, t).
       if major = 0 then Some (CUint n, t)
       else if major = 2 then (if n \<le> length t then Some (CBytes (take n t), drop n t) else None)
       else if major = 3 then (if n \<le> length t then Some (CText (take n t), drop n t) else None)
       else if major = 4 then map_option (\<lambda>(vs, u). (CArray vs, u)) (read_many n (read_cbor d) t)
       else if major = 5 then map_option (\<lambda>(ps, u). (CMap ps, u)) (read_many n (read_pair (read_cbor d)) t)
       else None)"

definition cbor_document :: "bytes \<Rightarrow> cbor option" where
  "cbor_document bs = whole (read_cbor (length bs) bs)"

lemma unat_low_byte [simp]: "unat (ucast (v :: u64) :: u8) = unat v mod 256"
  by (simp add: unsigned_ucast_eq take_bit_eq_mod unsigned_take_bit_eq)

lemma unat_high_bytes [simp]: "unat (drop_bit 8 (v :: u64)) = unat v div 256"
  by (simp add: drop_bit_eq_div unat_div)

lemma unat_as_u64 [simp]: "unat (ucast (v :: u16) :: u64) = unat v" "unat (ucast (w :: u8) :: u64) = unat w"
  using unat_u16_less [of v] unsigned_less [of w, where 'a = nat]
  by (simp_all add: unsigned_ucast_eq unsigned_take_bit_eq take_bit_nat_eq_self)

lemma cbor_head_uint:
  assumes "v < 65536"
  shows "cbor_head (append_cbor_uint [] v @ w) = Some (0, unat v, w)"
proof -
  have v: "unat v < 65536" using assms by (simp add: word_less_nat_alt)
  consider "v < 24" | "\<not> v < 24" "v < 256" | "\<not> v < 24" "\<not> v < 256" by blast
  then show ?thesis
  proof cases
    case 1
    then show ?thesis by (simp add: append_cbor_uint_def cbor_head_def word_less_nat_alt)
  next
    case 2
    then show ?thesis by (simp add: append_cbor_uint_def cbor_head_def big_endian_def word_less_nat_alt)
  next
    case 3
    with v show ?thesis
      by (simp add: append_cbor_uint_def cbor_head_def big_endian_def word_less_nat_alt)
  qed
qed

lemma two_bytes: "n div 256 mod 256 * 256 + n mod 256 = n mod (65536 :: nat)"
  using mod_mult2_eq [of n 256 256] by simp

text \<open>The head of a byte string carries the length modulo 65536.\<close>

lemma cbor_head_bytes:
  assumes "length p < 2 ^ 64"
  shows "cbor_head (append_cbor_byte_string [] p) = Some (2, length p mod 65536, p)"
proof -
  define n where "n = (word_of_nat (length p) :: u64)"
  have u: "unat n = length p" using assms by (simp add: n_def unat_of_nat)
  have o: "append_cbor_byte_string [] p = (if n < 24 then [ucast (0x40 + n)] else if n < 256 then [0x58, ucast n]
      else [0x59, ucast (drop_bit 8 n AND 0xFF), ucast (n AND 0xFF)]) @ p"
    by (simp add: append_cbor_byte_string_def n_def Let_def)
  consider "n < 24" | "\<not> n < 24" "n < 256" | "\<not> n < 24" "\<not> n < 256" by blast
  then show ?thesis
  proof cases
    case 1
    then have "unat (0x40 + n) = 64 + unat n" by (simp add: unat_word_ariths word_less_nat_alt)
    moreover have "(64 + length p) div 32 = 2" "(64 + length p) mod 32 = length p"
      using 1 u by (auto simp: word_less_nat_alt div_nat_eqI mod_if)
    ultimately show ?thesis using 1 u by (simp add: o cbor_head_def word_less_nat_alt)
  next
    case 2
    with u show ?thesis by (simp add: o cbor_head_def big_endian_def word_less_nat_alt)
  next
    case 3
    with u show ?thesis by (simp add: o cbor_head_def big_endian_def two_bytes)
  qed
qed

text \<open>The members of the map.\<close>

lemma read_cbor_uint: "v < 65536 \<Longrightarrow> read_cbor (Suc d) (append_cbor_uint [] v @ w) = Some (CUint (unat v), w)"
  by (simp add: cbor_head_uint)

lemma read_cbor_keys:
  "read_cbor (Suc d) (append_cbor_text_string [] ''svc'' @ w) = Some (CText (bytes_of_string ''svc''), w)"
  "read_cbor (Suc d) (append_cbor_text_string [] ''method'' @ w) = Some (CText (bytes_of_string ''method''), w)"
  "read_cbor (Suc d) (append_cbor_text_string [] ''type'' @ w) = Some (CText (bytes_of_string ''type''), w)"
  "read_cbor (Suc d) (append_cbor_text_string [] ''payload'' @ w) = Some (CText (bytes_of_string ''payload''), w)"
  by (simp_all add: append_cbor_text_string_def cbor_head_def bytes_of_string_def)

lemma read_cbor_bytes:
  assumes "length p < 2 ^ 64"
  shows "read_cbor (Suc d) (append_cbor_byte_string [] p) = Some (CBytes (take (length p mod 65536) p), drop (length p mod 65536) p)"
  by (simp add: cbor_head_bytes [OF assms])

definition cbor_members :: "'m message_api \<Rightarrow> 'm \<Rightarrow> bytes \<Rightarrow> (cbor \<times> cbor) list" where
  "cbor_members A m p =
     [(CText (bytes_of_string ''svc''), CUint (unat (get_service_id A m))),
      (CText (bytes_of_string ''method''), CUint (unat (get_method_id A m))),
      (CText (bytes_of_string ''type''), CUint (unat (get_message_type A m))),
      (CText (bytes_of_string ''payload''), CBytes p)]"

lemma read_cbor_envelope:
  assumes "length (get_payload A m) < 2 ^ 64" and "n = length (get_payload A m) mod 65536"
  shows "read_cbor (Suc (Suc d)) (build_cbor_envelope A m) =
    Some (CMap (cbor_members A m (take n (get_payload A m))), drop n (get_payload A m))"
proof -
  let ?t = "tl (build_cbor_envelope A m)"
  have h: "cbor_head (build_cbor_envelope A m) = Some (5, 4, ?t)"
    by (simp add: build_cbor_envelope_split cbor_head_def)
  have four: "4 = Suc (Suc (Suc (Suc 0)))" by simp
  have "read_many 4 (read_pair (read_cbor (Suc d))) ?t =
      Some (cbor_members A m (take n (get_payload A m)), drop n (get_payload A m))"
    unfolding four build_cbor_envelope_split
    by (simp add: read_pair_def read_cbor_keys read_cbor_uint read_cbor_bytes [OF assms(1)] cbor_members_def
        flip: assms(2) del: read_cbor.simps)
  then show ?thesis by (simp add: h del: read_many.simps read_cbor.simps(1))
qed

text \<open>C21: What the Zenoh gateway writes in its CBOR encoding is CBOR up to a payload of 65535 bytes: a conforming reader gets a map
  of the service, the method, the type and the whole payload. A longer payload is written after a length that lost its upper
  bits, so the reader finds bytes behind the map and the document is not CBOR.\<close>

theorem cbor_envelope_conforms:
  assumes "length (get_payload A m) < 2 ^ 64"
  shows "cbor_document (zenoh_encode_payload A ZENOH_CBOR m) =
    (if length (get_payload A m) < 65536 then Some (CMap (cbor_members A m (get_payload A m))) else None)"
proof -
  have "\<exists>d. length (build_cbor_envelope A m) = Suc (Suc d)"
    by (simp add: build_cbor_envelope_split append_cbor_text_string_def)
  then obtain d where d: "length (build_cbor_envelope A m) = Suc (Suc d)" by blast
  have "length (get_payload A m) mod 65536 < length (get_payload A m)" if "\<not> length (get_payload A m) < 65536"
    using that mod_less_divisor [of 65536 "length (get_payload A m)"] by linarith
  then show ?thesis
    using read_cbor_envelope [OF assms refl, of d]
    by (auto simp: cbor_document_def whole_def d simp del: read_cbor.simps split: list.split)
qed

theorem cbor_envelope_conforms_witness:
  "cbor_document (zenoh_encode_payload ref_api ZENOH_CBOR (set_payload ref_api (replicate 30 5) (Message_default ref_api))) =
     Some (CMap (cbor_members ref_api (set_payload ref_api (replicate 30 5) (Message_default ref_api)) (replicate 30 5)))"
  using cbor_envelope_conforms [of ref_api "set_payload ref_api (replicate 30 5) (Message_default ref_api)"]
  by (simp add: ref_simps)

end
