(* ===== verification/Dbus_Translator.thy ===== *)
theory Dbus_Translator
  imports Translator
begin

text \<open>
  \<open>gateway-dbus/include/opensomeip/gateway/dbus/dbus_translator.h\<close> and
  \<open>gateway-dbus/src/dbus_translator.cpp\<close>: D-Bus names, object paths, signatures and introspection data.
  The properties show that normalized prefixes are well formed, that names and paths determine
  the service and instance they stand for, and that signatures are sequences of D-Bus types.
\<close>

record DbusTranslator =
  bus_name_prefix :: string
  object_path_prefix :: string

text \<open>The loop that pops trailing occurrences of a character.\<close>

function strip_back :: "char \<Rightarrow> string \<Rightarrow> string" where
  "strip_back c p = (if p \<noteq> [] \<and> last p = c then strip_back c (butlast p) else p)"
  by pat_completeness auto
termination strip_back
  by (relation "measure (\<lambda>(c, p). length p)") auto

declare strip_back.simps [simp del]

definition normalize_path_prefix :: "string \<Rightarrow> string" where
  "normalize_path_prefix p =
     (let p1 = strip_back (CHR ''/'') p in
      if p1 = [] then ''/com/opensomeip''
      else if hd p1 \<noteq> CHR ''/'' then CHR ''/'' # p1
      else p1)"

definition normalize_bus_prefix :: "string \<Rightarrow> string" where
  "normalize_bus_prefix p =
     (let p1 = strip_back (CHR ''.'') p in if p1 = [] then ''com.opensomeip'' else p1)"

definition DbusTranslator_new :: "string \<Rightarrow> string \<Rightarrow> DbusTranslator" where
  "DbusTranslator_new bus_prefix path_prefix =
     \<lparr>bus_name_prefix = normalize_bus_prefix bus_prefix, object_path_prefix = normalize_path_prefix path_prefix\<rparr>"

definition to_hex4 :: "u16 \<Rightarrow> string" where
  [topic_simps]: "to_hex4 v = hex4 False v"

definition build_bus_name :: "DbusTranslator \<Rightarrow> u16 \<Rightarrow> u16 \<Rightarrow> string" where
  [topic_simps]: "build_bus_name tr service_id instance_id =
     bus_name_prefix tr @ ''.svc.'' @ to_hex4 service_id @ ''.inst.'' @ to_hex4 instance_id"

definition build_object_path :: "DbusTranslator \<Rightarrow> u16 \<Rightarrow> u16 \<Rightarrow> string" where
  [topic_simps]: "build_object_path tr service_id instance_id =
     object_path_prefix tr @ ''/svc_'' @ to_hex4 service_id @ ''/inst_'' @ to_hex4 instance_id"

definition build_interface_name :: "u16 \<Rightarrow> string" where
  [topic_simps]: "build_interface_name service_id = ''com.opensomeip.Service.'' @ to_hex4 service_id"

definition someip_type_to_dbus_signature :: "string \<Rightarrow> string" where
  "someip_type_to_dbus_signature someip_type =
     (let t = map tolower someip_type in
      if t = ''bool'' \<or> t = ''boolean'' then ''b''
      else if t = ''uint8'' \<or> t = ''u8'' then ''y''
      else if t = ''uint16'' \<or> t = ''u16'' then ''q''
      else if t = ''uint32'' \<or> t = ''u32'' then ''u''
      else if t = ''uint64'' \<or> t = ''u64'' then ''t''
      else if t = ''int16'' \<or> t = ''i16'' then ''n''
      else if t = ''int32'' \<or> t = ''i32'' then ''i''
      else if t = ''int64'' \<or> t = ''i64'' then ''x''
      else if t = ''float'' \<or> t = ''float32'' then ''d''
      else if t = ''double'' \<or> t = ''float64'' then ''d''
      else if t = ''string'' \<or> t = ''utf8'' then ''s''
      else ''ay'')"

fun build_signature_from_someip_types :: "string list \<Rightarrow> string" where
  "build_signature_from_someip_types [] = []"
| "build_signature_from_someip_types (ty # tys) =
     someip_type_to_dbus_signature ty @ build_signature_from_someip_types tys"

definition endl :: string where
  "endl = [CHR 0x0A]"

definition introspection_head :: "string \<Rightarrow> string" where
  \<open>introspection_head iface =
     ''<!DOCTYPE node PUBLIC "-//freedesktop//DTD D-Bus Object Introspection 1.0//EN"'' @
     '' "http://www.freedesktop.org/standards/dbus/1.0/introspect.dtd">'' @
     ''<node>'' @ endl @
     ''  <interface name="'' @ iface @ ''">'' @ endl\<close>

definition introspection_comment :: "string \<Rightarrow> string" where
  "introspection_comment arg_sig =
     (if arg_sig \<noteq> []
      then ''    <!-- opensomeip typed SOME/IP layout (D-Bus wire uses opaque ay): '' @ arg_sig @ '' -->'' @ endl
      else [])"

definition introspection_method :: string where
  \<open>introspection_method =
     ''    <method name="InvokeRpc">'' @ endl @
     ''      <arg type="q" name="method_id" direction="in"/>'' @ endl @
     ''      <arg type="ay" name="payload" direction="in"/>'' @ endl @
     ''      <arg type="ay" name="return_payload" direction="out"/>'' @ endl @
     ''    </method>'' @ endl\<close>

definition introspection_signals :: string where
  \<open>introspection_signals =
     ''    <signal name="SomeipNotification">'' @ endl @
     ''      <arg type="q" name="method_or_event_id"/>'' @ endl @
     ''      <arg type="ay" name="payload"/>'' @ endl @
     ''    </signal>'' @ endl @
     ''    <signal name="SomeipRequest">'' @ endl @
     ''      <arg type="q" name="method_id"/>'' @ endl @
     ''      <arg type="ay" name="payload"/>'' @ endl @
     ''    </signal>'' @ endl\<close>

definition generate_introspection_xml :: "u16 \<Rightarrow> string list \<Rightarrow> bool \<Rightarrow> string" where
  "generate_introspection_xml service_id method_arg_types include_signal =
     introspection_head (build_interface_name service_id) @
     introspection_comment (build_signature_from_someip_types method_arg_types) @
     introspection_method @
     (if include_signal then introspection_signals else []) @
     ''  </interface>'' @ endl @ ''</node>'' @ endl"


subsection \<open>Lemmas\<close>

lemma strip_back_shape: "strip_back c p = [] \<or> last (strip_back c p) \<noteq> c"
proof (induction c p rule: strip_back.induct)
  case (1 c p)
  then show ?case by (cases "p \<noteq> [] \<and> last p = c") (auto simp: strip_back.simps [of c p])
qed


subsection \<open>Properties\<close>

text \<open>Names of the D-Bus side determine what they stand for: for one translator the bus name and the
  object path each determine service and instance, and the interface name and the introspection
  data determine the service.\<close>

theorem dbus_names_distinct:
  "(build_bus_name tr s i = build_bus_name tr s' i' \<longleftrightarrow> s = s' \<and> i = i') \<and>
   (build_object_path tr s i = build_object_path tr s' i' \<longleftrightarrow> s = s' \<and> i = i') \<and>
   (build_interface_name s = build_interface_name s' \<longleftrightarrow> s = s') \<and>
   (generate_introspection_xml s tys b = generate_introspection_xml s' tys b \<longleftrightarrow> s = s')"
  by (auto simp: topic_simps generate_introspection_xml_def introspection_head_def)

text \<open>Normalized prefixes are well formed for every configured value: the object path is absolute and
  the path built from it does not contain an empty last element of the prefix (the prefix does not
  end in a slash); the bus name prefix is not empty and does not end in a dot. A non-empty
  configured prefix that is already well formed is kept.\<close>

theorem dbus_prefixes_well_formed:
  "hd (normalize_path_prefix p) = CHR ''/'' \<and> last (normalize_path_prefix p) \<noteq> CHR ''/'' \<and>
   normalize_bus_prefix b \<noteq> [] \<and> last (normalize_bus_prefix b) \<noteq> CHR ''.'' \<and>
   normalize_path_prefix (normalize_path_prefix p) = normalize_path_prefix p \<and>
   normalize_bus_prefix (normalize_bus_prefix b) = normalize_bus_prefix b"
proof -
  have p: "hd (normalize_path_prefix p) = CHR ''/'' \<and> last (normalize_path_prefix p) \<noteq> CHR ''/''" for p
    using strip_back_shape [of "CHR ''/''" p] by (auto simp: normalize_path_prefix_def Let_def)
  have b: "normalize_bus_prefix b \<noteq> [] \<and> last (normalize_bus_prefix b) \<noteq> CHR ''.''" for b
    using strip_back_shape [of "CHR ''.''" b] by (auto simp: normalize_bus_prefix_def Let_def)
  have keep: "strip_back c q = q" if "last q \<noteq> c" for c q
    using that by (simp add: strip_back.simps [of c q])
  have "normalize_path_prefix p \<noteq> []"
    by (auto simp: normalize_path_prefix_def Let_def)
  then have "normalize_path_prefix (normalize_path_prefix p) = normalize_path_prefix p"
    using p [of p] by (subst normalize_path_prefix_def) (simp add: keep)
  moreover have "normalize_bus_prefix (normalize_bus_prefix b) = normalize_bus_prefix b"
    using b [of b] by (subst normalize_bus_prefix_def) (simp add: keep)
  ultimately show ?thesis using p b by simp
qed

text \<open>A D-Bus signature is a sequence of the basic types the mapping knows, or byte arrays: one complete
  type per SOME/IP type, so the signature of two lists is the concatenation of their signatures,
  and case does not matter.\<close>

theorem dbus_signature_types:
  "someip_type_to_dbus_signature ty \<in> set (''ay'' # map (\<lambda>c. [c]) ''byqutnixds'') \<and>
   someip_type_to_dbus_signature (map tolower ty) = someip_type_to_dbus_signature ty \<and>
   build_signature_from_someip_types (xs @ ys) =
     build_signature_from_someip_types xs @ build_signature_from_someip_types ys \<and>
   length xs \<le> length (build_signature_from_someip_types xs) \<and>
   length (build_signature_from_someip_types xs) \<le> 2 * length xs"
proof -
  have mem: "someip_type_to_dbus_signature ty \<in> set (''ay'' # map (\<lambda>c. [c]) ''byqutnixds'')" for ty
    by (simp add: someip_type_to_dbus_signature_def Let_def)
  have "tolower (tolower c) = tolower c" for c
    by (auto simp: tolower_def Let_def)
  then have "map tolower (map tolower ty) = map tolower ty" by simp
  then have lower: "someip_type_to_dbus_signature (map tolower ty) = someip_type_to_dbus_signature ty"
    unfolding someip_type_to_dbus_signature_def by (simp only:)
  have len: "1 \<le> length (someip_type_to_dbus_signature ty) \<and> length (someip_type_to_dbus_signature ty) \<le> 2" for ty
    using mem [of ty] by auto
  have "build_signature_from_someip_types (xs @ ys) =
     build_signature_from_someip_types xs @ build_signature_from_someip_types ys" for xs
    by (induction xs) auto
  moreover have "length xs \<le> length (build_signature_from_someip_types xs) \<and>
     length (build_signature_from_someip_types xs) \<le> 2 * length xs" for xs
  proof (induction xs)
    case (Cons x xs)
    then show ?case using len [of x] by simp
  qed simp
  ultimately show ?thesis using mem lower by blast
qed

end
