(* ===== verification/Dbus_Gateway.thy ===== *)
theory Dbus_Gateway
  imports Gateway_Lifecycle Someip_Side Dbus_Translator
begin

text \<open>
  \<open>gateway-dbus/include/opensomeip/gateway/dbus/dbus_gateway.h\<close> and
  \<open>gateway-dbus/src/dbus_gateway.cpp\<close>: the D-Bus gateway in the build with \<open>HAVE_SYSTEMD\<close>. The build
  without it behaves as this one with \<open>enabled_\<close> false. The members of \<open>DbusGateway::Impl\<close> are the
  fields \<open>db_enabled\<close>, \<open>db_bus\<close> (\<open>bus_ != nullptr\<close>), \<open>db_ctx_storage\<close> and \<open>db_slots\<close> of the gateway
  record. Calls into sd-bus are entries \<open>External\<close> of the call history and return what the
  environment answers; a message handler that sd-bus runs while it processes the bus is the
  operation \<open>dbus_handle_invoke\<close>, a step of its own.

  The properties show which signal a message becomes, that counters follow the results, how session
  numbers are given out, and what start and stop do.
\<close>

datatype DbusBusType = SYSTEM | SESSION

record DbusConfig =
  dc_bus_type :: DbusBusType
  dc_bus_name_prefix :: string
  dc_object_path_prefix :: string
  dc_enable_introspection :: bool
  dc_someip :: SomeipEndpointConfig
  dc_rpc_client_id :: u16
  dc_default_someip_instance_id :: u16

definition DbusConfig_default :: DbusConfig where
  "DbusConfig_default = \<lparr>dc_bus_type = SYSTEM, dc_bus_name_prefix = ''com.opensomeip'',
     dc_object_path_prefix = ''/com/opensomeip'', dc_enable_introspection = True,
     dc_someip = SomeipEndpointConfig_default, dc_rpc_client_id = 0x4200, dc_default_someip_instance_id = 0x0001\<rparr>"

text \<open>The sd-bus calls of the gateway.\<close>

datatype sd_bus_call =
    Sd_bus_open_system
  | Sd_bus_open_user
  | Sd_bus_request_name string
  | Sd_bus_add_object_vtable string string
  | Sd_bus_slot_unref handle
  | Sd_bus_flush_close_unref
  | Sd_bus_wait u64
  | Sd_bus_process
  | Sd_bus_emit_signal string string string u16 bytes
  | Sd_bus_error_set_errno int
  | Sd_bus_reply_method_return

record ('m, 'c) DbusGateway = "('m, 'c, sd_bus_call) SomeipSide" +
  db_config :: DbusConfig
  db_translator :: DbusTranslator
  db_rpc_server :: "handle option"
  db_next_session :: u16
  db_enabled :: bool
  db_bus :: bool
  db_ctx_storage :: "(u16 \<times> u16) list"
  db_slots :: "handle list"

type_synonym ('m, 'c) dbus_env = "('m, 'c, sd_bus_call) env"

definition DbusGateway_new :: "DbusConfig \<Rightarrow> ('m, 'c) DbusGateway" where
  "DbusGateway_new config = \<lparr>
     gw_name = ''opensomeip-dbus-gateway'', gw_protocol = ''dbus'', gw_running = False,
     gw_stats = GatewayStats_default, gw_service_mappings = [],
     gw_external_message_callback = False, gw_io = [],
     side_outbound_sink = False, side_rpc_client = None, side_sd_client = None, side_sd_server = None,
     side_event_publishers = Map.empty, side_event_subscriber = None, side_udp_transport = None,
     db_config = config,
     db_translator = DbusTranslator_new (dc_bus_name_prefix config) (dc_object_path_prefix config),
     db_rpc_server = None, db_next_session = 1, db_enabled = True, db_bus = False, db_ctx_storage = [],
     db_slots = []\<rparr>"


subsection \<open>DbusGateway::Impl\<close>

definition Dbus_register_one ::
  "('m, 'c) dbus_env \<Rightarrow> ServiceMapping \<Rightarrow> ('m, 'c) DbusGateway \<Rightarrow> ('m, 'c) DbusGateway" where
  "Dbus_register_one E mp g =
     (if \<not> db_bus g then g
      else let path = build_object_path (db_translator g) (someip_service_id mp) (someip_instance_id mp);
               iface = build_interface_name (someip_service_id mp);
               bname = build_bus_name (db_translator g) (someip_service_id mp) (someip_instance_id mp);
               g1 = call (External (Sd_bus_request_name bname)) g;
               c = External (Sd_bus_add_object_vtable path iface);
               g2 = call c g1
           in if answer_int E (gw_io g1) c < 0 then g2
              else g2\<lparr>db_ctx_storage := db_ctx_storage g2 @ [(someip_service_id mp, someip_instance_id mp)],
                      db_slots := db_slots g2 @ [answer_new E (gw_io g1)]\<rparr>)"

definition Dbus_impl_start :: "('m, 'c) dbus_env \<Rightarrow> ('m, 'c) DbusGateway \<Rightarrow> Result \<times> ('m, 'c) DbusGateway" where
  "Dbus_impl_start E g =
     (if \<not> db_enabled g then (SUCCESS, g)
      else let c = External (if dc_bus_type (db_config g) = SYSTEM then Sd_bus_open_system else Sd_bus_open_user);
               g1 = call c g
           in if answer_int E (gw_io g) c < 0 then (NOT_INITIALIZED, g1)
              else (SUCCESS, fold (Dbus_register_one E) (get_service_mappings g1) (g1\<lparr>db_bus := True\<rparr>)))"

definition Dbus_impl_stop :: "('m, 'c) DbusGateway \<Rightarrow> ('m, 'c) DbusGateway" where
  "Dbus_impl_stop g =
     (let g1 = (fold (\<lambda>s. call (External (Sd_bus_slot_unref s))) (db_slots g) g)\<lparr>db_slots := [], db_ctx_storage := []\<rparr>
      in if db_bus g1 then (call (External Sd_bus_flush_close_unref) g1)\<lparr>db_bus := False\<rparr> else g1)"

definition Dbus_impl_poll ::
  "('m, 'c) dbus_env \<Rightarrow> int \<Rightarrow> ('m, 'c) DbusGateway \<Rightarrow> Result \<times> ('m, 'c) DbusGateway" where
  "Dbus_impl_poll E timeout g =
     (if \<not> db_enabled g then (SUCCESS, g)
      else if \<not> db_bus g then (SUCCESS, g)
      else let c1 = External (Sd_bus_wait (word_of_int timeout * 1000)); g1 = call c1 g
           in if answer_int E (gw_io g) c1 < 0 then (NOT_INITIALIZED, g1)
              else let c2 = External Sd_bus_process; g2 = call c2 g1
                   in if answer_int E (gw_io g1) c2 < 0 then (NOT_INITIALIZED, g2) else (SUCCESS, g2))"

definition Dbus_impl_emit_signal ::
  "('m, 'c) dbus_env \<Rightarrow> string \<Rightarrow> string \<Rightarrow> string \<Rightarrow> u16 \<Rightarrow> bytes \<Rightarrow> ('m, 'c) DbusGateway \<Rightarrow>
   Result \<times> ('m, 'c) DbusGateway" where
  "Dbus_impl_emit_signal E path iface mem method_id pl g =
     (if \<not> db_enabled g then (SUCCESS, g)
      else if \<not> db_bus g then (SUCCESS, g)
      else let c = External (Sd_bus_emit_signal path iface mem method_id pl); g1 = call c g
           in if answer_int E (gw_io g) c < 0 then (NOT_INITIALIZED, g1) else (SUCCESS, g1))"


subsection \<open>Wiring and life cycle\<close>

definition Dbus_set_someip_outbound_sink :: "bool \<Rightarrow> ('m, 'c) DbusGateway \<Rightarrow> ('m, 'c) DbusGateway" where
  "Dbus_set_someip_outbound_sink = side_set_someip_outbound_sink"

definition Dbus_enable_someip_udp_bridge :: "('m, 'c) dbus_env \<Rightarrow> ('m, 'c) DbusGateway \<Rightarrow> ('m, 'c) DbusGateway" where
  "Dbus_enable_someip_udp_bridge = side_enable_someip_udp_bridge"

definition Dbus_attach_rpc_client :: "handle option \<Rightarrow> ('m, 'c) DbusGateway \<Rightarrow> ('m, 'c) DbusGateway" where
  "Dbus_attach_rpc_client = side_attach_rpc_client"

definition Dbus_attach_rpc_server :: "handle option \<Rightarrow> ('m, 'c) DbusGateway \<Rightarrow> ('m, 'c) DbusGateway" where
  "Dbus_attach_rpc_server server g = g\<lparr>db_rpc_server := server\<rparr>"

definition Dbus_attach_sd_client :: "handle option \<Rightarrow> ('m, 'c) DbusGateway \<Rightarrow> ('m, 'c) DbusGateway" where
  "Dbus_attach_sd_client = side_attach_sd_client"

definition Dbus_attach_sd_server :: "handle option \<Rightarrow> ('m, 'c) DbusGateway \<Rightarrow> ('m, 'c) DbusGateway" where
  "Dbus_attach_sd_server = side_attach_sd_server"

definition Dbus_register_event_publisher ::
  "u16 \<Rightarrow> u16 \<Rightarrow> handle option \<Rightarrow> ('m, 'c) DbusGateway \<Rightarrow> bool \<times> ('m, 'c) DbusGateway" where
  "Dbus_register_event_publisher = side_register_event_publisher"

definition Dbus_subscribe_someip_eventgroup ::
  "('m, 'c) dbus_env \<Rightarrow> u16 \<Rightarrow> u16 \<Rightarrow> u16 \<Rightarrow> ('m, 'c) DbusGateway \<Rightarrow> bool \<times> ('m, 'c) DbusGateway" where
  "Dbus_subscribe_someip_eventgroup E service_id instance_id eventgroup_id g =
     side_subscribe_someip_eventgroup E (dc_rpc_client_id (db_config g)) service_id instance_id eventgroup_id g"

definition Dbus_started :: "('m, 'c) dbus_env \<Rightarrow> ('m, 'c) DbusGateway \<Rightarrow> Result \<times> ('m, 'c) DbusGateway" where
  "Dbus_started E g =
     (let g1 = call_on SdClient_initialize (side_sd_client g) g;
          g2 = call_on SdServer_initialize (side_sd_server g1) g1;
          (r, g3) = Dbus_impl_start E g2
      in if r \<noteq> SUCCESS then (r, g3) else (SUCCESS, set_running E True g3))"

definition Dbus_start :: "('m, 'c) dbus_env \<Rightarrow> ('m, 'c) DbusGateway \<Rightarrow> Result \<times> ('m, 'c) DbusGateway" where
  "Dbus_start E g =
     (case side_udp_transport g of
        Some h \<Rightarrow>
          (let r = answer_result E (gw_io g) (Udp_start h); g1 = call (Udp_start h) g
           in if r \<noteq> SUCCESS then (r, g1) else Dbus_started E g1)
      | None \<Rightarrow> Dbus_started E g)"

definition Dbus_stop :: "('m, 'c) dbus_env \<Rightarrow> ('m, 'c) DbusGateway \<Rightarrow> Result \<times> ('m, 'c) DbusGateway" where
  "Dbus_stop E g =
     (let g1 = call_on EventSubscriber_shutdown (side_event_subscriber g) g;
          g2 = call_on RpcClient_shutdown (side_rpc_client g1) g1;
          g3 = call_on RpcServer_shutdown (db_rpc_server g2) g2;
          g4 = call_on SdClient_shutdown (side_sd_client g3) g3;
          g5 = call_on SdServer_shutdown (side_sd_server g4) g4;
          g6 = call_on Udp_stop (side_udp_transport g5) g5
      in (SUCCESS, set_running E False (Dbus_impl_stop g6)))"

definition Dbus_destroy :: "('m, 'c) dbus_env \<Rightarrow> ('m, 'c) DbusGateway \<Rightarrow> ('m, 'c) DbusGateway" where
  "Dbus_destroy E g = (if is_running g then snd (Dbus_stop E g) else g)"


subsection \<open>Messages in both directions\<close>

definition Dbus_on_someip_message ::
  "'m message_api \<Rightarrow> ('m, 'c) dbus_env \<Rightarrow> 'm \<Rightarrow> ('m, 'c) DbusGateway \<Rightarrow> Result \<times> ('m, 'c) DbusGateway" where
  "Dbus_on_someip_message A E msg g =
     (if \<not> is_running g then (NOT_INITIALIZED, g)
      else case find_inbound_mapping (get_service_id A msg) (dc_default_someip_instance_id (db_config g)) g of
        None \<Rightarrow> (SERVICE_NOT_FOUND, g)
      | Some mapping \<Rightarrow>
          if \<not> should_forward_to_external mapping then (SUCCESS, g)
          else let mt = get_message_type A msg;
                   is_notification = mt = mt_NOTIFICATION A \<or> mt = mt_TP_NOTIFICATION A;
                   is_req = is_request A msg
               in if \<not> is_notification \<and> \<not> is_req then (SUCCESS, g)
                  else let path = build_object_path (db_translator g) (someip_service_id mapping) (someip_instance_id mapping);
                           iface = build_interface_name (someip_service_id mapping);
                           signal_name = (if is_notification then ''SomeipNotification'' else ''SomeipRequest'');
                           (r, g1) = Dbus_impl_emit_signal E path iface signal_name (get_method_id A msg) (get_payload A msg) g
                       in (r, if r = SUCCESS then record_someip_to_external (length (get_payload A msg)) g1
                              else record_translation_error g1))"

definition Dbus_on_event_notification ::
  "'m message_api \<Rightarrow> ('m, 'c) dbus_env \<Rightarrow> EventNotification \<Rightarrow> ('m, 'c) DbusGateway \<Rightarrow> ('m, 'c) DbusGateway" where
  "Dbus_on_event_notification A E n g = snd (Dbus_on_someip_message A E (notification_message A n) g)"

text \<open>\<open>UdpBridgeListener::on_message_received\<close>: a null message is ignored and the result is dropped.\<close>

definition Dbus_on_message_received ::
  "'m message_api \<Rightarrow> ('m, 'c) dbus_env \<Rightarrow> 'm option \<Rightarrow> ('m, 'c) DbusGateway \<Rightarrow> ('m, 'c) DbusGateway" where
  "Dbus_on_message_received A E message g =
     (case message of Some m \<Rightarrow> snd (Dbus_on_someip_message A E m g) | None \<Rightarrow> g)"

definition poll_dbus :: "('m, 'c) dbus_env \<Rightarrow> int \<Rightarrow> ('m, 'c) DbusGateway \<Rightarrow> Result \<times> ('m, 'c) DbusGateway" where
  "poll_dbus E timeout g = Dbus_impl_poll E timeout g"

definition emit_external_rpc ::
  "'m message_api \<Rightarrow> u16 \<Rightarrow> u16 \<Rightarrow> u16 \<Rightarrow> bytes \<Rightarrow> ('m, 'c) DbusGateway \<Rightarrow> Result \<times> ('m, 'c) DbusGateway" where
  "emit_external_rpc A service_id instance_id method_id pl g =
     (if \<not> is_running g then (NOT_INITIALIZED, g)
      else let m = (case find_mapping_for_service service_id instance_id g of
                      Some m \<Rightarrow> Some m
                    | None \<Rightarrow> find_mapping_for_service service_id (dc_default_someip_instance_id (db_config g)) g)
           in case m of
                None \<Rightarrow> (SERVICE_NOT_FOUND, g)
              | Some mp \<Rightarrow>
                  if \<not> should_forward_to_someip mp then (SUCCESS, g)
                  else let sess = db_next_session g;
                           g1 = g\<lparr>db_next_session := sess + 1\<rparr>;
                           out = set_payload A pl (Message_ctor A (service_id, method_id)
                                   (dc_rpc_client_id (db_config g1), sess) (mt_REQUEST A));
                           g2 = record_external_to_someip (length pl) g1;
                           g3 = emit_to_sink out g2;
                           g4 = (if gw_external_message_callback g3
                                 then call (External_callback service_id method_id pl) g3 else g3)
                       in (SUCCESS, g4))"

text \<open>
  \<open>dbus_handle_invoke\<close>: the arguments are the result of \<open>sd_bus_message_read\<close>, what it stored
  (\<open>None\<close> for a null data pointer) and the identifiers of the slot context.
\<close>

definition dbus_handle_invoke ::
  "'m message_api \<Rightarrow> ('m, 'c) dbus_env \<Rightarrow> u16 \<times> u16 \<Rightarrow> int \<Rightarrow> u16 \<Rightarrow> bytes option \<Rightarrow>
   ('m, 'c) DbusGateway \<Rightarrow> int \<times> ('m, 'c) DbusGateway" where
  "dbus_handle_invoke A E ctx r method_id data g =
     (if r < 0 then (r, call (External (Sd_bus_error_set_errno (- r))) g)
      else let pl = (case data of Some b \<Rightarrow> b | None \<Rightarrow> []);
               g1 = snd (emit_external_rpc A (fst ctx) (snd ctx) method_id pl g);
               c = External Sd_bus_reply_method_return
           in (answer_int E (gw_io g1) c, call c g1))"

definition test_set_dbus_enabled :: "bool \<Rightarrow> ('m, 'c) DbusGateway \<Rightarrow> ('m, 'c) DbusGateway" where
  "test_set_dbus_enabled enabled g = g\<lparr>db_enabled := enabled\<rparr>"


subsection \<open>The contract of the message handler\<close>

lemma Dbus_emit_cases:
  "Dbus_impl_emit_signal E path iface mem mid pl g = (r, g1) \<Longrightarrow>
     (\<exists>h. g1 = g\<lparr>gw_io := h\<rparr>) \<and> (r = SUCCESS \<or> r = NOT_INITIALIZED)"
  by (auto simp: Dbus_impl_emit_signal_def call_def Let_def split: if_splits intro: exI [of _ "gw_io g"])

lemma Dbus_forward_step:
  assumes "Dbus_on_someip_message A E msg g = (r, g')"
  shows "forward_step (get_service_id A msg) g r g'"
proof (cases "find_inbound_mapping (get_service_id A msg) (dc_default_someip_instance_id (db_config g)) g")
  case None
  with assms show ?thesis by (auto simp: Dbus_on_someip_message_def split: if_splits)
next
  case (Some mapping)
  then consider (drop) "g' = g"
    | (emit) path iface mem g1 where "should_forward_to_external mapping"
        "Dbus_impl_emit_signal E path iface mem (get_method_id A msg) (get_payload A msg) g = (r, g1)"
        "g' = (if r = SUCCESS then record_someip_to_external (length (get_payload A msg)) g1 else record_translation_error g1)"
    using assms by (auto simp: Dbus_on_someip_message_def Let_def split: if_splits prod.splits)
  then show ?thesis
  proof cases
    case drop
    then show ?thesis by simp
  next
    case emit
    from Dbus_emit_cases [OF emit(2)] obtain h where "g1 = g\<lparr>gw_io := h\<rparr>" by blast
    with emit(3) show ?thesis
      by (auto simp: same_base_def intro: forward_recorded [OF Some emit(1)] forward_error)
  qed
qed

interpretation dbus: guarded_forwarder "\<lambda>m g. Some (Dbus_on_someip_message A E m g)" "get_service_id A" for A E
  by unfold_locales (auto simp: Dbus_forward_step Dbus_on_someip_message_def is_running_def)

interpretation dbus_total: total_forwarder "\<lambda>m g. Some (Dbus_on_someip_message A E m g)" "get_service_id A" "\<lambda>g. True" for A E
  by unfold_locales (simp add: prod_eq_iff)

subsection \<open>The signals of a message sequence\<close>

text \<open>The signal a message becomes in a given state, if any.\<close>

definition dbus_signal :: "'m message_api \<Rightarrow> ('m, 'c) DbusGateway \<Rightarrow> 'm \<Rightarrow> sd_bus_call option" where
  "dbus_signal A g msg =
     (if \<not> (gw_running g \<and> db_enabled g \<and> db_bus g) then None
      else case find_inbound_mapping (get_service_id A msg) (dc_default_someip_instance_id (db_config g)) g of
        None \<Rightarrow> None
      | Some mp \<Rightarrow>
          if \<not> should_forward_to_external mp then None
          else let signal = (\<lambda>name. Sd_bus_emit_signal
                     (build_object_path (db_translator g) (someip_service_id mp) (someip_instance_id mp))
                     (build_interface_name (someip_service_id mp)) name (get_method_id A msg) (get_payload A msg))
               in if get_message_type A msg \<in> {mt_NOTIFICATION A, mt_TP_NOTIFICATION A}
                  then Some (signal ''SomeipNotification'')
                  else if is_request A msg then Some (signal ''SomeipRequest'') else None)"

lemma dbus_signal_frame: "dbus_signal A (g\<lparr>gw_stats := st, gw_io := h\<rparr>) = dbus_signal A g"
  by (simp add: fun_eq_iff dbus_signal_def Let_def split: option.split)

lemma Dbus_step_effect:
  "snd (Dbus_on_someip_message A E msg g) =
     g\<lparr>gw_stats := gw_stats (snd (Dbus_on_someip_message A E msg g)),
       gw_io := gw_io g @ map External (List.map_filter (dbus_signal A g) [msg])\<rparr>"
  by (simp add: Dbus_on_someip_message_def dbus_signal_def Dbus_impl_emit_signal_def is_running_def call_def
      record_someip_to_external_def record_translation_error_def List.map_filter_simps Let_def
      split: option.split)

lemma Dbus_all_effect:
  assumes "deliver_all (\<lambda>m g. Some (Dbus_on_someip_message A E m g)) ms g = Some (rs, g')"
  shows "\<exists>st. g' = g\<lparr>gw_stats := st, gw_io := gw_io g @ map External (List.map_filter (dbus_signal A g) ms)\<rparr>"
  using assms
proof (induction ms arbitrary: g rs)
  case Nil
  then show ?case by (intro exI [of _ "gw_stats g"]) (simp add: List.map_filter_simps)
next
  case (Cons m ms)
  obtain r g1 where 1: "Dbus_on_someip_message A E m g = (r, g1)" by fastforce
  with Dbus_step_effect [of A E m g] have
    g1: "g1 = g\<lparr>gw_stats := gw_stats g1, gw_io := gw_io g @ map External (List.map_filter (dbus_signal A g) [m])\<rparr>"
    by simp
  from Cons.prems 1 obtain rs1 where "deliver_all (\<lambda>m g. Some (Dbus_on_someip_message A E m g)) ms g1 = Some (rs1, g')"
    unfolding deliver_all_Cons_Some by auto
  from Cons.IH [OF this] obtain st where
    "g' = g1\<lparr>gw_stats := st, gw_io := gw_io g1 @ map External (List.map_filter (dbus_signal A g1) ms)\<rparr>" ..
  moreover have "dbus_signal A g1 = dbus_signal A g" by (subst g1) (rule dbus_signal_frame)
  moreover have "gw_io g1 = gw_io g @ map External (List.map_filter (dbus_signal A g) [m])" by (subst g1) simp
  moreover have "g1\<lparr>gw_stats := st, gw_io := h\<rparr> = g\<lparr>gw_stats := st, gw_io := h\<rparr>" for h by (subst g1) simp
  ultimately show ?case by (auto simp: List.map_filter_def)
qed


subsection \<open>Session numbers\<close>

definition permitted_rpc :: "u16 \<Rightarrow> u16 \<Rightarrow> ('m, 'c) DbusGateway \<Rightarrow> bool" where
  "permitted_rpc sid iid g \<longleftrightarrow> gw_running g \<and>
     (\<exists>mp. find_mapping_for_service sid iid g = Some mp \<and> should_forward_to_someip mp)"

text \<open>The requests of calls with the given payloads, numbered from a first session.\<close>

fun rpc_requests :: "'m message_api \<Rightarrow> u16 \<Rightarrow> u16 \<Rightarrow> u16 \<Rightarrow> u16 \<Rightarrow> bytes list \<Rightarrow> 'm list" where
  "rpc_requests A cid sid mid sess [] = []"
| "rpc_requests A cid sid mid sess (p # ps) =
     set_payload A p (Message_ctor A (sid, mid) (cid, sess) (mt_REQUEST A)) # rpc_requests A cid sid mid (sess + 1) ps"

lemma emit_external_rpc_effect:
  assumes "permitted_rpc sid iid g" and "side_outbound_sink g" and "\<not> gw_external_message_callback g"
  shows "\<exists>st. emit_external_rpc A sid iid mid p g =
    (SUCCESS, g\<lparr>db_next_session := db_next_session g + 1, gw_stats := st,
       gw_io := gw_io g @ map Outbound_sink (rpc_requests A (dc_rpc_client_id (db_config g)) sid mid (db_next_session g) [p])\<rparr>)"
  using assms
  by (auto simp: permitted_rpc_def emit_external_rpc_def is_running_def record_external_to_someip_def
      emit_to_sink_def call_def Let_def)

lemma rpc_sequence_effect:
  assumes "permitted_rpc sid iid g" and "side_outbound_sink g" and "\<not> gw_external_message_callback g"
  shows "\<exists>st. fold (\<lambda>p g. snd (emit_external_rpc A sid iid mid p g)) ps g =
    g\<lparr>db_next_session := db_next_session g + word_of_nat (length ps), gw_stats := st,
       gw_io := gw_io g @ map Outbound_sink (rpc_requests A (dc_rpc_client_id (db_config g)) sid mid (db_next_session g) ps)\<rparr>"
  using assms
proof (induction ps arbitrary: g)
  case Nil
  then show ?case by (intro exI [of _ "gw_stats g"]) simp
next
  case (Cons p ps)
  from emit_external_rpc_effect [OF Cons.prems] obtain st where
    1: "emit_external_rpc A sid iid mid p g = (SUCCESS, g\<lparr>db_next_session := db_next_session g + 1, gw_stats := st,
       gw_io := gw_io g @ map Outbound_sink (rpc_requests A (dc_rpc_client_id (db_config g)) sid mid (db_next_session g) [p])\<rparr>)"
    (is "_ = (_, ?g)") by blast
  have "permitted_rpc sid iid ?g" "side_outbound_sink ?g" "\<not> gw_external_message_callback ?g"
    using Cons.prems by (simp_all add: permitted_rpc_def find_mapping_for_service_def)
  from Cons.IH [OF this] show ?case by (simp add: 1 ac_simps)
qed

lemma rpc_requests_sessions:
  assumes "message_laws A"
  shows "map (get_session_id A) (rpc_requests A cid sid mid sess ps) = map (\<lambda>k. sess + word_of_nat k) [0..<length ps]"
proof (induction ps arbitrary: sess)
  case (Cons p ps)
  have "[0..<length (p # ps)] = 0 # map Suc [0..<length ps]" by (simp add: map_Suc_upt upt_conv_Cons del: upt_Suc)
  with Cons assms show ?case by (simp add: comp_def ac_simps)
qed simp

lemma distinct_sessions: "n \<le> 2 ^ 16 \<Longrightarrow> distinct (map (\<lambda>k. (sess :: u16) + word_of_nat k) [0..<n])"
  by (auto simp: distinct_map inj_on_def intro!: word_of_nat_eq_iff [THEN iffD1, THEN box_equals] simp: word_of_nat_eq_iff take_bit_nat_eq_self)


subsection \<open>Life cycle\<close>

lemma Dbus_register_frame:
  "\<exists>h c s. fold (Dbus_register_one E) mps g = g\<lparr>gw_io := h, db_ctx_storage := c, db_slots := s\<rparr>"
proof (induction mps arbitrary: g)
  case Nil
  have "g = g\<lparr>gw_io := gw_io g, db_ctx_storage := db_ctx_storage g, db_slots := db_slots g\<rparr>" by simp
  then show ?case by (metis fold_simps(1))
next
  case (Cons m mps)
  let ?r = "Dbus_register_one E m g"
  have "?r = g\<lparr>gw_io := gw_io ?r, db_ctx_storage := db_ctx_storage ?r, db_slots := db_slots ?r\<rparr>"
    by (simp add: Dbus_register_one_def call_def Let_def)
  then obtain h c s where "Dbus_register_one E m g = g\<lparr>gw_io := h, db_ctx_storage := c, db_slots := s\<rparr>" by blast
  with Cons [of "g\<lparr>gw_io := h, db_ctx_storage := c, db_slots := s\<rparr>"] show ?case by simp
qed

lemma fold_calls: "fold (\<lambda>s. call (f s)) xs g = g\<lparr>gw_io := gw_io g @ map f xs\<rparr>"
  by (induction xs arbitrary: g) (simp_all add: call_def)


lemma Dbus_impl_stop_effect:
  "Dbus_impl_stop g = g\<lparr>db_slots := [], db_ctx_storage := [], db_bus := False,
     gw_io := gw_io g @ map (External \<circ> Sd_bus_slot_unref) (db_slots g) @
       (if db_bus g then [External Sd_bus_flush_close_unref] else [])\<rparr>"
  by (simp add: Dbus_impl_stop_def fold_calls call_def Let_def comp_def)

lemma Dbus_started_outcome:
  assumes "Dbus_started E g = (r, g')"
  shows "(r = SUCCESS \<and> gw_running g' \<and> db_bus g' = (db_bus g \<or> db_enabled g)) \<or>
         (r = NOT_INITIALIZED \<and> db_enabled g \<and> gw_running g' = gw_running g \<and> db_bus g' = db_bus g)"
proof (cases "db_enabled g")
  case False
  with assms show ?thesis
    by (auto simp: Dbus_started_def Dbus_impl_start_def call_on_eq set_running_def call_def Let_def split: if_splits)
next
  case True
  let ?g2 = "call_on SdServer_initialize (side_sd_server g) (call_on SdClient_initialize (side_sd_client g) g)"
  let ?c = "External (if dc_bus_type (db_config g) = SYSTEM then Sd_bus_open_system else Sd_bus_open_user)"
  obtain h c s where f: "fold (Dbus_register_one E) (gw_service_mappings g) ((call ?c ?g2)\<lparr>db_bus := True\<rparr>) =
      (call ?c ?g2)\<lparr>db_bus := True, gw_io := h, db_ctx_storage := c, db_slots := s\<rparr>"
    using Dbus_register_frame by blast
  from assms True f show ?thesis
    by (auto simp: Dbus_started_def Dbus_impl_start_def call_on_eq get_service_mappings_def set_running_def
        call_def Let_def split: if_splits)
qed

lemma Dbus_start_outcome:
  "case Dbus_start E g of (r, g') \<Rightarrow>
     if r = SUCCESS then gw_running g' \<and> db_bus g' = (db_bus g \<or> db_enabled g)
     else gw_running g' = gw_running g \<and> db_bus g' = db_bus g"
proof (cases "side_udp_transport g")
  case None
  with Dbus_started_outcome [of E g] show ?thesis
    by (cases "Dbus_started E g") (auto simp: Dbus_start_def)
next
  case (Some h)
  let ?g = "call (Udp_start h) g"
  have "db_bus ?g = db_bus g" "db_enabled ?g = db_enabled g" "gw_running ?g = gw_running g"
    by (simp_all add: call_def)
  with Some Dbus_started_outcome [of E ?g] show ?thesis
    by (cases "Dbus_started E ?g"; cases "answer_result E (gw_io g) (Udp_start h) = SUCCESS")
      (auto simp: Dbus_start_def)
qed

text \<open>A running gateway on the system bus, for the witnesses.\<close>

definition sample_dbus :: "(ref_message, unit) DbusGateway" where
  "sample_dbus =
     (add_service_mapping
        \<lparr>someip_service_id = 0x1234, someip_instance_id = 1, someip_method_ids = [], someip_event_group_ids = [],
         external_identifier = [], direction = BIDIRECTIONAL, mode = OPAQUE\<rparr>
        (DbusGateway_new DbusConfig_default))
     \<lparr>gw_running := True, db_bus := True, side_outbound_sink := True\<rparr>"

lemma sample_dbus_simps [simp]:
  "permitted_rpc 0x1234 1 sample_dbus" "side_outbound_sink sample_dbus" "\<not> gw_external_message_callback sample_dbus"
  "db_next_session sample_dbus = 1" "gw_io sample_dbus = []" "dc_rpc_client_id (db_config sample_dbus) = 0x4200"
  by (simp_all add: sample_dbus_def permitted_rpc_def find_mapping_for_service_def add_service_mapping_def
      DbusGateway_new_def DbusConfig_default_def should_forward_to_someip_def)


subsection \<open>Properties\<close>

text \<open>For every sequence of messages and every behaviour of sd-bus, every call returns, and the D-Bus
  signals sent are exactly those of the individual messages, in order: a \<open>SomeipNotification\<close> for a
  notification and a \<open>SomeipRequest\<close> for a request, on the object path and interface of the mapping,
  when the gateway runs, is connected and the mapping permits it, and none otherwise. The rest of the
  state but the statistics is unchanged; the counters are bounded by the results.\<close>

lemma dbus_signals_of_messages:
  "\<exists>rs g' k e. deliver_all (\<lambda>m g. Some (Dbus_on_someip_message A E m g)) ms g = Some (rs, g') \<and>
     length rs = length ms \<and>
     g' = g\<lparr>gw_stats := gw_stats g', gw_io := gw_io g @ map External (List.map_filter (dbus_signal A g) ms)\<rparr> \<and>
     messages_someip_to_external (gw_stats g') = messages_someip_to_external (gw_stats g) + word_of_nat k \<and>
     translation_errors (gw_stats g') = translation_errors (gw_stats g) + word_of_nat e \<and>
     k \<le> count_list rs SUCCESS \<and> e + count_list rs SUCCESS \<le> length ms"
proof -
  obtain rs g' where d: "deliver_all (\<lambda>m g. Some (Dbus_on_someip_message A E m g)) ms g = Some (rs, g')"
    "length rs = length ms"
    using dbus_total.all_returns [where A = A and E = E and ms = ms and g = g] by blast
  from Dbus_all_effect [OF d(1)] obtain st where
    st: "g' = g\<lparr>gw_stats := st, gw_io := gw_io g @ map External (List.map_filter (dbus_signal A g) ms)\<rparr>" ..
  then have "g' = g\<lparr>gw_stats := gw_stats g', gw_io := gw_io g @ map External (List.map_filter (dbus_signal A g) ms)\<rparr>"
    by simp
  with dbus.all_accounted [OF d(1)] d show ?thesis by blast
qed



text \<open>Life cycle. \<open>start\<close> sets the gateway running exactly when it returns \<open>SUCCESS\<close>, and then the bus is
  open unless D-Bus is disabled; when the bus cannot be opened it returns \<open>NOT_INITIALIZED\<close>. \<open>stop\<close> shuts
  every attached object down, releases every registered slot and the bus, and every message after it
  is refused without effect.\<close>

lemma dbus_lifecycle:
  "(case Dbus_start E g of (r, g') \<Rightarrow>
      if r = SUCCESS then gw_running g' \<and> db_bus g' = (db_bus g \<or> db_enabled g)
      else gw_running g' = gw_running g \<and> db_bus g' = db_bus g) \<and>
   (case Dbus_stop E g of (r, g') \<Rightarrow>
      r = SUCCESS \<and> \<not> gw_running g' \<and> \<not> db_bus g' \<and> db_slots g' = [] \<and> db_ctx_storage g' = [] \<and>
      gw_io g' = gw_io g @ calls_on EventSubscriber_shutdown (side_event_subscriber g) @
        calls_on RpcClient_shutdown (side_rpc_client g) @ calls_on RpcServer_shutdown (db_rpc_server g) @
        calls_on SdClient_shutdown (side_sd_client g) @ calls_on SdServer_shutdown (side_sd_server g) @
        calls_on Udp_stop (side_udp_transport g) @ map (External \<circ> Sd_bus_slot_unref) (db_slots g) @
        (if db_bus g then [External Sd_bus_flush_close_unref] else []) \<and>
      (\<exists>rs. deliver_all (\<lambda>m g. Some (Dbus_on_someip_message A E m g)) ms g' = Some (rs, g') \<and> SUCCESS \<notin> set rs))"
proof
  show "case Dbus_start E g of (r, g') \<Rightarrow>
      if r = SUCCESS then gw_running g' \<and> db_bus g' = (db_bus g \<or> db_enabled g)
      else gw_running g' = gw_running g \<and> db_bus g' = db_bus g"
    by (rule Dbus_start_outcome)
next
  show "case Dbus_stop E g of (r, g') \<Rightarrow>
      r = SUCCESS \<and> \<not> gw_running g' \<and> \<not> db_bus g' \<and> db_slots g' = [] \<and> db_ctx_storage g' = [] \<and>
      gw_io g' = gw_io g @ calls_on EventSubscriber_shutdown (side_event_subscriber g) @
        calls_on RpcClient_shutdown (side_rpc_client g) @ calls_on RpcServer_shutdown (db_rpc_server g) @
        calls_on SdClient_shutdown (side_sd_client g) @ calls_on SdServer_shutdown (side_sd_server g) @
        calls_on Udp_stop (side_udp_transport g) @ map (External \<circ> Sd_bus_slot_unref) (db_slots g) @
        (if db_bus g then [External Sd_bus_flush_close_unref] else []) \<and>
      (\<exists>rs. deliver_all (\<lambda>m g. Some (Dbus_on_someip_message A E m g)) ms g' = Some (rs, g') \<and> SUCCESS \<notin> set rs)"
    by (simp add: Dbus_stop_def Dbus_impl_stop_effect set_running_def Let_def call_on_eq dbus.all_stopped)
qed


subsection \<open>The life cycle\<close>

lemma Dbus_register_running: "gw_running (fold (Dbus_register_one E) mps g) = gw_running g"
  by (induction mps arbitrary: g) (simp_all add: Dbus_register_one_def Let_def)

lemma Dbus_stop_running: "gw_running (fold (\<lambda>s. call (f s)) ss g) = gw_running g"
  by (induction ss arbitrary: g) simp_all

interpretation dbus_life: total_life_cycle True "\<lambda>g. Some (Dbus_start E g)" "\<lambda>g. Some (Dbus_stop E g)"
  "\<lambda>m g. Some (Dbus_on_someip_message A E m g)" "\<lambda>g. True" for A E
proof
  show "gw_running g' = (r = SUCCESS \<or> gw_running g)" if "Some (Dbus_start E g) = Some (r, g')" for g r g'
    using that
    by (auto simp: Dbus_start_def Dbus_started_def Dbus_impl_start_def set_running_def Let_def call_on_eq call_def
        Dbus_register_running split: option.splits if_splits)
  show "r = SUCCESS \<and> \<not> gw_running g'" if "Some (Dbus_stop E g) = Some (r, g')" for g r g'
    using that by (auto simp: Dbus_stop_def set_running_def Let_def)
  show "gw_running g' = gw_running g" if "Some (Dbus_on_someip_message A E m g) = Some (r, g')" for m g r g'
    using forward_step_same_base [OF dbus.step [OF that]] by (simp add: same_base_def)
  show "r \<noteq> SUCCESS \<and> g' = g" if "\<not> gw_running g" "Some (Dbus_on_someip_message A E m g) = Some (r, g')" for g m r g'
    using dbus.stopped [OF that(1), of A E m] that(2) by auto
qed (simp_all add: prod_eq_iff)

end
