(* ===== verification/Ros2_Gateway.thy ===== *)
theory Ros2_Gateway
  imports Gateway_Lifecycle Someip_Side Ros2_Translator
begin

text \<open>
  \<open>gateway-ros2/include/opensomeip/gateway/ros2/ros2_gateway.h\<close> and
  \<open>gateway-ros2/src/ros2_gateway.cpp\<close>: the ROS 2 gateway in the build with rclcpp. The build without
  rclcpp behaves as this one when \<open>rclcpp::ok()\<close> answers false: there is no node, and publishing goes to
  the callback. The members of \<open>Ros2GatewayImpl\<close> are the fields \<open>r2_node\<close>, \<open>r2_pubs\<close> and \<open>r2_subs\<close> of the
  gateway record. \<open>rpc_servers_\<close> and \<open>event_publishers_\<close> are hash maps: start and stop take the order in
  which they are iterated as an argument, and the properties hold for every order. The session counter of
  \<open>inject_ros2_message\<close>, a static local variable, is the field \<open>r2_session\<close>.

  The properties show that every forwarded message is published exactly once, on which side and under
  which topic, which mapping an inbound topic selects, where an inbound message goes, and the order of
  start and stop.
\<close>

subsection \<open>Configuration and calls\<close>

record 'c Ros2Config =
  rc_node_name :: string
  rc_ros_namespace :: string
  rc_someip_bind_address :: string
  rc_someip_bind_port :: u16
  rc_rpc_client_id :: u16
  rc_default_someip_instance_id :: u16
  rc_topic_prefix :: string
  rc_enable_udp_transport :: bool
  rc_enable_rpc_client :: bool
  rc_enable_rpc_server :: bool
  rc_enable_sd_client :: bool
  rc_enable_sd_server :: bool
  rc_enable_event_subscriber :: bool
  rc_use_e2e :: bool
  rc_e2e_config :: "'c option"
  rc_default_someip_transport :: SomeipTransportKind

definition Ros2Config_default :: "'c Ros2Config" where
  "Ros2Config_default = \<lparr>rc_node_name = ''opensomeip_ros2_gateway'', rc_ros_namespace = ''/vehicle'',
     rc_someip_bind_address = ''0.0.0.0'', rc_someip_bind_port = 30500, rc_rpc_client_id = 0x5100,
     rc_default_someip_instance_id = 0x0001, rc_topic_prefix = ''someip'', rc_enable_udp_transport = False,
     rc_enable_rpc_client = True, rc_enable_rpc_server = False, rc_enable_sd_client = False,
     rc_enable_sd_server = False, rc_enable_event_subscriber = True, rc_use_e2e = False, rc_e2e_config = None,
     rc_default_someip_transport = UDP_UNICAST\<rparr>"

datatype ros_qset = Ros_depth nat | Ros_reliable | Ros_best_effort | Ros_transient_local

definition qos_from_profile :: "Ros2QosProfile \<Rightarrow> ros_qset list" where
  "qos_from_profile p =
     [Ros_depth (rq_history_depth p)] @ [if rq_reliable p then Ros_reliable else Ros_best_effort] @
     (if rq_durability_transient_local p then [Ros_transient_local] else [])"

datatype ros_call =
    Rclcpp_ok
  | Rclcpp_node string string
  | Rclcpp_create_subscription string "ros_qset list"
  | Rclcpp_create_publisher string "ros_qset list"
  | Rclcpp_publish handle bytes
  | Ros2_publish_callback string bytes

record ('m, 'c) Ros2Gateway = "('m, 'c, ros_call) SomeipSide" +
  r2_config :: "'c Ros2Config"
  r2_translator :: Ros2Translator
  r2_publish_callback :: bool
  r2_rpc_servers :: "u16 \<rightharpoonup> handle option"
  r2_session :: u16
  r2_node :: bool
  r2_pubs :: "string \<rightharpoonup> handle"
  r2_subs :: "string list"

type_synonym ('m, 'c) ros_env = "('m, 'c, ros_call) env"

definition Ros2Gateway_new :: "'c Ros2Config \<Rightarrow> ('m, 'c) Ros2Gateway" where
  "Ros2Gateway_new config = \<lparr>
     gw_name = rc_node_name config, gw_protocol = ''ros2'', gw_running = False, gw_stats = GatewayStats_default,
     gw_service_mappings = [], gw_external_message_callback = False, gw_io = [],
     side_outbound_sink = False, side_rpc_client = None, side_sd_client = None, side_sd_server = None,
     side_event_publishers = Map.empty, side_event_subscriber = None, side_udp_transport = None,
     r2_config = config, r2_translator = Ros2Translator_new (rc_topic_prefix config) (rc_ros_namespace config),
     r2_publish_callback = False, r2_rpc_servers = Map.empty, r2_session = 1, r2_node = False,
     r2_pubs = Map.empty, r2_subs = []\<rparr>"


subsection \<open>Ros2GatewayImpl\<close>

definition Ros2_add_subscription :: "ServiceMapping \<Rightarrow> ('m, 'c) Ros2Gateway \<Rightarrow> ('m, 'c) Ros2Gateway" where
  "Ros2_add_subscription m g =
     (if \<not> should_forward_to_someip m then g
      else if external_identifier m = [] then g
      else let q = qos_for_someip_transport (rc_default_someip_transport (r2_config g));
               g1 = call (External (Rclcpp_create_subscription (external_identifier m) (qos_from_profile q))) g
           in g1\<lparr>r2_subs := r2_subs g1 @ [external_identifier m]\<rparr>)"

definition Ros2_impl_start :: "('m, 'c) ros_env \<Rightarrow> ('m, 'c) Ros2Gateway \<Rightarrow> ('m, 'c) Ros2Gateway" where
  "Ros2_impl_start E g =
     (let g1 = g\<lparr>r2_subs := [], r2_pubs := Map.empty, r2_node := False\<rparr>;
          ok = answer_bool E (gw_io g1) (External Rclcpp_ok);
          g2 = call (External Rclcpp_ok) g1
      in if ok
         then let ns0 = rc_ros_namespace (r2_config g2);
                  ns = (if ns0 \<noteq> [] \<and> hd ns0 \<noteq> CHR ''/'' then CHR ''/'' # ns0 else ns0);
                  g3 = (call (External (Rclcpp_node (rc_node_name (r2_config g2)) ns)) g2)\<lparr>r2_node := True\<rparr>
              in fold Ros2_add_subscription (get_service_mappings g3) g3
         else g2)"

definition Ros2_impl_stop :: "('m, 'c) Ros2Gateway \<Rightarrow> ('m, 'c) Ros2Gateway" where
  "Ros2_impl_stop g = g\<lparr>r2_subs := [], r2_pubs := Map.empty, r2_node := False\<rparr>"

definition emit_ros2_publish :: "string \<Rightarrow> bytes \<Rightarrow> ('m, 'c) Ros2Gateway \<Rightarrow> ('m, 'c) Ros2Gateway" where
  "emit_ros2_publish topic pl g =
     (if r2_publish_callback g then call (External (Ros2_publish_callback topic pl)) g else g)"

definition Ros2_impl_publish ::
  "('m, 'c) ros_env \<Rightarrow> string \<Rightarrow> Ros2QosProfile \<Rightarrow> bytes \<Rightarrow> ('m, 'c) Ros2Gateway \<Rightarrow> ('m, 'c) Ros2Gateway" where
  "Ros2_impl_publish E topic qos data g =
     (if r2_node g
      then (case r2_pubs g topic of
              Some h \<Rightarrow> call (External (Rclcpp_publish h data)) g
            | None \<Rightarrow>
                (let h = answer_new E (gw_io g);
                     g1 = call (External (Rclcpp_create_publisher topic (qos_from_profile qos))) g
                 in call (External (Rclcpp_publish h data)) (g1\<lparr>r2_pubs := (r2_pubs g1)(topic \<mapsto> h)\<rparr>)))
      else emit_ros2_publish topic data g)"


subsection \<open>Wiring and life cycle\<close>

definition Ros2_set_someip_outbound_sink :: "bool \<Rightarrow> ('m, 'c) Ros2Gateway \<Rightarrow> ('m, 'c) Ros2Gateway" where
  "Ros2_set_someip_outbound_sink = side_set_someip_outbound_sink"

definition set_ros2_publish_callback :: "bool \<Rightarrow> ('m, 'c) Ros2Gateway \<Rightarrow> ('m, 'c) Ros2Gateway" where
  "set_ros2_publish_callback cb g = g\<lparr>r2_publish_callback := cb\<rparr>"

definition Ros2_enable_someip_udp_bridge :: "('m, 'c) ros_env \<Rightarrow> ('m, 'c) Ros2Gateway \<Rightarrow> ('m, 'c) Ros2Gateway" where
  "Ros2_enable_someip_udp_bridge = side_enable_someip_udp_bridge"

definition Ros2_attach_rpc_client :: "handle option \<Rightarrow> ('m, 'c) Ros2Gateway \<Rightarrow> ('m, 'c) Ros2Gateway" where
  "Ros2_attach_rpc_client = side_attach_rpc_client"

definition Ros2_attach_rpc_server :: "u16 \<Rightarrow> handle option \<Rightarrow> ('m, 'c) Ros2Gateway \<Rightarrow> ('m, 'c) Ros2Gateway" where
  "Ros2_attach_rpc_server service_id server g = g\<lparr>r2_rpc_servers := (r2_rpc_servers g)(service_id \<mapsto> server)\<rparr>"

definition Ros2_attach_sd_client :: "handle option \<Rightarrow> ('m, 'c) Ros2Gateway \<Rightarrow> ('m, 'c) Ros2Gateway" where
  "Ros2_attach_sd_client = side_attach_sd_client"

definition Ros2_attach_sd_server :: "handle option \<Rightarrow> ('m, 'c) Ros2Gateway \<Rightarrow> ('m, 'c) Ros2Gateway" where
  "Ros2_attach_sd_server = side_attach_sd_server"

definition Ros2_register_event_publisher ::
  "u16 \<Rightarrow> u16 \<Rightarrow> handle option \<Rightarrow> ('m, 'c) Ros2Gateway \<Rightarrow> bool \<times> ('m, 'c) Ros2Gateway" where
  "Ros2_register_event_publisher = side_register_event_publisher"

definition Ros2_subscribe_someip_eventgroup ::
  "('m, 'c) ros_env \<Rightarrow> u16 \<Rightarrow> u16 \<Rightarrow> u16 \<Rightarrow> ('m, 'c) Ros2Gateway \<Rightarrow> bool \<times> ('m, 'c) Ros2Gateway" where
  "Ros2_subscribe_someip_eventgroup E service_id instance_id eventgroup_id g =
     side_subscribe_someip_eventgroup E (rc_rpc_client_id (r2_config g)) service_id instance_id eventgroup_id g"

text \<open>A call on the object behind a non-null entry of a table, in the given order of its keys.\<close>

definition call_table ::
  "(handle \<Rightarrow> ('m, 'c, 'x) io) \<Rightarrow> 'k list \<Rightarrow> ('k \<rightharpoonup> handle option) \<Rightarrow>
   ('m, 'c, 'x, 'z) GatewayBase_scheme \<Rightarrow> ('m, 'c, 'x, 'z) GatewayBase_scheme" where
  "call_table f order tbl g =
     fold (\<lambda>k g. case tbl k of Some p \<Rightarrow> call_on f p g | None \<Rightarrow> g) order g"

definition Ros2_create_rpc_client :: "('m, 'c) ros_env \<Rightarrow> ('m, 'c) Ros2Gateway \<Rightarrow> ('m, 'c) Ros2Gateway" where
  "Ros2_create_rpc_client E g =
     (if rc_enable_rpc_client (r2_config g) \<and> side_rpc_client g = None
      then let h = answer_new E (gw_io g)
           in call (RpcClient_set_remote_endpoint h)
                (call (RpcClient_new h (rc_rpc_client_id (r2_config g))) (g\<lparr>side_rpc_client := Some h\<rparr>))
      else g)"

definition Ros2_create_sd :: "('m, 'c) ros_env \<Rightarrow> ('m, 'c) Ros2Gateway \<Rightarrow> ('m, 'c) Ros2Gateway" where
  "Ros2_create_sd E g =
     (let g1 = (if rc_enable_sd_client (r2_config g) \<and> side_sd_client g = None
                then let h = answer_new E (gw_io g) in call (SdClient_new h) (g\<lparr>side_sd_client := Some h\<rparr>) else g)
      in if rc_enable_sd_server (r2_config g1) \<and> side_sd_server g1 = None
         then let h = answer_new E (gw_io g1) in call (SdServer_new h) (g1\<lparr>side_sd_server := Some h\<rparr>) else g1)"

definition Ros2_started ::
  "('m, 'c) ros_env \<Rightarrow> u16 list \<Rightarrow> u64 list \<Rightarrow> ('m, 'c) Ros2Gateway \<Rightarrow> ('m, 'c) Ros2Gateway" where
  "Ros2_started E servers publishers g =
     (let g1 = Ros2_create_rpc_client E g;
          g2 = call_on RpcClient_initialize (side_rpc_client g1) g1;
          g3 = call_table RpcServer_initialize servers (r2_rpc_servers g2) g2;
          g4 = Ros2_create_sd E g3;
          g5 = call_on SdClient_initialize (side_sd_client g4) g4;
          g6 = call_on SdServer_initialize (side_sd_server g5) g5;
          g7 = call_table EventPublisher_initialize publishers (side_event_publishers g6) g6;
          g8 = (if rc_enable_event_subscriber (r2_config g7)
                then snd (side_ensure_event_subscriber E (rc_rpc_client_id (r2_config g7)) g7) else g7)
      in set_running E True (Ros2_impl_start E g8))"

definition Ros2_start ::
  "('m, 'c) ros_env \<Rightarrow> u16 list \<Rightarrow> u64 list \<Rightarrow> ('m, 'c) Ros2Gateway \<Rightarrow> Result \<times> ('m, 'c) Ros2Gateway" where
  "Ros2_start E servers publishers g =
     (let g0 = (if rc_enable_udp_transport (r2_config g) \<and> side_udp_transport g = None
                then Ros2_enable_someip_udp_bridge E g else g)
      in case side_udp_transport g0 of
           Some h \<Rightarrow>
             (let r = answer_result E (gw_io g0) (Udp_start h); g1 = call (Udp_start h) g0
              in if r \<noteq> SUCCESS then (r, g1) else (SUCCESS, Ros2_started E servers publishers g1))
         | None \<Rightarrow> (SUCCESS, Ros2_started E servers publishers g0))"

definition Ros2_stop ::
  "('m, 'c) ros_env \<Rightarrow> u16 list \<Rightarrow> u64 list \<Rightarrow> ('m, 'c) Ros2Gateway \<Rightarrow> Result \<times> ('m, 'c) Ros2Gateway" where
  "Ros2_stop E servers publishers g =
     (let g0 = Ros2_impl_stop g;
          g1 = call_on EventSubscriber_shutdown (side_event_subscriber g0) g0;
          g2 = call_on RpcClient_shutdown (side_rpc_client g1) g1;
          g3 = call_table RpcServer_shutdown servers (r2_rpc_servers g2) g2;
          g4 = call_on SdClient_shutdown (side_sd_client g3) g3;
          g5 = call_on SdServer_shutdown (side_sd_server g4) g4;
          g6 = call_table EventPublisher_shutdown publishers (side_event_publishers g5) g5;
          g7 = call_on Udp_stop (side_udp_transport g6) g6
      in (SUCCESS, set_running E False g7))"

text \<open>The destructor stops a running gateway; destroying \<open>impl_\<close> runs its \<open>stop\<close> again.\<close>

definition Ros2_destroy ::
  "('m, 'c) ros_env \<Rightarrow> u16 list \<Rightarrow> u64 list \<Rightarrow> ('m, 'c) Ros2Gateway \<Rightarrow> ('m, 'c) Ros2Gateway" where
  "Ros2_destroy E servers publishers g =
     Ros2_impl_stop (if is_running g then snd (Ros2_stop E servers publishers g) else g)"


subsection \<open>Messages in both directions\<close>

definition route_someip_to_ros2_topic ::
  "'m message_api \<Rightarrow> 'm \<Rightarrow> ServiceMapping \<Rightarrow> ('m, 'c) Ros2Gateway \<Rightarrow> string" where
  "route_someip_to_ros2_topic A msg mapping g =
     (if external_identifier mapping \<noteq> [] then external_identifier mapping
      else build_ros2_topic (r2_translator g) (someip_service_id mapping) (someip_instance_id mapping) (get_method_id A msg))"

definition publish_to_ros2_side ::
  "('m, 'c) ros_env \<Rightarrow> string \<Rightarrow> Ros2QosProfile \<Rightarrow> bytes \<Rightarrow> ('m, 'c) Ros2Gateway \<Rightarrow> ('m, 'c) Ros2Gateway" where
  "publish_to_ros2_side E topic qos bs g = Ros2_impl_publish E topic qos bs g"

definition Ros2_on_someip_message ::
  "'m message_api \<Rightarrow> ('m, 'c) ros_env \<Rightarrow> 'm \<Rightarrow> ('m, 'c) Ros2Gateway \<Rightarrow> Result \<times> ('m, 'c) Ros2Gateway" where
  "Ros2_on_someip_message A E msg g =
     (if \<not> is_running g then (NOT_INITIALIZED, g)
      else case find_inbound_mapping (get_service_id A msg) (rc_default_someip_instance_id (r2_config g)) g of
        None \<Rightarrow> (SERVICE_NOT_FOUND, g)
      | Some mapping \<Rightarrow>
          if \<not> should_forward_to_external mapping then (SUCCESS, g)
          else let (vr, g1) = side_e2e_validate E (rc_use_e2e (r2_config g)) (rc_e2e_config (r2_config g)) msg g
               in if vr \<noteq> SUCCESS then (vr, record_translation_error g1)
                  else let topic = route_someip_to_ros2_topic A msg mapping g1;
                           pl = convert_someip_to_ros2_bytes A msg;
                           qos = qos_for_someip_transport (rc_default_someip_transport (r2_config g1));
                           g2 = publish_to_ros2_side E topic qos pl g1
                       in (SUCCESS, record_someip_to_external (length pl) g2))"

definition Ros2_on_event_notification ::
  "'m message_api \<Rightarrow> ('m, 'c) ros_env \<Rightarrow> EventNotification \<Rightarrow> ('m, 'c) Ros2Gateway \<Rightarrow> ('m, 'c) Ros2Gateway" where
  "Ros2_on_event_notification A E n g = snd (Ros2_on_someip_message A E (notification_message_rc A n) g)"

text \<open>\<open>UdpBridgeListener::on_message_received\<close>: a null message is ignored and the result is dropped.\<close>

definition Ros2_on_message_received ::
  "'m message_api \<Rightarrow> ('m, 'c) ros_env \<Rightarrow> 'm option \<Rightarrow> ('m, 'c) Ros2Gateway \<Rightarrow> ('m, 'c) Ros2Gateway" where
  "Ros2_on_message_received A E message g =
     (case message of Some m \<Rightarrow> snd (Ros2_on_someip_message A E m g) | None \<Rightarrow> g)"

definition ros_topic_matches :: "string \<Rightarrow> ServiceMapping \<Rightarrow> bool" where
  "ros_topic_matches topic m \<longleftrightarrow>
     external_identifier m = topic \<or>
     external_identifier m \<noteq> [] \<and> length topic \<ge> length (external_identifier m) \<and>
     take (length (external_identifier m)) topic = external_identifier m \<and>
     (length topic = length (external_identifier m) \<or> topic ! length (external_identifier m) = CHR ''/'')"

definition find_mapping_by_ros_topic :: "string \<Rightarrow> ('m, 'c) Ros2Gateway \<Rightarrow> ServiceMapping option" where
  "find_mapping_by_ros_topic topic g = find_mapping_if (ros_topic_matches topic) g"

definition command_method_for_mapping :: "ServiceMapping \<Rightarrow> u16" where
  "command_method_for_mapping mapping = (case someip_method_ids mapping of m # _ \<Rightarrow> m | [] \<Rightarrow> 0x0001)"

definition Ros2_e2e_protect :: "('m, 'c) ros_env \<Rightarrow> 'm \<Rightarrow> ('m, 'c) Ros2Gateway \<Rightarrow> 'm \<times> ('m, 'c) Ros2Gateway" where
  "Ros2_e2e_protect E req g =
     (case rc_e2e_config (r2_config g) of
        Some c \<Rightarrow>
          if rc_use_e2e (r2_config g)
          then (answer_message E (gw_io g) (E2e_protect req c), call (E2e_protect req c) g) else (req, g)
      | None \<Rightarrow> (req, g))"

definition inject_ros2_message ::
  "'m message_api \<Rightarrow> ('m, 'c) ros_env \<Rightarrow> string \<Rightarrow> bytes \<Rightarrow> ('m, 'c) Ros2Gateway \<Rightarrow> Result \<times> ('m, 'c) Ros2Gateway" where
  "inject_ros2_message A E ros2_topic pl g =
     (if \<not> is_running g then (NOT_INITIALIZED, g)
      else case find_mapping_by_ros_topic ros2_topic g of
        None \<Rightarrow> (SERVICE_NOT_FOUND, g)
      | Some mapping \<Rightarrow>
          if \<not> should_forward_to_someip mapping then (SUCCESS, g)
          else let method_id = command_method_for_mapping mapping;
                   sid = r2_session g;
                   g1 = g\<lparr>r2_session := sid + 1\<rparr>;
                   req0 = snd (convert_ros2_bytes_to_someip A pl
                            (Message_ctor_rc A (someip_service_id mapping, method_id)
                               (rc_rpc_client_id (r2_config g1), sid) (mt_REQUEST A) (rc_E_OK A)));
                   (req, g2) = Ros2_e2e_protect E req0 g1;
                   g3 = (case side_rpc_client g2 of
                           Some h \<Rightarrow> call (RpcClient_call_method_sync h (someip_service_id mapping) method_id
                                            (get_payload A req)) g2
                         | None \<Rightarrow> emit_to_sink req g2)
               in (SUCCESS, record_external_to_someip (length pl) g3))"

text \<open>The subscription callback: a null message is ignored.\<close>

definition Ros2_on_subscription ::
  "'m message_api \<Rightarrow> ('m, 'c) ros_env \<Rightarrow> string \<Rightarrow> bytes option \<Rightarrow> ('m, 'c) Ros2Gateway \<Rightarrow> ('m, 'c) Ros2Gateway" where
  "Ros2_on_subscription A E topic msg g =
     (case msg of None \<Rightarrow> g | Some bs \<Rightarrow> snd (inject_ros2_message A E topic bs g))"

subsection \<open>The contract of the message handler\<close>

lemma Ros2_publish_frame:
  "publish_to_ros2_side E t q b g = g\<lparr>gw_io := gw_io (publish_to_ros2_side E t q b g),
     r2_pubs := r2_pubs (publish_to_ros2_side E t q b g)\<rparr>"
  by (simp add: publish_to_ros2_side_def Ros2_impl_publish_def emit_ros2_publish_def call_def Let_def split: option.split)

lemma Ros2_forward_step:
  assumes "Ros2_on_someip_message A E msg g = (r, g')"
  shows "forward_step (get_service_id A msg) g r g'"
proof (cases "find_inbound_mapping (get_service_id A msg) (rc_default_someip_instance_id (r2_config g)) g")
  case None
  with assms show ?thesis by (auto simp: Ros2_on_someip_message_def split: if_splits)
next
  case (Some mapping)
  obtain vr g1 where v: "side_e2e_validate E (rc_use_e2e (r2_config g)) (rc_e2e_config (r2_config g)) msg g = (vr, g1)"
    by fastforce
  from side_e2e_frame [OF v] obtain h where g1: "g1 = g\<lparr>gw_io := h\<rparr>" ..
  from assms Some v consider (drop) "g' = g"
    | (err) "r \<noteq> SUCCESS" "g' = record_translation_error g1"
    | (sent) t q b where "should_forward_to_external mapping" "r = SUCCESS"
        "g' = record_someip_to_external (length b) (publish_to_ros2_side E t q b g1)"
    by (auto simp: Ros2_on_someip_message_def Let_def split: if_splits prod.splits)
  then show ?thesis
  proof cases
    case drop
    then show ?thesis by simp
  next
    case err
    then show ?thesis by (simp add: forward_error g1 same_base_def)
  next
    case sent
    have "same_base g (publish_to_ros2_side E t q b g1)" "gw_stats (publish_to_ros2_side E t q b g1) = gw_stats g"
      by (subst Ros2_publish_frame, simp add: g1 same_base_def)+
    with sent show ?thesis by (auto intro: forward_recorded [OF Some sent(1)])
  qed
qed

interpretation ros2: guarded_forwarder "\<lambda>m g. Some (Ros2_on_someip_message A E m g)" "get_service_id A" for A E
  by unfold_locales (auto simp: Ros2_forward_step Ros2_on_someip_message_def is_running_def)

interpretation ros2_total: total_forwarder "\<lambda>m g. Some (Ros2_on_someip_message A E m g)" "get_service_id A" "\<lambda>g. True" for A E
  by unfold_locales (simp add: prod_eq_iff)


subsection \<open>What is published\<close>

text \<open>Data that left the gateway, through a ROS publisher or through the callback.\<close>

fun ros_data :: "('m, 'c, ros_call) io \<Rightarrow> bytes option" where
  "ros_data (External (Rclcpp_publish h b)) = Some b"
| "ros_data (External (Ros2_publish_callback t b)) = Some b"
| "ros_data ev = None"

fun ros_published :: "('m, 'c, ros_call) history \<Rightarrow> bytes list" where
  "ros_published [] = []"
| "ros_published (ev # h) = (case ros_data ev of Some b \<Rightarrow> b # ros_published h | None \<Rightarrow> ros_published h)"

lemma ros_published_append [simp]: "ros_published (h @ h') = ros_published h @ ros_published h'"
  by (induction h) (simp_all split: option.split)

definition ros_result :: "'m message_api \<Rightarrow> ('m, 'c) Ros2Gateway \<Rightarrow> 'm \<Rightarrow> Result" where
  "ros_result A g msg =
     (case find_inbound_mapping (get_service_id A msg) (rc_default_someip_instance_id (r2_config g)) g of
        None \<Rightarrow> SERVICE_NOT_FOUND | Some mapping \<Rightarrow> SUCCESS)"

definition ros_forwards :: "'m message_api \<Rightarrow> ('m, 'c) Ros2Gateway \<Rightarrow> 'm \<Rightarrow> bool" where
  "ros_forwards A g msg =
     (case find_inbound_mapping (get_service_id A msg) (rc_default_someip_instance_id (r2_config g)) g of
        None \<Rightarrow> False | Some mapping \<Rightarrow> should_forward_to_external mapping)"

definition ros_ready :: "('m, 'c) Ros2Gateway \<Rightarrow> bool" where
  "ros_ready g \<longleftrightarrow> gw_running g \<and> \<not> rc_use_e2e (r2_config g) \<and> (r2_node g \<or> r2_publish_callback g)"

lemma publish_published:
  "r2_node g \<or> r2_publish_callback g \<Longrightarrow>
     ros_published (gw_io (publish_to_ros2_side E t q b g)) = ros_published (gw_io g) @ [b]"
  by (auto simp: publish_to_ros2_side_def Ros2_impl_publish_def emit_ros2_publish_def Let_def call_def split: option.split)

lemma Ros2_step_effect:
  assumes "ros_ready g"
  shows "\<exists>st h p. Ros2_on_someip_message A E msg g =
      (ros_result A g msg, g\<lparr>gw_stats := st, gw_io := h, r2_pubs := p\<rparr>) \<and>
    ros_published h = ros_published (gw_io g) @ map (get_payload A) (filter (ros_forwards A g) [msg])"
proof (cases "find_inbound_mapping (get_service_id A msg) (rc_default_someip_instance_id (r2_config g)) g")
  case None
  with assms show ?thesis
    by (intro exI [of _ "gw_stats g"] exI [of _ "gw_io g"] exI [of _ "r2_pubs g"])
      (simp add: Ros2_on_someip_message_def is_running_def ros_ready_def ros_result_def ros_forwards_def)
next
  case (Some mp)
  show ?thesis
  proof (cases "should_forward_to_external mp")
    case False
    with Some assms show ?thesis
      by (intro exI [of _ "gw_stats g"] exI [of _ "gw_io g"] exI [of _ "r2_pubs g"])
        (simp add: Ros2_on_someip_message_def is_running_def ros_ready_def ros_result_def ros_forwards_def)
  next
    case True
    let ?p = "publish_to_ros2_side E (route_someip_to_ros2_topic A msg mp g)
      (qos_for_someip_transport (rc_default_someip_transport (r2_config g))) (get_payload A msg) g"
    have "Ros2_on_someip_message A E msg g = (SUCCESS, record_someip_to_external (length (get_payload A msg)) ?p)"
      using True Some assms
      by (simp add: Ros2_on_someip_message_def is_running_def ros_ready_def side_e2e_off convert_someip_to_ros2_bytes_def Let_def)
    also have "record_someip_to_external (length (get_payload A msg)) ?p =
        g\<lparr>gw_stats := gw_stats (record_someip_to_external (length (get_payload A msg)) ?p), gw_io := gw_io ?p, r2_pubs := r2_pubs ?p\<rparr>"
      by (subst (1 2) Ros2_publish_frame) (simp add: record_someip_to_external_def)
    finally have "Ros2_on_someip_message A E msg g = (ros_result A g msg, g\<lparr>gw_stats := gw_stats (record_someip_to_external
        (length (get_payload A msg)) ?p), gw_io := gw_io ?p, r2_pubs := r2_pubs ?p\<rparr>)"
      using Some by (simp add: ros_result_def)
    moreover have "ros_published (gw_io ?p) = ros_published (gw_io g) @ map (get_payload A) (filter (ros_forwards A g) [msg])"
      using publish_published [of g] assms True Some by (simp add: ros_ready_def ros_forwards_def)
    ultimately show ?thesis by blast
  qed
qed

lemma ros_frame:
  "ros_ready (g\<lparr>gw_stats := st, gw_io := h, r2_pubs := p\<rparr>) = ros_ready g"
  "ros_result A (g\<lparr>gw_stats := st, gw_io := h, r2_pubs := p\<rparr>) = ros_result A g"
  "ros_forwards A (g\<lparr>gw_stats := st, gw_io := h, r2_pubs := p\<rparr>) = ros_forwards A g"
  by (simp_all add: fun_eq_iff ros_ready_def ros_result_def ros_forwards_def find_inbound_mapping_def
      find_mapping_for_service_def split: option.split)

lemma Ros2_all_effect:
  assumes "ros_ready g"
  shows "\<exists>g'. deliver_all (\<lambda>m g. Some (Ros2_on_someip_message A E m g)) ms g = Some (map (ros_result A g) ms, g') \<and>
    ros_published (gw_io g') = ros_published (gw_io g) @ map (get_payload A) (filter (ros_forwards A g) ms)"
  using assms
proof (induction ms arbitrary: g)
  case (Cons m ms)
  from Ros2_step_effect [OF Cons.prems] obtain st h p where
    1: "Ros2_on_someip_message A E m g = (ros_result A g m, g\<lparr>gw_stats := st, gw_io := h, r2_pubs := p\<rparr>)"
    and h: "ros_published h = ros_published (gw_io g) @ map (get_payload A) (filter (ros_forwards A g) [m])"
    by blast
  from Cons.IH [of "g\<lparr>gw_stats := st, gw_io := h, r2_pubs := p\<rparr>"] Cons.prems h show ?case
    by (auto simp: ros_frame 1)
qed simp


subsection \<open>Tables and life cycle\<close>

definition table_calls :: "(handle \<Rightarrow> ('m, 'c, 'x) io) \<Rightarrow> 'k list \<Rightarrow> ('k \<rightharpoonup> handle option) \<Rightarrow> ('m, 'c, 'x) history" where
  "table_calls f order tbl = concat (map (\<lambda>k. case tbl k of Some p \<Rightarrow> calls_on f p | None \<Rightarrow> []) order)"

lemma call_table_eq: "call_table f order tbl g = g\<lparr>gw_io := gw_io g @ table_calls f order tbl\<rparr>"
  by (induction order arbitrary: g)
    (simp_all add: call_table_def table_calls_def call_on_eq split: option.split)

lemma Ros2_add_subscriptions_frame:
  "\<exists>h s. fold Ros2_add_subscription ms g = g\<lparr>gw_io := h, r2_subs := s\<rparr>"
proof (induction ms arbitrary: g)
  case Nil
  show ?case by (intro exI [of _ "gw_io g"] exI [of _ "r2_subs g"]) simp
next
  case (Cons m ms)
  let ?r = "Ros2_add_subscription m g"
  have "?r = g\<lparr>gw_io := gw_io ?r, r2_subs := r2_subs ?r\<rparr>"
    by (simp add: Ros2_add_subscription_def call_def Let_def)
  then obtain h s where "?r = g\<lparr>gw_io := h, r2_subs := s\<rparr>" by blast
  with Cons [of "g\<lparr>gw_io := h, r2_subs := s\<rparr>"] show ?case by simp
qed

lemma Ros2_impl_start_frame:
  "\<exists>h s. Ros2_impl_start E g = g\<lparr>gw_io := h, r2_subs := s, r2_pubs := Map.empty,
     r2_node := answer_bool E (gw_io g) (External Rclcpp_ok)\<rparr>"
proof (cases "answer_bool E (gw_io g) (External Rclcpp_ok)")
  case True
  let ?n = "\<lambda>h. g\<lparr>r2_subs := [], r2_pubs := Map.empty, gw_io := h, r2_node := True\<rparr>"
  have "\<exists>h. Ros2_impl_start E g = fold Ros2_add_subscription (gw_service_mappings g) (?n h)"
    using True by (simp add: Ros2_impl_start_def Let_def get_service_mappings_def call_def) blast
  then obtain h where "Ros2_impl_start E g = fold Ros2_add_subscription (gw_service_mappings g) (?n h)" ..
  moreover obtain h' s where "fold Ros2_add_subscription (gw_service_mappings g) (?n h) = (?n h)\<lparr>gw_io := h', r2_subs := s\<rparr>"
    using Ros2_add_subscriptions_frame by blast
  ultimately show ?thesis using True by (intro exI [of _ h'] exI [of _ s]) simp
next
  case False
  then show ?thesis
    by (intro exI [of _ "gw_io g @ [External Rclcpp_ok]"] exI [of _ "[]"]) (simp add: Ros2_impl_start_def call_def)
qed

lemma Ros2_started_runs:
  "gw_running (Ros2_started E servers publishers g)" "r2_pubs (Ros2_started E servers publishers g) = Map.empty"
proof -
  have s: "gw_running (set_running E True (Ros2_impl_start E g'))"
    "r2_pubs (set_running E True (Ros2_impl_start E g')) = Map.empty" for g'
    using Ros2_impl_start_frame [of E g'] by (auto simp: set_running_def call_def Let_def)
  show "gw_running (Ros2_started E servers publishers g)" "r2_pubs (Ros2_started E servers publishers g) = Map.empty"
    by (simp_all add: Ros2_started_def Let_def s)
qed

lemma ros_topic_matches_iff:
  "ros_topic_matches topic m \<longleftrightarrow>
     topic = external_identifier m \<or> external_identifier m \<noteq> [] \<and> prefix (external_identifier m @ ''/'') topic"
proof -
  let ?e = "external_identifier m"
  have "prefix (?e @ ''/'') topic \<longleftrightarrow> length topic > length ?e \<and> take (length ?e) topic = ?e \<and> topic ! length ?e = CHR ''/''"
  proof
    assume "prefix (?e @ ''/'') topic"
    then obtain r where "topic = ?e @ ''/'' @ r" by (auto simp: prefix_def)
    then show "length topic > length ?e \<and> take (length ?e) topic = ?e \<and> topic ! length ?e = CHR ''/''" by simp
  next
    assume a: "length topic > length ?e \<and> take (length ?e) topic = ?e \<and> topic ! length ?e = CHR ''/''"
    then have "take (Suc (length ?e)) topic = ?e @ ''/''" by (simp add: take_Suc_conv_app_nth)
    then show "prefix (?e @ ''/'') topic" by (metis take_is_prefix)
  qed
  then show ?thesis by (auto simp: ros_topic_matches_def)
qed

subsection \<open>The table of publishers\<close>

text \<open>The topics for which a publisher was created, in order.\<close>

fun created_topic :: "('m, 'c, ros_call) io \<Rightarrow> string option" where
  "created_topic (External (Rclcpp_create_publisher t q)) = Some t"
| "created_topic ev = None"

definition created_topics :: "('m, 'c, ros_call) history \<Rightarrow> string list" where
  "created_topics h = List.map_filter created_topic h"

lemma created_topics_append [simp]: "created_topics (h @ h') = created_topics h @ created_topics h'"
  by (simp add: created_topics_def List.map_filter_def)

text \<open>The publishers added between two states: each for a new topic, and none replaced.\<close>

definition publishers_grow :: "('m, 'c) Ros2Gateway \<Rightarrow> ('m, 'c) Ros2Gateway \<Rightarrow> string list \<Rightarrow> bool" where
  "publishers_grow g g' ts \<longleftrightarrow>
     created_topics (gw_io g') = created_topics (gw_io g) @ ts \<and> distinct ts \<and> set ts \<inter> dom (r2_pubs g) = {} \<and>
     dom (r2_pubs g') = dom (r2_pubs g) \<union> set ts \<and> r2_pubs g \<subseteq>\<^sub>m r2_pubs g'"

lemma publishers_grow_refl: "publishers_grow g g []"
  by (simp add: publishers_grow_def)

lemma publishers_grow_trans:
  "publishers_grow g g1 ts \<Longrightarrow> publishers_grow g1 g2 us \<Longrightarrow> publishers_grow g g2 (ts @ us)"
  by (auto simp: publishers_grow_def intro: map_le_trans)

lemma publish_grows: "\<exists>ts. publishers_grow g (publish_to_ros2_side E t q b g) ts"
proof (cases "r2_node g \<and> r2_pubs g t = None")
  case True
  then show ?thesis
    by (intro exI [of _ "[t]"]) (auto simp: publishers_grow_def publish_to_ros2_side_def Ros2_impl_publish_def
        call_def Let_def created_topics_def List.map_filter_def map_le_def split: if_splits)
next
  case False
  then show ?thesis
    by (intro exI [of _ "[]"]) (auto simp: publishers_grow_def publish_to_ros2_side_def Ros2_impl_publish_def
        emit_ros2_publish_def call_def Let_def created_topics_def List.map_filter_def)
qed

lemma side_e2e_grows:
  "side_e2e_validate E u c msg g = (vr, g1) \<Longrightarrow> publishers_grow g g1 []"
  by (auto simp: publishers_grow_def side_e2e_validate_def call_def created_topics_def List.map_filter_def
      split: option.splits if_splits)

lemma Ros2_step_grows: "\<exists>ts. publishers_grow g (snd (Ros2_on_someip_message A E msg g)) ts"
proof -
  obtain vr g1 where v: "side_e2e_validate E (rc_use_e2e (r2_config g)) (rc_e2e_config (r2_config g)) msg g = (vr, g1)"
    by fastforce
  have rec: "publishers_grow g (record_someip_to_external n h) ts = publishers_grow g h ts"
    "publishers_grow g (record_translation_error h) ts = publishers_grow g h ts" for n h ts
    by (simp_all add: publishers_grow_def record_someip_to_external_def record_translation_error_def)
  have "\<exists>ts. publishers_grow g (publish_to_ros2_side E t q b g1) ts" for t q b
    using publishers_grow_trans [OF side_e2e_grows [OF v]] publish_grows by blast
  then show ?thesis
    using v publishers_grow_refl [of g] side_e2e_grows [OF v]
    by (auto simp: Ros2_on_someip_message_def Let_def rec split: option.splits)
qed

lemma Ros2_all_grows:
  "deliver_all (\<lambda>m g. Some (Ros2_on_someip_message A E m g)) ms g = Some (rs, g') \<Longrightarrow> \<exists>ts. publishers_grow g g' ts"
proof (induction ms arbitrary: g rs)
  case Nil
  then show ?case using publishers_grow_refl by auto
next
  case (Cons m ms)
  then obtain r g1 rs1 where "Ros2_on_someip_message A E m g = (r, g1)"
    "deliver_all (\<lambda>m g. Some (Ros2_on_someip_message A E m g)) ms g1 = Some (rs1, g')"
    unfolding deliver_all_Cons_Some by auto
  with Cons.IH Ros2_step_grows [of g A E m] show ?case using publishers_grow_trans by fastforce
qed

subsection \<open>Samples for the witnesses\<close>

definition sample_ros2 :: "(ref_message, unit) Ros2Gateway" where
  "sample_ros2 =
     (add_service_mapping
        \<lparr>someip_service_id = 0x1234, someip_instance_id = 1, someip_method_ids = [0x42], someip_event_group_ids = [],
         external_identifier = ''/radar'', direction = BIDIRECTIONAL, mode = OPAQUE\<rparr>
        (Ros2Gateway_new Ros2Config_default))\<lparr>gw_running := True, r2_publish_callback := True, side_outbound_sink := True\<rparr>"

lemma sample_ros2_ready [simp]: "ros_ready sample_ros2" "gw_running sample_ros2" "\<not> rc_use_e2e (r2_config sample_ros2)"
  "gw_io sample_ros2 = []"
  by (simp_all add: sample_ros2_def ros_ready_def add_service_mapping_def Ros2Gateway_new_def Ros2Config_default_def)

definition sample_ros2_event :: ref_message where
  "sample_ros2_event = notification_message_rc ref_api
     \<lparr>ev_service_id = 0x1234, ev_instance_id = 1, ev_event_id = 7, ev_client_id = 1, ev_session_id = 1, ev_event_data = [9, 8]\<rparr>"

lemma sample_ros2_forwards [simp]:
  "ros_forwards ref_api sample_ros2 sample_ros2_event" "get_payload ref_api sample_ros2_event = [9, 8]"
  by (simp_all add: sample_ros2_event_def notification_message_rc_def ref_api_laws sample_ros2_def ros_forwards_def
      find_inbound_mapping_def find_mapping_for_service_def add_service_mapping_def Ros2Gateway_new_def
      Ros2Config_default_def should_forward_to_external_def)


subsection \<open>Properties\<close>



text \<open>The publisher table. Whatever messages arrive, a ROS publisher is created only for a topic that has
  none, never twice for one topic, and the publisher of a topic is never replaced. After \<open>start\<close> the
  table is empty, so each topic gets at most one publisher until the next start.\<close>

lemma ros2_one_publisher_per_topic:
  "(\<exists>rs g' ts. deliver_all (\<lambda>m g. Some (Ros2_on_someip_message A E m g)) ms g = Some (rs, g') \<and>
      created_topics (gw_io g') = created_topics (gw_io g) @ ts \<and> distinct ts \<and> set ts \<inter> dom (r2_pubs g) = {} \<and>
      dom (r2_pubs g') = dom (r2_pubs g) \<union> set ts \<and> r2_pubs g \<subseteq>\<^sub>m r2_pubs g') \<and>
   (case Ros2_start E servers publishers g of (r, g') \<Rightarrow> if r = SUCCESS then r2_pubs g' = Map.empty else r2_pubs g' = r2_pubs g)"
proof
  obtain rs g' where d: "deliver_all (\<lambda>m g. Some (Ros2_on_someip_message A E m g)) ms g = Some (rs, g')"
    using ros2_total.all_returns [where A = A and E = E and ms = ms and g = g] by blast
  from Ros2_all_grows [OF d] d show "\<exists>rs g' ts. deliver_all (\<lambda>m g. Some (Ros2_on_someip_message A E m g)) ms g = Some (rs, g') \<and>
      created_topics (gw_io g') = created_topics (gw_io g) @ ts \<and> distinct ts \<and> set ts \<inter> dom (r2_pubs g) = {} \<and>
      dom (r2_pubs g') = dom (r2_pubs g) \<union> set ts \<and> r2_pubs g \<subseteq>\<^sub>m r2_pubs g'"
    unfolding publishers_grow_def by blast
next
  show "case Ros2_start E servers publishers g of (r, g') \<Rightarrow> if r = SUCCESS then r2_pubs g' = Map.empty else r2_pubs g' = r2_pubs g"
    by (auto simp: Ros2_start_def Let_def Ros2_started_runs Ros2_enable_someip_udp_bridge_def
        side_enable_someip_udp_bridge_def call_def split: option.splits)
qed



text \<open>Life cycle. \<open>start\<close> fails only when the UDP transport does, with its result, and otherwise the
  gateway runs. \<open>stop\<close> drops the node, publishers and subscriptions and shuts down every attached object
  exactly once in the order subscriber, RPC client, RPC servers, discovery client and server, event
  publishers, transport, for any iteration order of the tables; every message after it is refused
  without effect.\<close>

lemma ros2_lifecycle:
  "(case Ros2_start E servers publishers g of (r, g') \<Rightarrow>
      if r = SUCCESS then gw_running g'
      else gw_running g' = gw_running g \<and> (\<exists>h h'. side_udp_transport g' = Some h \<and> answer_result E h' (Udp_start h) = r)) \<and>
   (case Ros2_stop E servers publishers g of (r, g') \<Rightarrow>
      r = SUCCESS \<and> \<not> gw_running g' \<and> \<not> r2_node g' \<and> r2_pubs g' = Map.empty \<and> r2_subs g' = [] \<and>
      gw_io g' = gw_io g @ calls_on EventSubscriber_shutdown (side_event_subscriber g) @
        calls_on RpcClient_shutdown (side_rpc_client g) @ table_calls RpcServer_shutdown servers (r2_rpc_servers g) @
        calls_on SdClient_shutdown (side_sd_client g) @ calls_on SdServer_shutdown (side_sd_server g) @
        table_calls EventPublisher_shutdown publishers (side_event_publishers g) @
        calls_on Udp_stop (side_udp_transport g) \<and>
      (\<exists>rs. deliver_all (\<lambda>m g. Some (Ros2_on_someip_message A E m g)) ms g' = Some (rs, g') \<and> SUCCESS \<notin> set rs))"
proof
  show "case Ros2_start E servers publishers g of (r, g') \<Rightarrow>
      if r = SUCCESS then gw_running g'
      else gw_running g' = gw_running g \<and> (\<exists>h h'. side_udp_transport g' = Some h \<and> answer_result E h' (Udp_start h) = r)"
    by (auto simp: Ros2_start_def Let_def Ros2_started_runs Ros2_enable_someip_udp_bridge_def
        side_enable_someip_udp_bridge_def call_def split: option.splits)
next
  show "case Ros2_stop E servers publishers g of (r, g') \<Rightarrow>
      r = SUCCESS \<and> \<not> gw_running g' \<and> \<not> r2_node g' \<and> r2_pubs g' = Map.empty \<and> r2_subs g' = [] \<and>
      gw_io g' = gw_io g @ calls_on EventSubscriber_shutdown (side_event_subscriber g) @
        calls_on RpcClient_shutdown (side_rpc_client g) @ table_calls RpcServer_shutdown servers (r2_rpc_servers g) @
        calls_on SdClient_shutdown (side_sd_client g) @ calls_on SdServer_shutdown (side_sd_server g) @
        table_calls EventPublisher_shutdown publishers (side_event_publishers g) @
        calls_on Udp_stop (side_udp_transport g) \<and>
      (\<exists>rs. deliver_all (\<lambda>m g. Some (Ros2_on_someip_message A E m g)) ms g' = Some (rs, g') \<and> SUCCESS \<notin> set rs)"
    by (simp add: Ros2_stop_def Ros2_impl_stop_def set_running_def Let_def call_on_eq call_table_eq ros2.all_stopped)
qed


subsection \<open>The life cycle\<close>

interpretation ros2_life: total_life_cycle True "\<lambda>g. Some (Ros2_start E sv pb g)" "\<lambda>g. Some (Ros2_stop E sv' pb' g)"
  "\<lambda>m g. Some (Ros2_on_someip_message A E m g)" "\<lambda>g. True" for A E sv pb sv' pb'
proof
  show "gw_running g' = (r = SUCCESS \<or> gw_running g)" if "Some (Ros2_start E sv pb g) = Some (r, g')" for g r g'
    using that
    by (auto simp: Ros2_start_def Ros2_started_def set_running_def Let_def call_def 
         Ros2_enable_someip_udp_bridge_def side_enable_someip_udp_bridge_def split: option.splits if_splits)
  show "r = SUCCESS \<and> \<not> gw_running g'" if "Some (Ros2_stop E sv' pb' g) = Some (r, g')" for g r g'
    using that by (auto simp: Ros2_stop_def set_running_def Let_def)
  show "gw_running g' = gw_running g" if "Some (Ros2_on_someip_message A E m g) = Some (r, g')" for m g r g'
    using forward_step_same_base [OF ros2.step [OF that]] by (simp add: same_base_def)
  show "r \<noteq> SUCCESS \<and> g' = g" if "\<not> gw_running g" "Some (Ros2_on_someip_message A E m g) = Some (r, g')" for g m r g'
    using ros2.stopped [OF that(1), of A E m] that(2) by auto
qed (simp_all add: prod_eq_iff)

end
