(* ===== verification/External_Names.thy ===== *)
theory External_Names
  imports Mqtt_Translator Zenoh_Translator Dbus_Gateway Ros2_Gateway
begin

text \<open>
  The names the gateways hand to their middlewares, against the naming rules the middlewares document:
  bus names, interface names and object paths of the D-Bus specification, full topic names of ROS 2, topic
  names of MQTT and key expressions of Zenoh. The rules are predicates on strings; they are specifications and
  model no code. The properties say for which identifiers and prefixes each builder yields a valid name, and what
  the gateways do where it does not.
\<close>

subsection \<open>Naming rules\<close>

fun split_on :: "char \<Rightarrow> string \<Rightarrow> string list" where
  "split_on c [] = [[]]"
| "split_on c (x # s) =
     (if x = c then [] # split_on c s
      else case split_on c s of e # es \<Rightarrow> (x # e) # es | [] \<Rightarrow> [[x]])"

definition name_char :: "char \<Rightarrow> bool" where
  "name_char c = (let n = (of_char c :: nat) in
     48 \<le> n \<and> n \<le> 57 \<or> 65 \<le> n \<and> n \<le> 90 \<or> 97 \<le> n \<and> n \<le> 122 \<or> n = 95)"

text \<open>An element made of letters, digits, underscores and the extra characters, not empty.\<close>

definition name_element :: "string \<Rightarrow> string \<Rightarrow> bool" where
  "name_element extra e \<longleftrightarrow> e \<noteq> [] \<and> list_all (\<lambda>c. name_char c \<or> c \<in> set extra) e"

text \<open>An element that in addition does not begin with a digit.\<close>

definition name_token :: "string \<Rightarrow> string \<Rightarrow> bool" where
  "name_token extra e \<longleftrightarrow> name_element extra e \<and> \<not> isdigit (hd e)"

text \<open>D-Bus: interface names and well-known bus names have at least two elements and at most 255
  characters; elements of a bus name may also contain hyphens.\<close>

definition valid_interface_name :: "string \<Rightarrow> bool" where
  "valid_interface_name s \<longleftrightarrow>
     2 \<le> length (split_on (CHR ''.'') s) \<and> list_all (name_token []) (split_on (CHR ''.'') s) \<and> length s \<le> 255"

definition valid_bus_name :: "string \<Rightarrow> bool" where
  "valid_bus_name s \<longleftrightarrow>
     2 \<le> length (split_on (CHR ''.'') s) \<and> list_all (name_token ''-'') (split_on (CHR ''.'') s) \<and> length s \<le> 255"

text \<open>D-Bus object paths: the root, or a sequence of elements each preceded by a slash.\<close>

fun valid_object_path :: "string \<Rightarrow> bool" where
  "valid_object_path [] = False"
| "valid_object_path (c # s) \<longleftrightarrow> c = CHR ''/'' \<and> (s = [] \<or> list_all (name_element []) (split_on (CHR ''/'') s))"

text \<open>ROS 2: a full topic name is absolute, and no token is empty or begins with a digit (its length limit
  aside). A relative name is put under the namespace of the node.\<close>

fun valid_ros_topic :: "string \<Rightarrow> bool" where
  "valid_ros_topic [] = False"
| "valid_ros_topic (c # s) \<longleftrightarrow> c = CHR ''/'' \<and> list_all (name_token []) (split_on (CHR ''/'') s)"

definition ros_full_name :: "string \<Rightarrow> string \<Rightarrow> string" where
  "ros_full_name ns t = (if t \<noteq> [] \<and> hd t = CHR ''/'' then t else ns @ ''/'' @ t)"

text \<open>MQTT: a topic name is not empty, has at most 65535 bytes and contains no wildcard and no null character.\<close>

definition mqtt_topic_char :: "char \<Rightarrow> bool" where
  "mqtt_topic_char c \<longleftrightarrow> c \<noteq> CHR ''+'' \<and> c \<noteq> CHR ''#'' \<and> c \<noteq> CHR 0x00"

definition valid_mqtt_topic :: "string \<Rightarrow> bool" where
  "valid_mqtt_topic s \<longleftrightarrow> s \<noteq> [] \<and> length s \<le> 65535 \<and> list_all mqtt_topic_char s"

text \<open>Zenoh: the chunks of a key are not empty and contain none of the reserved characters.\<close>

definition zenoh_chunk :: "string \<Rightarrow> bool" where
  "zenoh_chunk e \<longleftrightarrow> e \<noteq> [] \<and> list_all (\<lambda>c. c \<notin> set ''*$?#'') e"

definition valid_zenoh_key :: "string \<Rightarrow> bool" where
  "valid_zenoh_key s \<longleftrightarrow> list_all zenoh_chunk (split_on (CHR ''/'') s)"


subsection \<open>Splitting built names\<close>

lemma split_on_nonempty [simp]: "split_on c s \<noteq> []"
  by (induction s) (auto split: list.split)

lemma split_on_sep: "split_on c (s @ c # t) = split_on c s @ split_on c t"
proof (induction s)
  case (Cons x s)
  then show ?case by (cases "split_on c s") auto
qed simp

lemma split_on_absent: "c \<notin> set s \<Longrightarrow> split_on c s = [s]"
  by (induction s) auto

lemma length_split_on: "1 \<le> length (split_on c s)"
  by (cases "split_on c s") auto

lemma hex_digit_name: "d < 16 \<Longrightarrow> name_char (hex_digit upper d)"
  by (auto simp: name_char_def hex_digit_def Let_def)

lemma hex_digit_isdigit: "d < 16 \<Longrightarrow> isdigit (hex_digit upper d) \<longleftrightarrow> d < 10"
  by (auto simp: isdigit_def hex_digit_def Let_def)

lemma hex4_name [simp]: "list_all (\<lambda>c. name_char c \<or> P c) (hex4 upper v)"
  by (auto simp: hex4_nibbles list_all_iff intro: hex_digit_name dest: nibbles_bound)

lemma hex4_plain: "c \<in> set (hex4 upper v) \<Longrightarrow> name_char c"
  using hex4_name [of "\<lambda>_. False" upper v] by (auto simp: list_all_iff)

lemma hex4_element [simp]: "name_element extra (hex4 upper v)"
  by (simp add: name_element_def)

lemma hex4_hd_isdigit: "isdigit (hd (hex4 upper v)) \<longleftrightarrow> \<not> 0xA000 \<le> v"
proof -
  have "unat v div 4096 < 16" using unat_u16_less [of v] by simp
  then have "isdigit (hd (hex4 upper v)) \<longleftrightarrow> unat v div 4096 < 10"
    by (simp add: hex4_nibbles nibbles_def hex_digit_isdigit)
  also have "\<dots> \<longleftrightarrow> unat v < 40960" by linarith
  also have "\<dots> \<longleftrightarrow> \<not> 0xA000 \<le> v" by (simp add: word_le_nat_alt not_le)
  finally show ?thesis .
qed

lemma hex4_token [simp]: "name_token extra (hex4 upper v) \<longleftrightarrow> 0xA000 \<le> v"
  by (simp add: name_token_def hex4_hd_isdigit)

lemma special_not_name: "\<not> name_char (CHR ''.'')" "\<not> name_char (CHR ''/'')" "\<not> name_char (CHR ''+'')"
  "\<not> name_char (CHR ''#'')" "\<not> name_char (CHR 0x00)" "\<not> name_char (CHR ''*'')" "\<not> name_char (CHR ''$'')"
  "\<not> name_char (CHR ''?'')"
  by code_simp+

lemma special_not_hex4 [simp]:
  "CHR ''.'' \<notin> set (hex4 u v)" "CHR ''+'' \<notin> set (hex4 u v)" "CHR ''#'' \<notin> set (hex4 u v)"
  "CHR 0x00 \<notin> set (hex4 u v)" "CHR ''*'' \<notin> set (hex4 u v)" "CHR ''$'' \<notin> set (hex4 u v)" "CHR ''?'' \<notin> set (hex4 u v)"
  using special_not_name hex4_plain by blast+


subsection \<open>D-Bus\<close>

lemma literal_tokens [simp]:
  "name_token extra ''com''" "name_token extra ''opensomeip''" "name_token extra ''Service''"
  "name_token extra ''svc''" "name_token extra ''inst''"
  by (simp_all add: name_token_def name_element_def name_char_def isdigit_def)

lemma path_elements [simp]: "name_element extra (''svc_'' @ hex4 u v)" "name_element extra (''inst_'' @ hex4 u v)"
  using hex4_element [of extra u v] by (simp_all add: name_element_def) (simp_all add: name_char_def)

lemma interface_name_valid: "valid_interface_name (build_interface_name s) \<longleftrightarrow> 0xA000 \<le> s"
proof -
  have "split_on (CHR ''.'') (build_interface_name s) = [''com'', ''opensomeip'', ''Service'', hex4 False s]"
    by (simp add: topic_simps split_on_absent)
  then show ?thesis
    by (simp add: valid_interface_name_def build_interface_name_def to_hex4_def)
qed

lemma bus_name_split:
  "split_on (CHR ''.'') (build_bus_name tr s i) =
     split_on (CHR ''.'') (bus_name_prefix tr) @ [''svc'', hex4 False s, ''inst'', hex4 False i]"
proof -
  have "build_bus_name tr s i = bus_name_prefix tr @ CHR ''.'' # ''svc'' @ CHR ''.'' # hex4 False s @
      CHR ''.'' # ''inst'' @ CHR ''.'' # hex4 False i"
    by (simp add: topic_simps)
  then show ?thesis by (simp only: split_on_sep) (simp add: split_on_absent)
qed

lemma object_path_split:
  "split_on (CHR ''/'') (p @ ''/svc_'' @ hex4 False s @ ''/inst_'' @ hex4 False i) =
     split_on (CHR ''/'') p @ [''svc_'' @ hex4 False s, ''inst_'' @ hex4 False i]"
proof -
  have "p @ ''/svc_'' @ hex4 False s @ ''/inst_'' @ hex4 False i =
      p @ CHR ''/'' # (''svc_'' @ hex4 False s) @ CHR ''/'' # (''inst_'' @ hex4 False i)" by simp
  then show ?thesis by (simp only: split_on_sep) (simp add: split_on_absent)
qed

text \<open>A prefix of a bus name: elements by the rules, short enough for what the builder appends.\<close>

definition valid_bus_prefix :: "string \<Rightarrow> bool" where
  "valid_bus_prefix p \<longleftrightarrow> list_all (name_token ''-'') (split_on (CHR ''.'') p) \<and> length p \<le> 236"

text \<open>C30: Which D-Bus names the gateway builds are names at all by the D-Bus specification, whose elements must not
  begin with a digit: an interface name exactly when the service identifier is at least \<open>0xA000\<close> (its first
  hexadecimal digit is a letter), a bus name exactly when service and instance both are and the prefix is
  valid, and an object path for every service and instance when the configured prefix is a path other than the root.\<close>

theorem dbus_names_valid:
  "(valid_interface_name (build_interface_name s) \<longleftrightarrow> 0xA000 \<le> s) \<and>
   (valid_bus_name (build_bus_name tr s i) \<longleftrightarrow> valid_bus_prefix (bus_name_prefix tr) \<and> 0xA000 \<le> s \<and> 0xA000 \<le> i) \<and>
   (valid_object_path (build_object_path tr s i) \<longleftrightarrow>
      object_path_prefix tr = [] \<or> object_path_prefix tr \<noteq> ''/'' \<and> valid_object_path (object_path_prefix tr))"
proof (intro conjI interface_name_valid)
  have "length (build_bus_name tr s i) = length (bus_name_prefix tr) + 19"
    by (simp add: topic_simps)
  then show "valid_bus_name (build_bus_name tr s i) \<longleftrightarrow>
      valid_bus_prefix (bus_name_prefix tr) \<and> 0xA000 \<le> s \<and> 0xA000 \<le> i"
    unfolding valid_bus_name_def valid_bus_prefix_def bus_name_split
    by auto
next
  show "valid_object_path (build_object_path tr s i) \<longleftrightarrow>
      object_path_prefix tr = [] \<or> object_path_prefix tr \<noteq> ''/'' \<and> valid_object_path (object_path_prefix tr)"
  proof (cases "object_path_prefix tr")
    case Nil
    have e: "build_object_path tr s i = CHR ''/'' # (''svc_'' @ hex4 False s) @ CHR ''/'' # ''inst_'' @ hex4 False i"
      using Nil by (simp add: topic_simps)
    have "split_on (CHR ''/'') (''svc_'' @ hex4 False s) = [''svc_'' @ hex4 False s]"
      "split_on (CHR ''/'') (''inst_'' @ hex4 False i) = [''inst_'' @ hex4 False i]"
      by (simp_all add: split_on_absent)
    then show ?thesis
      unfolding e valid_object_path.simps split_on_sep by (simp add: Nil del: append.simps)
  next
    case (Cons c p)
    have e: "build_object_path tr s i = c # p @ ''/svc_'' @ hex4 False s @ ''/inst_'' @ hex4 False i"
      using Cons by (simp add: topic_simps)
    have "list_all (name_element []) (split_on (CHR ''/'') p) \<Longrightarrow> p \<noteq> []"
      by (auto simp: name_element_def)
    then show ?thesis
      unfolding e valid_object_path.simps object_path_split by (auto simp: Cons simp del: append.simps)
  qed
qed


text \<open>The sd-bus calls that take an interface name fail on one that is not valid.\<close>

definition sd_bus_checks_interfaces :: "('m, 'c) dbus_env \<Rightarrow> bool" where
  "sd_bus_checks_interfaces E \<longleftrightarrow>
     (\<forall>h path iface mem mid pl. \<not> valid_interface_name iface \<longrightarrow>
        answer_int E h (External (Sd_bus_emit_signal path iface mem mid pl)) < 0) \<and>
     (\<forall>h path iface. \<not> valid_interface_name iface \<longrightarrow>
        answer_int E h (External (Sd_bus_add_object_vtable path iface)) < 0)"

lemma Dbus_register_low:
  assumes "sd_bus_checks_interfaces E" and "someip_service_id mp < 0xA000"
  shows "db_slots (Dbus_register_one E mp g) = db_slots g \<and> db_ctx_storage (Dbus_register_one E mp g) = db_ctx_storage g"
proof -
  have "\<not> valid_interface_name (build_interface_name (someip_service_id mp))"
    using assms(2) by (simp add: interface_name_valid)
  with assms(1) show ?thesis
    by (simp add: sd_bus_checks_interfaces_def Dbus_register_one_def Let_def call_def)
qed

lemma Dbus_register_all_low:
  assumes "sd_bus_checks_interfaces E" and "\<And>mp. mp \<in> set mps \<Longrightarrow> someip_service_id mp < 0xA000"
  shows "db_slots (fold (Dbus_register_one E) mps g) = db_slots g \<and>
    db_ctx_storage (fold (Dbus_register_one E) mps g) = db_ctx_storage g"
  using assms(2)
proof (induction mps arbitrary: g)
  case (Cons mp mps)
  from Cons.IH [of "Dbus_register_one E mp g"] Cons.prems Dbus_register_low [OF assms(1), of mp g]
  show ?case by simp
qed simp

lemma Dbus_start_low:
  assumes "sd_bus_checks_interfaces E" and "\<forall>mp \<in> set (gw_service_mappings g). someip_service_id mp < 0xA000"
  shows "db_slots (snd (Dbus_start E g)) = db_slots g \<and> db_ctx_storage (snd (Dbus_start E g)) = db_ctx_storage g"
  using assms(2)
  by (auto simp: Dbus_start_def Dbus_started_def Dbus_impl_start_def Let_def call_on_eq call_def set_running_def
      get_service_mappings_def Dbus_register_all_low [OF assms(1)] split: option.split prod.split)

lemma Dbus_low_message:
  assumes "sd_bus_checks_interfaces E" and "get_service_id A msg < 0xA000" and "db_enabled g" and "db_bus g"
    and "Dbus_on_someip_message A E msg g = (r, g')"
  shows "db_enabled g' \<and> db_bus g' \<and>
    gw_stats g' = run_fetch_adds (if r = NOT_INITIALIZED \<and> gw_running g then steps_translation_error else []) (gw_stats g) \<and>
    gw_running g' = gw_running g"
proof -
  have inv: "\<not> valid_interface_name (build_interface_name (someip_service_id mp))"
    if "find_inbound_mapping (get_service_id A msg) d g = Some mp" for d mp
    using find_inbound_mapping_Some [OF that] assms(2) by (simp add: interface_name_valid)
  show ?thesis
    using assms(1,3-5)
    by (auto simp: Dbus_on_someip_message_def Dbus_impl_emit_signal_def Let_def is_running_def call_def
        sd_bus_checks_interfaces_def record_translation_error_def run_fetch_adds_def steps_translation_error_def
        split: option.splits if_splits dest: inv)
qed

text \<open>C31: Services below \<open>0xA000\<close> cannot cross to a D-Bus that follows its naming rules (sd-bus refuses an invalid
  interface name): starting the gateway registers no object for them, and of any sequence of their messages
  to a running, connected gateway nothing is counted as forwarded, every message that reaches the bus comes back
  as \<open>NOT_INITIALIZED\<close>, and the translation errors grow by exactly the number of these results.\<close>

theorem dbus_low_services_cut_off:
  assumes "sd_bus_checks_interfaces E"
    and "list_all (\<lambda>mp. someip_service_id mp < 0xA000) (gw_service_mappings g0)"
    and "list_all (\<lambda>m. get_service_id A m < 0xA000) ms"
    and "gw_running g" and "db_enabled g" and "db_bus g"
  shows "db_slots (snd (Dbus_start E g0)) = db_slots g0 \<and>
    (\<exists>rs g'. deliver_all (\<lambda>m g. Some (Dbus_on_someip_message A E m g)) ms g = Some (rs, g') \<and>
       messages_someip_to_external (gw_stats g') = messages_someip_to_external (gw_stats g) \<and>
       translation_errors (gw_stats g') = translation_errors (gw_stats g) + word_of_nat (count_list rs NOT_INITIALIZED))"
proof
  show "db_slots (snd (Dbus_start E g0)) = db_slots g0"
    using Dbus_start_low [OF assms(1)] assms(2) by (simp add: list_all_iff)
  show "\<exists>rs g'. deliver_all (\<lambda>m g. Some (Dbus_on_someip_message A E m g)) ms g = Some (rs, g') \<and>
       messages_someip_to_external (gw_stats g') = messages_someip_to_external (gw_stats g) \<and>
       translation_errors (gw_stats g') = translation_errors (gw_stats g) + word_of_nat (count_list rs NOT_INITIALIZED)"
    using assms(3-)
  proof (induction ms arbitrary: g)
    case (Cons m ms)
    obtain r g1 where 1: "Dbus_on_someip_message A E m g = (r, g1)" by fastforce
    note low = Dbus_low_message [OF assms(1) _ Cons.prems(3,4) 1]
    from Cons.IH [of g1] Cons.prems low obtain rs g' where
      "deliver_all (\<lambda>m g. Some (Dbus_on_someip_message A E m g)) ms g1 = Some (rs, g')"
      "messages_someip_to_external (gw_stats g') = messages_someip_to_external (gw_stats g1)"
      "translation_errors (gw_stats g') = translation_errors (gw_stats g1) + word_of_nat (count_list rs NOT_INITIALIZED)"
      by auto
    with low Cons.prems show ?case
      by (auto simp: 1 run_fetch_adds_def steps_translation_error_def)
  qed simp
qed

text \<open>The answers of an sd-bus that accepts everything but invalid interface names.\<close>

definition strict_bus_env :: "(ref_message, unit) dbus_env" where
  "strict_bus_env = ref_env\<lparr>answer_int := (\<lambda>h c. case c of
     External (Sd_bus_emit_signal path iface mem mid pl) \<Rightarrow> if valid_interface_name iface then 1 else - 22
   | External (Sd_bus_add_object_vtable path iface) \<Rightarrow> if valid_interface_name iface then 1 else - 22
   | _ \<Rightarrow> 1)\<rparr>"

lemma strict_bus_env_checks: "sd_bus_checks_interfaces strict_bus_env"
  by (simp add: sd_bus_checks_interfaces_def strict_bus_env_def)

theorem dbus_low_services_cut_off_witness:
  "list_all (\<lambda>mp. someip_service_id mp < 0xA000) (gw_service_mappings sample_dbus) \<and>
   db_slots (snd (Dbus_start strict_bus_env sample_dbus)) = [] \<and>
   (\<exists>rs g'. deliver_all (\<lambda>m g. Some (Dbus_on_someip_message ref_api strict_bus_env m g))
        [set_payload ref_api [1] (Message_ctor ref_api (0x1234, 0x8001) (0, 1) 2)] sample_dbus = Some (rs, g') \<and>
      messages_someip_to_external (gw_stats g') = 0)"
proof -
  have h: "list_all (\<lambda>mp. someip_service_id mp < 0xA000) (gw_service_mappings sample_dbus)"
    "list_all (\<lambda>m. get_service_id ref_api m < 0xA000) [set_payload ref_api [1] (Message_ctor ref_api (0x1234, 0x8001) (0, 1) 2)]"
    "gw_running sample_dbus" "db_enabled sample_dbus" "db_bus sample_dbus" "db_slots sample_dbus = []"
    "messages_someip_to_external (gw_stats sample_dbus) = 0"
    by (simp_all add: sample_dbus_def add_service_mapping_def DbusGateway_new_def ref_simps
        GatewayStats_default_def ServiceMapping_default_def)
  from dbus_low_services_cut_off [OF strict_bus_env_checks h(1-5)] h show ?thesis by auto
qed

subsection \<open>ROS 2\<close>

lemma ros_token_after_slash:
  assumes "valid_ros_topic (p @ CHR ''/'' # t)"
  shows "list_all (name_token []) (split_on (CHR ''/'') t)"
proof (cases p)
  case Nil
  then show ?thesis using assms by simp
next
  case (Cons c q)
  then show ?thesis using assms by (simp add: split_on_sep)
qed

lemma ros_built_invalid: "\<not> valid_ros_topic (p @ build_ros2_topic tr s i e)"
proof
  assume v: "valid_ros_topic (p @ build_ros2_topic tr s i e)"
  let ?n = "p @ (if ros_namespace tr \<noteq> [] then ros_namespace tr @ ''/'' else []) @ ros_topic_prefix tr"
  have "p @ build_ros2_topic tr s i e =
      ?n @ CHR ''/'' # (''0x'' @ hex4 True s) @ CHR ''/'' # (ros2_hex4 i @ ''/event/'' @ ros2_hex4 e)"
    by (simp add: build_ros2_topic_def ros2_hex4_def)
  with v have "list_all (name_token []) (split_on (CHR ''/'')
      ((''0x'' @ hex4 True s) @ CHR ''/'' # (ros2_hex4 i @ ''/event/'' @ ros2_hex4 e)))"
    by (metis ros_token_after_slash)
  then have "list_all (name_token []) (split_on (CHR ''/'') (''0x'' @ hex4 True s))"
    by (simp only: split_on_sep list_all_append)
  moreover have "split_on (CHR ''/'') (''0x'' @ hex4 True s) = [''0x'' @ hex4 True s]"
    by (rule split_on_absent) simp
  ultimately have "name_token [] (''0x'' @ hex4 True s)" by (simp only: list.pred_inject)
  then show False by (simp add: name_token_def isdigit_def)
qed

text \<open>C33: Which topics of the ROS 2 gateway are topic names by the rules of ROS 2, whose tokens must not begin with a
  digit: under any namespace of the node, the topic a message is published under is valid exactly when its mapping
  names one and that is valid. The topic \<open>build_ros2_topic\<close> makes from the identifiers has a token \<open>0x\<dots>\<close> and is
  never valid, whatever the configured prefix and namespace.\<close>

theorem ros2_topics_valid:
  "(valid_ros_topic (ros_full_name ns (route_someip_to_ros2_topic A msg mapping g)) \<longleftrightarrow>
      external_identifier mapping \<noteq> [] \<and> valid_ros_topic (ros_full_name ns (external_identifier mapping))) \<and>
   \<not> valid_ros_topic (ros_full_name ns (build_ros2_topic (Ros2Translator_new p n) s i e))"
proof -
  have "\<not> valid_ros_topic (ros_full_name ns (build_ros2_topic tr s i e))" for tr s i e
    using ros_built_invalid [of "[]" tr s i e] ros_built_invalid [of "ns @ ''/''" tr s i e]
    by (simp add: ros_full_name_def)
  then show ?thesis by (simp add: route_someip_to_ros2_topic_def)
qed

subsection \<open>MQTT and Zenoh\<close>

lemma mqtt_hex4 [simp]: "list_all mqtt_topic_char (hex4 u v)"
  by (auto simp: list_all_iff mqtt_topic_char_def)

lemma mqtt_topic_chars:
  "list_all mqtt_topic_char (build_mqtt_topic tr s i m r) \<longleftrightarrow>
     list_all mqtt_topic_char (mqtt_topic_prefix tr) \<and> list_all mqtt_topic_char (mqtt_vin tr)"
  by (simp add: topic_simps mqtt_topic_char_def)

lemma mqtt_topic_length:
  "length (build_mqtt_topic tr s i m r) =
     length (mqtt_topic_prefix tr) + length (mqtt_vin tr) + (if r then 44 else 35)"
  by (simp add: topic_simps)

lemma zenoh_id_chunk [simp]: "zenoh_chunk (''0x'' @ hex4 u v)" "zenoh_chunk ''event''" "zenoh_chunk ''rpc''"
  "zenoh_chunk ''liveliness''"
  by (auto simp: zenoh_chunk_def list_all_iff)

lemma split_id_chunk [simp]: "split_on (CHR ''/'') (''0x'' @ hex4 u v) = [''0x'' @ hex4 u v]"
  "split_on (CHR ''/'') ''event'' = [''event'']" "split_on (CHR ''/'') ''rpc'' = [''rpc'']"
  "split_on (CHR ''/'') ''liveliness'' = [''liveliness'']"
  by (rule split_on_absent, simp)+

text \<open>Names on MQTT and Zenoh are valid for every service, instance and method, as far as the configuration is: an
  MQTT topic is a topic name exactly when prefix and vehicle number contain no wildcard and no null character and the
  topic fits in 65535 bytes, and the event, RPC and liveliness keys of Zenoh are valid keys exactly when the key
  prefix is one.\<close>

lemma mqtt_zenoh_names_valid:
  "(valid_mqtt_topic (build_mqtt_topic tr s i m r) \<longleftrightarrow>
      list_all mqtt_topic_char (mqtt_topic_prefix tr) \<and> list_all mqtt_topic_char (mqtt_vin tr) \<and>
      length (mqtt_topic_prefix tr) + length (mqtt_vin tr) \<le> (if r then 65491 else 65500)) \<and>
   (valid_zenoh_key (build_key_expr pre s i m b) \<longleftrightarrow> valid_zenoh_key pre) \<and>
   (valid_zenoh_key (build_rpc_key pre s i m) \<longleftrightarrow> valid_zenoh_key pre) \<and>
   (valid_zenoh_key (build_liveliness_key pre s i) \<longleftrightarrow> valid_zenoh_key pre)"
proof (intro conjI)
  have "build_mqtt_topic tr s i m r \<noteq> []"
    using mqtt_topic_length [of tr s i m r] by (auto split: if_splits)
  then show "valid_mqtt_topic (build_mqtt_topic tr s i m r) \<longleftrightarrow>
      list_all mqtt_topic_char (mqtt_topic_prefix tr) \<and> list_all mqtt_topic_char (mqtt_vin tr) \<and>
      length (mqtt_topic_prefix tr) + length (mqtt_vin tr) \<le> (if r then 65491 else 65500)"
    by (auto simp: valid_mqtt_topic_def mqtt_topic_chars mqtt_topic_length)
next
  let ?id = "\<lambda>v. ''0x'' @ hex4 False v"
  have e: "build_key_expr pre s i m b = pre @ CHR ''/'' # ?id s @ CHR ''/'' # ?id i @ CHR ''/'' # ?id m @ CHR ''/'' # ''event''"
    by (simp add: topic_simps)
  show "valid_zenoh_key (build_key_expr pre s i m b) \<longleftrightarrow> valid_zenoh_key pre"
    unfolding e valid_zenoh_key_def split_on_sep by (simp del: append.simps split_on.simps)
  have r: "build_rpc_key pre s i m = pre @ CHR ''/'' # ?id s @ CHR ''/'' # ?id i @ CHR ''/'' # ''rpc'' @ CHR ''/'' # ?id m"
    by (simp add: topic_simps)
  show "valid_zenoh_key (build_rpc_key pre s i m) \<longleftrightarrow> valid_zenoh_key pre"
    unfolding r valid_zenoh_key_def split_on_sep by (simp del: append.simps split_on.simps)
  have l: "build_liveliness_key pre s i = pre @ CHR ''/'' # ''liveliness'' @ CHR ''/'' # ?id s @ CHR ''/'' # ?id i"
    by (simp add: topic_simps)
  show "valid_zenoh_key (build_liveliness_key pre s i) \<longleftrightarrow> valid_zenoh_key pre"
    unfolding l valid_zenoh_key_def split_on_sep by (simp del: append.simps split_on.simps)
qed


end
