(* ===== verification/Introspection_Document.thy ===== *)
theory Introspection_Document
  imports Wire_Formats External_Names
begin

text \<open>
  The introspection data of \<open>DbusTranslator::generate_introspection_xml\<close> against XML 1.0 and against the table of methods and
  signals that \<open>gateway-dbus/src/dbus_gateway.cpp\<close> registers with sd-bus. The reader of elements, attributes, comments and
  white space is a specification and models no code. The lemmas \<open>element_leaf\<close> and \<open>element_node\<close> read a text from the texts of its
  parts; the property follows by putting the tags of the source together.
\<close>

subsection \<open>A reader of XML\<close>

text \<open>Elements with attributes, nested; comments and white space between them are skipped, a document type in front.\<close>

datatype xml = Element string "(string \<times> string) list" "xml list"

definition xml_space :: "char \<Rightarrow> bool" where
  "xml_space c \<longleftrightarrow> c = CHR '' '' \<or> c = CHR 0x0A \<or> c = CHR 0x0D \<or> c = CHR 0x09"

definition xml_name_char :: "char \<Rightarrow> bool" where
  "xml_name_char c = (let n = (of_char c :: nat) in 97 \<le> n \<and> n \<le> 122 \<or> 65 \<le> n \<and> n \<le> 90)"

definition skip_prefix :: "string \<Rightarrow> string \<Rightarrow> string option" where
  "skip_prefix p s = (if prefix p s then Some (drop (length p) s) else None)"

text \<open>The text behind a comment, which ends at the first \<open>--\<close>; that must be followed by \<open>>\<close>.\<close>

fun comment_end :: "string \<Rightarrow> string option" where
  "comment_end (c # d # s) = (if c = CHR ''-'' \<and> d = CHR ''-'' then skip_prefix ''>'' s else comment_end (d # s))"
| "comment_end _ = None"

fun skip_misc :: "nat \<Rightarrow> string \<Rightarrow> string option" where
  "skip_misc 0 s = None"
| "skip_misc (Suc n) s =
     (let t = dropWhile xml_space s
      in case skip_prefix ''<!--'' t of
           None \<Rightarrow> Some t
         | Some u \<Rightarrow> Option.bind (comment_end u) (skip_misc n))"

definition read_xml_name :: "string \<Rightarrow> (string \<times> string) option" where
  "read_xml_name s =
     (let n = takeWhile xml_name_char s in if n = [] then None else Some (n, dropWhile xml_name_char s))"

text \<open>The attributes of a tag, each behind white space and with a value in double quotes.\<close>

fun read_attributes :: "nat \<Rightarrow> string \<Rightarrow> ((string \<times> string) list \<times> string) option" where
  "read_attributes 0 s = None"
| "read_attributes (Suc n) s =
     (let t = dropWhile xml_space s
      in if t = [] \<or> hd t = CHR ''>'' \<or> hd t = CHR ''/'' then Some ([], t)
         else if t = s then None
         else Option.bind (read_xml_name t) (\<lambda>(a, u).
                Option.bind (skip_prefix (CHR ''='' # [quote]) u) (\<lambda>v.
                  let w = takeWhile (\<lambda>c. c \<noteq> quote \<and> c \<noteq> CHR ''<'' \<and> c \<noteq> CHR ''&'') v
                  in Option.bind (skip_prefix [quote] (drop (length w) v)) (\<lambda>r.
                       map_option (\<lambda>(as, r'). ((a, w) # as, r')) (read_attributes n r)))))"

text \<open>The children up to the end tag.\<close>

fun read_children :: "nat \<Rightarrow> (string \<Rightarrow> (xml \<times> string) option) \<Rightarrow> string \<Rightarrow> (xml list \<times> string) option" where
  "read_children 0 rd s = None"
| "read_children (Suc n) rd s =
     Option.bind (skip_misc (length s) s) (\<lambda>t.
       case skip_prefix ''</'' t of
         Some u \<Rightarrow> Some ([], u)
       | None \<Rightarrow> Option.bind (rd t) (\<lambda>(x, u). map_option (\<lambda>(xs, r). (x # xs, r)) (read_children n rd u)))"

primrec read_element :: "nat \<Rightarrow> string \<Rightarrow> (xml \<times> string) option" where
  "read_element 0 s = None"
| "read_element (Suc d) s =
     Option.bind (skip_prefix ''<'' s) (\<lambda>t.
     Option.bind (read_xml_name t) (\<lambda>(nm, u).
     Option.bind (read_attributes (length u) u) (\<lambda>(as, v).
       case skip_prefix ''/>'' v of
         Some r \<Rightarrow> Some (Element nm as [], r)
       | None \<Rightarrow>
           Option.bind (skip_prefix ''>'' v) (\<lambda>w.
           Option.bind (read_children (length w) (read_element d) w) (\<lambda>(xs, r).
             map_option (\<lambda>r'. (Element nm as xs, r')) (skip_prefix (nm @ ''>'') r))))))"

definition xml_document :: "string \<Rightarrow> xml option" where
  "xml_document s =
     (let t = (case skip_prefix ''<!DOCTYPE'' s of Some u \<Rightarrow> tl (dropWhile (\<lambda>c. c \<noteq> CHR ''>'') u) | None \<Rightarrow> s)
      in case read_element (length t) t of
           Some (x, r) \<Rightarrow> if skip_misc (length r) r = Some [] then Some x else None
         | None \<Rightarrow> None)"

subsection \<open>Texts of elements\<close>

text \<open>White space and comments in front of a tag.\<close>

definition misc_text :: "string \<Rightarrow> bool" where
  "misc_text w \<longleftrightarrow> (\<forall>n c t. 2 \<le> n \<and> c \<noteq> CHR ''!'' \<longrightarrow> skip_misc n (w @ CHR ''<'' # c # t) = Some (CHR ''<'' # c # t))"

lemma skip_prefix_Cons [simp]:
  "skip_prefix [] s = Some s" "skip_prefix (c # p) (d # s) = (if c = d then skip_prefix p s else None)"
  "skip_prefix (c # p) [] = None"
  by (simp_all add: skip_prefix_def)

lemma skip_prefix_append: "skip_prefix p (p @ s) = Some s"
  by (simp add: skip_prefix_def)

lemma drop_spaces: "list_all xml_space w \<Longrightarrow> dropWhile xml_space (w @ CHR ''<'' # t) = CHR ''<'' # t"
  by (induction w) (auto simp: xml_space_def)

lemma misc_spaces: "list_all xml_space w \<Longrightarrow> misc_text w"
  unfolding misc_text_def
proof (intro allI impI)
  fix n :: nat and c t
  assume w: "list_all xml_space w" and n: "2 \<le> n \<and> c \<noteq> CHR ''!''"
  then obtain k where "n = Suc k" by (cases n) auto
  with drop_spaces [OF w] n show "skip_misc n (w @ CHR ''<'' # c # t) = Some (CHR ''<'' # c # t)" by auto
qed

lemma comment_end_quiet: "CHR ''-'' \<notin> set b \<Longrightarrow> comment_end (b @ '' -->'' @ r) = Some r"
proof (induction b)
  case (Cons c b)
  then show ?case by (cases b) auto
qed simp

lemma misc_comment:
  assumes "list_all xml_space w" and "list_all xml_space w'" and "\<And>r. r \<noteq> [] \<Longrightarrow> comment_end (b @ r) = comment_end r"
    and "CHR ''-'' \<notin> set b'"
  shows "misc_text (w @ ''<!--'' @ b @ b' @ '' -->'' @ w')"
  unfolding misc_text_def
proof (intro allI impI)
  fix n :: nat and c t
  assume n: "2 \<le> n \<and> c \<noteq> CHR ''!''"
  then obtain k where k: "n = Suc (Suc k)" by (metis Suc_le_D numeral_2_eq_2 Suc_le_mono)
  have "comment_end (b @ b' @ '' -->'' @ x) = Some x" for x
    using assms(3) comment_end_quiet [OF assms(4), of x] by simp
  with drop_spaces [OF assms(1)] drop_spaces [OF assms(2)] n k
  show "skip_misc n ((w @ ''<!--'' @ b @ b' @ '' -->'' @ w') @ CHR ''<'' # c # t) = Some (CHR ''<'' # c # t)"
    by simp
qed

text \<open>A text that is an element of at most the given depth, whatever follows.\<close>

definition element_text :: "nat \<Rightarrow> string \<Rightarrow> xml \<Rightarrow> bool" where
  "element_text d x e \<longleftrightarrow>
     (\<exists>c t. x = CHR ''<'' # c # t \<and> c \<noteq> CHR ''!'' \<and> c \<noteq> CHR ''/'') \<and>
     (\<forall>d' r. d \<le> d' \<longrightarrow> read_element d' (x @ r) = Some (e, r))"

text \<open>A tag without its brackets: name, attributes.\<close>

definition tag_text :: "string \<Rightarrow> string \<Rightarrow> (string \<times> string) list \<Rightarrow> bool" where
  "tag_text x nm as \<longleftrightarrow> x \<noteq> [] \<and> hd x \<noteq> CHR ''!'' \<and> hd x \<noteq> CHR ''/'' \<and> nm \<noteq> [] \<and>
     (\<forall>c r. c = CHR ''>'' \<or> c = CHR ''/'' \<longrightarrow>
        (\<exists>u. read_xml_name (x @ c # r) = Some (nm, u) \<and> read_attributes (length u) u = Some (as, c # r)))"

lemma children_Cons:
  assumes "misc_text w" and "element_text d x e" and "d \<le> d'"
  shows "read_children (Suc n) (read_element d') (w @ x @ r) =
    map_option (\<lambda>(xs, u). (e # xs, u)) (read_children n (read_element d') r)"
proof -
  obtain c t where x: "x = CHR ''<'' # c # t" "c \<noteq> CHR ''!''" "c \<noteq> CHR ''/''"
    using assms(2) by (auto simp: element_text_def)
  have "skip_misc (length (w @ x @ r)) (w @ x @ r) = Some (x @ r)"
    using assms(1) x by (simp add: misc_text_def del: skip_misc.simps)
  moreover have "read_element d' (x @ r) = Some (e, r)" using assms(2,3) by (simp add: element_text_def)
  ultimately show ?thesis using x by (simp del: skip_misc.simps read_element.simps)
qed

lemma children_Nil:
  assumes "misc_text w"
  shows "read_children (Suc n) rd (w @ ''</'' @ r) = Some ([], r)"
proof -
  have "skip_misc (length (w @ ''</'' @ r)) (w @ ''</'' @ r) = Some (''</'' @ r)"
    using assms by (simp add: misc_text_def del: skip_misc.simps)
  then show ?thesis by (simp del: skip_misc.simps)
qed

text \<open>The children of an element with what stands in front of each.\<close>

lemma children_all:
  assumes "list_all (\<lambda>(w, x, e). misc_text w \<and> element_text d x e) cs" and "misc_text w'" and "length cs < n" and "d \<le> d'"
  shows "read_children n (read_element d') (concat (map (\<lambda>(w, x, e). w @ x) cs) @ w' @ ''</'' @ r) =
    Some (map (\<lambda>(w, x, e). e) cs, r)"
  using assms(1,3)
proof (induction cs arbitrary: n)
  case Nil
  then obtain k where "n = Suc k" by (cases n) auto
  with children_Nil [OF assms(2)] show ?case by simp
next
  case (Cons p cs)
  obtain w x e where p: "p = (w, x, e)" by (metis prod.exhaust)
  from Cons.prems obtain k where k: "n = Suc k" "length cs < k" by (cases n) auto
  have wx: "misc_text w" "element_text d x e" using Cons.prems by (simp_all add: p)
  from Cons.IH [of k] Cons.prems k(2) children_Cons [OF wx assms(4), of k "concat (map (\<lambda>(w, x, e). w @ x) cs) @ w' @ ''</'' @ r"]
  show ?case by (simp add: p k(1) del: read_children.simps)
qed

lemma element_leaf:
  assumes "tag_text x nm as"
  shows "element_text 1 (CHR ''<'' # x @ ''/>'') (Element nm as [])"
proof -
  have "read_element d' ((CHR ''<'' # x @ ''/>'') @ r) = Some (Element nm as [], r)" if d: "1 \<le> d'" for d' r
  proof -
    obtain k where "d' = Suc k" using d by (cases d') auto
    moreover from assms obtain u where "read_xml_name (x @ CHR ''/'' # CHR ''>'' # r) = Some (nm, u)"
      "read_attributes (length u) u = Some (as, CHR ''/'' # CHR ''>'' # r)"
      unfolding tag_text_def by blast
    ultimately show ?thesis by simp
  qed
  with assms show ?thesis by (cases x) (auto simp: element_text_def tag_text_def)
qed

lemma element_node:
  assumes "tag_text x nm as" and "list_all (\<lambda>(w, x, e). misc_text w \<and> element_text d x e) cs" and "misc_text w'"
  shows "element_text (Suc d) (CHR ''<'' # x @ CHR ''>'' # concat (map (\<lambda>(w, x, e). w @ x) cs) @ w' @ ''</'' @ nm @ ''>'')
    (Element nm as (map (\<lambda>(w, x, e). e) cs))"
proof -
  let ?k = "\<lambda>r. concat (map (\<lambda>(w, x, e). w @ x) cs) @ w' @ ''</'' @ nm @ CHR ''>'' # r"
  have len: "length cs \<le> length (concat (map (\<lambda>(w, x, e). w @ x) cs))"
    using assms(2) by (induction cs) (auto simp: element_text_def)
  have "read_element d' (CHR ''<'' # x @ CHR ''>'' # ?k r) = Some (Element nm as (map (\<lambda>(w, x, e). e) cs), r)"
    if d: "Suc d \<le> d'" for d' r
  proof -
    obtain k where k: "d' = Suc k" "d \<le> k" using d by (cases d') auto
    from assms(1) obtain u where u: "read_xml_name (x @ CHR ''>'' # ?k r) = Some (nm, u)"
      "read_attributes (length u) u = Some (as, CHR ''>'' # ?k r)"
      unfolding tag_text_def by blast
    have "read_children (length (?k r)) (read_element k) (?k r) = Some (map (\<lambda>(w, x, e). e) cs, nm @ CHR ''>'' # r)"
      using len by (intro children_all [OF assms(2,3) _ k(2)]) simp
    with u k(1) show ?thesis using skip_prefix_append [of "nm @ ''>''" r] by (simp del: read_children.simps)
  qed
  with assms(1) show ?thesis by (cases x) (auto simp: element_text_def tag_text_def)
qed


subsection \<open>The introspection data\<close>

lemmas tag_simps = tag_text_def read_xml_name_def Let_def xml_space_def xml_name_char_def quote_def

lemma plain_tags:
  "tag_text ''node'' ''node'' []"
  "tag_text (''method name='' @ quote # ''InvokeRpc'' @ [quote]) ''method'' [(''name'', ''InvokeRpc'')]"
  "tag_text (''signal name='' @ quote # ''SomeipNotification'' @ [quote]) ''signal'' [(''name'', ''SomeipNotification'')]"
  "tag_text (''signal name='' @ quote # ''SomeipRequest'' @ [quote]) ''signal'' [(''name'', ''SomeipRequest'')]"
  by (simp_all add: tag_simps)

lemma arg_tags:
  "tag_text ''arg type=\"q\" name=\"method_id\" direction=\"in\"'' ''arg''
     [(''type'', ''q''), (''name'', ''method_id''), (''direction'', ''in'')]"
  "tag_text ''arg type=\"ay\" name=\"payload\" direction=\"in\"'' ''arg''
     [(''type'', ''ay''), (''name'', ''payload''), (''direction'', ''in'')]"
  "tag_text ''arg type=\"ay\" name=\"return_payload\" direction=\"out\"'' ''arg''
     [(''type'', ''ay''), (''name'', ''return_payload''), (''direction'', ''out'')]"
  "tag_text ''arg type=\"q\" name=\"method_or_event_id\"'' ''arg'' [(''type'', ''q''), (''name'', ''method_or_event_id'')]"
  "tag_text ''arg type=\"q\" name=\"method_id\"'' ''arg'' [(''type'', ''q''), (''name'', ''method_id'')]"
  "tag_text ''arg type=\"ay\" name=\"payload\"'' ''arg'' [(''type'', ''ay''), (''name'', ''payload'')]"
  by (simp_all add: tag_simps)

lemma hex4_markup [simp]: "CHR 0x22 \<notin> set (hex4 u v)" "CHR ''<'' \<notin> set (hex4 u v)" "CHR ''&'' \<notin> set (hex4 u v)"
proof -
  have "\<not> name_char (CHR 0x22)" "\<not> name_char (CHR ''<'')" "\<not> name_char (CHR ''&'')" by code_simp+
  with hex4_plain show "CHR 0x22 \<notin> set (hex4 u v)" "CHR ''<'' \<notin> set (hex4 u v)" "CHR ''&'' \<notin> set (hex4 u v)" by blast+
qed

lemma interface_tag:
  "tag_text (''interface name=\"'' @ build_interface_name s @ ''\"'') ''interface'' [(''name'', build_interface_name s)]"
proof -
  let ?P = "\<lambda>c. c \<noteq> CHR 0x22 \<and> c \<noteq> CHR ''<'' \<and> c \<noteq> CHR ''&''"
  have "takeWhile ?P (hex4 False s @ CHR 0x22 # r) = hex4 False s" for r
    by (subst takeWhile_append2) (auto intro: ccontr)
  then show ?thesis by (simp add: tag_simps build_interface_name_def to_hex4_def del: length_hex4)
qed

text \<open>The types of the arguments do not break the comment.\<close>

lemma signature_quiet: "CHR ''-'' \<notin> set (build_signature_from_someip_types tys)"
  by (induction tys) (auto simp: someip_type_to_dbus_signature_def Let_def)

lemma xml_spaces [simp]: "xml_space (CHR '' '')" "xml_space (CHR 0x0A)"
  by (simp_all add: xml_space_def)

lemma space_texts [simp]: "list_all xml_space endl" "list_all xml_space (endl @ ''  '')" "list_all xml_space (endl @ ''    '')"
  "list_all xml_space (endl @ ''      '')"
  by (simp_all add: endl_def)

lemma misc_introspection_comment: "misc_text (endl @ introspection_comment sig @ ''    '')" if "CHR ''-'' \<notin> set sig"
proof (cases "sig = []")
  case True
  then show ?thesis using misc_spaces [OF space_texts(3)] by (simp add: introspection_comment_def)
next
  case False
  have "comment_end ('' opensomeip typed SOME/IP layout (D-Bus wire uses opaque ay): '' @ r) = comment_end r" if "r \<noteq> []" for r
    using that by (cases r) simp_all
  with False that misc_comment [of "endl @ ''    ''" "endl @ ''    ''"
    "'' opensomeip typed SOME/IP layout (D-Bus wire uses opaque ay): ''" sig]
  show ?thesis by (simp add: introspection_comment_def)
qed

text \<open>The elements, as a reader gets them.\<close>

definition arg_element :: "(string \<times> string) list \<Rightarrow> xml" where
  "arg_element as = Element ''arg'' as []"

definition invoke_element :: xml where
  "invoke_element = Element ''method'' [(''name'', ''InvokeRpc'')]
     [arg_element [(''type'', ''q''), (''name'', ''method_id''), (''direction'', ''in'')],
      arg_element [(''type'', ''ay''), (''name'', ''payload''), (''direction'', ''in'')],
      arg_element [(''type'', ''ay''), (''name'', ''return_payload''), (''direction'', ''out'')]]"

definition signal_element :: "string \<Rightarrow> string \<Rightarrow> xml" where
  "signal_element nm id_name = Element ''signal'' [(''name'', nm)]
     [arg_element [(''type'', ''q''), (''name'', id_name)], arg_element [(''type'', ''ay''), (''name'', ''payload'')]]"

text \<open>A leaf or a node behind its indentation.\<close>

lemmas indented = misc_spaces [OF space_texts(3)] misc_spaces [OF space_texts(4)]
lemmas arg_elements = arg_tags [THEN element_leaf]

definition arg_child :: "string \<Rightarrow> (string \<times> string) list \<Rightarrow> string \<times> string \<times> xml" where
  [simp]: "arg_child x as = (endl @ ''      '', CHR ''<'' # x @ ''/>'', Element ''arg'' as [])"

lemma method_text: "\<exists>x. introspection_method = ''    '' @ x @ endl \<and> element_text 2 x invoke_element"
  using element_node [OF plain_tags(2), of 1
      "[arg_child ''arg type=\"q\" name=\"method_id\" direction=\"in\"'' [(''type'', ''q''), (''name'', ''method_id''), (''direction'', ''in'')],
        arg_child ''arg type=\"ay\" name=\"payload\" direction=\"in\"'' [(''type'', ''ay''), (''name'', ''payload''), (''direction'', ''in'')],
        arg_child ''arg type=\"ay\" name=\"return_payload\" direction=\"out\"''
          [(''type'', ''ay''), (''name'', ''return_payload''), (''direction'', ''out'')]]" "endl @ ''    ''"]
    arg_elements indented
  by (simp add: introspection_method_def invoke_element_def arg_element_def endl_def quote_def numeral_2_eq_2)

lemma signals_text:
  "\<exists>x y. introspection_signals = ''    '' @ x @ endl @ ''    '' @ y @ endl \<and>
     element_text 2 x (signal_element ''SomeipNotification'' ''method_or_event_id'') \<and>
     element_text 2 y (signal_element ''SomeipRequest'' ''method_id'')"
proof -
  let ?pay = "arg_child ''arg type=\"ay\" name=\"payload\"'' [(''type'', ''ay''), (''name'', ''payload'')]"
  let ?x = "CHR ''<'' # (''signal name='' @ quote # ''SomeipNotification'' @ [quote]) @ CHR ''>'' #
      concat (map (\<lambda>(w, x, e). w @ x) [arg_child ''arg type=\"q\" name=\"method_or_event_id\"''
        [(''type'', ''q''), (''name'', ''method_or_event_id'')], ?pay]) @ (endl @ ''    '') @ ''</'' @ ''signal'' @ ''>''"
  let ?y = "CHR ''<'' # (''signal name='' @ quote # ''SomeipRequest'' @ [quote]) @ CHR ''>'' #
      concat (map (\<lambda>(w, x, e). w @ x) [arg_child ''arg type=\"q\" name=\"method_id\"''
        [(''type'', ''q''), (''name'', ''method_id'')], ?pay]) @ (endl @ ''    '') @ ''</'' @ ''signal'' @ ''>''"
  have "element_text 2 ?x (signal_element ''SomeipNotification'' ''method_or_event_id'')"
    using element_node [OF plain_tags(3), of 1 "[arg_child ''arg type=\"q\" name=\"method_or_event_id\"''
        [(''type'', ''q''), (''name'', ''method_or_event_id'')], ?pay]" "endl @ ''    ''"] arg_elements indented
    by (simp add: signal_element_def arg_element_def numeral_2_eq_2)
  moreover have "element_text 2 ?y (signal_element ''SomeipRequest'' ''method_id'')"
    using element_node [OF plain_tags(4), of 1 "[arg_child ''arg type=\"q\" name=\"method_id\"''
        [(''type'', ''q''), (''name'', ''method_id'')], ?pay]" "endl @ ''    ''"] arg_elements indented
    by (simp add: signal_element_def arg_element_def numeral_2_eq_2)
  moreover have "introspection_signals = ''    '' @ ?x @ endl @ ''    '' @ ?y @ endl"
    by (simp add: introspection_signals_def quote_def)
  ultimately show ?thesis by blast
qed

text \<open>The members of the interface.\<close>

definition interface_members :: "bool \<Rightarrow> xml list" where
  "interface_members include_signal = invoke_element #
     (if include_signal
      then [signal_element ''SomeipNotification'' ''method_or_event_id'', signal_element ''SomeipRequest'' ''method_id'']
      else [])"

lemma members_text:
  "\<exists>cs. list_all (\<lambda>(w, x, e). misc_text w \<and> element_text 2 x e) cs \<and> map (\<lambda>(w, x, e). e) cs = interface_members incl \<and>
     concat (map (\<lambda>(w, x, e). w @ x) cs) @ endl = endl @ introspection_comment (build_signature_from_someip_types tys) @
       introspection_method @ (if incl then introspection_signals else [])"
proof -
  let ?w = "endl @ introspection_comment (build_signature_from_someip_types tys) @ ''    ''"
  note w = misc_introspection_comment [OF signature_quiet, of tys] indented(1)
  obtain x y z where x: "introspection_method = ''    '' @ x @ endl" "element_text 2 x invoke_element"
    and yz: "introspection_signals = ''    '' @ y @ endl @ ''    '' @ z @ endl"
      "element_text 2 y (signal_element ''SomeipNotification'' ''method_or_event_id'')"
      "element_text 2 z (signal_element ''SomeipRequest'' ''method_id'')"
    using method_text signals_text by blast
  show ?thesis
  proof (cases incl)
    case True
    show ?thesis
      by (rule exI [of _ "[(?w, x, invoke_element), (endl @ ''    '', y, signal_element ''SomeipNotification'' ''method_or_event_id''),
            (endl @ ''    '', z, signal_element ''SomeipRequest'' ''method_id'')]"])
        (use w x yz True in \<open>simp add: interface_members_def\<close>)
  next
    case False
    show ?thesis
      by (rule exI [of _ "[(?w, x, invoke_element)]"]) (use w x False in \<open>simp add: interface_members_def\<close>)
  qed
qed

text \<open>The table of \<open>dbus_gateway.cpp\<close> that is registered with sd-bus for every object, and the table an interface description stands for.\<close>

datatype vtable_entry = SD_BUS_METHOD string string string | SD_BUS_SIGNAL string string

definition dbus_gateway_vtable :: "vtable_entry list" where
  "dbus_gateway_vtable =
     [SD_BUS_METHOD ''InvokeRpc'' ''qay'' ''ay'', SD_BUS_SIGNAL ''SomeipNotification'' ''qay'', SD_BUS_SIGNAL ''SomeipRequest'' ''qay'']"

definition attribute :: "string \<Rightarrow> (string \<times> string) list \<Rightarrow> string" where
  "attribute a as = (case map_of as a of Some v \<Rightarrow> v | None \<Rightarrow> [])"

definition arg_types :: "string \<Rightarrow> xml list \<Rightarrow> string" where
  "arg_types dir xs =
     concat (map (\<lambda>x. case x of Element nm as ys \<Rightarrow> if attribute ''direction'' as = dir then attribute ''type'' as else []) xs)"

fun described_entry :: "xml \<Rightarrow> vtable_entry" where
  "described_entry (Element nm as xs) =
     (if nm = ''method'' then SD_BUS_METHOD (attribute ''name'' as) (arg_types ''in'' xs) (arg_types ''out'' xs)
      else SD_BUS_SIGNAL (attribute ''name'' as) (arg_types [] xs))"

lemma members_described:
  "map described_entry (interface_members True) = dbus_gateway_vtable"
  "map described_entry (interface_members False) = [hd dbus_gateway_vtable]"
  by code_simp+

text \<open>C32: The introspection data is well-formed XML for every service and whatever type names the host passes: one \<open>node\<close> with one
  \<open>interface\<close> under the interface name of the service, and what it describes is the table the gateway registers with sd-bus,
  method \<open>InvokeRpc\<close> and, if asked for, both signals, with the same signatures. The type names appear in a comment only and cannot
  break out of it.\<close>

theorem introspection_conforms:
  "\<exists>members. xml_document (generate_introspection_xml service_id method_arg_types include_signal) =
       Some (Element ''node'' [] [Element ''interface'' [(''name'', build_interface_name service_id)] members]) \<and>
     map described_entry members = (if include_signal then dbus_gateway_vtable else [hd dbus_gateway_vtable])"
proof -
  obtain cs where cs: "list_all (\<lambda>(w, x, e). misc_text w \<and> element_text 2 x e) cs"
      "map (\<lambda>(w, x, e). e) cs = interface_members include_signal"
      "concat (map (\<lambda>(w, x, e). w @ x) cs) @ endl = endl @ introspection_comment (build_signature_from_someip_types method_arg_types) @
       introspection_method @ (if include_signal then introspection_signals else [])"
    using members_text by blast
  define i where "i = CHR ''<'' # (''interface name=\"'' @ build_interface_name service_id @ ''\"'') @ CHR ''>'' #
      concat (map (\<lambda>(w, x, e). w @ x) cs) @ (endl @ ''  '') @ ''</'' @ ''interface'' @ ''>''"
  define n where "n = CHR ''<'' # ''node'' @ CHR ''>'' # (endl @ ''  '') @ i @ endl @ ''</'' @ ''node'' @ ''>''"
  have "element_text 3 i (Element ''interface'' [(''name'', build_interface_name service_id)] (interface_members include_signal))"
    using element_node [OF interface_tag cs(1) misc_spaces [OF space_texts(2)], of service_id] by (simp only: i_def cs(2)) simp
  then have "element_text 4 n (Element ''node'' []
       [Element ''interface'' [(''name'', build_interface_name service_id)] (interface_members include_signal)])"
    using element_node [OF plain_tags(1), of 3 "[(endl @ ''  '', i, Element ''interface'' [(''name'', build_interface_name service_id)]
        (interface_members include_signal))]" endl] misc_spaces [OF space_texts(1)] misc_spaces [OF space_texts(2)]
    by (simp add: n_def)
  then have r: "read_element (length (n @ endl)) (n @ endl) = Some (Element ''node'' []
       [Element ''interface'' [(''name'', build_interface_name service_id)] (interface_members include_signal)], endl)"
    by (simp add: element_text_def n_def del: read_element.simps)
  have "generate_introspection_xml service_id method_arg_types include_signal =
      ''<!DOCTYPE node PUBLIC \"-//freedesktop//DTD D-Bus Object Introspection 1.0//EN\"'' @
      '' \"http://www.freedesktop.org/standards/dbus/1.0/introspect.dtd\">'' @ n @ endl"
    using arg_cong [OF cs(3), of "\<lambda>t. t @ ''  </interface>'' @ endl @ ''</node>'' @ endl"]
    by (simp add: generate_introspection_xml_def introspection_head_def n_def i_def)
  then show ?thesis using r members_described by (cases include_signal) (auto simp: xml_document_def endl_def)
qed

end
