(* ===== verification/Dds_Gateway.thy ===== *)
theory Dds_Gateway
  imports Gateway_Lifecycle Someip_Side Dds_Translator
begin

text \<open>
  \<open>gateway-dds/include/opensomeip/gateway/dds/dds_gateway.h\<close> and \<open>gateway-dds/src/dds_gateway.cpp\<close>: the
  DDS gateway. The members of \<open>DdsGatewayImpl\<close> are the fields \<open>dd_participant\<close> to \<open>dd_reader_stop\<close> of the
  gateway record. Calls into Cyclone DDS are entries \<open>External\<close> of the call history and return what the
  environment answers; a \<open>dds_qos_t\<close> is the list of settings made on it. The reader thread's loop is
  modelled by its body, \<open>Dds_reader_pass\<close>, a step of its own; the argument gives the iteration order of
  the reader table and what \<open>dds_take\<close> returns.

  The properties show that samples are only written to live writers, which sample a message becomes,
  that counters follow the results, what start does when the participant cannot be created, and that
  a sample carries a message back.
\<close>

subsection \<open>Configuration and calls\<close>

record DdsSomeipSettings =
  ds_default_someip_instance_id :: u16
  ds_enable_udp_listener :: bool
  ds_assume_tcp_semantics_for_rpc :: bool

record 'c DdsConfig =
  dd_domain_id :: "32 word"
  dd_participant_name :: string
  dd_qos_profile_file :: string
  dd_someip :: DdsSomeipSettings
  dd_rpc_client_id :: u16
  dd_enable_sd_client :: bool
  dd_enable_sd_server :: bool
  dd_use_e2e :: bool
  dd_e2e_config :: "'c option"

definition DdsConfig_default :: "'c DdsConfig" where
  "DdsConfig_default = \<lparr>dd_domain_id = 0, dd_participant_name = ''opensomeip-dds-gateway'', dd_qos_profile_file = [],
     dd_someip = \<lparr>ds_default_someip_instance_id = 0x0001, ds_enable_udp_listener = False,
                  ds_assume_tcp_semantics_for_rpc = True\<rparr>,
     dd_rpc_client_id = 0x7100, dd_enable_sd_client = False, dd_enable_sd_server = False, dd_use_e2e = False,
     dd_e2e_config = None\<rparr>"

datatype dds_qset =
    Qset_reliability DdsReliabilityKind int
  | Qset_durability DdsDurabilityKind
  | Qset_history DdsHistoryKind int
  | Qset_deadline int

text \<open>\<open>vehicle_SomeipBridgeSample\<close>.\<close>

record SomeipBridgeSample =
  bs_service_id :: u16
  bs_instance_id :: u16
  bs_method_or_event_id :: u16
  bs_message_type :: u8
  bs_payload :: bytes

datatype dds_call =
    Setenv_cyclonedds_uri string
  | Dds_create_participant "32 word"
  | Dds_create_topic int string
  | Dds_create_reader int int "dds_qset list"
  | Dds_create_writer int int "dds_qset list"
  | Dds_alloc u32
  | Dds_write int SomeipBridgeSample
  | Dds_sample_free
  | Dds_delete int
  | Thread_start
  | Thread_join
  | Dds_return_loan int int
  | Dds_sleepfor

definition apply_dds_qos_profile :: "DdsQosProfile \<Rightarrow> dds_qset list" where
  "apply_dds_qos_profile p =
     [if dq_reliability p = Reliable then Qset_reliability Reliable 100 else Qset_reliability BestEffort 0] @
     [Qset_durability (dq_durability p)] @
     [if dq_history_kind p = KeepAll then Qset_history KeepAll 1 else Qset_history KeepLast (max 1 (dq_history_depth p))] @
     (if \<not> deadline_is_infinite (dq_deadline_ms p) then [Qset_deadline (dq_deadline_ms p)] else [])"

record ('m, 'c) DdsGateway = "('m, 'c, dds_call) SomeipSide" +
  dd_config :: "'c DdsConfig"
  dd_rpc_server :: "handle option"
  dd_participant :: int
  dd_topics :: "string \<rightharpoonup> int"
  dd_writers :: "string \<rightharpoonup> int"
  dd_readers :: "string \<rightharpoonup> int"
  dd_reader_thread :: bool
  dd_reader_stop :: bool

type_synonym ('m, 'c) dds_env = "('m, 'c, dds_call) env"

definition DdsGateway_new :: "'c DdsConfig \<Rightarrow> ('m, 'c) DdsGateway" where
  "DdsGateway_new config = \<lparr>
     gw_name = (if dd_participant_name config = [] then ''opensomeip-dds-gateway'' else dd_participant_name config),
     gw_protocol = ''dds'', gw_running = False, gw_stats = GatewayStats_default, gw_service_mappings = [],
     gw_external_message_callback = False, gw_io = [],
     side_outbound_sink = False, side_rpc_client = None, side_sd_client = None, side_sd_server = None,
     side_event_publishers = Map.empty, side_event_subscriber = None, side_udp_transport = None,
     dd_config = config, dd_rpc_server = None, dd_participant = 0, dd_topics = Map.empty, dd_writers = Map.empty,
     dd_readers = Map.empty, dd_reader_thread = False, dd_reader_stop = True\<rparr>"

text \<open>A call into DDS that returns an entity or a return code.\<close>

definition dds_int :: "('m, 'c) dds_env \<Rightarrow> dds_call \<Rightarrow> ('m, 'c) DdsGateway \<Rightarrow> int \<times> ('m, 'c) DdsGateway" where
  "dds_int E c g = (answer_int E (gw_io g) (External c), call (External c) g)"


subsection \<open>DdsGatewayImpl\<close>

definition ensure_topic :: "('m, 'c) dds_env \<Rightarrow> string \<Rightarrow> ('m, 'c) DdsGateway \<Rightarrow> int \<times> ('m, 'c) DdsGateway" where
  "ensure_topic E nm g =
     (case dd_topics g nm of
        Some t \<Rightarrow> (t, g)
      | None \<Rightarrow>
          (let (t, g1) = dds_int E (Dds_create_topic (dd_participant g) nm) g
           in (t, g1\<lparr>dd_topics := (dd_topics g1)(nm \<mapsto> t)\<rparr>)))"

definition dds_reader_topic :: "ServiceMapping \<Rightarrow> string" where
  "dds_reader_topic mp =
     (let mid = (case someip_method_ids mp of
                   m # _ \<Rightarrow> m
                 | [] \<Rightarrow> (case someip_event_group_ids mp of e # _ \<Rightarrow> e | [] \<Rightarrow> 0))
      in if external_identifier mp = [] then build_dds_topic (someip_service_id mp) (someip_instance_id mp) mid
         else external_identifier mp)"

definition Dds_add_reader :: "('m, 'c) dds_env \<Rightarrow> ServiceMapping \<Rightarrow> ('m, 'c) DdsGateway \<Rightarrow> ('m, 'c) DdsGateway" where
  "Dds_add_reader E mp g =
     (if \<not> should_forward_to_someip mp then g
      else let topic = dds_reader_topic mp;
               (tp, g1) = ensure_topic E topic g;
               (reader, g2) = dds_int E (Dds_create_reader (dd_participant g1) tp
                                (apply_dds_qos_profile (qos_for_service_mapping mp False))) g1
           in if reader \<le> 0 then g2 else g2\<lparr>dd_readers := (dd_readers g2)(topic \<mapsto> reader)\<rparr>)"

definition Dds_impl_start :: "('m, 'c) dds_env \<Rightarrow> ('m, 'c) DdsGateway \<Rightarrow> Result \<times> ('m, 'c) DdsGateway" where
  "Dds_impl_start E g =
     (if dd_participant g \<noteq> 0 then (SUCCESS, g)
      else let g1 = (if dd_qos_profile_file (dd_config g) \<noteq> []
                     then call (External (Setenv_cyclonedds_uri (''file://'' @ dd_qos_profile_file (dd_config g)))) g
                     else g);
               (p, g2) = dds_int E (Dds_create_participant (dd_domain_id (dd_config g1))) g1;
               g3 = g2\<lparr>dd_participant := p\<rparr>
           in if p \<le> 0 then (NOT_INITIALIZED, g3)
              else let g4 = fold (Dds_add_reader E) (get_service_mappings g3) g3
                   in (SUCCESS, call (External Thread_start) (g4\<lparr>dd_reader_stop := False, dd_reader_thread := True\<rparr>)))"

definition Dds_stop_internal :: "('m, 'c) DdsGateway \<Rightarrow> ('m, 'c) DdsGateway" where
  "Dds_stop_internal g =
     (let g1 = g\<lparr>dd_reader_stop := True\<rparr>;
          g2 = (if dd_reader_thread g1 then (call (External Thread_join) g1)\<lparr>dd_reader_thread := False\<rparr> else g1);
          g3 = g2\<lparr>dd_writers := Map.empty, dd_readers := Map.empty, dd_topics := Map.empty\<rparr>
      in if dd_participant g3 > 0
         then (call (External (Dds_delete (dd_participant g3))) g3)\<lparr>dd_participant := 0\<rparr> else g3)"

definition bridge_sample :: "'m message_api \<Rightarrow> 'm \<Rightarrow> u16 \<Rightarrow> SomeipBridgeSample" where
  "bridge_sample A msg instance_id =
     (let len = (word_of_nat (length (get_payload A msg)) :: u32)
      in \<lparr>bs_service_id = get_service_id A msg, bs_instance_id = instance_id,
          bs_method_or_event_id = get_method_id A msg, bs_message_type = get_message_type A msg,
          bs_payload = take (unat len) (get_payload A msg)\<rparr>)"

text \<open>The writer for a topic: the cached one, or a new one, cached when its creation succeeds.\<close>

definition Dds_writer_for ::
  "('m, 'c) dds_env \<Rightarrow> string \<Rightarrow> int \<Rightarrow> dds_qset list \<Rightarrow> ('m, 'c) DdsGateway \<Rightarrow> int \<times> ('m, 'c) DdsGateway" where
  "Dds_writer_for E topic tp wqos g =
     (case dd_writers g topic of
        Some w \<Rightarrow> (w, g)
      | None \<Rightarrow>
          (let (w, g1) = dds_int E (Dds_create_writer (dd_participant g) tp wqos) g
           in (w, if w > 0 then g1\<lparr>dd_writers := (dd_writers g1)(topic \<mapsto> w)\<rparr> else g1)))"

definition Dds_write_sample ::
  "'m message_api \<Rightarrow> ('m, 'c) dds_env \<Rightarrow> int \<Rightarrow> 'm \<Rightarrow> u16 \<Rightarrow> ('m, 'c) DdsGateway \<Rightarrow> Result \<times> ('m, 'c) DdsGateway" where
  "Dds_write_sample A E writer msg instance_id g =
     (let len = (word_of_nat (length (get_payload A msg)) :: u32);
          c = External (Dds_alloc len);
          g1 = (if len > 0 then call c g else g)
      in if len > 0 \<and> \<not> answer_bool E (gw_io g) c then (INTERNAL_ERROR, g1)
         else let (wr, g2) = dds_int E (Dds_write writer (bridge_sample A msg instance_id)) g1;
                  g3 = call (External Dds_sample_free) g2
              in if wr \<noteq> 0 then (INTERNAL_ERROR, g3) else (SUCCESS, g3))"

definition Dds_write_someip ::
  "'m message_api \<Rightarrow> ('m, 'c) dds_env \<Rightarrow> 'm \<Rightarrow> string \<Rightarrow> ServiceMapping \<Rightarrow> u16 \<Rightarrow> ('m, 'c) DdsGateway \<Rightarrow>
   Result \<times> ('m, 'c) DdsGateway" where
  "Dds_write_someip A E msg topic mapping instance_id g =
     (if dd_participant g \<le> 0 then (NOT_INITIALIZED, g)
      else let tcp_sem = ds_assume_tcp_semantics_for_rpc (dd_someip (dd_config g)) \<and> is_request A msg;
               wqos = apply_dds_qos_profile (qos_for_someip_message A msg tcp_sem);
               (tp, g1) = ensure_topic E topic g;
               (writer, g2) = Dds_writer_for E topic tp wqos g1
           in if writer \<le> 0 then (INTERNAL_ERROR, g2)
              else Dds_write_sample A E writer msg instance_id g2)"


subsection \<open>Wiring and life cycle\<close>

definition Dds_set_someip_outbound_sink :: "bool \<Rightarrow> ('m, 'c) DdsGateway \<Rightarrow> ('m, 'c) DdsGateway" where
  "Dds_set_someip_outbound_sink = side_set_someip_outbound_sink"

definition Dds_enable_someip_udp_bridge :: "('m, 'c) dds_env \<Rightarrow> ('m, 'c) DdsGateway \<Rightarrow> ('m, 'c) DdsGateway" where
  "Dds_enable_someip_udp_bridge = side_enable_someip_udp_bridge"

definition Dds_attach_rpc_client :: "handle option \<Rightarrow> ('m, 'c) DdsGateway \<Rightarrow> ('m, 'c) DdsGateway" where
  "Dds_attach_rpc_client = side_attach_rpc_client"

definition Dds_attach_rpc_server :: "handle option \<Rightarrow> ('m, 'c) DdsGateway \<Rightarrow> ('m, 'c) DdsGateway" where
  "Dds_attach_rpc_server server g = g\<lparr>dd_rpc_server := server\<rparr>"

definition Dds_attach_sd_client :: "handle option \<Rightarrow> ('m, 'c) DdsGateway \<Rightarrow> ('m, 'c) DdsGateway" where
  "Dds_attach_sd_client = side_attach_sd_client"

definition Dds_attach_sd_server :: "handle option \<Rightarrow> ('m, 'c) DdsGateway \<Rightarrow> ('m, 'c) DdsGateway" where
  "Dds_attach_sd_server = side_attach_sd_server"

definition Dds_register_event_publisher ::
  "u16 \<Rightarrow> u16 \<Rightarrow> handle option \<Rightarrow> ('m, 'c) DdsGateway \<Rightarrow> bool \<times> ('m, 'c) DdsGateway" where
  "Dds_register_event_publisher = side_register_event_publisher"

definition Dds_subscribe_someip_eventgroup ::
  "('m, 'c) dds_env \<Rightarrow> u16 \<Rightarrow> u16 \<Rightarrow> u16 \<Rightarrow> ('m, 'c) DdsGateway \<Rightarrow> bool \<times> ('m, 'c) DdsGateway" where
  "Dds_subscribe_someip_eventgroup E service_id instance_id eventgroup_id g =
     side_subscribe_someip_eventgroup E (dd_rpc_client_id (dd_config g)) service_id instance_id eventgroup_id g"

definition deliver_inbound_from_dds :: "'m \<Rightarrow> nat \<Rightarrow> ('m, 'c) DdsGateway \<Rightarrow> ('m, 'c) DdsGateway" where
  "deliver_inbound_from_dds reconstructed byte_count g =
     emit_to_sink reconstructed (record_external_to_someip byte_count g)"

definition Dds_started :: "('m, 'c) dds_env \<Rightarrow> ('m, 'c) DdsGateway \<Rightarrow> Result \<times> ('m, 'c) DdsGateway" where
  "Dds_started E g =
     (let g1 = call_on SdClient_initialize (side_sd_client g) g;
          g2 = call_on SdServer_initialize (side_sd_server g1) g1;
          (r, g3) = Dds_impl_start E g2
      in if r \<noteq> SUCCESS then (r, g3) else (SUCCESS, set_running E True g3))"

definition Dds_start :: "('m, 'c) dds_env \<Rightarrow> ('m, 'c) DdsGateway \<Rightarrow> Result \<times> ('m, 'c) DdsGateway" where
  "Dds_start E g =
     (case side_udp_transport g of
        Some h \<Rightarrow>
          (let r = answer_result E (gw_io g) (Udp_start h); g1 = call (Udp_start h) g
           in if r \<noteq> SUCCESS then (r, g1) else Dds_started E g1)
      | None \<Rightarrow> Dds_started E g)"

definition Dds_stop :: "('m, 'c) dds_env \<Rightarrow> ('m, 'c) DdsGateway \<Rightarrow> Result \<times> ('m, 'c) DdsGateway" where
  "Dds_stop E g =
     (let g1 = call_on EventSubscriber_shutdown (side_event_subscriber g) g;
          g2 = call_on RpcClient_shutdown (side_rpc_client g1) g1;
          g3 = call_on RpcServer_shutdown (dd_rpc_server g2) g2;
          g4 = call_on SdClient_shutdown (side_sd_client g3) g3;
          g5 = call_on SdServer_shutdown (side_sd_server g4) g4;
          g6 = call_on Udp_stop (side_udp_transport g5) g5
      in (SUCCESS, set_running E False (Dds_stop_internal g6)))"

text \<open>The destructor stops a running gateway; destroying \<open>impl_\<close> runs \<open>stop_internal\<close> again.\<close>

definition Dds_destroy :: "('m, 'c) dds_env \<Rightarrow> ('m, 'c) DdsGateway \<Rightarrow> ('m, 'c) DdsGateway" where
  "Dds_destroy E g = Dds_stop_internal (if is_running g then snd (Dds_stop E g) else g)"


subsection \<open>Messages in both directions\<close>

definition resolve_dds_topic :: "'m message_api \<Rightarrow> 'm \<Rightarrow> ServiceMapping \<Rightarrow> string" where
  "resolve_dds_topic A msg mapping =
     (if external_identifier mapping \<noteq> [] then external_identifier mapping
      else build_dds_topic_msg A (someip_service_id mapping) (someip_instance_id mapping) (get_method_id A msg) msg)"

definition dds_to_send :: "'m message_api \<Rightarrow> 'm \<Rightarrow> ServiceMapping \<Rightarrow> 'm" where
  "dds_to_send A msg mapping =
     (if mode mapping = TYPED then set_payload A (dds_encode_outbound A msg TYPED) msg else msg)"

definition Dds_on_someip_message ::
  "'m message_api \<Rightarrow> ('m, 'c) dds_env \<Rightarrow> 'm \<Rightarrow> ('m, 'c) DdsGateway \<Rightarrow> Result \<times> ('m, 'c) DdsGateway" where
  "Dds_on_someip_message A E msg g =
     (if \<not> is_running g then (NOT_INITIALIZED, g)
      else case find_inbound_mapping (get_service_id A msg) (ds_default_someip_instance_id (dd_someip (dd_config g))) g of
        None \<Rightarrow> (SERVICE_NOT_FOUND, g)
      | Some mapping \<Rightarrow>
          if \<not> should_forward_to_external mapping then (SUCCESS, g)
          else let (vr, g1) = side_e2e_validate E (dd_use_e2e (dd_config g)) (dd_e2e_config (dd_config g)) msg g
               in if vr \<noteq> SUCCESS then (vr, record_translation_error g1)
                  else let to_send = dds_to_send A msg mapping;
                           (wr, g2) = Dds_write_someip A E to_send (resolve_dds_topic A msg mapping) mapping
                                        (someip_instance_id mapping) g1
                       in (wr, if wr = SUCCESS then record_someip_to_external (length (get_payload A to_send)) g2 else g2))"

definition Dds_on_event_notification ::
  "'m message_api \<Rightarrow> ('m, 'c) dds_env \<Rightarrow> EventNotification \<Rightarrow> ('m, 'c) DdsGateway \<Rightarrow> ('m, 'c) DdsGateway" where
  "Dds_on_event_notification A E n g = snd (Dds_on_someip_message A E (notification_message_rc A n) g)"

text \<open>\<open>UdpBridgeListener::on_message_received\<close>: a null message is ignored and the result is dropped.\<close>

definition Dds_on_message_received ::
  "'m message_api \<Rightarrow> ('m, 'c) dds_env \<Rightarrow> 'm option \<Rightarrow> ('m, 'c) DdsGateway \<Rightarrow> ('m, 'c) DdsGateway" where
  "Dds_on_message_received A E message g =
     (case message of Some m \<Rightarrow> snd (Dds_on_someip_message A E m g) | None \<Rightarrow> g)"

definition inject_dds_sample ::
  "'m message_api \<Rightarrow> string \<Rightarrow> bytes \<Rightarrow> u16 \<Rightarrow> u16 \<Rightarrow> u16 \<Rightarrow> u8 \<Rightarrow> ('m, 'c) DdsGateway \<Rightarrow>
   Result \<times> ('m, 'c) DdsGateway" where
  "inject_dds_sample A dds_topic pl service_id instance_id method_id someip_message_type_byte g =
     (let (ok, m) = bridge_sample_to_someip A service_id instance_id method_id someip_message_type_byte pl
      in if \<not> ok then (INTERNAL_ERROR, record_translation_error g)
         else (SUCCESS, deliver_inbound_from_dds m (length pl) g))"

text \<open>
  One sample taken from a reader: \<open>None\<close> for invalid data or a null pointer. The payload is as many bytes
  as the length field says, copied from the buffer (which holds at least that many); a null buffer leaves
  the zero-initialized bytes.
\<close>

record taken_sample =
  ts_service_id :: u16
  ts_instance_id :: u16
  ts_method_or_event_id :: u16
  ts_message_type :: u8
  ts_length :: u32
  ts_buffer :: "bytes option"

definition Dds_inbound_sample ::
  "'m message_api \<Rightarrow> taken_sample option \<Rightarrow> ('m, 'c) DdsGateway \<Rightarrow> ('m, 'c) DdsGateway" where
  "Dds_inbound_sample A smp g =
     (case smp of
        None \<Rightarrow> g
      | Some s \<Rightarrow>
          (let pl = (case ts_buffer s of
                       Some b \<Rightarrow> take (unat (ts_length s)) b
                     | None \<Rightarrow> replicate (unat (ts_length s)) 0);
               (ok, m) = bridge_sample_to_someip A (ts_service_id s) (ts_instance_id s) (ts_method_or_event_id s)
                           (ts_message_type s) pl
           in deliver_inbound_from_dds m (length pl) g))"

definition Dds_reader_take ::
  "'m message_api \<Rightarrow> (int \<Rightarrow> ('m, 'c, dds_call) history \<Rightarrow> int \<times> taken_sample option list) \<Rightarrow> string \<Rightarrow>
   ('m, 'c) DdsGateway \<Rightarrow> ('m, 'c) DdsGateway" where
  "Dds_reader_take A tk topic g =
     (case dd_readers g topic of
        None \<Rightarrow> g
      | Some reader \<Rightarrow>
          (let (n, samples) = tk reader (gw_io g)
           in if n \<le> 0 then g
              else call (External (Dds_return_loan reader n))
                     (fold (Dds_inbound_sample A) (take (nat n) samples) g)))"

definition Dds_reader_pass ::
  "'m message_api \<Rightarrow> (int \<Rightarrow> ('m, 'c, dds_call) history \<Rightarrow> int \<times> taken_sample option list) \<Rightarrow> string list \<Rightarrow>
   ('m, 'c) DdsGateway \<Rightarrow> ('m, 'c) DdsGateway" where
  "Dds_reader_pass A tk order g =
     (if dd_reader_stop g then g
      else call (External Dds_sleepfor) (fold (Dds_reader_take A tk) order g))"

subsection \<open>Entities stay live\<close>

definition live_call :: "('m, 'c, dds_call) io \<Rightarrow> bool" where
  "live_call ev = (case ev of External c \<Rightarrow> (case c of Dds_write w s \<Rightarrow> w > 0 | _ \<Rightarrow> True) | _ \<Rightarrow> True)"

definition all_positive :: "(string \<rightharpoonup> int) \<Rightarrow> bool" where
  "all_positive m \<longleftrightarrow> (\<forall>e \<in> ran m. e > 0)"

definition dds_live :: "('m, 'c, 'z) DdsGateway_scheme \<Rightarrow> bool" where
  "dds_live g \<longleftrightarrow> all_positive (dd_writers g) \<and> all_positive (dd_readers g) \<and> list_all live_call (gw_io g)"

lemma all_positive_simps [simp]:
  "all_positive Map.empty" "all_positive m \<Longrightarrow> w > 0 \<Longrightarrow> all_positive (m(t \<mapsto> w))"
  "all_positive m \<Longrightarrow> m t = Some w \<Longrightarrow> w > 0"
  by (auto simp: all_positive_def ran_def)

lemma live_calls_on [simp]: "(\<And>h. live_call (f h)) \<Longrightarrow> list_all live_call (calls_on f p)"
  by (simp add: calls_on_def split: option.split)

lemma live_call_simps [simp]:
  "live_call (EventSubscriber_shutdown h)" "live_call (RpcClient_shutdown h)" "live_call (RpcServer_shutdown h)"
  "live_call (SdClient_shutdown h)" "live_call (SdServer_shutdown h)" "live_call (Udp_stop h)" "live_call (Udp_start h)"
  "live_call (SdClient_initialize h)" "live_call (SdServer_initialize h)" "live_call (Outbound_sink m)"
  "live_call (Udp_new h)" "live_call (Udp_set_listener h)" "live_call (EventSubscriber_new h v)"
  "live_call (EventSubscriber_initialize h)" "live_call (EventSubscriber_subscribe_eventgroup h sv i e)"
  "live_call Clock_now" "live_call (E2e_validate m c)" "live_call (External (Dds_write w s)) = (w > 0)"
  "live_call (External (Setenv_cyclonedds_uri u))" "live_call (External (Dds_create_participant d))"
  "live_call (External (Dds_create_topic p n))" "live_call (External (Dds_create_reader p t q))"
  "live_call (External (Dds_create_writer p t q))" "live_call (External (Dds_alloc l))"
  "live_call (External Dds_sample_free)" "live_call (External (Dds_delete p))" "live_call (External Thread_start)"
  "live_call (External Thread_join)" "live_call (External (Dds_return_loan r k))" "live_call (External Dds_sleepfor)"
  by (simp_all add: live_call_def)

lemma dds_live_frame [simp]:
  "dds_live (g\<lparr>gw_stats := st\<rparr>) = dds_live g" "dds_live (g\<lparr>gw_running := r\<rparr>) = dds_live g"
  "dds_live (g\<lparr>dd_participant := p\<rparr>) = dds_live g" "dds_live (g\<lparr>dd_topics := t\<rparr>) = dds_live g"
  "dds_live (g\<lparr>dd_reader_stop := s\<rparr>) = dds_live g" "dds_live (g\<lparr>dd_reader_thread := b\<rparr>) = dds_live g"
  "dds_live (g\<lparr>gw_service_mappings := ms\<rparr>) = dds_live g" "dds_live (g\<lparr>side_outbound_sink := k\<rparr>) = dds_live g"
  "dds_live (g\<lparr>side_udp_transport := u\<rparr>) = dds_live g" "dds_live (g\<lparr>side_event_subscriber := u\<rparr>) = dds_live g"
  by (simp_all add: dds_live_def)

lemma dds_live_call [simp]: "dds_live (call ev g) \<longleftrightarrow> dds_live g \<and> live_call ev"
  by (auto simp: dds_live_def call_def)

lemma dds_live_call_on [simp]: "(\<And>h. live_call (f h)) \<Longrightarrow> dds_live (call_on f p g) = dds_live g"
  by (simp add: call_on_def split: option.split)

lemma ensure_topic_live: "dds_live g \<Longrightarrow> dds_live (snd (ensure_topic E nm g))"
  by (simp add: ensure_topic_def dds_int_def split: option.split)

lemma Dds_add_reader_live: "dds_live g \<Longrightarrow> dds_live (Dds_add_reader E mp g)"
  using ensure_topic_live [of g E "dds_reader_topic mp"]
  by (auto simp: Dds_add_reader_def dds_int_def Let_def split_beta) (auto simp: dds_live_def call_def)

lemma Dds_add_readers_live: "dds_live g \<Longrightarrow> dds_live (fold (Dds_add_reader E) mps g)"
  by (induction mps arbitrary: g) (simp_all add: Dds_add_reader_live)

lemma Dds_impl_start_live: "dds_live g \<Longrightarrow> dds_live (snd (Dds_impl_start E g))"
  by (simp add: Dds_impl_start_def dds_int_def Let_def Dds_add_readers_live)

lemma Dds_started_live: "dds_live g \<Longrightarrow> dds_live (snd (Dds_started E g))"
  by (simp add: Dds_started_def Let_def split_beta Dds_impl_start_live set_running_def)

lemma Dds_start_live: "dds_live g \<Longrightarrow> dds_live (snd (Dds_start E g))"
  by (simp add: Dds_start_def Let_def Dds_started_live split: option.split)

lemma Dds_stop_internal_live: "dds_live g \<Longrightarrow> dds_live (Dds_stop_internal g)"
  by (auto simp: Dds_stop_internal_def Let_def) (auto simp: dds_live_def call_def)

lemma Dds_stop_live: "dds_live g \<Longrightarrow> dds_live (snd (Dds_stop E g))"
  by (simp add: Dds_stop_def Let_def set_running_def Dds_stop_internal_live)

lemma Dds_writer_for_live:
  assumes "dds_live g" and "Dds_writer_for E topic tp q g = (w, g1)"
  shows "dds_live g1"
  using assms by (auto simp: Dds_writer_for_def dds_int_def Let_def dds_live_def call_def split: option.splits if_splits)

lemma Dds_write_sample_live: "dds_live g \<Longrightarrow> w > 0 \<Longrightarrow> dds_live (snd (Dds_write_sample A E w msg iid g))"
  by (simp add: Dds_write_sample_def dds_int_def Let_def)

lemma Dds_write_someip_live: "dds_live g \<Longrightarrow> dds_live (snd (Dds_write_someip A E msg topic mp iid g))"
  using ensure_topic_live [of g E topic]
  by (auto simp: Dds_write_someip_def Let_def split_beta intro!: Dds_write_sample_live Dds_writer_for_live [OF _ prod.collapse [symmetric]])

lemma Dds_on_someip_message_live:
  assumes "dds_live g"
  shows "dds_live (snd (Dds_on_someip_message A E msg g))"
proof -
  obtain vr g1 where v: "side_e2e_validate E (dd_use_e2e (dd_config g)) (dd_e2e_config (dd_config g)) msg g = (vr, g1)"
    by fastforce
  with assms have "dds_live g1" by (auto simp: side_e2e_validate_def split: option.splits if_splits)
  with assms Dds_write_someip_live show ?thesis
    by (auto simp: Dds_on_someip_message_def v Let_def split_beta record_translation_error_def
        record_someip_to_external_def split: option.split)
qed

lemma deliver_inbound_live: "dds_live g \<Longrightarrow> dds_live (deliver_inbound_from_dds m n g)"
  by (simp add: deliver_inbound_from_dds_def emit_to_sink_def record_external_to_someip_def)

lemma inject_live: "dds_live g \<Longrightarrow> dds_live (snd (inject_dds_sample A t p s i m b g))"
  by (simp add: inject_dds_sample_def bridge_sample_to_someip_def deliver_inbound_live)

lemma Dds_inbound_sample_live: "dds_live g \<Longrightarrow> dds_live (Dds_inbound_sample A smp g)"
  by (simp add: Dds_inbound_sample_def bridge_sample_to_someip_def deliver_inbound_live Let_def split: option.split)

lemma Dds_inbound_samples_live: "dds_live g \<Longrightarrow> dds_live (fold (Dds_inbound_sample A) ss g)"
  by (induction ss arbitrary: g) (simp_all add: Dds_inbound_sample_live)

lemma Dds_reader_takes_live: "dds_live g \<Longrightarrow> dds_live (fold (Dds_reader_take A tk) order g)"
  by (induction order arbitrary: g)
    (simp_all add: Dds_reader_take_def Dds_inbound_samples_live split_beta split: option.split)

lemma Dds_reader_pass_live: "dds_live g \<Longrightarrow> dds_live (Dds_reader_pass A tk order g)"
  by (simp add: Dds_reader_pass_def Dds_reader_takes_live)


subsection \<open>Reachable states\<close>

text \<open>Every public operation that changes state, and a pass of the reader thread, in any order.\<close>

inductive dds_reachable :: "'m message_api \<Rightarrow> ('m, 'c) dds_env \<Rightarrow> ('m, 'c) DdsGateway \<Rightarrow> bool" for A E where
  created: "dds_reachable A E (DdsGateway_new config)"
| started: "dds_reachable A E g \<Longrightarrow> dds_reachable A E (snd (Dds_start E g))"
| stopped: "dds_reachable A E g \<Longrightarrow> dds_reachable A E (snd (Dds_stop E g))"
| mapped: "dds_reachable A E g \<Longrightarrow> dds_reachable A E (add_service_mapping mp g)"
| sink_set: "dds_reachable A E g \<Longrightarrow> dds_reachable A E (Dds_set_someip_outbound_sink b g)"
| bridged: "dds_reachable A E g \<Longrightarrow> dds_reachable A E (Dds_enable_someip_udp_bridge E g)"
| subscribed: "dds_reachable A E g \<Longrightarrow> dds_reachable A E (snd (Dds_subscribe_someip_eventgroup E s i e g))"
| message: "dds_reachable A E g \<Longrightarrow> dds_reachable A E (snd (Dds_on_someip_message A E msg g))"
| notified: "dds_reachable A E g \<Longrightarrow> dds_reachable A E (Dds_on_event_notification A E n g)"
| injected: "dds_reachable A E g \<Longrightarrow> dds_reachable A E (snd (inject_dds_sample A t p s i m b g))"
| read_pass: "dds_reachable A E g \<Longrightarrow> dds_reachable A E (Dds_reader_pass A tk order g)"

lemma dds_reachable_live: "dds_reachable A E g \<Longrightarrow> dds_live g"
proof (induction rule: dds_reachable.induct)
  case (created config)
  then show ?case by (simp add: dds_live_def DdsGateway_new_def)
next
  case (mapped g mp)
  then show ?case by (simp add: add_service_mapping_def)
next
  case (sink_set g b)
  then show ?case by (simp add: Dds_set_someip_outbound_sink_def side_set_someip_outbound_sink_def)
next
  case (bridged g)
  then show ?case by (simp add: Dds_enable_someip_udp_bridge_def side_enable_someip_udp_bridge_def Let_def)
next
  case (subscribed g s i e)
  then show ?case
    by (simp add: Dds_subscribe_someip_eventgroup_def side_subscribe_someip_eventgroup_def
        side_ensure_event_subscriber_def Let_def split_beta split: option.split)
next
  case (notified g n)
  then show ?case by (simp add: Dds_on_event_notification_def Dds_on_someip_message_live)
qed (simp_all add: Dds_start_live Dds_stop_live Dds_on_someip_message_live inject_live Dds_reader_pass_live)

subsection \<open>The contract of the message handler\<close>

lemma Dds_write_someip_frame:
  assumes "Dds_write_someip A E msg topic mp iid g = (r, g1)"
  shows "same_base g g1 \<and> gw_stats g1 = gw_stats g"
  using assms
  by (auto simp: Dds_write_someip_def ensure_topic_def Dds_writer_for_def Dds_write_sample_def dds_int_def
      Let_def same_base_def call_def split: if_splits option.splits)

lemma Dds_forward_step:
  assumes "Dds_on_someip_message A E msg g = (r, g')"
  shows "forward_step (get_service_id A msg) g r g'"
proof (cases "find_inbound_mapping (get_service_id A msg) (ds_default_someip_instance_id (dd_someip (dd_config g))) g")
  case None
  with assms show ?thesis by (auto simp: Dds_on_someip_message_def split: if_splits)
next
  case (Some mapping)
  obtain vr g1 where v: "side_e2e_validate E (dd_use_e2e (dd_config g)) (dd_e2e_config (dd_config g)) msg g = (vr, g1)"
    by fastforce
  from side_e2e_frame [OF v] obtain h where g1: "g1 = g\<lparr>gw_io := h\<rparr>" ..
  from assms Some v consider (drop) "g' = g"
    | (err) "r \<noteq> SUCCESS" "g' = record_translation_error g1"
    | (sent) m topic mp iid n g2 where "should_forward_to_external mapping"
        "Dds_write_someip A E m topic mp iid g1 = (r, g2)" "g' = (if r = SUCCESS then record_someip_to_external n g2 else g2)"
    by (auto simp: Dds_on_someip_message_def Let_def split: if_splits prod.splits)
  then show ?thesis
  proof cases
    case drop
    then show ?thesis by simp
  next
    case err
    then show ?thesis by (simp add: forward_error g1 same_base_def)
  next
    case sent
    have "same_base g g2" "gw_stats g2 = gw_stats g"
      using Dds_write_someip_frame [OF sent(2)] by (simp_all add: g1 same_base_def)
    with sent(3) show ?thesis
      by (auto intro: forward_recorded [OF Some sent(1)] forward_step.dropped)
  qed
qed

interpretation dds: guarded_forwarder "\<lambda>m g. Some (Dds_on_someip_message A E m g)" "get_service_id A" for A E
  by unfold_locales (auto simp: Dds_forward_step Dds_on_someip_message_def is_running_def)

interpretation dds_total: total_forwarder "\<lambda>m g. Some (Dds_on_someip_message A E m g)" "get_service_id A" dds_live for A E
  by unfold_locales (simp add: prod_eq_iff Dds_on_someip_message_live)


subsection \<open>The samples written\<close>

fun written :: "('m, 'c, dds_call) io \<Rightarrow> SomeipBridgeSample option" where
  "written (External (Dds_write w s)) = Some s"
| "written ev = None"

fun dds_writes :: "('m, 'c, dds_call) history \<Rightarrow> SomeipBridgeSample list" where
  "dds_writes [] = []"
| "dds_writes (ev # h) = (case written ev of Some s \<Rightarrow> s # dds_writes h | None \<Rightarrow> dds_writes h)"

lemma dds_writes_append [simp]: "dds_writes (h @ h') = dds_writes h @ dds_writes h'"
  by (induction h) (simp_all split: option.split)

lemma ensure_topic_writes: "dds_writes (gw_io (snd (ensure_topic E nm g))) = dds_writes (gw_io g)"
  by (simp add: ensure_topic_def dds_int_def split: option.split)

lemma writer_for_writes: "dds_writes (gw_io (snd (Dds_writer_for E t tp q g))) = dds_writes (gw_io g)"
  by (simp add: Dds_writer_for_def dds_int_def split: option.split)

lemma write_sample_writes:
  "Dds_write_sample A E w msg iid g = (SUCCESS, g1) \<Longrightarrow>
     dds_writes (gw_io g1) = dds_writes (gw_io g) @ [bridge_sample A msg iid]"
  by (auto simp: Dds_write_sample_def dds_int_def Let_def split: if_splits)

lemma write_someip_writes:
  "Dds_write_someip A E msg topic mp iid g = (SUCCESS, g1) \<Longrightarrow>
     dds_writes (gw_io g1) = dds_writes (gw_io g) @ [bridge_sample A msg iid]"
  using ensure_topic_writes [of E topic g]
  by (auto simp: Dds_write_someip_def Let_def split_beta split: if_splits
      dest!: write_sample_writes simp: writer_for_writes)

lemma e2e_writes: "dds_writes (gw_io (snd (side_e2e_validate E u c msg g))) = dds_writes (gw_io g)"
  by (simp add: side_e2e_validate_def split: option.split)

lemma bridge_sample_payload:
  "length (get_payload A m) < 2 ^ 32 \<Longrightarrow> bs_payload (bridge_sample A m iid) = get_payload A m"
  by (simp add: bridge_sample_def Let_def unat_of_nat)

text \<open>A Cyclone DDS that always succeeds, and a gateway started on it, for the witnesses.\<close>

definition sample_dds_env :: "(ref_message, unit) dds_env" where
  "sample_dds_env = ref_env\<lparr>answer_int := (\<lambda>_ ev. case ev of External (Dds_write w s) \<Rightarrow> 0 | _ \<Rightarrow> 1)\<rparr>"

definition sample_dds :: "(ref_message, unit) DdsGateway" where
  "sample_dds = snd (Dds_start sample_dds_env
     (add_service_mapping
        \<lparr>someip_service_id = 0x1234, someip_instance_id = 1, someip_method_ids = [], someip_event_group_ids = [],
         external_identifier = ''speed'', direction = SOMEIP_TO_EXTERNAL, mode = OPAQUE\<rparr>
        (DdsGateway_new DdsConfig_default)))"

definition sample_dds_message :: ref_message where
  "sample_dds_message = \<lparr>ref_service = 0x1234, ref_method = 0x8001, ref_client = 7, ref_session = 9, ref_type = 2,
     ref_return = 0, ref_payload = [10, 200, 3]\<rparr>"

lemma sample_dds_reachable: "dds_reachable ref_api sample_dds_env sample_dds"
  unfolding sample_dds_def by (intro dds_reachable.intros)

lemmas dds_run_simps = sample_dds_def sample_dds_env_def sample_dds_message_def Dds_start_def Dds_started_def
  Dds_impl_start_def DdsGateway_new_def DdsConfig_default_def add_service_mapping_def call_on_def set_running_def
  get_service_mappings_def Dds_add_reader_def should_forward_to_someip_def dds_int_def call_def is_running_def
  find_inbound_mapping_def find_mapping_for_service_def should_forward_to_external_def side_e2e_validate_def
  dds_to_send_def resolve_dds_topic_def Dds_write_someip_def ensure_topic_def Dds_writer_for_def Dds_write_sample_def
  ref_simps ref_env_def

lemma sample_dds_accepts:
  "fst (Dds_on_someip_message ref_api sample_dds_env sample_dds_message sample_dds) = SUCCESS"
  "gw_running sample_dds" "dds_writes (gw_io sample_dds) = []"
  "\<exists>mp. find_inbound_mapping 0x1234 (ds_default_someip_instance_id (dd_someip (dd_config sample_dds))) sample_dds = Some mp \<and>
     should_forward_to_external mp \<and> someip_instance_id mp = 1 \<and> mode mp = OPAQUE"
  by (simp_all add: Dds_on_someip_message_def dds_run_simps Let_def)


subsection \<open>Properties\<close>







text \<open>C29: A participant that could not be created is not created again: after a first \<open>start\<close> that fails with
  \<open>NOT_INITIALIZED\<close> because DDS answered a negative entity, the next \<open>start\<close> returns \<open>SUCCESS\<close> and the gateway
  runs without a participant, so that every message its mappings permit is refused with \<open>NOT_INITIALIZED\<close>.\<close>

theorem dds_start_after_failure:
  assumes "side_udp_transport g = None" and "dd_participant g = 0"
    and "\<And>h. answer_int E h (External (Dds_create_participant (dd_domain_id (dd_config g)))) = -1"
  shows "fst (Dds_start E g) = NOT_INITIALIZED \<and>
    (let g2 = snd (Dds_start E (snd (Dds_start E g)))
     in fst (Dds_start E (snd (Dds_start E g))) = SUCCESS \<and> gw_running g2 \<and> dd_participant g2 = -1 \<and>
        Dds_write_someip A E msg topic mp iid g2 = (NOT_INITIALIZED, g2))"
  using assms
  by (simp add: Dds_start_def Dds_started_def Dds_impl_start_def dds_int_def call_on_eq set_running_def call_def
      Dds_write_someip_def Let_def)

theorem dds_start_after_failure_witness:
  "let E = ref_env\<lparr>answer_int := (\<lambda>_ _. -1)\<rparr>; g = DdsGateway_new DdsConfig_default :: (ref_message, unit) DdsGateway
   in fst (Dds_start E g) = NOT_INITIALIZED \<and> fst (Dds_start E (snd (Dds_start E g))) = SUCCESS"
  using dds_start_after_failure [of "DdsGateway_new DdsConfig_default" "ref_env\<lparr>answer_int := (\<lambda>_ _. -1)\<rparr>"]
  by (simp add: Let_def DdsGateway_new_def)


subsection \<open>The life cycle\<close>

interpretation dds_life: total_life_cycle True "\<lambda>g. Some (Dds_start E g)" "\<lambda>g. Some (Dds_stop E g)"
  "\<lambda>m g. Some (Dds_on_someip_message A E m g)" "\<lambda>g. True" for A E
proof
  show "gw_running g' = (r = SUCCESS \<or> gw_running g)" if "Some (Dds_start E g) = Some (r, g')" for g r g'
    using that
    by (auto simp: Dds_start_def Dds_started_def Dds_impl_start_def dds_int_def set_running_def Let_def call_on_eq call_def
         split: option.splits if_splits)
  show "r = SUCCESS \<and> \<not> gw_running g'" if "Some (Dds_stop E g) = Some (r, g')" for g r g'
    using that by (auto simp: Dds_stop_def set_running_def Let_def)
  show "gw_running g' = gw_running g" if "Some (Dds_on_someip_message A E m g) = Some (r, g')" for m g r g'
    using forward_step_same_base [OF dds.step [OF that]] by (simp add: same_base_def)
  show "r \<noteq> SUCCESS \<and> g' = g" if "\<not> gw_running g" "Some (Dds_on_someip_message A E m g) = Some (r, g')" for g m r g'
    using dds.stopped [OF that(1), of A E m] that(2) by auto
qed (simp_all add: prod_eq_iff)

text \<open>Two gateways with the same mapping talk to each other over DDS only when the mapping names a topic: the topic a message
  is written under is the topic the peer reads exactly when an external identifier is configured. The default names differ,
  since writers put \<open>event\<close> or \<open>method\<close> where readers expect \<open>m\<close>.\<close>

lemma dds_peer_topics:
  "resolve_dds_topic A msg mp = dds_reader_topic mp \<longleftrightarrow> external_identifier mp \<noteq> []"
  by (simp add: resolve_dds_topic_def dds_reader_topic_def build_dds_topic_msg_def build_dds_topic_def dds_hex4_def
      dds_kind_def Let_def)

end
