(* ===== verification/Iceoryx2_Translator.thy ===== *)
theory Iceoryx2_Translator
  imports Translator
begin

text \<open>
  \<open>gateway-iceoryx2/include/opensomeip/gateway/iceoryx2/iceoryx2_translator.h\<close> and
  \<open>gateway-iceoryx2/src/iceoryx2_translator.cpp\<close>: the binary envelope carried in iceoryx2 samples.

  \<open>someip::serialization::Serializer\<close> and \<open>Deserializer\<close> belong to the opensomeip library and are the
  record \<open>serializer_api\<close>: the write operations and the buffer, the read operations (\<open>None\<close> for
  \<open>is_error()\<close>) and the number of bytes left. \<open>serializer_laws\<close> states their documented behaviour: a
  write appends the encoding of the value to the buffer, and reading at the position of an encoding
  returns the value and moves past it. Encodings may depend on the position in the buffer, which covers
  alignment. \<open>ref_serializer\<close> is a big-endian instance.

  The properties show that every envelope within the size limit is read back exactly, that larger
  payloads are refused, and that service names are injective.
\<close>

record ('s, 'd) serializer_api =
  Serializer_new :: 's
  serialize_uint8 :: "u8 \<Rightarrow> 's \<Rightarrow> 's"
  serialize_uint16 :: "u16 \<Rightarrow> 's \<Rightarrow> 's"
  serialize_uint32 :: "u32 \<Rightarrow> 's \<Rightarrow> 's"
  serialize_string :: "string \<Rightarrow> 's \<Rightarrow> 's"
  get_buffer :: "'s \<Rightarrow> bytes"
  Deserializer_new :: "bytes \<Rightarrow> 'd"
  deserialize_uint8 :: "'d \<Rightarrow> u8 option \<times> 'd"
  deserialize_uint16 :: "'d \<Rightarrow> u16 option \<times> 'd"
  deserialize_uint32 :: "'d \<Rightarrow> u32 option \<times> 'd"
  deserialize_string :: "'d \<Rightarrow> string option \<times> 'd"
  get_remaining :: "'d \<Rightarrow> nat"

record Iceoryx2Envelope =
  env_version :: u8
  env_mode :: TranslationMode
  env_service_id :: u16
  env_instance_id :: u16
  env_method_or_event_id :: u16
  env_message_type :: MessageType
  env_client_id :: u16
  env_session_id :: u16
  env_correlation_id :: string
  env_payload :: bytes

definition kMagic :: u32 where
  "kMagic = 0x53495031"

definition Iceoryx2Envelope_default :: "'m message_api \<Rightarrow> Iceoryx2Envelope" where
  "Iceoryx2Envelope_default A = \<lparr>env_version = 1, env_mode = OPAQUE, env_service_id = 0, env_instance_id = 0,
     env_method_or_event_id = 0, env_message_type = mt_REQUEST A, env_client_id = 0, env_session_id = 0,
     env_correlation_id = [], env_payload = []\<rparr>"

definition build_iceoryx2_service_name :: "string \<Rightarrow> u16 \<Rightarrow> u16 \<Rightarrow> u16 \<Rightarrow> char \<Rightarrow> string" where
  [topic_simps]: "build_iceoryx2_service_name pre service_id instance_id method_or_event_id kind_tag =
     pre @ ''/'' @ format_service_id service_id @ ''/'' @ format_service_id instance_id @ ''/'' @
     format_service_id method_or_event_id @ ''/'' @ [kind_tag]"

definition serialize_envelope :: "('s, 'd) serializer_api \<Rightarrow> Iceoryx2Envelope \<Rightarrow> 's \<Rightarrow> 's" where
  "serialize_envelope S env ser =
     (let ser = serialize_uint32 S kMagic ser;
          ser = serialize_uint8 S (env_version env) ser;
          ser = serialize_uint8 S (byte_of_TranslationMode (env_mode env)) ser;
          ser = serialize_uint16 S (env_service_id env) ser;
          ser = serialize_uint16 S (env_instance_id env) ser;
          ser = serialize_uint16 S (env_method_or_event_id env) ser;
          ser = serialize_uint8 S (env_message_type env) ser;
          ser = serialize_uint8 S 0 ser;
          ser = serialize_uint16 S (env_client_id env) ser;
          ser = serialize_uint16 S (env_session_id env) ser;
          ser = serialize_string S (env_correlation_id env) ser;
          ser = serialize_uint32 S (word_of_nat (length (env_payload env))) ser
      in fold (serialize_uint8 S) (env_payload env) ser)"

text \<open>The loop that reads the payload, from the number of bytes still to read.\<close>

fun read_payload :: "('s, 'd) serializer_api \<Rightarrow> nat \<Rightarrow> bytes \<Rightarrow> 'd \<Rightarrow> bytes option" where
  "read_payload S 0 acc deser = Some acc"
| "read_payload S (Suc n) acc deser =
     (case deserialize_uint8 S deser of
        (None, _) \<Rightarrow> None
      | (Some b, deser1) \<Rightarrow> read_payload S n (acc @ [b]) deser1)"

definition deserialize_payload :: "('s, 'd) serializer_api \<Rightarrow> 'd \<Rightarrow> bytes option" where
  "deserialize_payload S deser =
     (case deserialize_uint32 S deser of
        (None, _) \<Rightarrow> None
      | (Some payload_len, deser1) \<Rightarrow>
          if payload_len > 16 * 1024 * 1024 then None
          else if get_remaining S deser1 < unat payload_len then None
          else read_payload S (unat payload_len) [] deser1)"

definition deserialize_envelope :: "('s, 'd) serializer_api \<Rightarrow> 'd \<Rightarrow> Iceoryx2Envelope option" where
  "deserialize_envelope S d0 =
     (let (magic, d1) = deserialize_uint32 S d0 in
      if magic \<noteq> Some kMagic then None
      else let (ver, d2) = deserialize_uint8 S d1 in
      if ver = None then None
      else let (mode, d3) = deserialize_uint8 S d2 in
      if mode = None then None
      else let (sid, d4) = deserialize_uint16 S d3;
               (iid, d5) = deserialize_uint16 S d4;
               (mid, d6) = deserialize_uint16 S d5 in
      if sid = None \<or> iid = None \<or> mid = None then None
      else let (mtype, d7) = deserialize_uint8 S d6;
               (pad, d8) = deserialize_uint8 S d7 in
      if mtype = None \<or> pad = None then None
      else let (cid, d9) = deserialize_uint16 S d8;
               (sess, d10) = deserialize_uint16 S d9 in
      if cid = None \<or> sess = None then None
      else let (corr, d11) = deserialize_string S d10 in
      if corr = None then None
      else case deserialize_payload S d11 of
        None \<Rightarrow> None
      | Some pl \<Rightarrow>
          Some \<lparr>env_version = the ver, env_mode = TranslationMode_of_byte (the mode), env_service_id = the sid,
                env_instance_id = the iid, env_method_or_event_id = the mid, env_message_type = the mtype,
                env_client_id = the cid, env_session_id = the sess, env_correlation_id = the corr,
                env_payload = pl\<rparr>)"

definition someip_to_sample ::
  "'m message_api \<Rightarrow> ('s, 'd) serializer_api \<Rightarrow> 'm \<Rightarrow> u16 \<Rightarrow> TranslationMode \<Rightarrow> bytes" where
  "someip_to_sample A S msg instance_id md =
     (let env = (Iceoryx2Envelope_default A)\<lparr>env_version := 1, env_mode := md,
            env_service_id := get_service_id A msg, env_instance_id := instance_id,
            env_method_or_event_id := get_method_id A msg, env_message_type := get_message_type A msg,
            env_client_id := get_client_id A msg, env_session_id := get_session_id A msg,
            env_correlation_id := correlation_text (get_client_id A msg) (get_session_id A msg),
            env_payload := (if md = TYPED then payload_to_json A msg else get_payload A msg)\<rparr>
      in get_buffer S (serialize_envelope S env (Serializer_new S)))"

definition parse_sample :: "('s, 'd) serializer_api \<Rightarrow> bytes \<Rightarrow> Iceoryx2Envelope option" where
  "parse_sample S data = deserialize_envelope S (Deserializer_new S data)"

definition envelope_to_someip :: "'m message_api \<Rightarrow> Iceoryx2Envelope \<Rightarrow> 'm" where
  "envelope_to_someip A env =
     (let msg = Message_ctor A (env_service_id env, env_method_or_event_id env)
                  (env_client_id env, env_session_id env) (env_message_type env)
      in if env_mode env = TYPED then set_payload A (json_to_payload (env_payload env)) msg
         else set_payload A (env_payload env) msg)"

definition envelope_to_external :: "'m message_api \<Rightarrow> Iceoryx2Envelope \<Rightarrow> string \<Rightarrow> ExternalMessage" where
  "envelope_to_external A env topic =
     \<lparr>topic_or_key = topic, ext_payload = env_payload env, source_service_id = env_service_id env,
      source_method_id = env_method_or_event_id env, source_instance_id = env_instance_id env,
      ext_is_request = (env_message_type env = mt_REQUEST A \<or> env_message_type env = mt_REQUEST_NO_RETURN A),
      ext_is_notification = (env_message_type env = mt_NOTIFICATION A),
      correlation_id = env_correlation_id env\<rparr>"


subsection \<open>The documented behaviour of the serializer\<close>

text \<open>
  \<open>at d = (data, i)\<close> says that the deserializer is at position \<open>i\<close> of \<open>data\<close>. A reader follows an encoding
  when it returns the value at the position of its encoding and moves past it, for the values the format
  can carry (strings have a length field; the law asks for strings of fewer than 65536 characters).
\<close>

definition reads ::
  "('d \<Rightarrow> bytes \<times> nat) \<Rightarrow> ('d \<Rightarrow> 'v option \<times> 'd) \<Rightarrow> ('v \<Rightarrow> bool) \<Rightarrow> (nat \<Rightarrow> 'v \<Rightarrow> bytes) \<Rightarrow> bool" where
  "reads at rd ok enc \<longleftrightarrow>
     (\<forall>d pre v post. ok v \<longrightarrow> at d = (pre @ enc (length pre) v @ post, length pre) \<longrightarrow>
        (\<exists>d'. rd d = (Some v, d') \<and>
              at d' = ((pre @ enc (length pre) v) @ post, length (pre @ enc (length pre) v))))"

definition writes :: "('s \<Rightarrow> bytes) \<Rightarrow> ('v \<Rightarrow> 's \<Rightarrow> 's) \<Rightarrow> (nat \<Rightarrow> 'v \<Rightarrow> bytes) \<Rightarrow> bool" where
  "writes buf wr enc \<longleftrightarrow> (\<forall>s v. buf (wr v s) = buf s @ enc (length (buf s)) v)"

record encodings =
  enc8 :: "nat \<Rightarrow> u8 \<Rightarrow> bytes"
  enc16 :: "nat \<Rightarrow> u16 \<Rightarrow> bytes"
  enc32 :: "nat \<Rightarrow> u32 \<Rightarrow> bytes"
  enc_str :: "nat \<Rightarrow> string \<Rightarrow> bytes"

definition serializer_laws :: "('s, 'd) serializer_api \<Rightarrow> encodings \<Rightarrow> ('d \<Rightarrow> bytes \<times> nat) \<Rightarrow> bool" where
  "serializer_laws S e at \<longleftrightarrow>
     get_buffer S (Serializer_new S) = [] \<and>
     writes (get_buffer S) (serialize_uint8 S) (enc8 e) \<and> writes (get_buffer S) (serialize_uint16 S) (enc16 e) \<and>
     writes (get_buffer S) (serialize_uint32 S) (enc32 e) \<and> writes (get_buffer S) (serialize_string S) (enc_str e) \<and>
     (\<forall>data. at (Deserializer_new S data) = (data, 0)) \<and>
     reads at (deserialize_uint8 S) (\<lambda>_. True) (enc8 e) \<and> reads at (deserialize_uint16 S) (\<lambda>_. True) (enc16 e) \<and>
     reads at (deserialize_uint32 S) (\<lambda>_. True) (enc32 e) \<and> reads at (deserialize_string S) (\<lambda>v. length v < 2 ^ 16) (enc_str e) \<and>
     (\<forall>d. get_remaining S d = length (fst (at d)) - snd (at d)) \<and>
     (\<forall>i b. length (enc8 e i b) = 1)"

subsection \<open>Reading back what was written\<close>

lemma writes_prefix: "writes buf wr enc \<Longrightarrow> prefix (buf (wr v s)) full \<Longrightarrow> prefix (buf s) full"
  by (auto simp: writes_def prefix_def)

lemma read_back:
  assumes "writes buf wr enc" and "reads at rd ok enc" and "ok v"
    and "prefix (buf (wr v s)) full" and "at d = (full, length (buf s))"
  shows "\<exists>d'. rd d = (Some v, d') \<and> at d' = (full, length (buf (wr v s)))"
proof -
  from assms(1) have w: "buf (wr v s) = buf s @ enc (length (buf s)) v" by (simp add: writes_def)
  with assms(4) obtain post where "full = buf s @ enc (length (buf s)) v @ post" by (auto simp: prefix_def)
  with assms(2,3,5) w show ?thesis unfolding reads_def by fastforce
qed

lemma fold_writes_prefix:
  assumes "writes buf wr enc"
  shows "prefix (buf s) (buf (fold wr vs s))"
proof (induction vs arbitrary: s)
  case (Cons v vs)
  then show ?case using writes_prefix [OF assms] by fastforce
qed simp

lemma fold_writes_length:
  assumes "writes buf wr enc" and "\<And>i b. length (enc i b) = 1"
  shows "length (buf (fold wr vs s)) = length (buf s) + length vs"
  using assms by (induction vs arbitrary: s) (auto simp: writes_def)

lemma read_payload_back:
  assumes "serializer_laws S e at" and "prefix (get_buffer S (fold (serialize_uint8 S) vs s)) full"
    and "at d = (full, length (get_buffer S s))"
  shows "read_payload S (length vs) acc d = Some (acc @ vs)"
  using assms(2,3)
proof (induction vs arbitrary: s d acc)
  case (Cons v vs)
  have w: "writes (get_buffer S) (serialize_uint8 S) (enc8 e)" and r: "reads at (deserialize_uint8 S) (\<lambda>_. True) (enc8 e)"
    using assms(1) by (auto simp: serializer_laws_def)
  have "prefix (get_buffer S (serialize_uint8 S v s)) full"
    using Cons.prems(1) prefix_order.trans [OF fold_writes_prefix [OF w]] by simp
  from read_back [OF w r TrueI this Cons.prems(2)] obtain d' where
    d': "deserialize_uint8 S d = (Some v, d')" "at d' = (full, length (get_buffer S (serialize_uint8 S v s)))" by blast
  with Cons.IH [of "serialize_uint8 S v s" d' "acc @ [v]"] Cons.prems(1) show ?case by simp
qed simp

lemma deserialize_payload_back:
  assumes L: "serializer_laws S e at" and n: "length p < 2 ^ 32"
    and s': "s' = serialize_uint32 S (word_of_nat (length p)) s"
    and full: "full = get_buffer S (fold (serialize_uint8 S) p s')"
    and d: "at d = (full, length (get_buffer S s))"
  shows "deserialize_payload S d = (if length p \<le> 16 * 1024 * 1024 then Some p else None)"
proof -
  have w: "writes (get_buffer S) (serialize_uint32 S) (enc32 e)" "reads at (deserialize_uint32 S) (\<lambda>_. True) (enc32 e)"
    and w8: "writes (get_buffer S) (serialize_uint8 S) (enc8 e)" "\<And>i b. length (enc8 e i b) = 1"
    using L by (auto simp: serializer_laws_def)
  have "prefix (get_buffer S s') full" unfolding full by (rule fold_writes_prefix [OF w8(1)])
  then obtain d' where d': "deserialize_uint32 S d = (Some (word_of_nat (length p)), d')"
    "at d' = (full, length (get_buffer S s'))"
    using read_back [OF w TrueI _ d] unfolding s' by blast
  have "get_remaining S d' = length p"
    using L d'(2) fold_writes_length [OF w8, of p s'] by (simp add: serializer_laws_def full)
  moreover have u: "unat (word_of_nat (length p) :: u32) = length p"
    unfolding unat_of_nat using n by simp
  moreover have "(word_of_nat (length p) :: u32) > 16 * 1024 * 1024 \<longleftrightarrow> length p > 16 * 1024 * 1024"
    by (simp add: word_less_nat_alt u)
  moreover have "read_payload S (length p) [] d' = Some p"
    using read_payload_back [OF L _ d'(2), of p "[]"] by (simp add: full)
  ultimately show ?thesis using d'(1) by (simp add: deserialize_payload_def)
qed

text \<open>The fields before the payload, as a list of items, and what it means to read them in order.\<close>

datatype item = I8 u8 | I16 u16 | I32 u32 | IS string

fun write_item :: "('s, 'd) serializer_api \<Rightarrow> item \<Rightarrow> 's \<Rightarrow> 's" where
  "write_item S (I8 v) = serialize_uint8 S v"
| "write_item S (I16 v) = serialize_uint16 S v"
| "write_item S (I32 v) = serialize_uint32 S v"
| "write_item S (IS v) = serialize_string S v"

fun read_item :: "('s, 'd) serializer_api \<Rightarrow> item \<Rightarrow> 'd \<Rightarrow> 'd \<Rightarrow> bool" where
  "read_item S (I8 v) d d' = (deserialize_uint8 S d = (Some v, d'))"
| "read_item S (I16 v) d d' = (deserialize_uint16 S d = (Some v, d'))"
| "read_item S (I32 v) d d' = (deserialize_uint32 S d = (Some v, d'))"
| "read_item S (IS v) d d' = (deserialize_string S d = (Some v, d'))"

fun item_ok :: "item \<Rightarrow> bool" where
  "item_ok (IS v) = (length v < 2 ^ 16)"
| "item_ok x = True"

fun read_items :: "('s, 'd) serializer_api \<Rightarrow> item list \<Rightarrow> 'd \<Rightarrow> 'd \<Rightarrow> bool" where
  "read_items S [] d d' = (d' = d)"
| "read_items S (x # xs) d d' = (\<exists>d1. read_item S x d d1 \<and> read_items S xs d1 d')"

definition header_items :: "Iceoryx2Envelope \<Rightarrow> item list" where
  "header_items v =
     [I32 kMagic, I8 (env_version v), I8 (byte_of_TranslationMode (env_mode v)), I16 (env_service_id v),
      I16 (env_instance_id v), I16 (env_method_or_event_id v), I8 (env_message_type v), I8 0,
      I16 (env_client_id v), I16 (env_session_id v), IS (env_correlation_id v)]"

lemma item_prefix:
  assumes "serializer_laws S e at" and "prefix (get_buffer S (write_item S x s)) full"
  shows "prefix (get_buffer S s) full"
  using assms by (cases x) (auto simp: serializer_laws_def dest: writes_prefix)

lemma items_prefix:
  assumes "serializer_laws S e at" and "prefix (get_buffer S (fold (write_item S) xs s)) full"
  shows "prefix (get_buffer S s) full"
  using assms(2) by (induction xs arbitrary: s) (auto dest: item_prefix [OF assms(1)])

lemma item_back:
  assumes "serializer_laws S e at" and "item_ok x" and "prefix (get_buffer S (write_item S x s)) full"
    and "at d = (full, length (get_buffer S s))"
  shows "\<exists>d'. read_item S x d d' \<and> at d' = (full, length (get_buffer S (write_item S x s)))"
  using assms
  by (cases x) (auto simp: serializer_laws_def intro: read_back [of "get_buffer S", where ok = "\<lambda>_. True"]
      read_back [of "get_buffer S", where ok = "\<lambda>v. length v < 2 ^ 16"])

lemma items_back:
  assumes "serializer_laws S e at" and "list_all item_ok xs"
    and "prefix (get_buffer S (fold (write_item S) xs s)) full" and "at d = (full, length (get_buffer S s))"
  shows "\<exists>d'. read_items S xs d d' \<and> at d' = (full, length (get_buffer S (fold (write_item S) xs s)))"
  using assms(2-4)
proof (induction xs arbitrary: s d)
  case (Cons x xs)
  then have p: "prefix (get_buffer S (write_item S x s)) full" using items_prefix [OF assms(1)] by simp
  from item_back [OF assms(1) _ p Cons.prems(3)] Cons.IH [of "write_item S x s"] Cons.prems(1,2)
  show ?case by fastforce
qed simp

lemma deserialize_envelope_items:
  assumes "read_items S (header_items v) d d'"
  shows "deserialize_envelope S d =
    map_option (\<lambda>p. v\<lparr>env_mode := TranslationMode_of_byte (byte_of_TranslationMode (env_mode v)), env_payload := p\<rparr>)
      (deserialize_payload S d')"
  using assms by (auto simp: header_items_def deserialize_envelope_def Let_def split: option.split)

lemma deserialize_envelope_back:
  assumes L: "serializer_laws S e at" and n: "length (env_payload v) < 2 ^ 32"
    and c: "length (env_correlation_id v) < 2 ^ 16"
  shows "parse_sample S (get_buffer S (serialize_envelope S v (Serializer_new S))) =
    (if length (env_payload v) \<le> 16 * 1024 * 1024
     then Some (v\<lparr>env_mode := TranslationMode_of_byte (byte_of_TranslationMode (env_mode v))\<rparr>) else None)"
proof -
  define s where "s = fold (write_item S) (header_items v) (Serializer_new S)"
  define s' where "s' = serialize_uint32 S (word_of_nat (length (env_payload v))) s"
  define full where "full = get_buffer S (fold (serialize_uint8 S) (env_payload v) s')"
  have w: "writes (get_buffer S) (serialize_uint8 S) (enc8 e)" "writes (get_buffer S) (serialize_uint32 S) (enc32 e)"
    using L by (simp_all add: serializer_laws_def)
  have f: "get_buffer S (serialize_envelope S v (Serializer_new S)) = full"
    by (simp add: serialize_envelope_def full_def s'_def s_def header_items_def)
  have ok: "list_all item_ok (header_items v)" using c by (simp add: header_items_def)
  have "prefix (get_buffer S s) full"
    using writes_prefix [OF w(2)] fold_writes_prefix [OF w(1)] unfolding full_def s'_def by blast
  moreover have "at (Deserializer_new S full) = (full, length (get_buffer S (Serializer_new S)))"
    using L by (simp add: serializer_laws_def)
  ultimately obtain d' where d': "read_items S (header_items v) (Deserializer_new S full) d'"
    "at d' = (full, length (get_buffer S s))"
    using items_back [OF L ok, of "Serializer_new S" full] unfolding s_def by blast
  from deserialize_payload_back [OF L n s'_def full_def d'(2)] deserialize_envelope_items [OF d'(1)]
  show ?thesis by (simp add: f parse_sample_def)
qed


subsection \<open>A big-endian serializer\<close>

definition be32 :: "u32 \<Rightarrow> bytes" where
  "be32 v = be16 (ucast (drop_bit 16 v)) @ be16 (ucast v)"

definition of_be32 :: "u8 \<Rightarrow> u8 \<Rightarrow> u8 \<Rightarrow> u8 \<Rightarrow> u32" where
  "of_be32 a b c d = push_bit 16 (ucast (of_be16 a b)) OR ucast (of_be16 c d)"

type_synonym cursor = "bytes \<times> nat"

text \<open>Read \<open>n\<close> bytes at the cursor and convert them.\<close>

definition ref_read :: "nat \<Rightarrow> (bytes \<Rightarrow> 'v) \<Rightarrow> cursor \<Rightarrow> 'v option \<times> cursor" where
  "ref_read n f d = (case d of (bs, i) \<Rightarrow>
     if i + n \<le> length bs then (Some (f (take n (drop i bs))), (bs, i + n)) else (None, (bs, i)))"

definition ref_str :: "string \<Rightarrow> bytes" where
  "ref_str v = be16 (word_of_nat (length v)) @ bytes_of_string v"

definition ref_read_str :: "cursor \<Rightarrow> string option \<times> cursor" where
  "ref_read_str d = (case ref_read 2 (\<lambda>w. unat (of_be16 (w ! 0) (w ! 1))) d of
     (None, d1) \<Rightarrow> (None, d1)
   | (Some n, d1) \<Rightarrow> ref_read n string_of_bytes d1)"

definition ref_serializer :: "(bytes, cursor) serializer_api" where
  "ref_serializer = \<lparr>Serializer_new = [], serialize_uint8 = (\<lambda>v s. s @ [v]), serialize_uint16 = (\<lambda>v s. s @ be16 v),
     serialize_uint32 = (\<lambda>v s. s @ be32 v), serialize_string = (\<lambda>v s. s @ ref_str v), get_buffer = (\<lambda>s. s),
     Deserializer_new = (\<lambda>bs. (bs, 0)), deserialize_uint8 = ref_read 1 (\<lambda>w. w ! 0),
     deserialize_uint16 = ref_read 2 (\<lambda>w. of_be16 (w ! 0) (w ! 1)),
     deserialize_uint32 = ref_read 4 (\<lambda>w. of_be32 (w ! 0) (w ! 1) (w ! 2) (w ! 3)),
     deserialize_string = ref_read_str, get_remaining = (\<lambda>(bs, i). length bs - i)\<rparr>"

definition ref_encodings :: encodings where
  "ref_encodings = \<lparr>enc8 = (\<lambda>_ v. [v]), enc16 = (\<lambda>_. be16), enc32 = (\<lambda>_. be32), enc_str = (\<lambda>_. ref_str)\<rparr>"

lemma of_be32_be32: "be32 v = [a, b, c, d] \<Longrightarrow> of_be32 a b c d = v"
proof -
  assume "be32 v = [a, b, c, d]"
  then have "of_be16 a b = ucast (drop_bit 16 v)" "of_be16 c d = ucast v"
    by (auto simp: be32_def be16_def of_be16_be16)
  then show ?thesis by (intro bit_word_eqI) (auto simp: of_be32_def bit_simps)
qed

lemma ref_read_at:
  assumes "length (enc v) = n" and "f (enc v) = v"
  shows "ref_read n f (pre @ enc v @ post, length pre) = (Some v, (pre @ enc v @ post, length pre + n))"
  using assms by (auto simp: ref_read_def)

lemma ref_read_str_at:
  assumes "length v < 2 ^ 16"
  shows "ref_read_str (pre @ ref_str v @ post, length pre) =
    (Some v, (pre @ ref_str v @ post, length pre + length (ref_str v)))"
proof -
  have n: "unat (word_of_nat (length v) :: u16) = length v" unfolding unat_of_nat using assms by simp
  have "ref_read 2 (\<lambda>w. unat (of_be16 (w ! 0) (w ! 1))) (pre @ ref_str v @ post, length pre) =
      (Some (length v), (pre @ ref_str v @ post, length pre + 2))"
    by (simp add: ref_read_def ref_str_def be16_def of_be16_be16 n)
  then show ?thesis by (simp add: ref_read_str_def) (simp add: ref_read_def ref_str_def be16_def)
qed

lemma ref_serializer_laws: "serializer_laws ref_serializer ref_encodings id"
proof -
  have "length (be32 v) = 4" for v by (simp add: be32_def be16_def)
  moreover have "of_be32 (be32 v ! 0) (be32 v ! 1) (be32 v ! 2) (be32 v ! 3) = v" for v
    by (rule of_be32_be32) (simp add: be32_def be16_def)
  moreover have "length (be16 v) = 2" for v by (simp add: be16_def)
  moreover have "of_be16 (be16 v ! 0) (be16 v ! 1) = v" for v by (simp add: be16_def of_be16_be16)
  ultimately show ?thesis
    by (auto simp: serializer_laws_def ref_serializer_def ref_encodings_def writes_def reads_def
        ref_read_at [where enc = "\<lambda>v. [v]", simplified] ref_read_at [where enc = be32] ref_read_str_at
        ref_read_at [where enc = be16])
qed


subsection \<open>Properties\<close>

interpretation iceoryx2_name: topic_scheme
  "\<lambda>s i m. build_iceoryx2_service_name pre s i m k" False "pre @ ''/0x''" "''/0x''" "''/0x''" "''/'' @ [k]" for pre k
  by unfold_locales (simp add: topic_simps)

text \<open>iceoryx2 service names under one prefix determine service, instance, method and kind.\<close>

theorem iceoryx2_names_distinct:
  "build_iceoryx2_service_name p s i m k = build_iceoryx2_service_name p s' i' m' k' \<longleftrightarrow>
     s = s' \<and> i = i' \<and> m = m' \<and> k = k'"
  by (simp add: topic_simps)

text \<open>A sample made from a message parses back: within the limit of 16 MiB \<open>parse_sample\<close> returns the
  envelope with the identifiers, type, mode, correlation text and payload of the message (the JSON
  envelope in typed mode), and beyond the limit it refuses the sample.\<close>

lemma iceoryx2_sample_round_trip:
  fixes A :: "'m message_api"
  assumes "serializer_laws S e at" and "md \<in> {OPAQUE, TYPED}"
    and "p = (if md = TYPED then payload_to_json A m else get_payload A m)" and "length p < 2 ^ 32"
  shows "parse_sample S (someip_to_sample A S m iid md) =
    (if length p \<le> 16 * 1024 * 1024
     then Some \<lparr>env_version = 1, env_mode = md, env_service_id = get_service_id A m, env_instance_id = iid,
            env_method_or_event_id = get_method_id A m, env_message_type = get_message_type A m,
            env_client_id = get_client_id A m, env_session_id = get_session_id A m,
            env_correlation_id = correlation_text (get_client_id A m) (get_session_id A m), env_payload = p\<rparr>
     else None)"
proof -
  have "length (correlation_text c s) < 2 ^ 16" for c s by (simp add: correlation_text_def)
  moreover have "TranslationMode_of_byte (byte_of_TranslationMode md) = md"
    using assms(2) by (auto simp: TranslationMode_of_byte_def)
  ultimately show ?thesis
    unfolding someip_to_sample_def Let_def
    by (subst deserialize_envelope_back [OF assms(1)]) (use assms(3,4) in \<open>simp_all add: Iceoryx2Envelope_default_def\<close>)
qed

lemma iceoryx2_sample_round_trip_witness:
  "\<exists>env. parse_sample ref_serializer (someip_to_sample ref_api ref_serializer
       \<lparr>ref_service = 0x1234, ref_method = 0x8001, ref_client = 7, ref_session = 9, ref_type = 2, ref_return = 0,
        ref_payload = [10, 200, 3]\<rparr> 1 OPAQUE) = Some env \<and> env_payload env = [10, 200, 3]"
  using iceoryx2_sample_round_trip [OF ref_serializer_laws, of OPAQUE "[10, 200, 3]" ref_api
      "\<lparr>ref_service = 0x1234, ref_method = 0x8001, ref_client = 7, ref_session = 9, ref_type = 2, ref_return = 0,
        ref_payload = [10, 200, 3]\<rparr>" 1]
  by (simp add: ref_simps)

lemma opaque_sample_parses:
  fixes A :: "'m message_api"
  assumes "serializer_laws S e at" and "length (get_payload A m) \<le> 16 * 1024 * 1024"
  shows "parse_sample S (someip_to_sample A S m iid OPAQUE) =
    Some \<lparr>env_version = 1, env_mode = OPAQUE, env_service_id = get_service_id A m, env_instance_id = iid,
      env_method_or_event_id = get_method_id A m, env_message_type = get_message_type A m,
      env_client_id = get_client_id A m, env_session_id = get_session_id A m,
      env_correlation_id = correlation_text (get_client_id A m) (get_session_id A m), env_payload = get_payload A m\<rparr>"
  using iceoryx2_sample_round_trip [OF assms(1), of OPAQUE "get_payload A m" A m iid] assms(2) by simp

text \<open>An opaque message that travels through an iceoryx2 sample comes back with service, method, client,
  session, type and payload unchanged.\<close>

lemma iceoryx2_opaque_message_survives:
  assumes "message_laws A" and "serializer_laws S e at" and "length (get_payload A m) \<le> 16 * 1024 * 1024"
  shows "\<exists>env. parse_sample S (someip_to_sample A S m iid OPAQUE) = Some env \<and>
    header_of A (envelope_to_someip A env) =
      (get_service_id A m, get_method_id A m, get_client_id A m, get_session_id A m, get_message_type A m, rc_E_OK A) \<and>
    get_payload A (envelope_to_someip A env) = get_payload A m"
  using opaque_sample_parses [OF assms(2,3)] assms(1) by (simp add: envelope_to_someip_def header_of_def)

lemma iceoryx2_opaque_message_survives_witness:
  "\<exists>env. parse_sample ref_serializer (someip_to_sample ref_api ref_serializer
       \<lparr>ref_service = 0x1234, ref_method = 0x8001, ref_client = 7, ref_session = 9, ref_type = 2, ref_return = 0,
        ref_payload = [1]\<rparr> 1 OPAQUE) = Some env \<and> get_payload ref_api (envelope_to_someip ref_api env) = [1]"
  using iceoryx2_opaque_message_survives [OF ref_api_laws ref_serializer_laws,
      of "\<lparr>ref_service = 0x1234, ref_method = 0x8001, ref_client = 7, ref_session = 9, ref_type = 2, ref_return = 0,
        ref_payload = [1]\<rparr>" 1]
  by (auto simp: ref_simps)

end
