(* ===== verification/Example_Programs.thy ===== *)
theory Example_Programs
  imports Mqtt_Gateway Dds_Gateway Ros2_Gateway Iceoryx2_Translator
begin

text \<open>
  The example programs of the MQTT, DDS and ROS 2 gateways (\<open>gateway-mqtt/examples/mqtt_vehicle_telemetry.cpp\<close>,
  \<open>gateway-dds/examples/dds_adaptive_bridge.cpp\<close>, \<open>gateway-ros2/examples/ros2_adas_bridge.cpp\<close>) as compositions of the
  gateway operations: a program is a function of the library interfaces to its exit code, what it writes to
  \<open>std::cout\<close> and the gateway it leaves. The outbound sink the programs install prints the message it is handed; its text is
  produced for every \<open>Outbound_sink\<close> entry an operation adds to the call history. \<open>None\<close> is a program that does not
  return.

  Floating-point literals are their IEEE 754 bit patterns. \<open>Serializer\<close> is the interface of \<open>Iceoryx2_Translator\<close> with
  \<open>serialize_float\<close> added; the properties hold for every serializer.
\<close>

record ('s, 'd) example_serializer = "('s, 'd) serializer_api" +
  serialize_float :: "u32 \<Rightarrow> 's \<Rightarrow> 's"
  move_buffer :: "'s \<Rightarrow> bytes"

subsection \<open>Console output\<close>

definition nl :: string where
  "nl = [CHR 0x0A]"

text \<open>The arrow of the messages, in UTF-8.\<close>

definition arrow :: string where
  "arrow = [CHR 0xE2, CHR 0x86, CHR 0x92]"

definition show_int :: "int \<Rightarrow> string" where
  "show_int i = (if i < 0 then CHR ''-'' # show_dec (nat (- i)) else show_dec (nat i))"

definition sink_output :: "('m \<Rightarrow> string) \<Rightarrow> ('m, 'c, 'x) history \<Rightarrow> string" where
  "sink_output text h = concat (map (\<lambda>ev. case ev of Outbound_sink m \<Rightarrow> text m | _ \<Rightarrow> []) h)"

text \<open>An operation of the gateway, with what the sink prints meanwhile.\<close>

definition with_sink ::
  "('m \<Rightarrow> string) \<Rightarrow> ('m, 'c, 'x, 'z) GatewayBase_scheme \<Rightarrow> ('m, 'c, 'x, 'z) GatewayBase_scheme \<Rightarrow> string" where
  "with_sink text g g' = sink_output text (drop (length (gw_io g)) (gw_io g'))"


subsection \<open>mqtt_vehicle_telemetry\<close>

definition telemetry_config :: "'c MqttConfig" where
  "telemetry_config = MqttConfig_default\<lparr>
     mc_broker_uri := ''tcp://localhost:1883'', mc_client_id := ''vehicle-telemetry-gw'', mc_topic_prefix := ''vehicle'',
     mc_vin := ''WBA12345678901234'', mc_default_publish_qos := 1, mc_outbound_encoding := MQTT_JSON,
     mc_offline_buffer_capacity := 512, mc_use_mqtt_v5_request_response := True\<rparr>"

definition telemetry_speed :: ServiceMapping where
  "telemetry_speed = ServiceMapping_default\<lparr>
     someip_service_id := 0x1000, someip_instance_id := 0x0001, someip_event_group_ids := [0x0001],
     external_identifier := ''telemetry/speed'', direction := SOMEIP_TO_EXTERNAL, mode := OPAQUE\<rparr>"

definition telemetry_door_lock :: ServiceMapping where
  "telemetry_door_lock = ServiceMapping_default\<lparr>
     someip_service_id := 0x2000, someip_instance_id := 0x0001, someip_method_ids := [0x0001],
     external_identifier := ''command/door_lock'', direction := BIDIRECTIONAL\<rparr>"

definition telemetry_sink :: "'m message_api \<Rightarrow> 'm \<Rightarrow> string" where
  "telemetry_sink A msg =
     ''[Cloud'' @ arrow @ ''Vehicle] SOME/IP message: service=0x'' @ show_hex False (unat (get_service_id A msg)) @
     '' method=0x'' @ show_hex False (unat (get_method_id A msg)) @
     '' payload='' @ show_dec (length (get_payload A msg)) @ '' bytes'' @ nl"

definition telemetry_gateway :: "('m, 'c, 'x) mqtt" where
  "telemetry_gateway =
     Mqtt_set_someip_outbound_sink True
       (add_service_mapping telemetry_door_lock
          (add_service_mapping telemetry_speed (MqttGateway_new telemetry_config)))"

definition telemetry_result :: "Result \<Rightarrow> string" where
  "telemetry_result r = ''  Result: '' @ (if r = SUCCESS then ''published'' else ''buffered'') @ nl"

definition telemetry_deliver ::
  "'m message_api \<Rightarrow> ('m, 'c, 'x) env \<Rightarrow> 'm \<Rightarrow> ('m, 'c, 'x) mqtt \<times> string \<Rightarrow> (Result \<times> ('m, 'c, 'x) mqtt \<times> string) option" where
  "telemetry_deliver A E msg = (\<lambda>(g, out).
     map_option (\<lambda>(r, g'). (r, g', out @ with_sink (telemetry_sink A) g g')) (Mqtt_on_someip_message A E msg g))"

definition telemetry_notification :: "'m message_api \<Rightarrow> ('s, 'd) example_serializer \<Rightarrow> 'm" where
  "telemetry_notification A S =
     (let ser = serialize_float S 0x42F10000 (Serializer_new S);
          ser = serialize_float S 0x42407E5D ser;
          ser = serialize_float S 0x413915B5 ser
      in set_payload A (get_buffer S ser) (Message_ctor A (0x1000, 0x8001) (0x0000, 0x0001) (mt_NOTIFICATION A)))"

definition telemetry_speed_event ::
  "'m message_api \<Rightarrow> ('s, 'd) example_serializer \<Rightarrow> ('m, 'c, 'x) env \<Rightarrow> ('m, 'c, 'x) mqtt \<times> string \<Rightarrow>
   (('m, 'c, 'x) mqtt \<times> string) option" where
  "telemetry_speed_event A S E = (\<lambda>(g, out).
     let notification = telemetry_notification A S;
         topic = route_someip_to_mqtt_topic A notification (get_service_mappings g ! 0) g;
         out = out @ ''=== Vehicle Speed Event '' @ arrow @ '' MQTT ==='' @ nl @
               ''  MQTT topic: '' @ topic @ nl @
               ''  QoS: '' @ show_int (qos_for_outbound_event 0x8001 g) @ nl @
               ''  Encoding: JSON'' @ nl
     in map_option (\<lambda>(r, g, out). (g, out @ telemetry_result r)) (telemetry_deliver A E notification (g, out)))"

definition telemetry_request :: "'m message_api \<Rightarrow> ('s, 'd) example_serializer \<Rightarrow> 'm" where
  "telemetry_request A S =
     (let ser = serialize_uint8 S 1 (Serializer_new S);
          ser = serialize_string S ''lock_all'' ser
      in set_payload A (get_buffer S ser) (Message_ctor A (0x2000, 0x0001) (0x0042, 0x0001) (mt_REQUEST A)))"

definition telemetry_door_lock_rpc ::
  "'m message_api \<Rightarrow> ('s, 'd) example_serializer \<Rightarrow> ('m, 'c, 'x) env \<Rightarrow> ('m, 'c, 'x) mqtt \<times> string \<Rightarrow>
   (('m, 'c, 'x) mqtt \<times> string) option" where
  "telemetry_door_lock_rpc A S E = (\<lambda>(g, out).
     let out = out @ nl @ ''=== Door Lock RPC '' @ arrow @ '' MQTT v5 Request-Response ==='' @ nl
     in map_option (\<lambda>(r, g, out). (g, out @ telemetry_result r)) (telemetry_deliver A E (telemetry_request A S) (g, out)))"

definition telemetry_offline ::
  "'m message_api \<Rightarrow> ('m, 'c, 'x) env \<Rightarrow> ('m, 'c, 'x) mqtt \<times> string \<Rightarrow> (('m, 'c, 'x) mqtt \<times> string) option" where
  "telemetry_offline A E = (\<lambda>(g, out).
     let out = out @ nl @ ''=== Offline Buffering (connection lost) ==='' @ nl;
         g = test_set_mqtt_connected False g;
         msg = set_payload A [0x01, 0x02, 0x03] (Message_ctor A (0x1000, 0x8001) (0x0000, 0x0002) (mt_NOTIFICATION A))
     in Option.bind (telemetry_deliver A E msg (g, out)) (\<lambda>(_, g, out).
        Option.bind (telemetry_deliver A E msg (g, out)) (\<lambda>(_, g, out).
        let out = out @ ''  Buffered messages: '' @ show_dec (offline_buffer_occupancy g) @ nl
        in Option.bind (flush_offline_buffer (test_set_mqtt_connected True g)) (\<lambda>(_, g).
           Some (g, out @ ''  After flush: '' @ show_dec (offline_buffer_occupancy g) @ nl)))))"

definition telemetry_statistics ::
  "('m, 'c, 'x) env \<Rightarrow> int \<Rightarrow> ('m, 'c, 'x) mqtt \<times> string \<Rightarrow> ('m, 'c, 'x) mqtt \<times> string" where
  "telemetry_statistics E ticks_per_ms = (\<lambda>(g, out).
     let stats = get_stats g
     in (call Clock_now g, out @ nl @ ''=== Gateway Statistics ==='' @ nl @
         ''  SOME/IP '' @ arrow @ '' MQTT: '' @ show_dec (unat (messages_someip_to_external stats)) @ '' messages'' @ nl @
         ''  MQTT '' @ arrow @ '' SOME/IP: '' @ show_dec (unat (messages_external_to_someip stats)) @ '' messages'' @ nl @
         ''  Translation errors: '' @ show_dec (unat (translation_errors stats)) @ nl @
         ''  Uptime: '' @ show_int (uptime ticks_per_ms (answer_now E (gw_io g)) stats) @ '' ms'' @ nl))"

definition telemetry_banner :: "('m, 'c, 'x) mqtt \<Rightarrow> string" where
  "telemetry_banner g =
     ''MQTT Gateway '' @ [CHR 0x27] @ get_name g @ [CHR 0x27] @ '' started'' @ nl @
     ''  Broker: '' @ mc_broker_uri (telemetry_config :: 'c MqttConfig) @ nl @
     ''  VIN: '' @ mc_vin (telemetry_config :: 'c MqttConfig) @ nl @ nl"

definition telemetry_main ::
  "'m message_api \<Rightarrow> ('s, 'd) example_serializer \<Rightarrow> ('m, 'c, 'x) env \<Rightarrow> int \<Rightarrow>
   (int \<times> string \<times> ('m, 'c, 'x) mqtt) option" where
  "telemetry_main A S E ticks_per_ms =
     (let g = test_set_mqtt_connected True (snd (Mqtt_start E telemetry_gateway))
      in Option.bind (telemetry_speed_event A S E (g, telemetry_banner g)) (\<lambda>p.
         Option.bind (telemetry_door_lock_rpc A S E p) (\<lambda>p.
         Option.bind (telemetry_offline A E p) (\<lambda>p.
         let (g, out) = telemetry_statistics E ticks_per_ms p
         in Some (0, out @ nl @ ''Gateway stopped.'' @ nl, snd (Mqtt_stop E g))))))"

subsection \<open>What the telemetry program does\<close>

text \<open>The gateway after \<open>start\<close> and the marking as connected, with given counters and history.\<close>

definition telemetry_running :: "bool \<Rightarrow> BufferedMqttPublish list \<Rightarrow> u64 \<Rightarrow> u64 \<Rightarrow> int \<Rightarrow> ('m, 'c, 'x) mqtt" where
  "telemetry_running conn q n b t = telemetry_gateway\<lparr>
     gw_running := True, gw_io := [Clock_now], mq_connected := conn,
     mq_offline_buffer := \<lparr>ring_capacity = 512, ring_queue = q\<rparr>,
     gw_stats := GatewayStats_default\<lparr>messages_someip_to_external := n, bytes_someip_to_external := b, started_at := t\<rparr>\<rparr>"

lemmas telemetry_defs = telemetry_gateway_def MqttGateway_new_def add_service_mapping_def
  Mqtt_set_someip_outbound_sink_def side_set_someip_outbound_sink_def telemetry_config_def MqttConfig_default_def

lemma telemetry_started:
  "test_set_mqtt_connected True (snd (Mqtt_start E telemetry_gateway)) =
     telemetry_running True [] 0 0 (answer_now E [])"
  by (simp add: telemetry_running_def test_set_mqtt_connected_def Mqtt_start_def Mqtt_started_def set_running_def
      call_on_def call_def Let_def telemetry_defs ring_new_def GatewayStats_default_def)

lemma telemetry_mapped:
  "find_inbound_mapping 0x1000 1 (telemetry_running conn q n b t) = Some telemetry_speed"
  "find_inbound_mapping 0x2000 1 (telemetry_running conn q n b t) = Some telemetry_door_lock"
  by (simp_all add: telemetry_running_def telemetry_defs find_inbound_mapping_def find_mapping_for_service_def
      telemetry_speed_def telemetry_door_lock_def)

lemma telemetry_fields:
  "is_running (telemetry_running conn q n b t)"
  "mc_default_someip_instance_id (mq_config (telemetry_running conn q n b t)) = 1"
  "\<not> mc_use_e2e (mq_config (telemetry_running conn q n b t))"
  "mq_connected (telemetry_running conn q n b t) = conn"
  "mq_offline_buffer (telemetry_running conn q n b t) = \<lparr>ring_capacity = 512, ring_queue = q\<rparr>"
  "gw_io (telemetry_running conn q n b t) = [Clock_now]"
  by (simp_all add: telemetry_running_def is_running_def telemetry_defs)


lemma telemetry_deliver_connected:
  assumes "get_service_id A m \<in> {0x1000, 0x2000}"
  shows "\<exists>k. \<forall>out. telemetry_deliver A E m (telemetry_running True q n b t, out) =
    Some (SUCCESS, telemetry_running True q (n + 1) k t, out)"
proof -
  have fwd: "should_forward_to_external telemetry_speed" "should_forward_to_external telemetry_door_lock"
    by (simp_all add: should_forward_to_external_def telemetry_speed_def telemetry_door_lock_def)
  have rec: "record_someip_to_external l (telemetry_running True q n b t) =
      telemetry_running True q (n + 1) (b + word_of_nat l) t" for l
    by (simp add: record_someip_to_external_def telemetry_running_def)
  show ?thesis
    using assms
    by (auto simp: telemetry_deliver_def Mqtt_on_someip_message_def Mqtt_e2e_validate_def side_e2e_off telemetry_fields telemetry_mapped fwd
        publish_mqtt_def rec with_sink_def sink_output_def Let_def)
qed

lemma telemetry_deliver_offline:
  assumes "get_service_id A m = 0x1000" and "length q < 512"
  shows "\<exists>item. \<forall>out. telemetry_deliver A E m (telemetry_running False q n b t, out) =
    Some (NOT_CONNECTED, telemetry_running False (q @ [item]) n b t, out)"
proof -
  have fwd: "should_forward_to_external telemetry_speed"
    by (simp add: should_forward_to_external_def telemetry_speed_def)
  have buf: "telemetry_running False q n b t\<lparr>mq_offline_buffer := \<lparr>ring_capacity = 512, ring_queue = q'\<rparr>\<rparr> =
      telemetry_running False q' n b t" for q'
    by (simp add: telemetry_running_def)
  show ?thesis
    using assms
    by (auto simp: telemetry_mapped telemetry_deliver_def Mqtt_on_someip_message_def Mqtt_e2e_validate_def side_e2e_off telemetry_fields fwd
        publish_mqtt_def ring_push_def buf with_sink_def sink_output_def Let_def)
qed

lemma telemetry_set_connected:
  "test_set_mqtt_connected c (telemetry_running conn q n b t) = telemetry_running c q n b t"
  by (simp add: test_set_mqtt_connected_def telemetry_running_def)

lemma telemetry_flush:
  "flush_offline_buffer (telemetry_running True q n b t) = Some (SUCCESS, telemetry_running True [] n b t)"
proof -
  have "with_queue [] (telemetry_running True q n b t) = telemetry_running True [] n b t"
    by (simp add: with_queue_def telemetry_running_def)
  then show ?thesis by (simp add: flush_connected telemetry_fields)
qed

text \<open>The text the program writes, given the topic of the speed event and the uptime.\<close>

definition telemetry_transcript :: "string \<Rightarrow> int \<Rightarrow> string" where
  "telemetry_transcript topic up =
     ''MQTT Gateway '' @ [CHR 0x27] @ ''vehicle-telemetry-gw'' @ [CHR 0x27] @ '' started'' @ nl @
     ''  Broker: tcp://localhost:1883'' @ nl @ ''  VIN: WBA12345678901234'' @ nl @ nl @
     ''=== Vehicle Speed Event '' @ arrow @ '' MQTT ==='' @ nl @ ''  MQTT topic: '' @ topic @ nl @
     ''  QoS: 1'' @ nl @ ''  Encoding: JSON'' @ nl @ ''  Result: published'' @ nl @
     nl @ ''=== Door Lock RPC '' @ arrow @ '' MQTT v5 Request-Response ==='' @ nl @ ''  Result: published'' @ nl @
     nl @ ''=== Offline Buffering (connection lost) ==='' @ nl @
     ''  Buffered messages: 2'' @ nl @ ''  After flush: 0'' @ nl @
     nl @ ''=== Gateway Statistics ==='' @ nl @
     ''  SOME/IP '' @ arrow @ '' MQTT: 2 messages'' @ nl @ ''  MQTT '' @ arrow @ '' SOME/IP: 0 messages'' @ nl @
     ''  Translation errors: 0'' @ nl @ ''  Uptime: '' @ show_int up @ '' ms'' @ nl @
     nl @ ''Gateway stopped.'' @ nl"

lemma telemetry_ids: "hex4 False 0x1000 = ''1000''" "hex4 False 1 = ''0001''" "hex4 False 0x8001 = ''8001''"
proof -
  have "hex_digit False 1 = CHR ''1''" "hex_digit False (Suc 0) = CHR ''1''" "hex_digit False 8 = CHR ''8''" by code_simp+
  then show "hex4 False 0x1000 = ''1000''" "hex4 False 1 = ''0001''" "hex4 False 0x8001 = ''8001''"
    by (simp_all add: hex4_nibbles nibbles_def hex_digit_0)
qed

definition telemetry_topic :: "bool \<Rightarrow> string" where
  "telemetry_topic req = ''vehicle/WBA12345678901234/someip/0x1000/0x0001/'' @
     (if req then ''method/0x8001/request'' else ''event/0x8001'')"

lemma telemetry_route:
  assumes "message_laws A"
  shows "route_someip_to_mqtt_topic A (telemetry_notification A S)
      (get_service_mappings (telemetry_running conn q n b t) ! 0) (telemetry_running conn q n b t) =
    telemetry_topic (is_request A (telemetry_notification A S))"
proof -
  have "get_method_id A (telemetry_notification A S) = 0x8001"
    using assms by (simp add: telemetry_notification_def Let_def)
  then show ?thesis
    by (simp add: route_someip_to_mqtt_topic_def telemetry_running_def telemetry_defs get_service_mappings_def telemetry_speed_def
        build_mqtt_topic_def telemetry_ids telemetry_topic_def)
qed

lemma telemetry_texts:
  "telemetry_result SUCCESS = ''  Result: published'' @ nl"
  "show_int (qos_for_outbound_event e (telemetry_running conn q n b t)) = ''1''"
  "telemetry_banner (telemetry_running conn q n b t) =
     ''MQTT Gateway '' @ [CHR 0x27] @ ''vehicle-telemetry-gw'' @ [CHR 0x27] @ '' started'' @ nl @
     ''  Broker: tcp://localhost:1883'' @ nl @ ''  VIN: WBA12345678901234'' @ nl @ nl"
proof -
  have "show_int 1 = ''1''" by code_simp
  then show "show_int (qos_for_outbound_event e (telemetry_running conn q n b t)) = ''1''"
    by (simp add: qos_for_outbound_event_def telemetry_running_def telemetry_defs)
qed (simp_all add: telemetry_result_def telemetry_banner_def get_name_def telemetry_running_def telemetry_defs)

lemma telemetry_counts:
  "get_stats (telemetry_running conn q n b t) =
     GatewayStats_default\<lparr>messages_someip_to_external := n, bytes_someip_to_external := b, started_at := t\<rparr>"
  "offline_buffer_occupancy (telemetry_running conn q n b t) = length q"
  "show_dec 2 = ''2''" "show_dec 0 = ''0''" "show_dec (Suc (Suc 0)) = ''2''"
  by (simp_all add: get_stats_def telemetry_running_def offline_buffer_occupancy_def ring_size_def)
    (code_simp+)

lemma telemetry_stopped:
  "snd (Mqtt_stop E (call Clock_now (telemetry_running conn q n b t))) =
     (telemetry_running conn q n b t)\<lparr>gw_running := False, gw_io := [Clock_now, Clock_now], mq_stop_reconnect := True\<rparr>"
  by (simp add: Mqtt_stop_def set_running_def Let_def call_on_def call_def telemetry_running_def telemetry_defs)

text \<open>C39: The MQTT example program returns 0 for every behaviour of the opensomeip library and writes a fixed text up to the
  topic of the speed event and the uptime: both messages sent while connected are published, the two sent without a connection are
  buffered, and the flush empties the buffer. The four messages that left through the gateway show up as two in the statistics:
  the flush does not count what it publishes. The program leaves the gateway stopped and made no call on a library
  object but to read the clock.\<close>

theorem telemetry_example_runs:
  assumes "message_laws A"
  shows "\<exists>up g. telemetry_main A S E ticks =
      Some (0, telemetry_transcript
             (telemetry_topic (is_request A (telemetry_notification A S))) up, g) \<and>
    \<not> is_running g \<and> gw_io g = [Clock_now, Clock_now] \<and> offline_buffer_occupancy g = 0"
proof -
  let ?n = "telemetry_notification A S" and ?r = "telemetry_request A S"
  define t where "t = answer_now E []"
  let ?m = "set_payload A [0x01, 0x02, 0x03] (Message_ctor A (0x1000, 0x8001) (0x0000, 0x0002) (mt_NOTIFICATION A))"
  have sid: "get_service_id A ?n = 0x1000" "get_method_id A ?n = 0x8001" "get_service_id A ?r = 0x2000" "get_service_id A ?m = 0x1000"
    using assms by (simp_all add: telemetry_notification_def telemetry_request_def Let_def)
  obtain k1 where d1: "\<forall>out. telemetry_deliver A E ?n (telemetry_running True [] 0 0 t, out) =
      Some (SUCCESS, telemetry_running True [] 1 k1 t, out)"
    using telemetry_deliver_connected [of A ?n E "[]" 0 0 t] sid(1) by auto
  obtain k2 where d2: "\<forall>out. telemetry_deliver A E ?r (telemetry_running True [] 1 k1 t, out) =
      Some (SUCCESS, telemetry_running True [] 2 k2 t, out)"
    using telemetry_deliver_connected [of A ?r E "[]" 1 k1 t] sid(3) by auto
  obtain i1 where d3: "\<forall>out. telemetry_deliver A E ?m (telemetry_running False [] 2 k2 t, out) =
      Some (NOT_CONNECTED, telemetry_running False [i1] 2 k2 t, out)"
    using telemetry_deliver_offline [of A ?m "[]" E 2 k2 t] sid(4) by auto
  obtain i2 where d4: "\<forall>out. telemetry_deliver A E ?m (telemetry_running False [i1] 2 k2 t, out) =
      Some (NOT_CONNECTED, telemetry_running False [i1, i2] 2 k2 t, out)"
    using telemetry_deliver_offline [of A ?m "[i1]" E 2 k2 t] sid(4) by auto
  define up where "up = uptime ticks (answer_now E [Clock_now]) (GatewayStats_default\<lparr>messages_someip_to_external := 2,
      bytes_someip_to_external := k2, started_at := t\<rparr>)"
  have "telemetry_main A S E ticks = Some (0, telemetry_transcript (telemetry_topic (is_request A ?n)) up,
      snd (Mqtt_stop E (call Clock_now (telemetry_running True [] 2 k2 t))))"
    by (simp add: telemetry_main_def telemetry_started telemetry_speed_event_def telemetry_door_lock_rpc_def telemetry_offline_def
        telemetry_statistics_def Let_def d1 d2 d3 d4 telemetry_set_connected telemetry_flush telemetry_route [OF assms]
        telemetry_texts telemetry_counts telemetry_fields telemetry_transcript_def GatewayStats_default_def up_def flip: t_def)
  then show ?thesis
    by (intro exI conjI) (assumption | simp add: telemetry_stopped is_running_def offline_buffer_occupancy_def
        ring_size_def telemetry_fields)+
qed


text \<open>The reference serializer, with floats written like 32-bit integers.\<close>

definition ref_example_serializer :: "(bytes, cursor) example_serializer" where
  "ref_example_serializer = serializer_api.extend ref_serializer
     (example_serializer.fields (\<lambda>v s. serialize_uint32 ref_serializer v s) (get_buffer ref_serializer))"

theorem telemetry_example_runs_witness:
  "\<exists>up (g :: (ref_message, unit, unit) mqtt). telemetry_main ref_api ref_example_serializer ref_env 1000 =
      Some (0, telemetry_transcript (telemetry_topic (is_request ref_api (telemetry_notification ref_api ref_example_serializer))) up, g)"
  using telemetry_example_runs [OF ref_api_laws, of ref_example_serializer "ref_env :: (ref_message, unit, unit) env" 1000] by blast


subsection \<open>ros2_adas_bridge\<close>

definition kSpeedService :: u16 where "kSpeedService = 0x6001"
definition kSteerService :: u16 where "kSteerService = 0x6002"
definition kSpeedEvent :: u16 where "kSpeedEvent = 0x8001"
definition kSteerEvent :: u16 where "kSteerEvent = 0x8002"
definition kSteerMethod :: u16 where "kSteerMethod = 0x0001"

definition adas_config :: "'c Ros2Config" where
  "adas_config = Ros2Config_default\<lparr>
     rc_node_name := ''ros2_adas_bridge'', rc_ros_namespace := ''/vehicle'', rc_topic_prefix := ''someip'',
     rc_rpc_client_id := 0x7101, rc_enable_event_subscriber := True, rc_default_someip_transport := UDP_UNICAST\<rparr>"

definition adas_speed_out :: ServiceMapping where
  "adas_speed_out = ServiceMapping_default\<lparr>
     someip_service_id := kSpeedService, someip_instance_id := 0x0001,
     external_identifier := ''/vehicle/adas/speed_ms'', direction := SOMEIP_TO_EXTERNAL\<rparr>"

definition adas_steer_out :: ServiceMapping where
  "adas_steer_out = ServiceMapping_default\<lparr>
     someip_service_id := kSteerService, someip_instance_id := 0x0001,
     external_identifier := ''/vehicle/adas/steering_deg'', direction := SOMEIP_TO_EXTERNAL\<rparr>"

definition adas_steer_cmd :: ServiceMapping where
  "adas_steer_cmd = ServiceMapping_default\<lparr>
     someip_service_id := kSteerService, someip_instance_id := 0x0001,
     external_identifier := ''/vehicle/adas/steering_command'', someip_method_ids := [kSteerMethod],
     direction := EXTERNAL_TO_SOMEIP\<rparr>"

definition adas_gateway :: "('m, 'c) Ros2Gateway" where
  "adas_gateway =
     add_service_mapping adas_steer_cmd
       (add_service_mapping adas_steer_out (add_service_mapping adas_speed_out (Ros2Gateway_new adas_config)))"

text \<open>The function \<open>serialize_float\<close> of the file.\<close>

definition adas_serialize_float :: "('s, 'd) example_serializer \<Rightarrow> u32 \<Rightarrow> bytes" where
  "adas_serialize_float S v = move_buffer S (serialize_float S v (Serializer_new S))"

text \<open>
  The speed is a multiple of 0.25 up to 40.25, which a float holds exactly: it is kept as the number of quarters, and
  \<open>float_quarters\<close> is its bit pattern. The steering angle \<open>5.F * std::sin(speed * 0.05F)\<close> is rounded by the
  implementation and is a parameter, as a function of the speed.
\<close>

fun top_bit :: "nat \<Rightarrow> nat" where
  "top_bit n = (if n < 2 then 0 else Suc (top_bit (n div 2)))"

declare top_bit.simps [simp del]

definition float_quarters :: "nat \<Rightarrow> u32" where
  "float_quarters k =
     (if k = 0 then 0
      else let e = top_bit k in word_of_nat ((125 + e) * 2 ^ 23 + (k - 2 ^ e) * 2 ^ (23 - e)))"

record ('m, 'c) adas_state =
  adas_gw :: "('m, 'c) Ros2Gateway"
  adas_speed :: nat
  adas_demo :: "(string \<times> bytes) list"

definition adas_message :: "'m message_api \<Rightarrow> u16 \<times> u16 \<Rightarrow> u16 \<times> u16 \<Rightarrow> bytes \<Rightarrow> 'm" where
  "adas_message A ids req pl = set_payload A pl (Message_ctor_rc A ids req (mt_NOTIFICATION A) (rc_E_OK A))"

text \<open>The timer callback; \<open>adas_demo\<close> collects what the two publishers of the demo node publish.\<close>

definition adas_tick ::
  "'m message_api \<Rightarrow> ('s, 'd) example_serializer \<Rightarrow> ('m, 'c) ros_env \<Rightarrow> (nat \<Rightarrow> u32) \<Rightarrow> ('m, 'c) adas_state \<Rightarrow>
   ('m, 'c) adas_state" where
  "adas_tick A S E steer_of st =
     (let speed = (if adas_speed st + 1 > 160 then 0 else adas_speed st + 1);
          speed_bytes = adas_serialize_float S (float_quarters speed);
          steer_bytes = adas_serialize_float S (steer_of speed);
          speed_msg = adas_message A (kSpeedService, kSpeedEvent) (0x0001, 0x0001) speed_bytes;
          steer_msg = adas_message A (kSteerService, kSteerEvent) (0x0001, 0x0002) steer_bytes;
          g1 = snd (Ros2_on_someip_message A E speed_msg (adas_gw st));
          g2 = snd (Ros2_on_someip_message A E steer_msg g1)
      in st\<lparr>adas_gw := g2, adas_speed := speed,
            adas_demo := adas_demo st @ [(''/vehicle/adas/speed_ms'', speed_bytes), (''/vehicle/adas/steering_deg'', steer_bytes)]\<rparr>)"

text \<open>
  The loop of \<open>main\<close>. An observation is what one evaluation of the loop condition sees (\<open>g_run\<close>, which the signal handler
  clears, and \<open>rclcpp::ok()\<close>) and how often the timer fires in the \<open>spin_some\<close> of that round. \<open>None\<close>: the
  observations end before the loop does.
\<close>

record adas_observation =
  obs_run :: bool
  obs_ok :: bool
  obs_fired :: nat

fun adas_loop :: "('s \<Rightarrow> 's) \<Rightarrow> adas_observation list \<Rightarrow> 's \<Rightarrow> 's option" where
  "adas_loop tick [] st = None"
| "adas_loop tick (ob # obs) st =
     (if obs_run ob \<and> obs_ok ob then adas_loop tick obs ((tick ^^ obs_fired ob) st) else Some st)"

definition adas_main ::
  "'m message_api \<Rightarrow> ('s, 'd) example_serializer \<Rightarrow> ('m, 'c) ros_env \<Rightarrow> (nat \<Rightarrow> u32) \<Rightarrow> u16 list \<Rightarrow> u64 list \<Rightarrow>
   adas_observation list \<Rightarrow> (int \<times> string \<times> string \<times> ('m, 'c) adas_state) option" where
  "adas_main A S E steer_of servers publishers obs =
     (let (r, g) = Ros2_start E servers publishers adas_gateway
      in if r \<noteq> SUCCESS
         then Some (1, [], ''gateway.start() failed'' @ nl, \<lparr>adas_gw = g, adas_speed = 0, adas_demo = []\<rparr>)
         else let out = ''ros2_adas_bridge running; Ctrl+C to exit.'' @ nl @
                    ''SOME/IP '' @ arrow @ '' ROS: inject via gateway; demo also publishes parallel float topics.'' @ nl
              in map_option
                   (\<lambda>st. (0, out, [], st\<lparr>adas_gw := snd (Ros2_stop E servers publishers (adas_gw st))\<rparr>))
                   (adas_loop (adas_tick A S E steer_of) obs \<lparr>adas_gw = g, adas_speed = 0, adas_demo = []\<rparr>))"


subsection \<open>What the ADAS program does\<close>

definition adas_ready :: "('m, 'c) Ros2Gateway \<Rightarrow> bool" where
  "adas_ready g \<longleftrightarrow> gw_running g \<and> r2_config g = adas_config \<and> \<not> r2_publish_callback g \<and>
     gw_service_mappings g = [adas_speed_out, adas_steer_out, adas_steer_cmd]"

lemma adas_deliver:
  assumes "message_laws A" and "adas_ready g" and "fst ids \<in> {kSpeedService, kSteerService}"
    and "Ros2_on_someip_message A E (adas_message A ids req pl) g = (r, g')"
  shows "adas_ready g' \<and> r2_node g' = r2_node g \<and>
    gw_stats g' = run_fetch_adds (steps_someip_to_external (length pl)) (gw_stats g) \<and>
    ros_published (gw_io g') = ros_published (gw_io g) @ (if r2_node g then [pl] else [])"
proof -
  obtain mp where mp: "find_inbound_mapping (fst ids) 1 g = Some mp" "should_forward_to_external mp"
    using assms(2,3)
    by (auto simp: adas_ready_def find_inbound_mapping_def find_mapping_for_service_def should_forward_to_external_def
        adas_speed_out_def adas_steer_out_def kSpeedService_def kSteerService_def)
  have ids: "get_service_id A (adas_message A ids req pl) = fst ids" "get_payload A (adas_message A ids req pl) = pl"
    using assms(1) by (cases ids; cases req; simp add: adas_message_def)+
  have cfg: "rc_default_someip_instance_id (r2_config g) = 1" "\<not> rc_use_e2e (r2_config g)" "is_running g"
    using assms(2) by (simp_all add: adas_ready_def adas_config_def Ros2Config_default_def is_running_def)
  from assms(4) obtain t q where g': "g' = record_someip_to_external (length pl) (publish_to_ros2_side E t q pl g)"
    by (simp add: Ros2_on_someip_message_def ids cfg mp side_e2e_off convert_someip_to_ros2_bytes_def Let_def) blast
  show ?thesis
    using assms(2) unfolding g' record_by_steps(1)
    by (auto simp: publish_to_ros2_side_def Ros2_impl_publish_def emit_ros2_publish_def adas_ready_def call_def Let_def
        split: option.split)
qed

text \<open>What the timer has published after its first \<open>k\<close> rounds.\<close>

definition adas_round :: "('s, 'd) example_serializer \<Rightarrow> (nat \<Rightarrow> u32) \<Rightarrow> nat \<Rightarrow> (string \<times> bytes) list" where
  "adas_round S steer_of i =
     (let speed = Suc i mod 161
      in [(''/vehicle/adas/speed_ms'', adas_serialize_float S (float_quarters speed)),
          (''/vehicle/adas/steering_deg'', adas_serialize_float S (steer_of speed))])"

definition adas_after ::
  "('s, 'd) example_serializer \<Rightarrow> (nat \<Rightarrow> u32) \<Rightarrow> bool \<Rightarrow> nat \<Rightarrow> ('m, 'c) adas_state \<Rightarrow> bool" where
  "adas_after S steer_of node k st \<longleftrightarrow>
     adas_ready (adas_gw st) \<and> r2_node (adas_gw st) = node \<and> adas_speed st = k mod 161 \<and>
     adas_demo st = concat (map (adas_round S steer_of) [0..<k]) \<and>
     messages_someip_to_external (gw_stats (adas_gw st)) = word_of_nat (2 * k) \<and>
     translation_errors (gw_stats (adas_gw st)) = 0 \<and>
     ros_published (gw_io (adas_gw st)) = (if node then map snd (adas_demo st) else [])"

lemma adas_tick_after:
  assumes "message_laws A" and "adas_after S steer_of node k st"
  shows "adas_after S steer_of node (Suc k) (adas_tick A S E steer_of st)"
proof -
  have sp: "(if adas_speed st + 1 > 160 then 0 else adas_speed st + 1) = Suc k mod 161"
    using assms(2) mod_less_divisor [of 161 k] by (auto simp: adas_after_def mod_Suc)
  let ?sb = "adas_serialize_float S (float_quarters (Suc k mod 161))" and ?tb = "adas_serialize_float S (steer_of (Suc k mod 161))"
  let ?m1 = "adas_message A (kSpeedService, kSpeedEvent) (0x0001, 0x0001) ?sb"
  let ?m2 = "adas_message A (kSteerService, kSteerEvent) (0x0001, 0x0002) ?tb"
  obtain r1 g1 where 1: "Ros2_on_someip_message A E ?m1 (adas_gw st) = (r1, g1)" by fastforce
  obtain r2 g2 where 2: "Ros2_on_someip_message A E ?m2 g1 = (r2, g2)" by fastforce
  have rdy: "adas_ready (adas_gw st)" using assms(2) by (simp add: adas_after_def)
  note d1 = adas_deliver [OF assms(1) rdy _ 1]
  then have "adas_ready g1" by simp
  note d2 = adas_deliver [OF assms(1) this _ 2]
  have st': "adas_tick A S E steer_of st = st\<lparr>adas_gw := g2, adas_speed := Suc k mod 161,
      adas_demo := adas_demo st @ adas_round S steer_of k\<rparr>"
    unfolding adas_tick_def sp Let_def 1 2 by (simp add: 1 2 adas_round_def Let_def)
  show ?thesis
    using d1 d2 assms(2)
    by (auto simp: st' adas_after_def adas_round_def Let_def run_fetch_adds_def steps_someip_to_external_def)
qed

lemma adas_ticks_after:
  assumes "message_laws A" and "adas_after S steer_of node k st"
  shows "adas_after S steer_of node (k + n) ((adas_tick A S E steer_of ^^ n) st)"
  by (induction n) (simp_all add: assms(2) adas_tick_after [OF assms(1)])

definition adas_ticks :: "adas_observation list \<Rightarrow> nat" where
  "adas_ticks obs = sum_list (map obs_fired (takeWhile (\<lambda>ob. obs_run ob \<and> obs_ok ob) obs))"

lemma adas_loop_after:
  assumes "message_laws A" and "adas_after S steer_of node k st"
  shows "if list_all (\<lambda>ob. obs_run ob \<and> obs_ok ob) obs then adas_loop (adas_tick A S E steer_of) obs st = None
    else \<exists>st'. adas_loop (adas_tick A S E steer_of) obs st = Some st' \<and> adas_after S steer_of node (k + adas_ticks obs) st'"
  using assms(2)
proof (induction obs arbitrary: k st)
  case (Cons ob obs)
  from Cons.IH [OF adas_ticks_after [OF assms(1) Cons.prems, of "obs_fired ob" E]] Cons.prems show ?case
    by (auto simp: adas_ticks_def ac_simps)
qed simp

lemma Ros2_impl_start_keeps:
  "gw_stats (Ros2_impl_start E g) = gw_stats g \<and> r2_config (Ros2_impl_start E g) = r2_config g \<and>
   r2_publish_callback (Ros2_impl_start E g) = r2_publish_callback g \<and>
   gw_service_mappings (Ros2_impl_start E g) = gw_service_mappings g \<and>
   ros_published (gw_io (Ros2_impl_start E g)) = ros_published (gw_io g)"
proof -
  have "gw_stats (fold Ros2_add_subscription ms g) = gw_stats g \<and> r2_config (fold Ros2_add_subscription ms g) = r2_config g \<and>
     r2_publish_callback (fold Ros2_add_subscription ms g) = r2_publish_callback g \<and>
     gw_service_mappings (fold Ros2_add_subscription ms g) = gw_service_mappings g \<and>
     ros_published (gw_io (fold Ros2_add_subscription ms g)) = ros_published (gw_io g)" for ms and g :: "('a, 'b) Ros2Gateway"
    by (induction ms arbitrary: g) (simp_all add: Ros2_add_subscription_def call_def Let_def)
  then show ?thesis by (simp add: Ros2_impl_start_def call_def Let_def)
qed

lemma call_table_empty: "call_table f order Map.empty g = g"
  by (induction order arbitrary: g) (simp_all add: call_table_def)

lemma adas_no_udp: "\<not> rc_enable_udp_transport (r2_config adas_gateway)" "side_udp_transport adas_gateway = None"
  by (simp_all add: adas_gateway_def adas_config_def Ros2Config_default_def Ros2Gateway_new_def add_service_mapping_def)

lemma ros_published_calls_on: "(\<And>h. ros_data (f h) = None) \<Longrightarrow> ros_published (calls_on f p) = []"
  by (simp add: calls_on_def split: option.split)

lemma ros_published_table_calls: "(\<And>h. ros_data (f h) = None) \<Longrightarrow> ros_published (table_calls f order tbl) = []"
  by (induction order) (simp_all add: table_calls_def ros_published_calls_on split: option.split)

lemma Ros2_stop_keeps:
  "gw_stats (snd (Ros2_stop E sv pb g)) = gw_stats g \<and> \<not> is_running (snd (Ros2_stop E sv pb g)) \<and>
   ros_published (gw_io (snd (Ros2_stop E sv pb g))) = ros_published (gw_io g)"
  by (simp add: Ros2_stop_def Ros2_impl_stop_def set_running_def is_running_def Let_def call_on_eq call_table_eq
      ros_published_calls_on ros_published_table_calls)

lemma adas_prepared:
  "\<exists>g8. Ros2_started E sv pb adas_gateway = set_running E True (Ros2_impl_start E g8) \<and>
    gw_stats g8 = GatewayStats_default \<and> r2_config g8 = adas_config \<and> \<not> r2_publish_callback g8 \<and>
    ros_published (gw_io g8) = [] \<and> gw_service_mappings g8 = [adas_speed_out, adas_steer_out, adas_steer_cmd]"
  unfolding Ros2_started_def Let_def
  by (intro exI conjI, rule refl) (simp_all add: adas_gateway_def Ros2Gateway_new_def add_service_mapping_def
        Ros2_create_rpc_client_def Ros2_create_sd_def call_table_empty side_ensure_event_subscriber_def adas_config_def
        Ros2Config_default_def call_on_def call_def Let_def)

lemma adas_started:
  assumes "Ros2_start E sv pb adas_gateway = (r, g)"
  shows "r = SUCCESS \<and> adas_after S steer_of (r2_node g) 0 \<lparr>adas_gw = g, adas_speed = 0, adas_demo = []\<rparr>"
proof -
  from assms have r: "r = SUCCESS" and g: "g = Ros2_started E sv pb adas_gateway"
    by (simp_all add: Ros2_start_def adas_no_udp)
  from adas_prepared [of E sv pb] obtain g8 where g8: "g = set_running E True (Ros2_impl_start E g8)" "gw_stats g8 = GatewayStats_default"
    "r2_config g8 = adas_config" "\<not> r2_publish_callback g8" "ros_published (gw_io g8) = []"
    "gw_service_mappings g8 = [adas_speed_out, adas_steer_out, adas_steer_cmd]"
    unfolding g by blast
  show ?thesis
    using g8 Ros2_impl_start_keeps [of E g8]
    by (simp add: r adas_after_def adas_ready_def set_running_def call_def Let_def GatewayStats_default_def)
qed





subsection \<open>dds_adaptive_bridge\<close>

definition bridge_config :: "'c DdsConfig" where
  "bridge_config = DdsConfig_default\<lparr>
     dd_domain_id := 0, dd_participant_name := ''dds-adaptive-bridge'', dd_rpc_client_id := 0x7200,
     dd_someip := (dd_someip (DdsConfig_default :: 'c DdsConfig))\<lparr>ds_default_someip_instance_id := 0x0001\<rparr>\<rparr>"

definition bridge_vehicle_svc :: ServiceMapping where
  "bridge_vehicle_svc = ServiceMapping_default\<lparr>
     someip_service_id := 0x6001, someip_instance_id := 0x0001, someip_method_ids := [0x0001, 0x0002],
     someip_event_group_ids := [0x0001], external_identifier := [], direction := BIDIRECTIONAL, mode := OPAQUE\<rparr>"

definition bridge_gateway :: "('m, 'c) DdsGateway" where
  "bridge_gateway = Dds_set_someip_outbound_sink True (add_service_mapping bridge_vehicle_svc (DdsGateway_new bridge_config))"

definition bridge_sink :: "'m message_api \<Rightarrow> 'm \<Rightarrow> string" where
  "bridge_sink A m =
     ''  DDS '' @ arrow @ '' SOME/IP inbound: service=0x'' @ show_hex False (unat (get_service_id A m)) @
     '' method=0x'' @ show_hex False (unat (get_method_id A m)) @
     '' payload_bytes='' @ show_dec (length (get_payload A m)) @ nl"

text \<open>
  The reader thread runs beside \<open>main\<close>. \<open>bridge_reader\<close> is a number of its passes between two blocks of \<open>main\<close>, with the
  text the sink prints for the samples it delivers.
\<close>

definition bridge_reader ::
  "'m message_api \<Rightarrow> (int \<Rightarrow> ('m, 'c, dds_call) history \<Rightarrow> int \<times> taken_sample option list) \<Rightarrow> string list \<Rightarrow> nat \<Rightarrow>
   ('m, 'c) DdsGateway \<times> string \<Rightarrow> ('m, 'c) DdsGateway \<times> string" where
  "bridge_reader A tk order n = (\<lambda>(g, out).
     let g' = (Dds_reader_pass A tk order ^^ n) g in (g', out @ with_sink (bridge_sink A) g g'))"

definition bridge_result :: "string \<Rightarrow> Result \<Rightarrow> string" where
  "bridge_result what r = ''  '' @ what @ '' result: '' @ (if r = SUCCESS then ''OK'' else ''error'') @ nl"

definition bridge_event ::
  "'m message_api \<Rightarrow> ('s, 'd) example_serializer \<Rightarrow> ('m, 'c) dds_env \<Rightarrow> ('m, 'c) DdsGateway \<times> string \<Rightarrow>
   Result \<times> ('m, 'c) DdsGateway \<times> string" where
  "bridge_event A S E = (\<lambda>(g, out).
     let notification = set_payload A (get_buffer S (serialize_float S 0x42B10000 (Serializer_new S)))
           (Message_ctor_rc A (0x6001, 0x8001) (0x0000, 0x0001) (mt_NOTIFICATION A) (rc_E_OK A));
         (r, g') = Dds_on_someip_message A E notification g
     in (r, g', out @ ''=== SOME/IP event (Classic) '' @ arrow @ '' DDS ==='' @ nl @
           with_sink (bridge_sink A) g g' @ bridge_result ''Publish'' r))"

definition bridge_request ::
  "'m message_api \<Rightarrow> ('s, 'd) example_serializer \<Rightarrow> ('m, 'c) dds_env \<Rightarrow> ('m, 'c) DdsGateway \<times> string \<Rightarrow>
   Result \<times> ('m, 'c) DdsGateway \<times> string" where
  "bridge_request A S E = (\<lambda>(g, out).
     let request = set_payload A (get_buffer S (serialize_uint16 S 3 (Serializer_new S)))
           (Message_ctor_rc A (0x6001, 0x0001) (0x0042, 0x0003) (mt_REQUEST A) (rc_E_OK A));
         (r, g') = Dds_on_someip_message A E request g
     in (r, g', out @ nl @ ''=== SOME/IP RPC request '' @ arrow @ '' DDS ==='' @ nl @
           with_sink (bridge_sink A) g g' @ bridge_result ''Forward'' r))"

definition bridge_inject ::
  "'m message_api \<Rightarrow> ('m, 'c) DdsGateway \<times> string \<Rightarrow> ('m, 'c) DdsGateway \<times> string" where
  "bridge_inject A = (\<lambda>(g, out).
     let g' = snd (inject_dds_sample A [] [0x01, 0x02, 0x03] 0x6001 0x0001 0x0002 (mt_RESPONSE A) g)
     in (g', out @ nl @ ''=== DDS sample '' @ arrow @ '' SOME/IP sink (inject) ==='' @ nl @ with_sink (bridge_sink A) g g'))"

definition bridge_statistics :: "('m, 'c) DdsGateway \<Rightarrow> string" where
  "bridge_statistics g =
     (let stats = get_stats g
      in nl @ ''=== Statistics ==='' @ nl @
         ''  SOME/IP '' @ arrow @ '' DDS messages: '' @ show_dec (unat (messages_someip_to_external stats)) @ nl @
         ''  DDS '' @ arrow @ '' SOME/IP messages: '' @ show_dec (unat (messages_external_to_someip stats)) @ nl)"

text \<open>The exit code, standard output, error output and the gateway at the end.\<close>

definition bridge_main ::
  "'m message_api \<Rightarrow> ('s, 'd) example_serializer \<Rightarrow> ('m, 'c) dds_env \<Rightarrow>
   (int \<Rightarrow> ('m, 'c, dds_call) history \<Rightarrow> int \<times> taken_sample option list) \<Rightarrow> string list \<Rightarrow> nat \<times> nat \<times> nat \<times> nat \<Rightarrow>
   int \<times> string \<times> string \<times> ('m, 'c) DdsGateway" where
  "bridge_main A S E tk order = (\<lambda>(n1, n2, n3, n4).
     let (r, g) = Dds_start E bridge_gateway
     in if r \<noteq> SUCCESS
        then (1, [], ''Failed to start DDS gateway (is Cyclone DDS installed and configured?)'' @ nl, g)
        else let out = ''SOME/IP '' @ [CHR 0xE2, CHR 0x86, CHR 0x94] @ '' DDS bridge running (domain '' @
                   show_int (sint (dd_domain_id (bridge_config :: 'c DdsConfig))) @ '')'' @ nl @ nl;
                 (r1, p1) = bridge_event A S E (bridge_reader A tk order n1 (g, out));
                 (r2, p2) = bridge_request A S E (bridge_reader A tk order n2 p1);
                 (g4, out4) = bridge_reader A tk order n4 (bridge_inject A (bridge_reader A tk order n3 p2))
             in (0, out4 @ bridge_statistics g4, [], snd (Dds_stop E g4)))"


subsection \<open>What the DDS program does\<close>

lemma sink_output_simps [simp]:
  "sink_output text [] = []" "sink_output text (h @ h') = sink_output text h @ sink_output text h'"
  "sink_output text (Outbound_sink m # h) = text m @ sink_output text h"
  "sink_output text (External c # h) = sink_output text h" "sink_output text (E2e_validate m' cf # h) = sink_output text h"
  by (simp_all add: sink_output_def)

definition bridge_ready :: "('m, 'c) DdsGateway \<Rightarrow> bool" where
  "bridge_ready g \<longleftrightarrow> gw_running g \<and> gw_service_mappings g = [bridge_vehicle_svc] \<and> dd_config g = bridge_config \<and>
     side_outbound_sink g"

text \<open>What happens to a running example gateway: \<open>k\<close> messages are counted as forwarded, the messages \<open>ms\<close> reach the sink and are
  counted as inbound, and nothing else is handed to it.\<close>

definition bridge_moves :: "nat \<Rightarrow> 'm list \<Rightarrow> ('m, 'c) DdsGateway \<Rightarrow> ('m, 'c) DdsGateway \<Rightarrow> bool" where
  "bridge_moves k ms g g' \<longleftrightarrow>
     (bridge_ready g \<longrightarrow> bridge_ready g' \<and>
        messages_someip_to_external (gw_stats g') = messages_someip_to_external (gw_stats g) + word_of_nat k \<and>
        messages_external_to_someip (gw_stats g') = messages_external_to_someip (gw_stats g) + word_of_nat (length ms) \<and>
        (\<exists>h. gw_io g' = gw_io g @ h \<and> (\<forall>text. sink_output text h = concat (map text ms))))"

lemma bridge_moves_refl: "bridge_moves 0 [] g g"
  by (auto simp: bridge_moves_def)

lemma bridge_moves_trans:
  "bridge_moves k ms g g1 \<Longrightarrow> bridge_moves k' ms' g1 g2 \<Longrightarrow> bridge_moves (k + k') (ms @ ms') g g2"
  by (fastforce simp: bridge_moves_def)

lemma bridge_moves_ready: "bridge_moves k ms g g' \<Longrightarrow> bridge_ready g \<Longrightarrow> bridge_ready g'"
  by (simp add: bridge_moves_def)

lemma bridge_moves_output: "bridge_moves k ms g g' \<Longrightarrow> bridge_ready g \<Longrightarrow> with_sink text g g' = concat (map text ms)"
  by (auto simp: bridge_moves_def with_sink_def)

lemma bridge_moves_deliver: "bridge_moves 0 [m] g (deliver_inbound_from_dds m n g)"
  by (auto simp: bridge_moves_def deliver_inbound_from_dds_def emit_to_sink_def record_external_to_someip_def call_def
      bridge_ready_def)

lemma bridge_moves_call: "bridge_moves 0 [] g (call (External c) g)"
  by (auto simp: bridge_moves_def call_def bridge_ready_def)

lemma bridge_moves_fold:
  assumes "\<And>x g. \<exists>ms. bridge_moves 0 ms g (f x g)"
  shows "\<exists>ms. bridge_moves 0 ms g (fold f xs g)"
proof (induction xs arbitrary: g)
  case Nil
  then show ?case by (auto intro: bridge_moves_refl)
next
  case (Cons x xs)
  from assms [of g x] Cons.IH [of "f x g"] show ?case
    using bridge_moves_trans [of 0 _ g "f x g" 0] by auto
qed

lemma bridge_moves_pass: "\<exists>ms. bridge_moves 0 ms g (Dds_reader_pass A tk order g)"
proof -
  have smp: "\<exists>ms. bridge_moves 0 ms g (Dds_inbound_sample A s g)" for s g
    by (auto simp: Dds_inbound_sample_def Let_def split_beta intro: bridge_moves_refl bridge_moves_deliver split: option.split)
  have "\<exists>ms. bridge_moves 0 ms g (call (External c) (fold (Dds_inbound_sample A) ss g))" for c ss g
    using bridge_moves_fold [of "Dds_inbound_sample A" g ss, OF smp] bridge_moves_trans [OF _ bridge_moves_call, of 0] by fastforce
  then have "\<exists>ms. bridge_moves 0 ms g (Dds_reader_take A tk topic g)" for topic g
    by (auto simp: Dds_reader_take_def Let_def split_beta intro: bridge_moves_refl split: option.split)
  from bridge_moves_fold [of "Dds_reader_take A tk", OF this] obtain ms
    where "bridge_moves 0 ms g (fold (Dds_reader_take A tk) order g)" by blast
  from bridge_moves_trans [OF this bridge_moves_call] show ?thesis
    by (auto simp: Dds_reader_pass_def intro: bridge_moves_refl)
qed

lemma bridge_moves_passes: "\<exists>ms. bridge_moves 0 ms g ((Dds_reader_pass A tk order ^^ n) g)"
proof (induction n)
  case 0
  then show ?case by (auto intro: bridge_moves_refl)
next
  case (Suc n)
  then show ?case using bridge_moves_trans bridge_moves_pass by fastforce
qed

lemma bridge_write_frame:
  assumes "Dds_write_someip A E msg topic mp iid g = (r, g1)"
  shows "dd_config g1 = dd_config g \<and> side_outbound_sink g1 = side_outbound_sink g \<and>
    (\<exists>h. gw_io g1 = gw_io g @ h \<and> (\<forall>text. sink_output text h = []))"
  using assms
  by (auto simp: Dds_write_someip_def ensure_topic_def Dds_writer_for_def Dds_write_sample_def dds_int_def
      Let_def call_def split: if_splits option.splits)

lemma bridge_moves_message:
  assumes "get_service_id A m = 0x6001" and "Dds_on_someip_message A E m g = (r, g')" and "bridge_ready g"
  shows "bridge_moves (if r = SUCCESS then 1 else 0) [] g g'"
proof -
  have mp: "find_inbound_mapping 0x6001 1 g = Some bridge_vehicle_svc" "should_forward_to_external bridge_vehicle_svc"
    using assms(3) by (simp_all add: bridge_ready_def find_inbound_mapping_def find_mapping_for_service_def
        bridge_vehicle_svc_def should_forward_to_external_def)
  have cfg: "ds_default_someip_instance_id (dd_someip (dd_config g)) = 1" "\<not> dd_use_e2e (dd_config g)" "is_running g"
    using assms(3) by (simp_all add: bridge_ready_def bridge_config_def DdsConfig_default_def is_running_def)
  let ?m = "dds_to_send A m bridge_vehicle_svc" and ?t = "resolve_dds_topic A m bridge_vehicle_svc"
  let ?i = "someip_instance_id bridge_vehicle_svc"
  obtain r2 g2 where w2: "Dds_write_someip A E ?m ?t bridge_vehicle_svc ?i g = (r2, g2)" by fastforce
  with assms(2) have w: "Dds_write_someip A E ?m ?t bridge_vehicle_svc ?i g = (r, g2)"
    and g': "g' = (if r = SUCCESS then record_someip_to_external (length (get_payload A ?m)) g2 else g2)"
    by (auto simp: Dds_on_someip_message_def assms(1) cfg mp side_e2e_off Let_def)
  from bridge_write_frame [OF w] Dds_write_someip_frame [OF w] assms(3) show ?thesis
    by (auto simp: g' bridge_moves_def bridge_ready_def same_base_def record_someip_to_external_def)
qed

lemma bridge_add_reader:
  "gw_stats (Dds_add_reader E mp g) = gw_stats g" "gw_service_mappings (Dds_add_reader E mp g) = gw_service_mappings g"
  "dd_config (Dds_add_reader E mp g) = dd_config g" "side_outbound_sink (Dds_add_reader E mp g) = side_outbound_sink g"
  by (simp_all add: Dds_add_reader_def ensure_topic_def dds_int_def call_def Let_def split: option.split)

lemma bridge_started:
  "case Dds_start E bridge_gateway of (r, g) \<Rightarrow>
     if r = SUCCESS
     then bridge_ready g \<and> messages_someip_to_external (gw_stats g) = 0 \<and> messages_external_to_someip (gw_stats g) = 0
     else \<not> gw_running g"
  by (auto simp: Dds_start_def Dds_started_def Dds_impl_start_def bridge_gateway_def DdsGateway_new_def add_service_mapping_def
      Dds_set_someip_outbound_sink_def side_set_someip_outbound_sink_def call_on_def call_def dds_int_def set_running_def Let_def
      get_service_mappings_def bridge_add_reader bridge_ready_def GatewayStats_default_def)

text \<open>A block of \<open>main\<close>: what it does to the gateway and what it writes, from a running gateway.\<close>

definition bridge_runs ::
  "nat \<Rightarrow> 'm list \<Rightarrow> string \<Rightarrow> ('m, 'c) DdsGateway \<times> string \<Rightarrow> ('m, 'c) DdsGateway \<times> string \<Rightarrow> bool" where
  "bridge_runs k ms text p p' \<longleftrightarrow>
     (bridge_ready (fst p) \<longrightarrow> bridge_moves k ms (fst p) (fst p') \<and> snd p' = snd p @ text)"

lemma bridge_runs_trans:
  "bridge_runs k ms t p p1 \<Longrightarrow> bridge_runs k' ms' t' p1 p2 \<Longrightarrow> bridge_runs (k + k') (ms @ ms') (t @ t') p p2"
  using bridge_moves_ready bridge_moves_trans by (fastforce simp: bridge_runs_def)

lemma bridge_reader_runs: "\<exists>ms. bridge_runs 0 ms (concat (map (bridge_sink A) ms)) p (bridge_reader A tk order n p)"
  using bridge_moves_passes [where g = "fst p" and A = A and tk = tk and order = order and n = n] bridge_moves_output
  by (fastforce simp: bridge_runs_def bridge_reader_def Let_def split_beta)

lemma bridge_moves_runs:
  "(bridge_ready g \<Longrightarrow> bridge_moves k ms g g') \<Longrightarrow>
     bridge_runs k ms (a @ concat (map (bridge_sink A) ms) @ b) (g, out) (g', out @ a @ with_sink (bridge_sink A) g g' @ b)"
  using bridge_moves_output by (fastforce simp: bridge_runs_def)

lemma bridge_message_runs:
  assumes "get_service_id A m = 0x6001" and "Dds_on_someip_message A E m g = (r, g')"
  shows "bridge_runs (if r = SUCCESS then 1 else 0) [] (a @ b) (g, out) (g', out @ a @ with_sink (bridge_sink A) g g' @ b)"
  using bridge_moves_runs [OF bridge_moves_message [OF assms], of a A b out] by simp

lemma bridge_event_runs:
  assumes "message_laws A" and "bridge_event A S E p = (r, p')"
  shows "bridge_runs (if r = SUCCESS then 1 else 0) []
    (''=== SOME/IP event (Classic) '' @ arrow @ '' DDS ==='' @ nl @ bridge_result ''Publish'' r) p p'"
proof -
  let ?m = "set_payload A (get_buffer S (serialize_float S 0x42B10000 (Serializer_new S)))
    (Message_ctor_rc A (0x6001, 0x8001) (0x0000, 0x0001) (mt_NOTIFICATION A) (rc_E_OK A))"
  obtain g out where p: "p = (g, out)" by fastforce
  obtain r' g' where d: "Dds_on_someip_message A E ?m g = (r', g')" by fastforce
  have "get_service_id A ?m = 0x6001" by (simp add: assms(1))
  from bridge_message_runs [OF this d, of "''=== SOME/IP event (Classic) '' @ arrow @ '' DDS ==='' @ nl" "bridge_result ''Publish'' r'" out]
    assms(2) d show ?thesis by (auto simp: p bridge_event_def Let_def)
qed

lemma bridge_request_runs:
  assumes "message_laws A" and "bridge_request A S E p = (r, p')"
  shows "bridge_runs (if r = SUCCESS then 1 else 0) []
    (nl @ ''=== SOME/IP RPC request '' @ arrow @ '' DDS ==='' @ nl @ bridge_result ''Forward'' r) p p'"
proof -
  let ?m = "set_payload A (get_buffer S (serialize_uint16 S 3 (Serializer_new S)))
    (Message_ctor_rc A (0x6001, 0x0001) (0x0042, 0x0003) (mt_REQUEST A) (rc_E_OK A))"
  obtain g out where p: "p = (g, out)" by fastforce
  obtain r' g' where d: "Dds_on_someip_message A E ?m g = (r', g')" by fastforce
  have "get_service_id A ?m = 0x6001" by (simp add: assms(1))
  from bridge_message_runs [OF this d, of "nl @ ''=== SOME/IP RPC request '' @ arrow @ '' DDS ==='' @ nl" "bridge_result ''Forward'' r'" out]
    assms(2) d show ?thesis by (auto simp: p bridge_request_def Let_def)
qed

definition bridge_injected :: "'m message_api \<Rightarrow> 'm" where
  "bridge_injected A = snd (bridge_sample_to_someip A 0x6001 0x0001 0x0002 (mt_RESPONSE A) [0x01, 0x02, 0x03])"

lemma bridge_inject_runs:
  "bridge_runs 0 [bridge_injected A]
    (nl @ ''=== DDS sample '' @ arrow @ '' SOME/IP sink (inject) ==='' @ nl @ bridge_sink A (bridge_injected A)) p (bridge_inject A p)"
proof -
  obtain g out where p: "p = (g, out)" by fastforce
  have "snd (inject_dds_sample A [] [0x01, 0x02, 0x03] 0x6001 0x0001 0x0002 (mt_RESPONSE A) g) =
      deliver_inbound_from_dds (bridge_injected A) 3 g"
    by (simp add: inject_dds_sample_def bridge_sample_to_someip_def bridge_injected_def numeral_eq_Suc)
  with bridge_moves_runs [OF bridge_moves_deliver [of "bridge_injected A" g 3],
      of "nl @ ''=== DDS sample '' @ arrow @ '' SOME/IP sink (inject) ==='' @ nl" A "[]" out]
  show ?thesis by (simp add: p bridge_inject_def Let_def)
qed

lemma bridge_domain: "show_int (sint (dd_domain_id bridge_config)) = ''0''"
proof -
  have "show_int 0 = ''0''" by code_simp
  then show ?thesis by (simp add: bridge_config_def)
qed

definition bridge_transcript :: "'m message_api \<Rightarrow> Result \<Rightarrow> Result \<Rightarrow> 'm list \<times> 'm list \<times> 'm list \<times> 'm list \<Rightarrow> string" where
  "bridge_transcript A r1 r2 = (\<lambda>(ms1, ms2, ms3, ms4).
     ''SOME/IP '' @ [CHR 0xE2, CHR 0x86, CHR 0x94] @ '' DDS bridge running (domain 0)'' @ nl @ nl @
     concat (map (bridge_sink A) ms1) @
     ''=== SOME/IP event (Classic) '' @ arrow @ '' DDS ==='' @ nl @ bridge_result ''Publish'' r1 @
     concat (map (bridge_sink A) ms2) @
     nl @ ''=== SOME/IP RPC request '' @ arrow @ '' DDS ==='' @ nl @ bridge_result ''Forward'' r2 @
     concat (map (bridge_sink A) ms3) @
     nl @ ''=== DDS sample '' @ arrow @ '' SOME/IP sink (inject) ==='' @ nl @ bridge_sink A (bridge_injected A) @
     concat (map (bridge_sink A) ms4) @
     nl @ ''=== Statistics ==='' @ nl @
     ''  SOME/IP '' @ arrow @ '' DDS messages: '' @ show_dec (length (filter (\<lambda>r. r = SUCCESS) [r1, r2])) @ nl @
     ''  DDS '' @ arrow @ '' SOME/IP messages: '' @
       show_dec (unat (word_of_nat (1 + length (ms1 @ ms2 @ ms3 @ ms4)) :: u64)) @ nl)"

text \<open>The DDS example program returns 1 when the gateway does not start and 0 otherwise, and leaves the gateway stopped. When it
  runs, whatever Cyclone DDS answers and however many samples its reader thread takes meanwhile, the number of messages toward
  DDS in the statistics is the number of the two sends reported as OK, the inbound number (a 64-bit counter) is one for the injected
  sample and one for every sample taken, and exactly these are printed by the sink.\<close>

lemma bridge_example_accounts:
  assumes "message_laws A"
  shows "case bridge_main A S E tk order passes of (code, out, err, g) \<Rightarrow>
    \<not> is_running g \<and>
    (if fst (Dds_start E bridge_gateway) \<noteq> SUCCESS then code = 1 \<and> out = [] \<and> err \<noteq> []
     else code = 0 \<and> err = [] \<and> (\<exists>r1 r2 mss. out = bridge_transcript A r1 r2 mss))"
proof -
  obtain n1 n2 n3 n4 where ps: "passes = (n1, n2, n3, n4)" by (metis prod.exhaust)
  obtain r g0 where s: "Dds_start E bridge_gateway = (r, g0)" by fastforce
  show ?thesis
  proof (cases "r = SUCCESS")
    case False
    with bridge_started [of E] s show ?thesis by (simp add: bridge_main_def ps is_running_def)
  next
    case True
    from bridge_started [of E] s True have g0: "bridge_ready g0"
      "messages_someip_to_external (gw_stats g0) = 0" "messages_external_to_someip (gw_stats g0) = 0" by simp_all
    define p0 where "p0 = (g0, ''SOME/IP '' @ [CHR 0xE2, CHR 0x86, CHR 0x94] @ '' DDS bridge running (domain 0)'' @ nl @ nl)"
    define p1 where "p1 = bridge_reader A tk order n1 p0"
    obtain r1 p2 where e1: "bridge_event A S E p1 = (r1, p2)" by (metis prod.exhaust)
    define p3 where "p3 = bridge_reader A tk order n2 p2"
    obtain r2 p4 where e2: "bridge_request A S E p3 = (r2, p4)" by (metis prod.exhaust)
    define p5 where "p5 = bridge_reader A tk order n3 p4"
    define p7 where "p7 = bridge_reader A tk order n4 (bridge_inject A p5)"
    note rd = bridge_reader_runs [of A _ tk order]
    from rd [of p0 n1] rd [of p2 n2] rd [of p4 n3] rd [of "bridge_inject A p5" n4] obtain ms1 ms2 ms3 ms4
      where b: "bridge_runs 0 ms1 (concat (map (bridge_sink A) ms1)) p0 p1" "bridge_runs 0 ms2 (concat (map (bridge_sink A) ms2)) p2 p3"
        "bridge_runs 0 ms3 (concat (map (bridge_sink A) ms3)) p4 p5"
        "bridge_runs 0 ms4 (concat (map (bridge_sink A) ms4)) (bridge_inject A p5) p7"
      unfolding p1_def [symmetric] p3_def [symmetric] p5_def [symmetric] p7_def [symmetric] by blast
    note all = bridge_runs_trans [OF b(1) bridge_runs_trans [OF bridge_event_runs [OF assms e1] bridge_runs_trans [OF b(2)
      bridge_runs_trans [OF bridge_request_runs [OF assms e2] bridge_runs_trans [OF b(3) bridge_runs_trans [OF bridge_inject_runs b(4)]]]]]]
    have main: "bridge_main A S E tk order passes =
        (0, snd p7 @ bridge_statistics (fst p7), [], snd (Dds_stop E (fst p7)))"
      using s True e1 e2 by (simp add: bridge_main_def ps bridge_domain p0_def p1_def p3_def p5_def p7_def split_beta)
    have "snd p7 @ bridge_statistics (fst p7) = bridge_transcript A r1 r2 (ms1, ms2, ms3, ms4)"
      using all g0 
      by (auto simp: bridge_runs_def bridge_moves_def p0_def bridge_statistics_def get_stats_def bridge_transcript_def Let_def)
    then show ?thesis using s True by (simp add: main Dds_stop_def set_running_def is_running_def Let_def) blast
  qed
qed


lemma bridge_example_accounts_witness:
  "case bridge_main ref_api ref_example_serializer (ref_env :: (ref_message, unit) dds_env) (\<lambda>_ _. (0, [])) [] (0, 1, 0, 2) of
     (code, out, err, g) \<Rightarrow> code = 0 \<and> \<not> is_running g \<and> (\<exists>r1 r2 mss. out = bridge_transcript ref_api r1 r2 mss)"
proof -
  have "fst (Dds_start (ref_env :: (ref_message, unit) dds_env) bridge_gateway) = SUCCESS"
    by (simp add: Dds_start_def Dds_started_def Dds_impl_start_def bridge_gateway_def DdsGateway_new_def add_service_mapping_def
        Dds_set_someip_outbound_sink_def side_set_someip_outbound_sink_def call_on_def call_def dds_int_def set_running_def Let_def
        ref_env_def bridge_config_def DdsConfig_default_def)
  then show ?thesis
    using bridge_example_accounts [OF ref_api_laws, where S = ref_example_serializer and
        E = "ref_env :: (ref_message, unit) dds_env" and tk = "\<lambda>_ _. (0, [])" and order = "[]" and passes = "(0, 1, 0, 2)"]
    by (auto split: prod.splits)
qed

end
