(* ===== verification/Owned_Objects.thy ===== *)
theory Owned_Objects
  imports Someip_Side "HOL-Library.RBT" "HOL-Library.Product_Lexorder"
begin

text \<open>
  The Zenoh, iceoryx2 and gRPC gateways create the SOME/IP library objects they use in \<open>start\<close>, hold
  them in \<open>unique_ptr\<close> members and release them in \<open>stop\<close>. This theory has the operations these
  sources share: constructing an object, a call whose boolean result is tested, and a loop over a
  \<open>std::map\<close> of objects (a red-black tree, so the library's \<open>RBT\<close> with the key order of the source:
  \<open>std::pair\<close> compares lexicographically).

  The lemmas give their effect on the call history and the three ways a message handler ends as steps
  of the contract of \<open>on_someip_message\<close>, for any way of finding the mapping.
\<close>

definition make_object ::
  "('m, 'c, 'x) env \<Rightarrow> (handle \<Rightarrow> ('m, 'c, 'x) io) \<Rightarrow> ('m, 'c, 'x, 'z) GatewayBase_scheme \<Rightarrow>
   handle \<times> ('m, 'c, 'x, 'z) GatewayBase_scheme" where
  "make_object E ctor g = (let h = answer_new E (gw_io g) in (h, call (ctor h) g))"

definition call_bool ::
  "('m, 'c, 'x) env \<Rightarrow> ('m, 'c, 'x) io \<Rightarrow> ('m, 'c, 'x, 'z) GatewayBase_scheme \<Rightarrow>
   bool \<times> ('m, 'c, 'x, 'z) GatewayBase_scheme" where
  "call_bool E c g = (answer_bool E (gw_io g) c, call c g)"

definition call_entries ::
  "(handle \<Rightarrow> ('m, 'c, 'x) io) \<Rightarrow> ('k::linorder, handle) rbt \<Rightarrow>
   ('m, 'c, 'x, 'z) GatewayBase_scheme \<Rightarrow> ('m, 'c, 'x, 'z) GatewayBase_scheme" where
  "call_entries f t g = fold (\<lambda>(k, h). call (f h)) (RBT.entries t) g"

text \<open>The calls a loop over the objects of a table makes.\<close>

definition entry_calls :: "(handle \<Rightarrow> ('m, 'c, 'x) io) \<Rightarrow> ('k::linorder, handle) rbt \<Rightarrow> ('m, 'c, 'x) history" where
  "entry_calls f t = map (\<lambda>(k, h). f h) (RBT.entries t)"

lemma fold_call_eq: "fold (\<lambda>x. call (f x)) xs g = g\<lparr>gw_io := gw_io g @ map f xs\<rparr>"
  by (induction xs arbitrary: g) (simp_all add: call_def)

lemma call_entries_eq: "call_entries f t g = g\<lparr>gw_io := gw_io g @ entry_calls f t\<rparr>"
  using fold_call_eq [of "\<lambda>(k, h). f h" "RBT.entries t" g]
  by (simp add: call_entries_def entry_calls_def case_prod_unfold)

lemma entries_empty [simp]: "RBT.entries RBT.empty = []"
  by (metis RBT.lookup_empty RBT.map_of_entries map_of_eq_empty_iff)

lemma entry_calls_empty [simp]: "entry_calls f RBT.empty = []"
  by (simp add: entry_calls_def)

lemma forward_counted:
  assumes "permits_service g sid" and "same_base g g1" and "gw_stats g1 = gw_stats g"
  shows "forward_step sid g SUCCESS (record_someip_to_external n g1)"
  using assms by (intro forward_step.forwarded [where n = n]) (simp_all add: record_by_steps(1) same_base_def)

lemma permitsI:
  "m \<in> set (gw_service_mappings g) \<Longrightarrow> someip_service_id m = sid \<Longrightarrow> should_forward_to_external m \<Longrightarrow>
   permits_service g sid"
  by (auto simp: permits_service_def list_ex_iff)

end
