(* ===== verification/Zenoh_Gateway.thy ===== *)
theory Zenoh_Gateway
  imports Gateway_Lifecycle Owned_Objects Zenoh_Translator Iceoryx2_Translator
begin

text \<open>
  \<open>gateway-zenoh/include/opensomeip/gateway/zenoh/zenoh_gateway.h\<close> and
  \<open>gateway-zenoh/src/zenoh_gateway.cpp\<close>: the Zenoh gateway, built with the zenoh-c backend as its
  \<open>CMakeLists.txt\<close> does. The fields of \<open>Impl\<close> and of \<open>ZenohGateway\<close> are one record; a declared Zenoh
  publisher, subscriber, queryable or token is the key expression it was declared on.

  A call on the Zenoh library throws \<open>ZException\<close> when it fails (the sources pass no error pointer), so
  every operation returns an \<open>outcome\<close>: a value, an escaping exception with the state it leaves, or
  \<open>Undefined\<close>. The last one comes from \<open>Impl::find_mapping(service_id)\<close>, which returns the address of an
  element of the temporary vector \<open>get_service_mappings()\<close> returned: the pointer dangles. The argument
  \<open>intact\<close> says whether the released storage still reads as it did; the C++ standard gives no such
  guarantee, and with \<open>intact\<close> false a read through the pointer is undefined behaviour.

  Log set-up and the option objects that only select a wire encoding tag have no effect on the state and
  are left out.
\<close>

subsection \<open>Configuration\<close>

text \<open>The last constructor is a byte cast to the enumeration that is no enumerator.\<close>

datatype ZenohSessionMode = PEER | CLIENT | ROUTER | ZenohSessionMode_cast u8

record ZenohShmConfig =
  shm_enabled :: bool
  shm_threshold_bytes :: nat

record 'c ZenohConfig =
  zc_mode :: ZenohSessionMode
  zc_connect_endpoints :: "string list"
  zc_listen_endpoints :: "string list"
  zc_key_prefix :: string
  zc_shm :: ZenohShmConfig
  zc_zenoh_config_file :: string
  zc_payload_encoding :: ZenohPayloadEncoding
  zc_someip_bind_address :: string
  zc_someip_bind_port :: u16
  zc_someip_remote_address :: string
  zc_someip_remote_port :: u16
  zc_rpc_client_id :: u16
  zc_enable_udp_transport :: bool
  zc_enable_service_discovery :: bool
  zc_enable_liveliness_sd_bridge :: bool
  zc_liveliness_subscription_key :: string
  zc_enable_e2e_validation :: bool
  zc_e2e_config :: 'c

definition ZenohConfig_default :: "'c \<Rightarrow> 'c ZenohConfig" where
  "ZenohConfig_default e2e = \<lparr>zc_mode = PEER, zc_connect_endpoints = [], zc_listen_endpoints = [],
     zc_key_prefix = ''someip'', zc_shm = \<lparr>shm_enabled = False, shm_threshold_bytes = 32768\<rparr>,
     zc_zenoh_config_file = [], zc_payload_encoding = ZENOH_RAW, zc_someip_bind_address = ''0.0.0.0'',
     zc_someip_bind_port = 30500, zc_someip_remote_address = ''127.0.0.1'', zc_someip_remote_port = 30501,
     zc_rpc_client_id = 0x0042, zc_enable_udp_transport = True, zc_enable_service_discovery = True,
     zc_enable_liveliness_sd_bridge = True, zc_liveliness_subscription_key = [], zc_enable_e2e_validation = False,
     zc_e2e_config = e2e\<rparr>"

fun mode_str :: "ZenohSessionMode \<Rightarrow> string" where
  "mode_str CLIENT = ''client''"
| "mode_str ROUTER = ''router''"
| "mode_str PEER = ''peer''"
| "mode_str (ZenohSessionMode_cast b) = ''peer''"

text \<open>The inner loops of \<open>to_json5\<close>: one endpoint, and the list of them with its separators.\<close>

definition json5_endpoint :: "string \<Rightarrow> string" where
  "json5_endpoint s =
     [CHR 0x22] @ concat (map (\<lambda>c. if c = CHR 0x22 \<or> c = CHR 0x5C then [CHR 0x5C, c] else [c]) s) @ [CHR 0x22]"

definition json5_endpoints :: "string list \<Rightarrow> string" where
  "json5_endpoints es =
     concat (map (\<lambda>i. (if i > 0 then '','' else []) @ json5_endpoint (es ! i)) [0..<length es])"

definition to_json5 :: "'c ZenohConfig \<Rightarrow> string" where
  \<open>to_json5 zc =
     ''{'' @
     (case zc_mode zc of
        PEER \<Rightarrow> ''"mode":"peer"'' | CLIENT \<Rightarrow> ''"mode":"client"'' | ROUTER \<Rightarrow> ''"mode":"router"''
      | ZenohSessionMode_cast b \<Rightarrow> []) @
     '',"connect":{"endpoints":['' @ json5_endpoints (zc_connect_endpoints zc) @
     '']},"listen":{"endpoints":['' @ json5_endpoints (zc_listen_endpoints zc) @
     '']},"transport":{"shared_memory":{'' @
     ''"enabled":'' @ (if shm_enabled (zc_shm zc) then ''true'' else ''false'') @
     '',"threshold":'' @ show_dec (shm_threshold_bytes (zc_shm zc)) @ ''}}}'' @
     ''}''\<close>


subsection \<open>State, exceptions and dangling pointers\<close>

datatype zenoh_call =
    Zenoh_config_from_file string
  | Zenoh_config_insert_json5 string string
  | Zenoh_config_from_str string
  | Zenoh_session_open
  | Zenoh_declare_publisher string
  | Zenoh_declare_queryable string u16 u16
  | Zenoh_declare_subscriber string
  | Zenoh_declare_token string
  | Zenoh_declare_liveliness_subscriber string
  | Zenoh_put string bytes
  | Zenoh_reply string bytes

record ('m, 'c) ZenohGateway = "('m, 'c, zenoh_call) GatewayBase" +
  zg_config :: "'c ZenohConfig"
  zg_encoding :: ZenohPayloadEncoding
  zg_last_sender :: endpoint
  zg_udp :: "handle option"
  zg_sd_client :: "handle option"
  zg_sd_server :: "handle option"
  zg_event_publishers :: "(u16 \<times> u16, handle) rbt"
  zg_event_subscriber :: "handle option"
  zg_rpc_server :: "handle option"
  zg_rpc_server_service_id :: u16
  zg_rpc_client :: "handle option"
  zg_session :: bool
  zg_publishers :: "string list"
  zg_subscribers :: "string list"
  zg_queryables :: "(string \<times> u16 \<times> u16) list"
  zg_liveliness_tokens :: "string list"
  zg_liveliness_subscribers :: "string list"

type_synonym ('m, 'c) zg_env = "('m, 'c, zenoh_call) env"

text \<open>The constructor; the first argument is the default-constructed \<open>Endpoint\<close> of the library.\<close>

definition ZenohGateway_new :: "endpoint \<Rightarrow> string \<Rightarrow> 'c ZenohConfig \<Rightarrow> ('m, 'c) ZenohGateway" where
  "ZenohGateway_new ep nm config = \<lparr>
     gw_name = nm, gw_protocol = ''zenoh'', gw_running = False, gw_stats = GatewayStats_default,
     gw_service_mappings = [], gw_external_message_callback = False, gw_io = [],
     zg_config = config, zg_encoding = zc_payload_encoding config, zg_last_sender = ep, zg_udp = None,
     zg_sd_client = None, zg_sd_server = None, zg_event_publishers = RBT.empty, zg_event_subscriber = None,
     zg_rpc_server = None, zg_rpc_server_service_id = 0, zg_rpc_client = None, zg_session = False,
     zg_publishers = [], zg_subscribers = [], zg_queryables = [], zg_liveliness_tokens = [],
     zg_liveliness_subscribers = []\<rparr>"

datatype ('a, 'g) outcome = Returned 'a 'g | Thrown 'g | Undefined

definition and_next :: "('a, 'g) outcome \<Rightarrow> ('a \<Rightarrow> 'g \<Rightarrow> ('b, 'g) outcome) \<Rightarrow> ('b, 'g) outcome" where
  "and_next r f = (case r of Returned x g \<Rightarrow> f x g | Thrown g \<Rightarrow> Thrown g | Undefined \<Rightarrow> Undefined)"

fun for_each :: "('x \<Rightarrow> 'g \<Rightarrow> (unit, 'g) outcome) \<Rightarrow> 'x list \<Rightarrow> 'g \<Rightarrow> (unit, 'g) outcome" where
  "for_each f [] g = Returned () g"
| "for_each f (x # xs) g = and_next (f x g) (\<lambda>_. for_each f xs)"

definition zenoh ::
  "('m, 'c) zg_env \<Rightarrow> zenoh_call \<Rightarrow> ('m, 'c) ZenohGateway \<Rightarrow> (unit, ('m, 'c) ZenohGateway) outcome" where
  "zenoh E c g =
     (let g1 = call (External c) g in if answer_bool E (gw_io g) (External c) then Returned () g1 else Thrown g1)"

datatype mapping_pointer = Live ServiceMapping | Dangling ServiceMapping

fun deref :: "bool \<Rightarrow> mapping_pointer \<Rightarrow> ServiceMapping option" where
  "deref intact (Live m) = Some m"
| "deref intact (Dangling m) = (if intact then Some m else None)"

definition Zenoh_find_mapping_by_service :: "u16 \<Rightarrow> ('m, 'c, 'x, 'z) GatewayBase_scheme \<Rightarrow> mapping_pointer option" where
  "Zenoh_find_mapping_by_service service_id g =
     map_option Dangling (find (\<lambda>m. someip_service_id m = service_id) (get_service_mappings g))"

definition Zenoh_find_mapping :: "u16 \<Rightarrow> u16 \<Rightarrow> ('m, 'c, 'x, 'z) GatewayBase_scheme \<Rightarrow> mapping_pointer option" where
  "Zenoh_find_mapping service_id instance_id g =
     (case find_mapping_for_service service_id instance_id g of
        Some p \<Rightarrow> Some (Live p)
      | None \<Rightarrow> Zenoh_find_mapping_by_service service_id g)"


subsection \<open>Towards Zenoh\<close>

definition publish_to_zenoh ::
  "'m message_api \<Rightarrow> ('m, 'c) zg_env \<Rightarrow> 'm \<Rightarrow> ServiceMapping \<Rightarrow> ('m, 'c) ZenohGateway \<Rightarrow>
   (unit, ('m, 'c) ZenohGateway) outcome" where
  "publish_to_zenoh A E msg mapping g =
     (if \<not> zg_session g then Returned () g
      else let ext = someip_to_zenoh A (zg_encoding g) msg (zc_key_prefix (zg_config g)) mapping;
               put = zenoh E (Zenoh_put (topic_or_key ext) (ext_payload ext))
           in if topic_or_key ext \<in> set (zg_publishers g) then put g
              else and_next (zenoh E (Zenoh_declare_publisher (topic_or_key ext)) g) (\<lambda>_. put))"

text \<open>The serializer of the library with the two further operations used here.\<close>

record ('s, 'd) array_serializer_api = "('s, 'd) serializer_api" +
  serialize_array :: "bytes \<Rightarrow> 's \<Rightarrow> 's"
  move_buffer :: "'s \<Rightarrow> bytes"

definition typed_payload :: "'m message_api \<Rightarrow> ('s, 'd) array_serializer_api \<Rightarrow> 'm \<Rightarrow> bytes" where
  "typed_payload A S msg =
     (let s = serialize_uint16 S (get_service_id A msg) (Serializer_new S);
          s = serialize_uint16 S (get_method_id A msg) s;
          s = serialize_uint8 S (get_message_type A msg) s;
          s = serialize_uint8 S (get_return_code A msg) s;
          s = serialize_array S (get_payload A msg) s
      in move_buffer S s)"

definition Zenoh_on_someip_message ::
  "'m message_api \<Rightarrow> ('s, 'd) array_serializer_api \<Rightarrow> ('m, 'c) zg_env \<Rightarrow> bool \<Rightarrow> 'm \<Rightarrow> ('m, 'c) ZenohGateway \<Rightarrow>
   (Result, ('m, 'c) ZenohGateway) outcome" where
  "Zenoh_on_someip_message A S E intact msg g =
     (case Zenoh_find_mapping_by_service (get_service_id A msg) g of
        None \<Rightarrow> Returned INVALID_SERVICE_ID (record_translation_error g)
      | Some p \<Rightarrow>
          (case deref intact p of
             None \<Rightarrow> Undefined
           | Some mapping \<Rightarrow>
               if \<not> should_forward_to_external mapping then Returned SUCCESS g
               else let to_publish = (if mode mapping = TYPED then set_payload A (typed_payload A S msg) msg else msg)
                    in and_next (publish_to_zenoh A E to_publish mapping g)
                         (\<lambda>_ g1. Returned SUCCESS (record_someip_to_external (length (get_payload A to_publish)) g1))))"

definition Zenoh_on_message_received ::
  "'m message_api \<Rightarrow> ('s, 'd) array_serializer_api \<Rightarrow> ('m, 'c) zg_env \<Rightarrow> bool \<Rightarrow> 'm option \<Rightarrow> endpoint \<Rightarrow>
   ('m, 'c) ZenohGateway \<Rightarrow> (unit, ('m, 'c) ZenohGateway) outcome" where
  "Zenoh_on_message_received A S E intact message sender g =
     (case message of
        None \<Rightarrow> Returned () g
      | Some msg \<Rightarrow>
          (let g1 = g\<lparr>zg_last_sender := sender\<rparr>;
               pass = (\<lambda>g2. and_next (Zenoh_on_someip_message A S E intact msg g2) (\<lambda>_ g3. Returned () g3))
           in if zc_enable_e2e_validation (zg_config g1)
              then let c = E2e_validate msg (zc_e2e_config (zg_config g1)); g2 = call c g1
                   in if answer_result E (gw_io g1) c \<noteq> SUCCESS then Returned () g2 else pass g2
              else pass g1))"


subsection \<open>Towards SOME/IP\<close>

definition send_someip_udp ::
  "('m, 'c) zg_env \<Rightarrow> 'm \<Rightarrow> ('m, 'c) ZenohGateway \<Rightarrow> ('m, 'c) ZenohGateway" where
  "send_someip_udp E msg g =
     (case zg_udp g of
        None \<Rightarrow> g
      | Some h \<Rightarrow>
          (let zc = zg_config g;
               (out, g1) = (if zc_enable_e2e_validation zc
                            then let c = E2e_protect msg (zc_e2e_config zc) in (answer_message E (gw_io g) c, call c g)
                            else (msg, g));
               dest = (if snd (zg_last_sender g1) \<noteq> 0 then zg_last_sender g1
                       else (zc_someip_remote_address zc, zc_someip_remote_port zc))
           in call (Udp_send_message h out dest) g1))"

definition on_zenoh_sample ::
  "'m message_api \<Rightarrow> ('m, 'c) zg_env \<Rightarrow> bool \<Rightarrow> string \<Rightarrow> bytes \<Rightarrow> ('m, 'c) ZenohGateway \<Rightarrow>
   (unit, ('m, 'c) ZenohGateway) outcome" where
  "on_zenoh_sample A E intact key payload g =
     (let pre = zc_key_prefix (zg_config g) in
      if length key \<le> length pre \<or> take (length pre) key \<noteq> pre then Returned () g
      else let parsed = parse_someip_key key pre in
      if \<not> zk_valid parsed \<or> zk_is_liveliness parsed \<or> zk_is_rpc_path parsed then Returned () g
      else let ext = \<lparr>topic_or_key = key, ext_payload = payload, source_service_id = zk_service_id parsed,
                      source_method_id = zk_method_or_event_id parsed, source_instance_id = zk_instance_id parsed,
                      ext_is_request = False, ext_is_notification = True, correlation_id = []\<rparr>
           in case Zenoh_find_mapping (zk_service_id parsed) (zk_instance_id parsed) g of
                None \<Rightarrow> Returned () g
              | Some p \<Rightarrow>
                  (case deref intact p of
                     None \<Rightarrow> Undefined
                   | Some mapping \<Rightarrow>
                       if \<not> should_forward_to_someip mapping then Returned () g
                       else case zenoh_to_someip A (zg_encoding g) ext (zk_service_id parsed) (zk_instance_id parsed)
                                   (mt_NOTIFICATION A) of
                              Inl e \<Rightarrow> Thrown g
                            | Inr msg \<Rightarrow>
                                Returned () (send_someip_udp E msg (record_external_to_someip (length payload) g))))"

text \<open>
  The kind of a liveliness sample is only inspected when \<open>Z_SAMPLE_KIND_PUT\<close> and
  \<open>Z_SAMPLE_KIND_DELETE\<close> are preprocessor macros; \<open>kind_macros\<close> says whether they are.
\<close>

datatype sample_kind = KIND_PUT | KIND_DELETE | KIND_other

definition liveliness_sample_is_put_or_delete :: "bool \<Rightarrow> sample_kind \<Rightarrow> bool" where
  "liveliness_sample_is_put_or_delete kind_macros k = (if kind_macros then k = KIND_PUT \<or> k = KIND_DELETE else True)"

definition on_liveliness_sample ::
  "bool \<Rightarrow> string \<Rightarrow> sample_kind \<Rightarrow> ('m, 'c) ZenohGateway \<Rightarrow> ('m, 'c) ZenohGateway" where
  "on_liveliness_sample kind_macros key k g =
     (case zg_sd_client g of
        None \<Rightarrow> g
      | Some h \<Rightarrow>
          if \<not> zc_enable_liveliness_sd_bridge (zg_config g) then g
          else if \<not> liveliness_sample_is_put_or_delete kind_macros k then g
          else let parsed = parse_someip_key key (zc_key_prefix (zg_config g));
                   sid = (if zk_valid parsed \<and> zk_is_liveliness parsed then zk_service_id parsed else 0)
               in call (SdClient_find_service h sid) g)"

definition handle_rpc_query ::
  "'m message_api \<Rightarrow> ('m, 'c) zg_env \<Rightarrow> string \<Rightarrow> bytes option \<Rightarrow> u16 \<Rightarrow> u16 \<Rightarrow> ('m, 'c) ZenohGateway \<Rightarrow>
   (unit, ('m, 'c) ZenohGateway) outcome" where
  "handle_rpc_query A E key payload service_id method_id g =
     (let wire = (case payload of Some pl \<Rightarrow> pl | None \<Rightarrow> []) in
      case zenoh_decode_payload A (zg_encoding g) wire (Message_default A) of
        Inl e \<Rightarrow> Thrown g
      | Inr (ok, zenoh_envelope) \<Rightarrow>
          (let rpc_params = (if ok then get_payload A zenoh_envelope else wire)
           in case zg_rpc_client g of
                None \<Rightarrow> zenoh E (Zenoh_reply key []) g
              | Some h \<Rightarrow>
                  (let c = RpcClient_call_method_sync h service_id method_id rpc_params;
                       (result, return_values) = answer_rpc E (gw_io g) c;
                       resp = Message_ctor_rc A (service_id, method_id) (zc_rpc_client_id (zg_config g), 0x0001)
                                (mt_RESPONSE A) (rc_E_OK A);
                       resp = (if result = RPC_SUCCESS then set_payload A return_values resp else resp)
                   in zenoh E (Zenoh_reply key (zenoh_encode_payload A (zg_encoding g) resp)) (call c g))))"

text \<open>The handler \<open>start\<close> registers for a method: it publishes the request and echoes its input.\<close>

definition Zenoh_rpc_handler ::
  "'m message_api \<Rightarrow> ('m, 'c) zg_env \<Rightarrow> bool \<Rightarrow> u16 \<Rightarrow> u16 \<Rightarrow> u16 \<Rightarrow> bytes \<Rightarrow> ('m, 'c) ZenohGateway \<Rightarrow>
   (RpcResult \<times> bytes, ('m, 'c) ZenohGateway) outcome" where
  "Zenoh_rpc_handler A E intact mid client_id session_id inp g =
     (let req = set_payload A inp
                  (Message_ctor A (zg_rpc_server_service_id g, mid) (client_id, session_id) (mt_REQUEST A))
      in case Zenoh_find_mapping_by_service (zg_rpc_server_service_id g) g of
           None \<Rightarrow> Returned (RPC_SUCCESS, inp) g
         | Some p \<Rightarrow>
             (case deref intact p of
                None \<Rightarrow> Undefined
              | Some m \<Rightarrow>
                  and_next (if should_forward_to_external m then publish_to_zenoh A E req m g else Returned () g)
                    (\<lambda>_. Returned (RPC_SUCCESS, inp))))"

definition Zenoh_on_event_notification ::
  "'m message_api \<Rightarrow> ('m, 'c) zg_env \<Rightarrow> bool \<Rightarrow> EventNotification \<Rightarrow> ('m, 'c) ZenohGateway \<Rightarrow>
   (unit, ('m, 'c) ZenohGateway) outcome" where
  "Zenoh_on_event_notification A E intact n g =
     (let msg = set_payload A (ev_event_data n)
                  (Message_ctor A (ev_service_id n, ev_event_id n) (zc_rpc_client_id (zg_config g), 0x0001)
                     (mt_NOTIFICATION A))
      in case Zenoh_find_mapping (ev_service_id n) (ev_instance_id n) g of
           None \<Rightarrow> Returned () g
         | Some p \<Rightarrow>
             (case deref intact p of None \<Rightarrow> Undefined | Some m \<Rightarrow> publish_to_zenoh A E msg m g))"


subsection \<open>Life cycle\<close>

definition Zenoh_start_sd :: "('m, 'c) zg_env \<Rightarrow> ('m, 'c) ZenohGateway \<Rightarrow> ('m, 'c) ZenohGateway" where
  "Zenoh_start_sd E g =
     (if \<not> zc_enable_service_discovery (zg_config g) then g
      else let (c, g1) = make_object E SdClient_new g;
               (s, g2) = make_object E SdServer_new (g1\<lparr>zg_sd_client := Some c\<rparr>)
           in call (SdServer_initialize s) (call (SdClient_initialize c) (g2\<lparr>zg_sd_server := Some s\<rparr>)))"

definition Zenoh_start_udp :: "('m, 'c) zg_env \<Rightarrow> ('m, 'c) ZenohGateway \<Rightarrow> bool \<times> ('m, 'c) ZenohGateway" where
  "Zenoh_start_udp E g =
     (if \<not> zc_enable_udp_transport (zg_config g) then (True, g)
      else let (u, g1) = make_object E Udp_new g;
               g2 = call (Udp_set_listener u) (g1\<lparr>zg_udp := Some u\<rparr>)
           in (answer_result E (gw_io g2) (Udp_start u) = SUCCESS, call (Udp_start u) g2))"

definition Zenoh_start_clients :: "('m, 'c) zg_env \<Rightarrow> ('m, 'c) ZenohGateway \<Rightarrow> ('m, 'c) ZenohGateway" where
  "Zenoh_start_clients E g =
     (let (c, g1) = make_object E (\<lambda>h. RpcClient_new h (zc_rpc_client_id (zg_config g))) g;
          g2 = call (RpcClient_initialize c) (call (RpcClient_set_remote_endpoint c) (g1\<lparr>zg_rpc_client := Some c\<rparr>));
          (s, g3) = make_object E (\<lambda>h. EventSubscriber_new h (zc_rpc_client_id (zg_config g2))) g2
      in call (EventSubscriber_initialize s) (g3\<lparr>zg_event_subscriber := Some s\<rparr>))"

definition Zenoh_event_id :: "u16 \<Rightarrow> u16" where
  "Zenoh_event_id eg = 0x8000 OR (eg AND 0x0FFF)"

definition Zenoh_add_publisher ::
  "('m, 'c) zg_env \<Rightarrow> ServiceMapping \<Rightarrow> ('m, 'c) ZenohGateway \<Rightarrow> ('m, 'c) ZenohGateway" where
  "Zenoh_add_publisher E m g =
     (let key = (someip_service_id m, someip_instance_id m)
      in case RBT.lookup (zg_event_publishers g) key of
           Some _ \<Rightarrow> g
         | None \<Rightarrow>
             (let (h, g1) = make_object E (\<lambda>h. EventPublisher_new h (someip_service_id m) (someip_instance_id m)) g;
                  g2 = fold (\<lambda>eg. call (EventPublisher_register_event h (Zenoh_event_id eg) eg))
                         (someip_event_group_ids m) (call (EventPublisher_initialize h) g1)
              in g2\<lparr>zg_event_publishers := RBT.insert key h (zg_event_publishers g2)\<rparr>))"

definition Zenoh_add_rpc_server ::
  "('m, 'c) zg_env \<Rightarrow> ServiceMapping \<Rightarrow> ('m, 'c) ZenohGateway \<Rightarrow> ('m, 'c) ZenohGateway" where
  "Zenoh_add_rpc_server E m g =
     (case zg_rpc_server g of
        Some _ \<Rightarrow> g
      | None \<Rightarrow>
          if someip_method_ids m = [] then g
          else let (h, g1) = make_object E (\<lambda>h. RpcServer_new h (someip_service_id m)) g
               in call (RpcServer_initialize h)
                    (g1\<lparr>zg_rpc_server := Some h, zg_rpc_server_service_id := someip_service_id m\<rparr>))"

definition Zenoh_register_methods :: "('m, 'c) ZenohGateway \<Rightarrow> ('m, 'c) ZenohGateway" where
  "Zenoh_register_methods g =
     (case zg_rpc_server g of
        None \<Rightarrow> g
      | Some h \<Rightarrow>
          fold (\<lambda>m g. if someip_service_id m \<noteq> zg_rpc_server_service_id g then g
                     else fold (\<lambda>mid. call (RpcServer_register_method h mid)) (someip_method_ids m) g)
            (get_service_mappings g) g)"

definition Zenoh_subscribe_events :: "('m, 'c) ZenohGateway \<Rightarrow> ('m, 'c) ZenohGateway" where
  "Zenoh_subscribe_events g =
     fold (\<lambda>m g. if \<not> should_forward_to_someip m then g
                else fold (\<lambda>eg g. call_on (\<lambda>h. EventSubscriber_subscribe_eventgroup h (someip_service_id m)
                              (someip_instance_id m) eg) (zg_event_subscriber g) g) (someip_event_group_ids m) g)
       (get_service_mappings g) g"

text \<open>The configuration object; its exceptions escape, because it is built before the \<open>try\<close> block.\<close>

definition Zenoh_make_config ::
  "('m, 'c) zg_env \<Rightarrow> ('m, 'c) ZenohGateway \<Rightarrow> (unit, ('m, 'c) ZenohGateway) outcome" where
  "Zenoh_make_config E g =
     (let zc = zg_config g in
      if zc_zenoh_config_file zc \<noteq> []
      then and_next (zenoh E (Zenoh_config_from_file (zc_zenoh_config_file zc)) g)
             (\<lambda>_. zenoh E (Zenoh_config_insert_json5 ''mode'' ([CHR 0x22] @ mode_str (zc_mode zc) @ [CHR 0x22])))
      else zenoh E (Zenoh_config_from_str (to_json5 zc)) g)"

definition Zenoh_declare_rpc ::
  "('m, 'c) zg_env \<Rightarrow> ServiceMapping \<Rightarrow> u16 \<Rightarrow> ('m, 'c) ZenohGateway \<Rightarrow> (unit, ('m, 'c) ZenohGateway) outcome" where
  "Zenoh_declare_rpc E m mid g =
     (let k = build_rpc_key (zc_key_prefix (zg_config g)) (someip_service_id m) (someip_instance_id m) mid
      in and_next (zenoh E (Zenoh_declare_publisher k) g)
           (\<lambda>_ g1. let g2 = g1\<lparr>zg_publishers := zg_publishers g1 @ [k]\<rparr>
                  in and_next (zenoh E (Zenoh_declare_queryable k (someip_service_id m) mid) g2)
                       (\<lambda>_ g3. Returned () (g3\<lparr>zg_queryables := zg_queryables g3 @ [(k, someip_service_id m, mid)]\<rparr>))))"

definition Zenoh_declare_subscriptions ::
  "('m, 'c) zg_env \<Rightarrow> ServiceMapping \<Rightarrow> ('m, 'c) ZenohGateway \<Rightarrow> (unit, ('m, 'c) ZenohGateway) outcome" where
  "Zenoh_declare_subscriptions E m g =
     (if should_forward_to_someip m
      then let pat = build_instance_pattern (zc_key_prefix (zg_config g)) (someip_service_id m) (someip_instance_id m)
           in and_next (zenoh E (Zenoh_declare_subscriber pat) g)
                (\<lambda>_ g1. Returned () (g1\<lparr>zg_subscribers := zg_subscribers g1 @ [pat]\<rparr>))
      else Returned () g)"

definition Zenoh_declare_liveliness ::
  "('m, 'c) zg_env \<Rightarrow> ServiceMapping \<Rightarrow> ('m, 'c) ZenohGateway \<Rightarrow> (unit, ('m, 'c) ZenohGateway) outcome" where
  "Zenoh_declare_liveliness E m g =
     (let liv = build_liveliness_key (zc_key_prefix (zg_config g)) (someip_service_id m) (someip_instance_id m)
      in and_next (zenoh E (Zenoh_declare_token liv) g)
           (\<lambda>_ g1. let g2 = g1\<lparr>zg_liveliness_tokens := zg_liveliness_tokens g1 @ [liv]\<rparr>; zc = zg_config g2
                  in Returned () (call_on (\<lambda>h. SdServer_offer_service h (someip_service_id m) (someip_instance_id m)
                       (zc_someip_bind_address zc @ '':'' @ show_dec (unat (zc_someip_bind_port zc))))
                       (zg_sd_server g2) g2)))"

definition Zenoh_declare_mapping ::
  "('m, 'c) zg_env \<Rightarrow> ServiceMapping \<Rightarrow> ('m, 'c) ZenohGateway \<Rightarrow> (unit, ('m, 'c) ZenohGateway) outcome" where
  "Zenoh_declare_mapping E m g =
     and_next (if should_forward_to_external m then for_each (Zenoh_declare_rpc E m) (someip_method_ids m) g
               else Returned () g)
       (\<lambda>_ g1. and_next (Zenoh_declare_subscriptions E m g1) (\<lambda>_. Zenoh_declare_liveliness E m))"

definition Zenoh_bridge_liveliness ::
  "('m, 'c) zg_env \<Rightarrow> ('m, 'c) ZenohGateway \<Rightarrow> (unit, ('m, 'c) ZenohGateway) outcome" where
  "Zenoh_bridge_liveliness E g =
     (let zc = zg_config g in
      if zc_enable_liveliness_sd_bridge zc
      then let lk = (if zc_liveliness_subscription_key zc = [] then zc_key_prefix zc @ ''/liveliness/**''
                     else zc_liveliness_subscription_key zc)
           in and_next (zenoh E (Zenoh_declare_liveliness_subscriber lk) g)
                (\<lambda>_ g1. Returned () (g1\<lparr>zg_liveliness_subscribers := zg_liveliness_subscribers g1 @ [lk]\<rparr>))
      else Returned () g)"

text \<open>The part of \<open>start\<close> from the session on. The \<open>try\<close> block turns a failed \<open>open\<close> into a result.\<close>

definition Zenoh_start_session ::
  "('m, 'c) zg_env \<Rightarrow> ('m, 'c) ZenohGateway \<Rightarrow> (Result, ('m, 'c) ZenohGateway) outcome" where
  "Zenoh_start_session E g =
     (case zenoh E Zenoh_session_open g of
        Returned _ g1 \<Rightarrow>
          and_next (for_each (Zenoh_declare_mapping E) (get_service_mappings g1) (g1\<lparr>zg_session := True\<rparr>))
            (\<lambda>_ g2. and_next (Zenoh_bridge_liveliness E g2) (\<lambda>_ g3. Returned SUCCESS (set_running E True g3)))
      | Thrown g1 \<Rightarrow> Returned NOT_INITIALIZED g1
      | Undefined \<Rightarrow> Undefined)"

definition Zenoh_start_someip :: "('m, 'c) zg_env \<Rightarrow> ('m, 'c) ZenohGateway \<Rightarrow> ('m, 'c) ZenohGateway" where
  "Zenoh_start_someip E g =
     (let g1 = Zenoh_start_clients E g;
          g2 = fold (\<lambda>m g. Zenoh_add_rpc_server E m (Zenoh_add_publisher E m g)) (get_service_mappings g1) g1
      in Zenoh_subscribe_events (Zenoh_register_methods g2))"

definition Zenoh_start ::
  "('m, 'c) zg_env \<Rightarrow> ('m, 'c) ZenohGateway \<Rightarrow> (Result, ('m, 'c) ZenohGateway) outcome" where
  "Zenoh_start E g =
     (if is_running g then Returned SUCCESS g
      else let g1 = Zenoh_start_sd E (g\<lparr>zg_encoding := zc_payload_encoding (zg_config g)\<rparr>);
               (ok, g2) = Zenoh_start_udp E g1
           in if \<not> ok then Returned NETWORK_ERROR g2
              else and_next (Zenoh_make_config E (Zenoh_start_someip E g2)) (\<lambda>_. Zenoh_start_session E))"

definition Zenoh_stop :: "('m, 'c) zg_env \<Rightarrow> ('m, 'c) ZenohGateway \<Rightarrow> Result \<times> ('m, 'c) ZenohGateway" where
  "Zenoh_stop E g =
     (if \<not> is_running g then (SUCCESS, g)
      else let g1 = g\<lparr>zg_liveliness_subscribers := [], zg_liveliness_tokens := [], zg_queryables := [],
                      zg_subscribers := [], zg_publishers := [], zg_session := False\<rparr>;
               g2 = (call_on EventSubscriber_shutdown (zg_event_subscriber g1) g1)\<lparr>zg_event_subscriber := None\<rparr>;
               g3 = (call_on RpcClient_shutdown (zg_rpc_client g2) g2)\<lparr>zg_rpc_client := None\<rparr>;
               g4 = (call_on RpcServer_shutdown (zg_rpc_server g3) g3)\<lparr>zg_rpc_server := None\<rparr>;
               g5 = (call_entries EventPublisher_shutdown (zg_event_publishers g4) g4)\<lparr>zg_event_publishers := RBT.empty\<rparr>;
               g6 = (call_on Udp_stop (zg_udp g5) g5)\<lparr>zg_udp := None\<rparr>;
               g7 = (call_on SdClient_shutdown (zg_sd_client g6) g6)\<lparr>zg_sd_client := None\<rparr>;
               g8 = (call_on SdServer_shutdown (zg_sd_server g7) g7)\<lparr>zg_sd_server := None\<rparr>
           in (SUCCESS, set_running E False g8))"

subsection \<open>Outcomes\<close>

lemma and_next_simps [simp]:
  "and_next (Returned x g) f = f x g" "and_next (Thrown g) f = Thrown g" "and_next Undefined f = Undefined"
  by (simp_all add: and_next_def)

lemma and_next_Returned:
  "and_next r f = Returned y g' \<longleftrightarrow> (\<exists>x g. r = Returned x g \<and> f x g = Returned y g')"
  by (cases r) auto

lemma and_next_Undefined: "and_next r f = Undefined \<longleftrightarrow> r = Undefined \<or> (\<exists>x g. r = Returned x g \<and> f x g = Undefined)"
  by (cases r) auto

text \<open>
  The states an outcome can leave behind all satisfy a predicate, and the outcome is not undefined.
\<close>

definition leaves :: "('g \<Rightarrow> bool) \<Rightarrow> ('a, 'g) outcome \<Rightarrow> bool" where
  "leaves P r \<longleftrightarrow> (case r of Returned x g \<Rightarrow> P g | Thrown g \<Rightarrow> P g | Undefined \<Rightarrow> False)"

lemma leaves_simps [simp]:
  "leaves P (Returned x g) = P g" "leaves P (Thrown g) = P g" "\<not> leaves P Undefined"
  by (simp_all add: leaves_def)

lemma leaves_and_next: "leaves P r \<Longrightarrow> (\<And>x g. P g \<Longrightarrow> leaves P (f x g)) \<Longrightarrow> leaves P (and_next r f)"
  by (cases r) auto

lemma leaves_for_each: "P g \<Longrightarrow> (\<And>x g. P g \<Longrightarrow> leaves P (f x g)) \<Longrightarrow> leaves P (for_each f xs g)"
  by (induction xs arbitrary: g) (auto intro: leaves_and_next)

lemma leaves_zenoh: "P (call (External c) g) \<Longrightarrow> leaves P (zenoh E c g)"
  by (simp add: zenoh_def Let_def)

lemma zenoh_Returned: "zenoh E c g = Returned x g' \<longleftrightarrow> answer_bool E (gw_io g) (External c) \<and> g' = call (External c) g"
  by (auto simp: zenoh_def Let_def)

lemma zenoh_defined [simp]: "zenoh E c g \<noteq> Undefined"
  by (simp add: zenoh_def Let_def)


subsection \<open>Publishing\<close>

definition only_calls :: "('m, 'c) ZenohGateway \<Rightarrow> ('m, 'c) ZenohGateway \<Rightarrow> bool" where
  "only_calls g g' \<longleftrightarrow> (\<exists>h. g' = g\<lparr>gw_io := gw_io g @ h\<rparr>)"

lemma only_calls_refl [simp]: "only_calls g g"
  unfolding only_calls_def by (rule exI [of _ "[]"]) simp

lemma only_calls_call [simp]: "only_calls g g1 \<Longrightarrow> only_calls g (call c g1)"
  by (auto simp: only_calls_def call_def)

lemma publish_to_zenoh_calls: "leaves (only_calls g) (publish_to_zenoh A E msg m g)"
  by (auto simp: publish_to_zenoh_def Let_def intro!: leaves_and_next leaves_zenoh)

lemma publish_to_zenoh_defined [simp]: "publish_to_zenoh A E msg m g \<noteq> Undefined"
  using publish_to_zenoh_calls [of g A E msg m] by auto

lemma publish_to_zenoh_Returned:
  "publish_to_zenoh A E msg m g = Returned x g1 \<Longrightarrow> same_base g g1 \<and> gw_stats g1 = gw_stats g"
  using publish_to_zenoh_calls [of g A E msg m] by (auto simp: only_calls_def same_base_def)

lemma by_service_Some:
  "Zenoh_find_mapping_by_service sid g = Some p \<Longrightarrow>
   \<exists>m. p = Dangling m \<and> m \<in> set (gw_service_mappings g) \<and> someip_service_id m = sid"
  by (auto simp: Zenoh_find_mapping_by_service_def get_service_mappings_def find_Some_iff)

lemma by_service_None:
  "Zenoh_find_mapping_by_service sid g = None \<longleftrightarrow> \<not> list_ex (\<lambda>m. someip_service_id m = sid) (gw_service_mappings g)"
  by (auto simp: Zenoh_find_mapping_by_service_def get_service_mappings_def find_None_iff list_ex_iff)

text \<open>The gateway as a forwarder: \<open>None\<close> is an escaping exception or undefined behaviour.\<close>

definition outcome_result :: "('a, 'g) outcome \<Rightarrow> ('a \<times> 'g) option" where
  "outcome_result r = (case r of Returned x g \<Rightarrow> Some (x, g) | _ \<Rightarrow> None)"

lemma outcome_result_Some [simp]: "outcome_result r = Some (x, g) \<longleftrightarrow> r = Returned x g"
  by (cases r) (auto simp: outcome_result_def)

lemma Zenoh_forward_step:
  assumes "outcome_result (Zenoh_on_someip_message A S E intact msg g) = Some (r, g')"
  shows "forward_step (get_service_id A msg) g r g'"
proof (cases "Zenoh_find_mapping_by_service (get_service_id A msg) g")
  case None
  with assms show ?thesis by (auto simp: Zenoh_on_someip_message_def intro: forward_error)
next
  case (Some p)
  then obtain m where p: "p = Dangling m" and m: "m \<in> set (gw_service_mappings g)" "someip_service_id m = get_service_id A msg"
    using by_service_Some by blast
  with assms Some p m show ?thesis
    by (auto simp: Zenoh_on_someip_message_def and_next_Returned Let_def split: if_splits
        intro!: forward_counted permitsI dest!: publish_to_zenoh_Returned)
qed

interpretation zenoh: someip_forwarder "\<lambda>m g. outcome_result (Zenoh_on_someip_message A S E intact m g)"
    "get_service_id A" for A S E intact
  by unfold_locales (rule Zenoh_forward_step)


subsection \<open>The configuration document\<close>

text \<open>Bracket depth outside string literals: depth, inside a literal, after a backslash.\<close>

fun bracket_step :: "char \<Rightarrow> int \<times> bool \<times> bool \<Rightarrow> int \<times> bool \<times> bool" where
  "bracket_step c (d, True, True) = (d, True, False)"
| "bracket_step c (d, True, False) =
     (if c = CHR 0x5C then (d, True, True) else if c = CHR 0x22 then (d, False, False) else (d, True, False))"
| "bracket_step c (d, False, e) =
     (if c = CHR 0x22 then (d, True, False)
      else if c \<in> {CHR ''{'', CHR ''[''} then (d + 1, False, e)
      else if c \<in> {CHR ''}'', CHR '']''} then (d - 1, False, e) else (d, False, e))"

definition bracket_depth :: "string \<Rightarrow> int \<times> bool \<times> bool" where
  "bracket_depth s = fold bracket_step s (0, False, False)"

lemma bracket_escaped:
  "fold bracket_step (concat (map (\<lambda>c. if c = CHR 0x22 \<or> c = CHR 0x5C then [CHR 0x5C, c] else [c]) s)) (d, True, False) =
   (d, True, False)"
  by (induction s) auto

lemma bracket_endpoint [simp]: "fold bracket_step (json5_endpoint s) (d, False, False) = (d, False, False)"
  by (simp add: json5_endpoint_def bracket_escaped)

lemma bracket_neutral:
  "(\<And>x. x \<in> set xs \<Longrightarrow> fold bracket_step (f x) (d, False, False) = (d, False, False)) \<Longrightarrow>
   fold bracket_step (concat (map f xs)) (d, False, False) = (d, False, False)"
  by (induction xs) auto

lemma bracket_endpoints [simp]: "fold bracket_step (json5_endpoints es) (d, False, False) = (d, False, False)"
  unfolding json5_endpoints_def by (rule bracket_neutral) simp

lemma digit_not_bracket: "isdigit c \<Longrightarrow> c \<notin> {CHR 0x22, CHR ''{'', CHR ''['', CHR ''}'', CHR '']''}"
  by (auto simp: isdigit_def)

lemma bracket_digits [simp]: "fold bracket_step (show_dec n) (d, False, False) = (d, False, False)"
proof -
  have "fold bracket_step s (d, False, False) = (d, False, False)" if "\<And>c. c \<in> set s \<Longrightarrow> isdigit c" for s
    using that
  proof (induction s)
    case (Cons c s)
    then have "bracket_step c (d, False, False) = (d, False, False)" using digit_not_bracket [of c] by simp
    with Cons show ?case by simp
  qed simp
  then show ?thesis by (simp add: show_dec_digits)
qed

lemma to_json5_depth: "bracket_depth (to_json5 zc) = (-1, False, False)"
  by (cases "zc_mode zc") (simp_all add: bracket_depth_def to_json5_def)

subsection \<open>What start declares\<close>

text \<open>The SOME/IP half of \<open>start\<close> leaves these fields alone.\<close>

definition zg_links where
  "zg_links g = (zg_config g, zg_session g, zg_publishers g, zg_queryables g, zg_subscribers g, zg_liveliness_tokens g,
     zg_liveliness_subscribers g, gw_running g, gw_service_mappings g, gw_stats g)"

lemma zg_call_frame [simp]:
  "zg_config (call c g) = zg_config g" "zg_session (call c g) = zg_session g" "zg_encoding (call c g) = zg_encoding g"
  "zg_publishers (call c g) = zg_publishers g" "zg_queryables (call c g) = zg_queryables g"
  "zg_subscribers (call c g) = zg_subscribers g" "zg_liveliness_tokens (call c g) = zg_liveliness_tokens g"
  "zg_liveliness_subscribers (call c g) = zg_liveliness_subscribers g" "zg_last_sender (call c g) = zg_last_sender g"
  "zg_udp (call c g) = zg_udp g" "zg_rpc_client (call c g) = zg_rpc_client g" "zg_sd_server (call c g) = zg_sd_server g"
  by (simp_all add: call_def)

lemma zg_links_simps [simp]:
  "zg_links (call c g) = zg_links g" "zg_links (call_on f p g) = zg_links g"
  "zg_links (g\<lparr>zg_sd_client := a\<rparr>) = zg_links g" "zg_links (g\<lparr>zg_sd_server := a\<rparr>) = zg_links g"
  "zg_links (g\<lparr>zg_udp := a\<rparr>) = zg_links g" "zg_links (g\<lparr>zg_rpc_client := a\<rparr>) = zg_links g"
  "zg_links (g\<lparr>zg_event_subscriber := a\<rparr>) = zg_links g" "zg_links (g\<lparr>zg_event_publishers := t\<rparr>) = zg_links g"
  "zg_links (g\<lparr>zg_rpc_server := a, zg_rpc_server_service_id := v\<rparr>) = zg_links g"
  "zg_links (g\<lparr>zg_encoding := e\<rparr>) = zg_links g"
  by (simp_all add: zg_links_def call_def call_on_eq)

lemma zg_links_fold: "(\<And>x g. zg_links (f x g) = zg_links g) \<Longrightarrow> zg_links (fold f xs g) = zg_links g"
  by (induction xs arbitrary: g) simp_all

lemma zg_links_tables [simp]:
  "zg_links (Zenoh_add_rpc_server E m (Zenoh_add_publisher E m g)) = zg_links g"
  "zg_links (Zenoh_register_methods g) = zg_links g" "zg_links (Zenoh_subscribe_events g) = zg_links g"
  by (auto simp: Zenoh_add_rpc_server_def Zenoh_add_publisher_def make_object_def Let_def Zenoh_register_methods_def
      Zenoh_subscribe_events_def zg_links_fold intro!: zg_links_fold split: option.split)

lemma zg_links_start_someip [simp]: "zg_links (Zenoh_start_someip E g) = zg_links g"
  by (simp add: Zenoh_start_someip_def Zenoh_start_clients_def make_object_def Let_def zg_links_fold)

lemma zg_links_start_udp: "Zenoh_start_udp E g = (ok, g1) \<Longrightarrow> zg_links g1 = zg_links g"
  by (auto simp: Zenoh_start_udp_def make_object_def Let_def split: if_splits)

lemma zg_links_start_sd [simp]: "zg_links (Zenoh_start_sd E g) = zg_links g"
  by (simp add: Zenoh_start_sd_def make_object_def Let_def)

lemma zg_links_config: "leaves (\<lambda>g'. zg_links g' = zg_links g) (Zenoh_make_config E g)"
  by (auto simp: Zenoh_make_config_def Let_def intro!: leaves_and_next leaves_zenoh)

text \<open>The keys one mapping contributes.\<close>

definition rpc_keys :: "string \<Rightarrow> ServiceMapping \<Rightarrow> (string \<times> u16 \<times> u16) list" where
  "rpc_keys pre m =
     (if should_forward_to_external m
      then map (\<lambda>mid. (build_rpc_key pre (someip_service_id m) (someip_instance_id m) mid, someip_service_id m, mid))
             (someip_method_ids m)
      else [])"

definition sample_patterns :: "string \<Rightarrow> ServiceMapping \<Rightarrow> string list" where
  "sample_patterns pre m =
     (if should_forward_to_someip m then [build_instance_pattern pre (someip_service_id m) (someip_instance_id m)] else [])"

text \<open>\<open>g'\<close> has the declarations of \<open>g\<close> and those of the mappings \<open>ms\<close>.\<close>

definition declares :: "ServiceMapping list \<Rightarrow> ('m, 'c) ZenohGateway \<Rightarrow> ('m, 'c) ZenohGateway \<Rightarrow> bool" where
  "declares ms g g' \<longleftrightarrow>
     (let pre = zc_key_prefix (zg_config g); rpcs = concat (map (rpc_keys pre) ms)
      in zg_links g' = (zg_config g, zg_session g, zg_publishers g @ map fst rpcs, zg_queryables g @ rpcs,
           zg_subscribers g @ concat (map (sample_patterns pre) ms),
           zg_liveliness_tokens g @ map (\<lambda>m. build_liveliness_key pre (someip_service_id m) (someip_instance_id m)) ms,
           zg_liveliness_subscribers g, gw_running g, gw_service_mappings g, gw_stats g))"

lemma declares_Nil [simp]: "declares [] g g"
  by (simp add: declares_def zg_links_def Let_def)

lemma declares_trans: "declares ms g g1 \<Longrightarrow> declares ms' g1 g2 \<Longrightarrow> declares (ms @ ms') g g2"
  by (simp add: declares_def zg_links_def Let_def)

lemma declare_rpcs:
  "for_each (Zenoh_declare_rpc E m) mids g = Returned x g' \<Longrightarrow>
   zg_links g' = zg_links (g\<lparr>zg_publishers := zg_publishers g @
       map (build_rpc_key (zc_key_prefix (zg_config g)) (someip_service_id m) (someip_instance_id m)) mids,
     zg_queryables := zg_queryables g @ map (\<lambda>mid.
       (build_rpc_key (zc_key_prefix (zg_config g)) (someip_service_id m) (someip_instance_id m) mid, someip_service_id m, mid)) mids\<rparr>)"
proof (induction mids arbitrary: g)
  case (Cons mid mids)
  then obtain g1 where 1: "Zenoh_declare_rpc E m mid g = Returned () g1"
    and 2: "for_each (Zenoh_declare_rpc E m) mids g1 = Returned x g'" by (auto simp: and_next_Returned)
  from 1 Cons.IH [OF 2] show ?case
    by (auto simp: Zenoh_declare_rpc_def Let_def and_next_Returned zenoh_Returned zg_links_def)
qed simp

lemma declare_subscriptions:
  "Zenoh_declare_subscriptions E m g = Returned x g' \<Longrightarrow>
   zg_links g' = zg_links (g\<lparr>zg_subscribers := zg_subscribers g @ sample_patterns (zc_key_prefix (zg_config g)) m\<rparr>)"
  by (auto simp: Zenoh_declare_subscriptions_def Let_def and_next_Returned zenoh_Returned sample_patterns_def zg_links_def
      split: if_splits)

lemma declare_liveliness:
  "Zenoh_declare_liveliness E m g = Returned x g' \<Longrightarrow>
   zg_links g' = zg_links (g\<lparr>zg_liveliness_tokens := zg_liveliness_tokens g @
     [build_liveliness_key (zc_key_prefix (zg_config g)) (someip_service_id m) (someip_instance_id m)]\<rparr>)"
  by (auto simp: Zenoh_declare_liveliness_def Let_def and_next_Returned zenoh_Returned) (simp add: zg_links_def call_def)

lemma declare_mapping: 
  assumes "Zenoh_declare_mapping E m g = Returned x g'"
  shows "declares [m] g g'"
proof -
  from assms obtain g1 g2 where
    1: "(if should_forward_to_external m then for_each (Zenoh_declare_rpc E m) (someip_method_ids m) g else Returned () g) =
      Returned () g1" and 2: "Zenoh_declare_subscriptions E m g1 = Returned () g2"
    and 3: "Zenoh_declare_liveliness E m g2 = Returned x g'"
    by (auto simp: Zenoh_declare_mapping_def and_next_Returned)
  from 1 have r: "zg_links g1 = zg_links (g\<lparr>zg_publishers := zg_publishers g @ map fst (rpc_keys (zc_key_prefix (zg_config g)) m),
      zg_queryables := zg_queryables g @ rpc_keys (zc_key_prefix (zg_config g)) m\<rparr>)"
    by (auto simp: rpc_keys_def comp_def dest!: declare_rpcs split: if_splits)
  show ?thesis
    using r declare_subscriptions [OF 2] declare_liveliness [OF 3] by (simp add: declares_def zg_links_def)
qed

lemma declare_mappings: "for_each (Zenoh_declare_mapping E) ms g = Returned x g' \<Longrightarrow> declares ms g g'"
proof (induction ms arbitrary: g)
  case (Cons m ms)
  then obtain g1 where "Zenoh_declare_mapping E m g = Returned () g1" "for_each (Zenoh_declare_mapping E) ms g1 = Returned x g'"
    by (auto simp: and_next_Returned)
  with Cons.IH [of g1] declare_mapping [of E m g] declares_trans [of "[m]" g g1 ms g'] show ?case by simp
qed simp

lemma bridge_liveliness:
  "Zenoh_bridge_liveliness E g = Returned x g' \<Longrightarrow>
   zg_links g' = zg_links (g\<lparr>zg_liveliness_subscribers := zg_liveliness_subscribers g @
     (if zc_enable_liveliness_sd_bridge (zg_config g)
      then [if zc_liveliness_subscription_key (zg_config g) = [] then zc_key_prefix (zg_config g) @ ''/liveliness/**''
            else zc_liveliness_subscription_key (zg_config g)] else [])\<rparr>)"
  by (auto simp: Zenoh_bridge_liveliness_def Let_def and_next_Returned zenoh_Returned zg_links_def split: if_splits)

lemma start_session_Returned:
  assumes "Zenoh_start_session E g = Returned SUCCESS g'"
  shows "\<exists>g1. declares (gw_service_mappings g) (g\<lparr>zg_session := True\<rparr>) g1 \<and> gw_running g' \<and>
    zg_publishers g' = zg_publishers g1 \<and> zg_queryables g' = zg_queryables g1 \<and> zg_subscribers g' = zg_subscribers g1 \<and>
    zg_liveliness_tokens g' = zg_liveliness_tokens g1 \<and> zg_session g'"
proof -
  from assms obtain g1 g2 where
    1: "for_each (Zenoh_declare_mapping E) (gw_service_mappings g) (call (External Zenoh_session_open) g\<lparr>zg_session := True\<rparr>) = Returned () g1"
    and 2: "Zenoh_bridge_liveliness E g1 = Returned () g2" and g': "g' = set_running E True g2"
    by (auto simp: Zenoh_start_session_def zenoh_def Let_def and_next_Returned get_service_mappings_def split: if_splits)
  from declare_mappings [OF 1] have d: "declares (gw_service_mappings g) (g\<lparr>zg_session := True\<rparr>) g1"
    by (simp add: declares_def zg_links_def call_def)
  show ?thesis
    using d bridge_liveliness [OF 2]
    by (intro exI [of _ g1]) (simp add: g' set_running_def Let_def zg_links_def declares_def call_def)
qed

lemma declares_from:
  "zg_links g = zg_links g0 \<Longrightarrow> declares ms (g\<lparr>zg_session := True\<rparr>) g1 = declares ms (g0\<lparr>zg_session := True\<rparr>) g1"
  by (simp add: declares_def zg_links_def Let_def)

lemma Zenoh_start_Returned:
  assumes "Zenoh_start E g = Returned SUCCESS g'" and "\<not> gw_running g"
  shows "\<exists>g1. zg_links g1 = zg_links g \<and> Zenoh_start_session E g1 = Returned SUCCESS g'"
proof -
  obtain ok g2 where u: "Zenoh_start_udp E (Zenoh_start_sd E (g\<lparr>zg_encoding := zc_payload_encoding (zg_config g)\<rparr>)) = (ok, g2)"
    by fastforce
  with assms obtain x g1 where 1: "Zenoh_make_config E (Zenoh_start_someip E g2) = Returned x g1"
    and 2: "Zenoh_start_session E g1 = Returned SUCCESS g'"
    by (auto simp: Zenoh_start_def is_running_def and_next_Returned Let_def split: if_splits)
  show ?thesis
    using zg_links_config [of "Zenoh_start_someip E g2" E] zg_links_start_udp [OF u] 1 2 by auto
qed

subsection \<open>Starting without failures, and with them\<close>

lemma for_each_Returned: "(\<And>x g. \<exists>g'. f x g = Returned () g') \<Longrightarrow> \<exists>g'. for_each f xs g = Returned () g'"
proof (induction xs arbitrary: g)
  case (Cons x xs)
  then obtain g1 where "f x g = Returned () g1" by blast
  with Cons show ?case by simp
qed simp

lemma Zenoh_start_succeeds:
  assumes b: "\<And>h c. answer_bool E h (External c)" and u: "\<And>h x. answer_result E h (Udp_start x) = SUCCESS"
  shows "\<exists>g'. Zenoh_start E g = Returned SUCCESS g'"
proof -
  have z: "zenoh E c g = Returned () (call (External c) g)" for c g by (simp add: zenoh_def Let_def b)
  have r: "\<exists>g'. for_each (Zenoh_declare_rpc E m) mids g = Returned () g'" for m mids g
    by (rule for_each_Returned) (simp add: Zenoh_declare_rpc_def z Let_def)
  have "\<exists>g'. Zenoh_declare_mapping E m g = Returned () g'" for m g
  proof -
    obtain g1 where "(if should_forward_to_external m then for_each (Zenoh_declare_rpc E m) (someip_method_ids m) g
        else Returned () g) = Returned () g1"
      using r [of m "someip_method_ids m" g] by fastforce
    then show ?thesis
      by (simp add: Zenoh_declare_mapping_def Zenoh_declare_subscriptions_def Zenoh_declare_liveliness_def z Let_def)
  qed
  then have "\<exists>g'. for_each (Zenoh_declare_mapping E) ms g = Returned () g'" for ms g by (rule for_each_Returned)
  then have d: "\<exists>g'. for_each (Zenoh_declare_mapping E) ms g = Returned () g'" for ms g .
  have s: "\<exists>g'. Zenoh_start_session E g = Returned SUCCESS g'" for g
  proof -
    obtain g1 where "for_each (Zenoh_declare_mapping E) (get_service_mappings (call (External Zenoh_session_open) g))
        (call (External Zenoh_session_open) g\<lparr>zg_session := True\<rparr>) = Returned () g1"
      using d by blast
    then show ?thesis by (simp add: Zenoh_start_session_def Zenoh_bridge_liveliness_def z Let_def)
  qed
  have "fst (Zenoh_start_udp E g)" for g by (simp add: Zenoh_start_udp_def make_object_def Let_def u)
  then show ?thesis
    using s by (simp add: Zenoh_start_def Zenoh_make_config_def z Let_def split_beta)
qed

lemma Zenoh_stop_eq:
  "gw_running g \<Longrightarrow> Zenoh_stop E g = (SUCCESS, g\<lparr>gw_running := False,
     gw_io := gw_io g @ calls_on EventSubscriber_shutdown (zg_event_subscriber g) @
       calls_on RpcClient_shutdown (zg_rpc_client g) @ calls_on RpcServer_shutdown (zg_rpc_server g) @
       entry_calls EventPublisher_shutdown (zg_event_publishers g) @ calls_on Udp_stop (zg_udp g) @
       calls_on SdClient_shutdown (zg_sd_client g) @ calls_on SdServer_shutdown (zg_sd_server g),
     zg_udp := None, zg_sd_client := None, zg_sd_server := None, zg_event_publishers := RBT.empty,
     zg_event_subscriber := None, zg_rpc_server := None, zg_rpc_client := None, zg_session := False,
     zg_publishers := [], zg_subscribers := [], zg_queryables := [], zg_liveliness_tokens := [],
     zg_liveliness_subscribers := []\<rparr>)"
  by (simp add: Zenoh_stop_def is_running_def Let_def call_on_eq call_entries_eq set_running_def)

lemma zenoh_to_someip_fields:
  "ext_payload e = ext_payload e' \<Longrightarrow> source_method_id e = source_method_id e' \<Longrightarrow>
   zenoh_to_someip A enc e s i t = zenoh_to_someip A enc e' s i t"
  by (simp only: zenoh_to_someip_def)

lemma zenoh_decode_of_encode:
  assumes "message_laws A" and "length (get_payload A m) < 2 ^ 64" and "enc = ZENOH_CBOR \<Longrightarrow> length (get_payload A m) < 24"
  shows "\<exists>m'. zenoh_decode_payload A enc (zenoh_encode_payload A enc m) m0 = Inr (True, m') \<and> get_payload A m' = get_payload A m"
  using assms by (cases enc) (simp_all add: decode_json_of_encode decode_cbor_of_encode cbor_seen_lengths)


lemma subscribe_events_io:
  assumes "zg_event_subscriber g = Some h"
  shows "gw_io (Zenoh_subscribe_events g) = gw_io g @ concat (map (\<lambda>m. map (EventSubscriber_subscribe_eventgroup h
    (someip_service_id m) (someip_instance_id m)) (someip_event_group_ids m)) (filter should_forward_to_someip (gw_service_mappings g)))"
proof -
  have one: "fold (\<lambda>eg g. call_on (\<lambda>h. f h eg) (zg_event_subscriber g) g) egs g = g\<lparr>gw_io := gw_io g @ map (f h) egs\<rparr>"
    if "zg_event_subscriber g = Some h" for f egs and g :: "('a, 'b) ZenohGateway"
    using that by (induction egs arbitrary: g) (simp_all add: call_on_def call_def)
  have "fold (\<lambda>m g. if \<not> should_forward_to_someip m then g
      else fold (\<lambda>eg g. call_on (\<lambda>h. EventSubscriber_subscribe_eventgroup h (someip_service_id m) (someip_instance_id m) eg)
        (zg_event_subscriber g) g) (someip_event_group_ids m) g) ms g =
      g\<lparr>gw_io := gw_io g @ concat (map (\<lambda>m. map (EventSubscriber_subscribe_eventgroup h (someip_service_id m)
        (someip_instance_id m)) (someip_event_group_ids m)) (filter should_forward_to_someip ms))\<rparr>"
    if "zg_event_subscriber g = Some h" for ms and g :: "('a, 'b) ZenohGateway"
    using that by (induction ms arbitrary: g) (simp_all add: one)
  with assms show ?thesis by (simp add: Zenoh_subscribe_events_def get_service_mappings_def)
qed


subsection \<open>Samples for the witnesses\<close>

definition sample_zenoh_mapping :: ServiceMapping where
  "sample_zenoh_mapping = \<lparr>someip_service_id = 0x0012, someip_instance_id = 1, someip_method_ids = [7],
     someip_event_group_ids = [9], external_identifier = [], direction = BIDIRECTIONAL, mode = OPAQUE\<rparr>"

definition sample_zenoh :: "(ref_message, unit) ZenohGateway" where
  "sample_zenoh = (ZenohGateway_new (''0.0.0.0'', 0) ''zenoh'' (ZenohConfig_default ()))\<lparr>
     gw_service_mappings := [sample_zenoh_mapping], zg_session := True, zg_udp := Some 3\<rparr>"

definition sample_zenoh_event :: ref_message where
  "sample_zenoh_event = \<lparr>ref_service = 0x0012, ref_method = 0x0021, ref_client = 1, ref_session = 2, ref_type = 2,
     ref_return = 0, ref_payload = [5, 6]\<rparr>"

lemma sample_zenoh_simps [simp]:
  "gw_service_mappings sample_zenoh = [sample_zenoh_mapping]" "\<not> gw_running sample_zenoh" "zg_session sample_zenoh"
  "zg_udp sample_zenoh = Some 3" "gw_io sample_zenoh = []" "zg_encoding sample_zenoh = ZENOH_RAW"
  "zg_publishers sample_zenoh = []" "zg_queryables sample_zenoh = []" "zg_subscribers sample_zenoh = []"
  "zg_last_sender sample_zenoh = (''0.0.0.0'', 0)" "zg_config sample_zenoh = ZenohConfig_default ()"
  by (simp_all add: sample_zenoh_def ZenohGateway_new_def ZenohConfig_default_def)

lemma default_zenoh_simps [simp]:
  "zc_key_prefix (ZenohConfig_default c) = ''someip''" "zc_zenoh_config_file (ZenohConfig_default c) = []"
  "\<not> zc_enable_e2e_validation (ZenohConfig_default c)" "zc_someip_remote_address (ZenohConfig_default c) = ''127.0.0.1''"
  "zc_someip_remote_port (ZenohConfig_default c) = 30501"
  by (simp_all add: ZenohConfig_default_def)


subsection \<open>Properties\<close>

text \<open>C7: An event crosses Zenoh. When a gateway publishes a notification under a mapping, the key and the bytes it
  puts, handed to a second gateway with the same prefix and encoding that has a mapping for exactly this service and
  instance, make that gateway send one SOME/IP notification with the same service, method, type and payload
  over UDP and count it, whether or not released storage stays readable. The encodings are raw, JSON, and CBOR for
  payloads under 24 bytes.\<close>

theorem zenoh_event_crosses:
  assumes "message_laws A" and "publish_to_zenoh A E1 msg m g1 = Returned () g1'" and "zg_session g1"
    and "get_message_type A msg = mt_NOTIFICATION A" and "\<not> is_request A msg" and "\<not> is_response A msg"
    and "length (get_payload A msg) < 2 ^ 64" and "zg_encoding g1 = ZENOH_CBOR \<Longrightarrow> length (get_payload A msg) < 24"
    and "zc_key_prefix (zg_config g2) = zc_key_prefix (zg_config g1)" and "zg_encoding g2 = zg_encoding g1"
    and "find_mapping_for_service (someip_service_id m) (someip_instance_id m) g2 = Some m2"
    and "should_forward_to_someip m2" and "zg_udp g2 = Some h" and "\<not> zc_enable_e2e_validation (zg_config g2)"
  shows "\<exists>key p out. last (gw_io g1') = External (Zenoh_put key p) \<and>
    on_zenoh_sample A E2 intact key p g2 = Returned () (call (Udp_send_message h out
      (if snd (zg_last_sender g2) \<noteq> 0 then zg_last_sender g2
       else (zc_someip_remote_address (zg_config g2), zc_someip_remote_port (zg_config g2))))
      (record_external_to_someip (length p) g2)) \<and>
    header_of A out = (someip_service_id m, get_method_id A msg, 0, 1, get_message_type A msg, rc_E_OK A) \<and>
    get_payload A out = get_payload A msg"
proof -
  let ?ext = "someip_to_zenoh A (zg_encoding g1) msg (zc_key_prefix (zg_config g1)) m"
  let ?pre = "zc_key_prefix (zg_config g1)"
  let ?ext' = "?ext\<lparr>source_service_id := someip_service_id m, ext_is_request := False, ext_is_notification := True,
    correlation_id := []\<rparr>"
  have types: "mt_NOTIFICATION A \<notin> {mt_REQUEST_NO_RETURN A, mt_ERROR A, mt_TP_REQUEST A, mt_TP_REQUEST_NO_RETURN A}"
    using distinct_message_types [OF assms(1)] by (auto simp: message_types_def)
  then have key: "topic_or_key ?ext = build_key_expr ?pre (someip_service_id m) (someip_instance_id m) (get_method_id A msg) False"
    using assms(4-6) by (auto simp: someip_to_zenoh_def Let_def)
  have put: "last (gw_io g1') = External (Zenoh_put (topic_or_key ?ext) (ext_payload ?ext))"
    using assms(2,3) by (auto simp: publish_to_zenoh_def Let_def and_next_Returned zenoh_Returned split: if_splits)
  have pre: "\<not> length (topic_or_key ?ext) \<le> length ?pre" "take (length ?pre) (topic_or_key ?ext) = ?pre"
    unfolding key by (simp_all add: topic_simps)
  have f: "zenoh_to_someip A (zg_encoding g1) ?ext' s i t = zenoh_to_someip A (zg_encoding g1) ?ext s i t" for s i t
    by (rule zenoh_to_someip_fields) simp_all
  obtain out where out: "zenoh_to_someip A (zg_encoding g1) ?ext' (someip_service_id m) (someip_instance_id m) (mt_NOTIFICATION A) = Inr out"
    "header_of A out = (someip_service_id m, get_method_id A msg, 0, 1, get_message_type A msg, rc_E_OK A)"
    "get_payload A out = get_payload A msg"
    using zenoh_message_round_trip [OF assms(1,7), of "zg_encoding g1" ?pre m "someip_service_id m" "someip_instance_id m" "mt_NOTIFICATION A"]
      assms(4,8) cbor_seen_lengths(1) [of "get_payload A msg"]
    unfolding f by (cases "zg_encoding g1 = ZENOH_CBOR") auto
  have e: "\<lparr>topic_or_key = topic_or_key ?ext, ext_payload = ext_payload ?ext, source_service_id = someip_service_id m,
      source_method_id = get_method_id A msg, source_instance_id = someip_instance_id m, ext_is_request = False,
      ext_is_notification = True, correlation_id = []\<rparr> = ?ext'"
    by (simp add: someip_to_zenoh_def Let_def)
  have "on_zenoh_sample A E2 intact (topic_or_key ?ext) (ext_payload ?ext) g2 =
      Returned () (send_someip_udp E2 out (record_external_to_someip (length (ext_payload ?ext)) g2))"
    using pre out(1) assms(9-12) unfolding on_zenoh_sample_def
    by (simp add: Let_def key parse_built_keys Zenoh_find_mapping_def e [unfolded key])
  with put out(2,3) assms(13,14) show ?thesis
    by (intro exI [of _ "topic_or_key ?ext"] exI [of _ "ext_payload ?ext"] exI [of _ out])
       (simp add: send_someip_udp_def record_external_to_someip_def Let_def)
qed

theorem zenoh_event_crosses_witness:
  "\<exists>key p out. last (gw_io (call (External (Zenoh_put ''someip/0x0012/0x0001/0x0021/event'' [5, 6]))
       (call (External (Zenoh_declare_publisher ''someip/0x0012/0x0001/0x0021/event'')) sample_zenoh))) =
     External (Zenoh_put key p) \<and>
   on_zenoh_sample ref_api ref_env False key p sample_zenoh = Returned () (call (Udp_send_message 3 out (''127.0.0.1'', 30501))
      (record_external_to_someip (length p) sample_zenoh)) \<and>
   header_of ref_api out = (0x0012, 0x0021, 0, 1, 2, 0) \<and> get_payload ref_api out = [5, 6]"
proof -
  have k: "build_key_expr ''someip'' 0x0012 1 0x0021 False = ''someip/0x0012/0x0001/0x0021/event''" by code_simp
  have p: "publish_to_zenoh ref_api ref_env sample_zenoh_event sample_zenoh_mapping sample_zenoh =
      Returned () (call (External (Zenoh_put ''someip/0x0012/0x0001/0x0021/event'' [5, 6]))
        (call (External (Zenoh_declare_publisher ''someip/0x0012/0x0001/0x0021/event'')) sample_zenoh))"
    by (simp add: publish_to_zenoh_def zenoh_def ref_env_def Let_def someip_to_zenoh_def sample_zenoh_event_def ref_simps
        sample_zenoh_mapping_def k)
  show ?thesis
    using zenoh_event_crosses [OF ref_api_laws p, of sample_zenoh sample_zenoh_mapping 3 ref_env False]
    by (simp add: sample_zenoh_event_def ref_simps sample_zenoh_mapping_def find_mapping_for_service_def
        should_forward_to_someip_def)
qed




text \<open>What a successful start declares on Zenoh: a publisher and a queryable on the RPC key of every method of every
  mapping that forwards to Zenoh, one subscriber on the instance pattern of every mapping that forwards to
  SOME/IP, and one liveliness token per mapping, in the order of the mappings.\<close>

lemma zenoh_start_declares:
  assumes "\<not> gw_running g" and "Zenoh_start E g = Returned SUCCESS g'"
  shows "let pre = zc_key_prefix (zg_config g); ms = gw_service_mappings g; rpcs = concat (map (rpc_keys pre) ms)
    in gw_running g' \<and> zg_session g' \<and> zg_publishers g' = zg_publishers g @ map fst rpcs \<and>
       zg_queryables g' = zg_queryables g @ rpcs \<and>
       zg_subscribers g' = zg_subscribers g @ map (\<lambda>m. build_instance_pattern pre (someip_service_id m) (someip_instance_id m))
         (filter should_forward_to_someip ms) \<and>
       zg_liveliness_tokens g' = zg_liveliness_tokens g @
         map (\<lambda>m. build_liveliness_key pre (someip_service_id m) (someip_instance_id m)) ms"
proof -
  have s: "concat (map (sample_patterns pre) ms) =
      map (\<lambda>m. build_instance_pattern pre (someip_service_id m) (someip_instance_id m)) (filter should_forward_to_someip ms)" for pre ms
    by (induction ms) (simp_all add: sample_patterns_def)
  from Zenoh_start_Returned [OF assms(2,1)] obtain g1 where l: "zg_links g1 = zg_links g"
    and ss: "Zenoh_start_session E g1 = Returned SUCCESS g'" by blast
  have "gw_service_mappings g1 = gw_service_mappings g" using l by (simp add: zg_links_def)
  with start_session_Returned [OF ss] obtain g2 where "declares (gw_service_mappings g) (g\<lparr>zg_session := True\<rparr>) g2" and
    e: "gw_running g'" "zg_publishers g' = zg_publishers g2" "zg_queryables g' = zg_queryables g2"
      "zg_subscribers g' = zg_subscribers g2" "zg_liveliness_tokens g' = zg_liveliness_tokens g2" "zg_session g'"
    unfolding declares_from [OF l] by auto
  then show ?thesis by (simp add: declares_def zg_links_def Let_def s e)
qed

lemma zenoh_start_declares_witness:
  "\<exists>g'. Zenoh_start ref_env sample_zenoh = Returned SUCCESS g' \<and> gw_running g' \<and>
     zg_subscribers g' = [''someip/0x0012/0x0001/**''] \<and> map fst (zg_queryables g') = [''someip/0x0012/0x0001/rpc/0x0007'']"
proof -
  obtain g' where g': "Zenoh_start ref_env sample_zenoh = Returned SUCCESS g'"
    using Zenoh_start_succeeds [of ref_env sample_zenoh] by (auto simp: ref_env_def)
  have k: "build_instance_pattern ''someip'' 0x0012 1 = ''someip/0x0012/0x0001/**''"
    "build_rpc_key ''someip'' 0x0012 1 7 = ''someip/0x0012/0x0001/rpc/0x0007''" by code_simp+
  show ?thesis
    using zenoh_start_declares [OF _ g'] g'
    by (simp add: Let_def sample_zenoh_mapping_def rpc_keys_def should_forward_to_someip_def should_forward_to_external_def k)
qed



text \<open>Stop releases everything. A running gateway is stopped with one shut-down call per object it owns, event
  publishers in key order; no object, declaration or session is left. On a stopped gateway nothing happens.\<close>

lemma zenoh_stop_releases:
  "if gw_running g
   then Zenoh_stop E g = (SUCCESS, g\<lparr>gw_running := False,
     gw_io := gw_io g @ calls_on EventSubscriber_shutdown (zg_event_subscriber g) @
       calls_on RpcClient_shutdown (zg_rpc_client g) @ calls_on RpcServer_shutdown (zg_rpc_server g) @
       map (\<lambda>(k, h). EventPublisher_shutdown h) (RBT.entries (zg_event_publishers g)) @ calls_on Udp_stop (zg_udp g) @
       calls_on SdClient_shutdown (zg_sd_client g) @ calls_on SdServer_shutdown (zg_sd_server g),
     zg_udp := None, zg_sd_client := None, zg_sd_server := None, zg_event_publishers := RBT.empty,
     zg_event_subscriber := None, zg_rpc_server := None, zg_rpc_client := None, zg_session := False,
     zg_publishers := [], zg_subscribers := [], zg_queryables := [], zg_liveliness_tokens := [],
     zg_liveliness_subscribers := []\<rparr>)
   else Zenoh_stop E g = (SUCCESS, g)"
  using Zenoh_stop_eq [of g E] by (auto simp: entry_calls_def) (simp add: Zenoh_stop_def is_running_def)

text \<open>Events and the mapping direction. \<open>start\<close> subscribes to the SOME/IP event groups of exactly the mappings that
  forward from Zenoh to SOME/IP, and the handler publishes a notification to Zenoh under the mapping of its service
  and instance whatever the direction of that mapping: events leave for mappings that only let traffic in, and
  never for mappings that only let it out.\<close>

lemma zenoh_event_direction:
  assumes "zg_event_subscriber g = Some h" and "find_mapping_for_service (ev_service_id n) (ev_instance_id n) g' = Some m"
  shows "gw_io (Zenoh_subscribe_events g) = gw_io g @ concat (map (\<lambda>m. map (EventSubscriber_subscribe_eventgroup h
        (someip_service_id m) (someip_instance_id m)) (someip_event_group_ids m))
        (filter should_forward_to_someip (gw_service_mappings g))) \<and>
    Zenoh_on_event_notification A E intact n g' = publish_to_zenoh A E (set_payload A (ev_event_data n)
        (Message_ctor A (ev_service_id n, ev_event_id n) (zc_rpc_client_id (zg_config g'), 1) (mt_NOTIFICATION A))) m g'"
  using assms(2) subscribe_events_io [OF assms(1)]
  by (simp add: Zenoh_on_event_notification_def Zenoh_find_mapping_def)

lemma zenoh_event_direction_witness:
  "gw_io (Zenoh_subscribe_events (sample_zenoh\<lparr>zg_event_subscriber := Some 5\<rparr>)) =
     [EventSubscriber_subscribe_eventgroup 5 0x0012 1 9]"
  using zenoh_event_direction [of "sample_zenoh\<lparr>zg_event_subscriber := Some 5\<rparr>" 5
      "\<lparr>ev_service_id = 0x0012, ev_instance_id = 1, ev_event_id = 0x0021, ev_client_id = 0, ev_session_id = 0, ev_event_data = []\<rparr>"
      sample_zenoh sample_zenoh_mapping]
  by (simp add: sample_zenoh_mapping_def find_mapping_for_service_def should_forward_to_someip_def)


subsection \<open>The life cycle\<close>

lemma Zenoh_start_running:
  assumes "Zenoh_start E g = Returned r g'"
  shows "gw_running g' = (r = SUCCESS \<or> gw_running g)"
proof (cases "gw_running g \<or> r = SUCCESS")
  case True
  then show ?thesis
    using assms Zenoh_start_Returned [of E g g'] start_session_Returned [of E _ g']
    by (cases "gw_running g") (auto simp: Zenoh_start_def is_running_def)
next
  case False
  obtain ok g2 where u: "Zenoh_start_udp E (Zenoh_start_sd E (g\<lparr>zg_encoding := zc_payload_encoding (zg_config g)\<rparr>)) = (ok, g2)"
    by fastforce
  then have links: "zg_links g2 = zg_links g" using zg_links_start_udp [OF u] by simp
  show ?thesis
  proof (cases ok)
    case True
    with False assms u obtain x g1 where 1: "Zenoh_make_config E (Zenoh_start_someip E g2) = Returned x g1"
      and 2: "Zenoh_start_session E g1 = Returned r g'"
      by (auto simp: Zenoh_start_def is_running_def and_next_Returned Let_def)
    have "zg_links g1 = zg_links g"
      using zg_links_config [of "Zenoh_start_someip E g2" E] 1 links by simp
    with 2 False show ?thesis
      by (auto simp: Zenoh_start_session_def zenoh_def Let_def and_next_Returned zg_links_def split: if_splits)
  next
    case False
    with \<open>\<not> (gw_running g \<or> r = SUCCESS)\<close> assms u links show ?thesis
      by (auto simp: Zenoh_start_def is_running_def Let_def zg_links_def)
  qed
qed

interpretation zenoh_life: life_cycle False "\<lambda>g. outcome_result (Zenoh_start E g)" "\<lambda>g. Some (Zenoh_stop E g)"
  "\<lambda>m g. outcome_result (Zenoh_on_someip_message A S E intact m g)" for A S E intact
proof
  show "gw_running g' = (r = SUCCESS \<or> gw_running g)" if "outcome_result (Zenoh_start E g) = Some (r, g')" for g r g'
    using that Zenoh_start_running by simp
  show "r = SUCCESS \<and> \<not> gw_running g'" if "Some (Zenoh_stop E g) = Some (r, g')" for g r g'
    using that by (auto simp: Zenoh_stop_def is_running_def set_running_def Let_def split: if_splits)
  show "gw_running g' = gw_running g" if "outcome_result (Zenoh_on_someip_message A S E intact m g) = Some (r, g')" for m g r g'
    using forward_step_same_base [OF zenoh.step [OF that]] by (simp add: same_base_def)
qed (simp_all add: prod_eq_iff)

end
