(* ===== verification/Portable_Builds.thy ===== *)
theory Portable_Builds
  imports Dbus_Gateway Ros2_Gateway
begin

text \<open>
  The builds without a middleware library. Where libsystemd or rclcpp is missing, the preprocessor leaves the private
  implementation classes of \<open>gateway-dbus/src/dbus_gateway.cpp\<close> and \<open>gateway-ros2/src/ros2_gateway.cpp\<close> with other bodies
  (\<open>HAVE_SYSTEMD\<close>, \<open>OPENSOMEIP_GATEWAY_ROS2_HAS_RCLCPP\<close>). Those bodies, and the gateway functions around them, are defined
  here; the theories \<open>Dbus_Gateway\<close> and \<open>Ros2_Gateway\<close> have the other build. The properties say that each of these builds behaves
  like the full build with its middleware switched off, operation by operation and over every sequence of operations.
\<close>

subsection \<open>D-Bus without libsystemd\<close>

definition Dbus_portable_impl_start :: "('m, 'c) DbusGateway \<Rightarrow> Result \<times> ('m, 'c) DbusGateway" where
  "Dbus_portable_impl_start g = (if \<not> db_enabled g then (SUCCESS, g) else (SUCCESS, g))"

definition Dbus_portable_impl_stop :: "('m, 'c) DbusGateway \<Rightarrow> ('m, 'c) DbusGateway" where
  "Dbus_portable_impl_stop g = g"

definition Dbus_portable_impl_poll :: "int \<Rightarrow> ('m, 'c) DbusGateway \<Rightarrow> Result \<times> ('m, 'c) DbusGateway" where
  "Dbus_portable_impl_poll timeout g = (if \<not> db_enabled g then (SUCCESS, g) else (SUCCESS, g))"

definition Dbus_portable_impl_emit_signal ::
  "string \<Rightarrow> string \<Rightarrow> string \<Rightarrow> u16 \<Rightarrow> bytes \<Rightarrow> ('m, 'c) DbusGateway \<Rightarrow> Result \<times> ('m, 'c) DbusGateway" where
  "Dbus_portable_impl_emit_signal path iface mem method_id pl g = (if \<not> db_enabled g then (SUCCESS, g) else (SUCCESS, g))"

definition Dbus_portable_started :: "('m, 'c) dbus_env \<Rightarrow> ('m, 'c) DbusGateway \<Rightarrow> Result \<times> ('m, 'c) DbusGateway" where
  "Dbus_portable_started E g =
     (let g1 = call_on SdClient_initialize (side_sd_client g) g;
          g2 = call_on SdServer_initialize (side_sd_server g1) g1;
          (r, g3) = Dbus_portable_impl_start g2
      in if r \<noteq> SUCCESS then (r, g3) else (SUCCESS, set_running E True g3))"

definition Dbus_portable_start :: "('m, 'c) dbus_env \<Rightarrow> ('m, 'c) DbusGateway \<Rightarrow> Result \<times> ('m, 'c) DbusGateway" where
  "Dbus_portable_start E g =
     (case side_udp_transport g of
        Some h \<Rightarrow>
          (let r = answer_result E (gw_io g) (Udp_start h); g1 = call (Udp_start h) g
           in if r \<noteq> SUCCESS then (r, g1) else Dbus_portable_started E g1)
      | None \<Rightarrow> Dbus_portable_started E g)"

definition Dbus_portable_stop :: "('m, 'c) dbus_env \<Rightarrow> ('m, 'c) DbusGateway \<Rightarrow> Result \<times> ('m, 'c) DbusGateway" where
  "Dbus_portable_stop E g =
     (let g1 = call_on EventSubscriber_shutdown (side_event_subscriber g) g;
          g2 = call_on RpcClient_shutdown (side_rpc_client g1) g1;
          g3 = call_on RpcServer_shutdown (db_rpc_server g2) g2;
          g4 = call_on SdClient_shutdown (side_sd_client g3) g3;
          g5 = call_on SdServer_shutdown (side_sd_server g4) g4;
          g6 = call_on Udp_stop (side_udp_transport g5) g5
      in (SUCCESS, set_running E False (Dbus_portable_impl_stop g6)))"

definition Dbus_portable_on_someip_message ::
  "'m message_api \<Rightarrow> 'm \<Rightarrow> ('m, 'c) DbusGateway \<Rightarrow> Result \<times> ('m, 'c) DbusGateway" where
  "Dbus_portable_on_someip_message A msg g =
     (if \<not> is_running g then (NOT_INITIALIZED, g)
      else case find_inbound_mapping (get_service_id A msg) (dc_default_someip_instance_id (db_config g)) g of
        None \<Rightarrow> (SERVICE_NOT_FOUND, g)
      | Some mapping \<Rightarrow>
          if \<not> should_forward_to_external mapping then (SUCCESS, g)
          else let mt = get_message_type A msg;
                   is_notification = mt = mt_NOTIFICATION A \<or> mt = mt_TP_NOTIFICATION A;
                   is_req = is_request A msg
               in if \<not> is_notification \<and> \<not> is_req then (SUCCESS, g)
                  else let path = build_object_path (db_translator g) (someip_service_id mapping) (someip_instance_id mapping);
                           iface = build_interface_name (someip_service_id mapping);
                           signal_name = (if is_notification then ''SomeipNotification'' else ''SomeipRequest'');
                           (r, g1) = Dbus_portable_impl_emit_signal path iface signal_name (get_method_id A msg) (get_payload A msg) g
                       in (r, if r = SUCCESS then record_someip_to_external (length (get_payload A msg)) g1
                              else record_translation_error g1))"

definition portable_poll_dbus :: "int \<Rightarrow> ('m, 'c) DbusGateway \<Rightarrow> Result \<times> ('m, 'c) DbusGateway" where
  "portable_poll_dbus timeout g = Dbus_portable_impl_poll timeout g"

text \<open>What a host does with the gateway once it is wired.\<close>

datatype 'm dbus_op =
    Dbus_op_start
  | Dbus_op_stop
  | Dbus_op_message 'm
  | Dbus_op_poll int
  | Dbus_op_rpc u16 u16 u16 bytes

fun dbus_op_step ::
  "'m message_api \<Rightarrow> ('m, 'c) dbus_env \<Rightarrow> 'm dbus_op \<Rightarrow> ('m, 'c) DbusGateway \<Rightarrow> Result \<times> ('m, 'c) DbusGateway" where
  "dbus_op_step A E Dbus_op_start g = Dbus_start E g"
| "dbus_op_step A E Dbus_op_stop g = Dbus_stop E g"
| "dbus_op_step A E (Dbus_op_message m) g = Dbus_on_someip_message A E m g"
| "dbus_op_step A E (Dbus_op_poll t) g = poll_dbus E t g"
| "dbus_op_step A E (Dbus_op_rpc s i m p) g = emit_external_rpc A s i m p g"

fun dbus_portable_step ::
  "'m message_api \<Rightarrow> ('m, 'c) dbus_env \<Rightarrow> 'm dbus_op \<Rightarrow> ('m, 'c) DbusGateway \<Rightarrow> Result \<times> ('m, 'c) DbusGateway" where
  "dbus_portable_step A E Dbus_op_start g = Dbus_portable_start E g"
| "dbus_portable_step A E Dbus_op_stop g = Dbus_portable_stop E g"
| "dbus_portable_step A E (Dbus_op_message m) g = Dbus_portable_on_someip_message A m g"
| "dbus_portable_step A E (Dbus_op_poll t) g = portable_poll_dbus t g"
| "dbus_portable_step A E (Dbus_op_rpc s i m p) g = emit_external_rpc A s i m p g"

text \<open>The results of a sequence of operations and the gateway after it.\<close>

fun run_ops :: "('o \<Rightarrow> 'g \<Rightarrow> 'r \<times> 'g) \<Rightarrow> 'o list \<Rightarrow> 'g \<Rightarrow> 'r list \<times> 'g" where
  "run_ops step [] g = ([], g)"
| "run_ops step (o1 # os) g = (let (r, g1) = step o1 g; (rs, g2) = run_ops step os g1 in (r # rs, g2))"

text \<open>The state of a gateway that has no bus, and the same gateway with the bus switched off.\<close>

definition dbus_idle :: "('m, 'c) DbusGateway \<Rightarrow> bool" where
  "dbus_idle g \<longleftrightarrow> \<not> db_bus g \<and> db_slots g = [] \<and> db_ctx_storage g = []"

lemma lookup_enabled [simp]:
  "find_mapping_for_service s i (g\<lparr>db_enabled := e\<rparr>) = find_mapping_for_service s i g"
  "find_inbound_mapping s d (g\<lparr>db_enabled := e\<rparr>) = find_inbound_mapping s d g"
  by (simp_all add: find_inbound_mapping_def find_mapping_for_service_def split: option.split)

lemma dbus_portable_simulates:
  assumes "dbus_idle g" and "dbus_portable_step A E op g = (r, g')"
  shows "dbus_idle g' \<and> dbus_op_step A E op (test_set_dbus_enabled False g) = (r, test_set_dbus_enabled False g')"
proof (cases op)
  case Dbus_op_start
  with assms show ?thesis
    by (auto simp: dbus_idle_def test_set_dbus_enabled_def Dbus_portable_start_def Dbus_start_def Dbus_portable_started_def
        Dbus_started_def Dbus_portable_impl_start_def Dbus_impl_start_def set_running_def call_on_eq call_def Let_def
        split: option.splits if_splits)
next
  case Dbus_op_stop
  with assms show ?thesis
    by (auto simp: dbus_idle_def test_set_dbus_enabled_def Dbus_portable_stop_def Dbus_stop_def Dbus_portable_impl_stop_def
        Dbus_impl_stop_def set_running_def call_on_eq call_def Let_def)
next
  case (Dbus_op_message m)
  with assms show ?thesis
    by (auto simp: dbus_idle_def test_set_dbus_enabled_def Dbus_portable_on_someip_message_def Dbus_on_someip_message_def
        Dbus_portable_impl_emit_signal_def Dbus_impl_emit_signal_def record_someip_to_external_def is_running_def Let_def
        split: option.splits if_splits)
next
  case (Dbus_op_poll t)
  with assms show ?thesis
    by (auto simp: dbus_idle_def test_set_dbus_enabled_def portable_poll_dbus_def poll_dbus_def Dbus_portable_impl_poll_def
        Dbus_impl_poll_def)
next
  case (Dbus_op_rpc s i m p)
  with assms show ?thesis
    by (auto simp: dbus_idle_def test_set_dbus_enabled_def emit_external_rpc_def record_external_to_someip_def emit_to_sink_def
        is_running_def call_def Let_def split: option.splits if_splits)
qed

text \<open>The calls on the bus in a history.\<close>

fun bus_calls :: "('m, 'c, 'x) history \<Rightarrow> 'x list" where
  "bus_calls [] = []"
| "bus_calls (External c # h) = c # bus_calls h"
| "bus_calls (ev # h) = bus_calls h"

lemma bus_calls_append [simp]: "bus_calls (h @ h') = bus_calls h @ bus_calls h'"
  by (induction h rule: bus_calls.induct) auto

lemma bus_calls_on [simp]:
  "bus_calls (calls_on SdClient_initialize p) = []" "bus_calls (calls_on SdServer_initialize p) = []"
  "bus_calls (calls_on EventSubscriber_shutdown p) = []" "bus_calls (calls_on RpcClient_shutdown p) = []"
  "bus_calls (calls_on RpcServer_shutdown p) = []" "bus_calls (calls_on SdClient_shutdown p) = []"
  "bus_calls (calls_on SdServer_shutdown p) = []" "bus_calls (calls_on Udp_stop p) = []"
  by (simp_all add: calls_on_def split: option.split)

lemma dbus_portable_quiet:
  assumes "dbus_portable_step A E op g = (r, g')"
  shows "bus_calls (gw_io g') = bus_calls (gw_io g)"
proof (cases op)
  case Dbus_op_start
  with assms show ?thesis
    by (auto simp: Dbus_portable_start_def Dbus_portable_started_def Dbus_portable_impl_start_def set_running_def call_on_eq call_def
        Let_def split: option.splits if_splits)
next
  case Dbus_op_stop
  with assms show ?thesis
    by (auto simp: Dbus_portable_stop_def Dbus_portable_impl_stop_def set_running_def call_on_eq call_def Let_def)
next
  case (Dbus_op_message m)
  with assms show ?thesis
    by (auto simp: Dbus_portable_on_someip_message_def Dbus_portable_impl_emit_signal_def record_someip_to_external_def Let_def
        split: option.splits if_splits)
next
  case (Dbus_op_poll t)
  with assms show ?thesis by (auto simp: portable_poll_dbus_def Dbus_portable_impl_poll_def split: if_splits)
next
  case (Dbus_op_rpc s i m p)
  with assms show ?thesis
    by (auto simp: emit_external_rpc_def record_external_to_someip_def emit_to_sink_def call_def Let_def
        split: option.splits if_splits)
qed

text \<open>C23: The D-Bus gateway built without libsystemd behaves, over every sequence of starts, stops, messages, polls and calls, exactly like
  the full build whose bus was switched off: the same results and, the switch apart, the same state. No call on the bus is made,
  yet a notification or request of a service that may go out is answered with \<open>SUCCESS\<close> and counted as forwarded.\<close>

theorem dbus_portable_build:
  assumes "dbus_idle g" and "run_ops (dbus_portable_step A E) ops g = (rs, g')"
  shows "run_ops (dbus_op_step A E) ops (test_set_dbus_enabled False g) = (rs, test_set_dbus_enabled False g') \<and>
    bus_calls (gw_io g') = bus_calls (gw_io g) \<and>
    (\<forall>msg mapping. is_running g' \<and>
       find_inbound_mapping (get_service_id A msg) (dc_default_someip_instance_id (db_config g')) g' = Some mapping \<and>
       should_forward_to_external mapping \<and> (get_message_type A msg = mt_NOTIFICATION A \<or> is_request A msg) \<longrightarrow>
       Dbus_portable_on_someip_message A msg g' = (SUCCESS, record_someip_to_external (length (get_payload A msg)) g'))"
proof -
  have "run_ops (dbus_op_step A E) ops (test_set_dbus_enabled False g) = (rs, test_set_dbus_enabled False g') \<and>
      bus_calls (gw_io g') = bus_calls (gw_io g)"
    using assms
  proof (induction ops arbitrary: g rs)
    case (Cons op ops)
    obtain r g1 where s: "dbus_portable_step A E op g = (r, g1)" by fastforce
    obtain rs1 where t: "run_ops (dbus_portable_step A E) ops g1 = (rs1, g')" "rs = r # rs1"
      using Cons.prems(2) s by (auto split: prod.splits)
    from dbus_portable_simulates [OF Cons.prems(1) s] dbus_portable_quiet [OF s] Cons.IH [OF _ t(1)] t(2)
    show ?case by simp
  qed simp
  then show ?thesis
    by (auto simp: Dbus_portable_on_someip_message_def Dbus_portable_impl_emit_signal_def Let_def)
qed

text \<open>A message of a mapped service in a build without libsystemd, next to the full build with the bus switched off.\<close>

theorem dbus_portable_build_witness:
  "run_ops (dbus_op_step ref_api ref_env) [Dbus_op_start, Dbus_op_poll 10, Dbus_op_stop]
       (test_set_dbus_enabled False (DbusGateway_new DbusConfig_default)) =
     (let (rs, g) = run_ops (dbus_portable_step ref_api (ref_env :: (ref_message, unit) dbus_env))
          [Dbus_op_start, Dbus_op_poll 10, Dbus_op_stop] (DbusGateway_new DbusConfig_default)
      in (rs, test_set_dbus_enabled False g))"
  using dbus_portable_build [of "DbusGateway_new DbusConfig_default" ref_api ref_env "[Dbus_op_start, Dbus_op_poll 10, Dbus_op_stop]"]
  by (auto simp: dbus_idle_def DbusGateway_new_def split: prod.split)


subsection \<open>ROS 2 without rclcpp\<close>

text \<open>\<open>start\<close> only copies the configuration, which nothing reads.\<close>

definition Ros2_portable_impl_start :: "('m, 'c) Ros2Gateway \<Rightarrow> ('m, 'c) Ros2Gateway" where
  "Ros2_portable_impl_start g = g"

definition Ros2_portable_impl_stop :: "('m, 'c) Ros2Gateway \<Rightarrow> ('m, 'c) Ros2Gateway" where
  "Ros2_portable_impl_stop g = g"

definition Ros2_portable_impl_publish ::
  "string \<Rightarrow> Ros2QosProfile \<Rightarrow> bytes \<Rightarrow> ('m, 'c) Ros2Gateway \<Rightarrow> ('m, 'c) Ros2Gateway" where
  "Ros2_portable_impl_publish topic qos data g = emit_ros2_publish topic data g"

definition Ros2_portable_started ::
  "('m, 'c) ros_env \<Rightarrow> u16 list \<Rightarrow> u64 list \<Rightarrow> ('m, 'c) Ros2Gateway \<Rightarrow> ('m, 'c) Ros2Gateway" where
  "Ros2_portable_started E servers publishers g =
     (let g1 = Ros2_create_rpc_client E g;
          g2 = call_on RpcClient_initialize (side_rpc_client g1) g1;
          g3 = call_table RpcServer_initialize servers (r2_rpc_servers g2) g2;
          g4 = Ros2_create_sd E g3;
          g5 = call_on SdClient_initialize (side_sd_client g4) g4;
          g6 = call_on SdServer_initialize (side_sd_server g5) g5;
          g7 = call_table EventPublisher_initialize publishers (side_event_publishers g6) g6;
          g8 = (if rc_enable_event_subscriber (r2_config g7)
                then snd (side_ensure_event_subscriber E (rc_rpc_client_id (r2_config g7)) g7) else g7)
      in set_running E True (Ros2_portable_impl_start g8))"

definition Ros2_portable_start ::
  "('m, 'c) ros_env \<Rightarrow> u16 list \<Rightarrow> u64 list \<Rightarrow> ('m, 'c) Ros2Gateway \<Rightarrow> Result \<times> ('m, 'c) Ros2Gateway" where
  "Ros2_portable_start E servers publishers g =
     (let g0 = (if rc_enable_udp_transport (r2_config g) \<and> side_udp_transport g = None
                then Ros2_enable_someip_udp_bridge E g else g)
      in case side_udp_transport g0 of
           Some h \<Rightarrow>
             (let r = answer_result E (gw_io g0) (Udp_start h); g1 = call (Udp_start h) g0
              in if r \<noteq> SUCCESS then (r, g1) else (SUCCESS, Ros2_portable_started E servers publishers g1))
         | None \<Rightarrow> (SUCCESS, Ros2_portable_started E servers publishers g0))"

definition Ros2_portable_stop ::
  "('m, 'c) ros_env \<Rightarrow> u16 list \<Rightarrow> u64 list \<Rightarrow> ('m, 'c) Ros2Gateway \<Rightarrow> Result \<times> ('m, 'c) Ros2Gateway" where
  "Ros2_portable_stop E servers publishers g =
     (let g0 = Ros2_portable_impl_stop g;
          g1 = call_on EventSubscriber_shutdown (side_event_subscriber g0) g0;
          g2 = call_on RpcClient_shutdown (side_rpc_client g1) g1;
          g3 = call_table RpcServer_shutdown servers (r2_rpc_servers g2) g2;
          g4 = call_on SdClient_shutdown (side_sd_client g3) g3;
          g5 = call_on SdServer_shutdown (side_sd_server g4) g4;
          g6 = call_table EventPublisher_shutdown publishers (side_event_publishers g5) g5;
          g7 = call_on Udp_stop (side_udp_transport g6) g6
      in (SUCCESS, set_running E False g7))"

definition Ros2_portable_on_someip_message ::
  "'m message_api \<Rightarrow> ('m, 'c) ros_env \<Rightarrow> 'm \<Rightarrow> ('m, 'c) Ros2Gateway \<Rightarrow> Result \<times> ('m, 'c) Ros2Gateway" where
  "Ros2_portable_on_someip_message A E msg g =
     (if \<not> is_running g then (NOT_INITIALIZED, g)
      else case find_inbound_mapping (get_service_id A msg) (rc_default_someip_instance_id (r2_config g)) g of
        None \<Rightarrow> (SERVICE_NOT_FOUND, g)
      | Some mapping \<Rightarrow>
          if \<not> should_forward_to_external mapping then (SUCCESS, g)
          else let (vr, g1) = side_e2e_validate E (rc_use_e2e (r2_config g)) (rc_e2e_config (r2_config g)) msg g
               in if vr \<noteq> SUCCESS then (vr, record_translation_error g1)
                  else let topic = route_someip_to_ros2_topic A msg mapping g1;
                           pl = convert_someip_to_ros2_bytes A msg;
                           qos = qos_for_someip_transport (rc_default_someip_transport (r2_config g1));
                           g2 = Ros2_portable_impl_publish topic qos pl g1
                       in (SUCCESS, record_someip_to_external (length pl) g2))"

text \<open>The state of a gateway without a node.\<close>

definition ros2_nodeless :: "('m, 'c) Ros2Gateway \<Rightarrow> bool" where
  "ros2_nodeless g \<longleftrightarrow> \<not> r2_node g \<and> r2_pubs g = Map.empty \<and> r2_subs g = []"

datatype 'm ros2_op =
    Ros2_op_start "u16 list" "u64 list"
  | Ros2_op_stop "u16 list" "u64 list"
  | Ros2_op_message 'm
  | Ros2_op_inject string bytes

fun ros2_op_step ::
  "'m message_api \<Rightarrow> ('m, 'c) ros_env \<Rightarrow> 'm ros2_op \<Rightarrow> ('m, 'c) Ros2Gateway \<Rightarrow> Result \<times> ('m, 'c) Ros2Gateway" where
  "ros2_op_step A E (Ros2_op_start sv pb) g = Ros2_start E sv pb g"
| "ros2_op_step A E (Ros2_op_stop sv pb) g = Ros2_stop E sv pb g"
| "ros2_op_step A E (Ros2_op_message m) g = Ros2_on_someip_message A E m g"
| "ros2_op_step A E (Ros2_op_inject t b) g = inject_ros2_message A E t b g"

fun ros2_portable_step ::
  "'m message_api \<Rightarrow> ('m, 'c) ros_env \<Rightarrow> 'm ros2_op \<Rightarrow> ('m, 'c) Ros2Gateway \<Rightarrow> Result \<times> ('m, 'c) Ros2Gateway" where
  "ros2_portable_step A E (Ros2_op_start sv pb) g = Ros2_portable_start E sv pb g"
| "ros2_portable_step A E (Ros2_op_stop sv pb) g = Ros2_portable_stop E sv pb g"
| "ros2_portable_step A E (Ros2_op_message m) g = Ros2_portable_on_someip_message A E m g"
| "ros2_portable_step A E (Ros2_op_inject t b) g = inject_ros2_message A E t b g"

text \<open>
  The full build asks \<open>rclcpp::ok()\<close> at every start and the other one does not. A history without these questions, the gateway with
  such a history, and an environment in which rclcpp is down and in which the question changes nothing else.
\<close>

definition visible :: "('m, 'c, ros_call) history \<Rightarrow> ('m, 'c, ros_call) history" where
  "visible h = filter (\<lambda>ev. ev \<noteq> External Rclcpp_ok) h"

definition hide :: "('m, 'c) Ros2Gateway \<Rightarrow> ('m, 'c) Ros2Gateway" where
  "hide g = g\<lparr>gw_io := visible (gw_io g)\<rparr>"

definition rclcpp_down :: "('m, 'c) ros_env \<Rightarrow> bool" where
  "rclcpp_down E \<longleftrightarrow>
     (\<forall>h. \<not> answer_bool E h (External Rclcpp_ok)) \<and>
     (\<forall>h. answer_now E (visible h) = answer_now E h \<and> answer_new E (visible h) = answer_new E h) \<and>
     (\<forall>h ev. answer_result E (visible h) ev = answer_result E h ev \<and> answer_message E (visible h) ev = answer_message E h ev)"

lemma visible_simps [simp]:
  "visible (h @ h') = visible h @ visible h'" "visible [] = []" "visible [External Rclcpp_ok] = []"
  "ev \<noteq> External Rclcpp_ok \<Longrightarrow> visible [ev] = [ev]"
  by (simp_all add: visible_def)

lemma hide_fields [simp]:
  "gw_io (hide g) = visible (gw_io g)" "gw_running (hide g) = gw_running g" "gw_stats (hide g) = gw_stats g"
  "gw_service_mappings (hide g) = gw_service_mappings g" "side_rpc_client (hide g) = side_rpc_client g"
  "side_sd_client (hide g) = side_sd_client g" "side_sd_server (hide g) = side_sd_server g"
  "side_event_subscriber (hide g) = side_event_subscriber g" "side_event_publishers (hide g) = side_event_publishers g"
  "side_udp_transport (hide g) = side_udp_transport g" "side_outbound_sink (hide g) = side_outbound_sink g"
  "r2_config (hide g) = r2_config g" "r2_translator (hide g) = r2_translator g" "r2_session (hide g) = r2_session g"
  "r2_rpc_servers (hide g) = r2_rpc_servers g" "r2_publish_callback (hide g) = r2_publish_callback g"
  "r2_node (hide g) = r2_node g" "r2_pubs (hide g) = r2_pubs g" "r2_subs (hide g) = r2_subs g"
  by (simp_all add: hide_def)

lemma hide_lookups [simp]:
  "find_inbound_mapping s d (hide g) = find_inbound_mapping s d g"
  "find_mapping_by_ros_topic t (hide g) = find_mapping_by_ros_topic t g"
  "route_someip_to_ros2_topic A m mp (hide g) = route_someip_to_ros2_topic A m mp g"
  by (simp_all add: find_inbound_mapping_def find_mapping_for_service_def find_mapping_by_ros_topic_def find_mapping_if_def
      route_someip_to_ros2_topic_def split: option.split)

lemma hide_call: "ev \<noteq> External Rclcpp_ok \<Longrightarrow> hide (call ev g) = call ev (hide g)"
  by (simp add: hide_def call_def)

lemma hide_call_on: "(\<And>h. f h \<noteq> External Rclcpp_ok) \<Longrightarrow> hide (call_on f p g) = call_on f p (hide g)"
  by (simp add: call_on_def hide_call split: option.split)

lemma hide_call_table: "(\<And>h. f h \<noteq> External Rclcpp_ok) \<Longrightarrow> hide (call_table f order tbl g) = call_table f order tbl (hide g)"
  by (induction order arbitrary: g) (simp_all add: call_table_def hide_call_on split: option.split)

lemma hide_updates:
  "hide (g\<lparr>side_rpc_client := x1\<rparr>) = (hide g)\<lparr>side_rpc_client := x1\<rparr>"
  "hide (g\<lparr>side_sd_client := x2\<rparr>) = (hide g)\<lparr>side_sd_client := x2\<rparr>"
  "hide (g\<lparr>side_sd_server := x3\<rparr>) = (hide g)\<lparr>side_sd_server := x3\<rparr>"
  "hide (g\<lparr>side_event_subscriber := x4\<rparr>) = (hide g)\<lparr>side_event_subscriber := x4\<rparr>"
  "hide (g\<lparr>side_udp_transport := x5\<rparr>) = (hide g)\<lparr>side_udp_transport := x5\<rparr>"
  "hide (g\<lparr>gw_running := x6\<rparr>) = (hide g)\<lparr>gw_running := x6\<rparr>"
  "hide (g\<lparr>gw_stats := x7\<rparr>) = (hide g)\<lparr>gw_stats := x7\<rparr>"
  "hide (g\<lparr>r2_session := x8\<rparr>) = (hide g)\<lparr>r2_session := x8\<rparr>"
  by (simp_all add: hide_def)

lemma rclcpp_downD:
  assumes "rclcpp_down E"
  shows "\<not> answer_bool E h (External Rclcpp_ok)" "answer_now E (visible h) = answer_now E h"
    "answer_new E (visible h) = answer_new E h" "answer_result E (visible h) ev = answer_result E h ev"
    "answer_message E (visible h) ev = answer_message E h ev"
  using assms by (simp_all add: rclcpp_down_def)

lemma hide_rpc_client: "rclcpp_down E \<Longrightarrow> hide (Ros2_create_rpc_client E g) = Ros2_create_rpc_client E (hide g)"
  by (simp add: Ros2_create_rpc_client_def Let_def hide_call hide_updates rclcpp_downD)

lemma hide_sd:
  assumes "rclcpp_down E"
  shows "hide (Ros2_create_sd E g) = Ros2_create_sd E (hide g)"
proof -
  let ?c = "\<lambda>g. if rc_enable_sd_client (r2_config g) \<and> side_sd_client g = None
    then call (SdClient_new (answer_new E (gw_io g))) (g\<lparr>side_sd_client := Some (answer_new E (gw_io g))\<rparr>) else g"
  let ?s = "\<lambda>g. if rc_enable_sd_server (r2_config g) \<and> side_sd_server g = None
    then call (SdServer_new (answer_new E (gw_io g))) (g\<lparr>side_sd_server := Some (answer_new E (gw_io g))\<rparr>) else g"
  have "hide (?c g) = ?c (hide g)" "hide (?s g) = ?s (hide g)" for g :: "('a, 'b) Ros2Gateway"
    by (simp_all add: hide_call hide_updates rclcpp_downD [OF assms])
  then show ?thesis unfolding Ros2_create_sd_def Let_def by (simp only:)
qed

lemma hide_subscriber:
  "rclcpp_down E \<Longrightarrow> hide (snd (side_ensure_event_subscriber E c g)) = snd (side_ensure_event_subscriber E c (hide g))"
  by (simp add: side_ensure_event_subscriber_def Let_def hide_call hide_updates rclcpp_downD split: option.split)

lemma hide_udp_bridge: "rclcpp_down E \<Longrightarrow> hide (Ros2_enable_someip_udp_bridge E g) = Ros2_enable_someip_udp_bridge E (hide g)"
  by (simp add: Ros2_enable_someip_udp_bridge_def side_enable_someip_udp_bridge_def Let_def hide_call hide_updates rclcpp_downD)

lemma hide_running: "rclcpp_down E \<Longrightarrow> hide (set_running E b g) = set_running E b (hide g)"
  by (simp add: set_running_def Let_def hide_call hide_updates rclcpp_downD)

lemma nodeless_steps [simp]:
  "ros2_nodeless (call ev g) = ros2_nodeless g" "ros2_nodeless (call_on f p g) = ros2_nodeless g"
  "ros2_nodeless (set_running E b g) = ros2_nodeless g"
  "ros2_nodeless (Ros2_create_rpc_client E g) = ros2_nodeless g" "ros2_nodeless (Ros2_create_sd E g) = ros2_nodeless g"
  "ros2_nodeless (snd (side_ensure_event_subscriber E c g)) = ros2_nodeless g"
  "ros2_nodeless (Ros2_enable_someip_udp_bridge E g) = ros2_nodeless g"
  by (simp_all add: ros2_nodeless_def call_def call_on_def set_running_def Ros2_create_rpc_client_def Ros2_create_sd_def
      side_ensure_event_subscriber_def Ros2_enable_someip_udp_bridge_def side_enable_someip_udp_bridge_def Let_def split: option.split)

lemma nodeless_call_table [simp]: "ros2_nodeless (call_table f order tbl g) = ros2_nodeless g"
  by (induction order arbitrary: g) (simp_all add: call_table_def split: option.split)

lemmas hide_steps = hide_rpc_client hide_sd hide_subscriber hide_udp_bridge hide_running

lemmas hide_calls = hide_call_on hide_call_table hide_call

lemma hide_started:
  assumes "rclcpp_down E" and "ros2_nodeless g"
  shows "hide (Ros2_started E sv pb g) = Ros2_portable_started E sv pb (hide g) \<and> ros2_nodeless (Ros2_started E sv pb g)"
proof -
  define g8 where "g8 = (let g1 = Ros2_create_rpc_client E g;
          g2 = call_on RpcClient_initialize (side_rpc_client g1) g1;
          g3 = call_table RpcServer_initialize sv (r2_rpc_servers g2) g2;
          g4 = Ros2_create_sd E g3;
          g5 = call_on SdClient_initialize (side_sd_client g4) g4;
          g6 = call_on SdServer_initialize (side_sd_server g5) g5;
          g7 = call_table EventPublisher_initialize pb (side_event_publishers g6) g6
      in if rc_enable_event_subscriber (r2_config g7)
         then snd (side_ensure_event_subscriber E (rc_rpc_client_id (r2_config g7)) g7) else g7)"
  have n: "ros2_nodeless g8"
    using assms(2) by (simp add: g8_def Let_def)
  have "Ros2_impl_start E g8 = call (External Rclcpp_ok) g8"
    using n rclcpp_downD(1) [OF assms(1)] by (simp add: Ros2_impl_start_def ros2_nodeless_def Let_def call_def)
  moreover have "hide (call (External Rclcpp_ok) g8) = hide g8" by (simp add: hide_def call_def)
  moreover have "Ros2_started E sv pb g = set_running E True (Ros2_impl_start E g8)"
    by (simp add: Ros2_started_def g8_def Let_def)
  moreover have "Ros2_portable_started E sv pb (hide g) = set_running E True (hide g8)"
    by (simp add: Ros2_portable_started_def Ros2_portable_impl_start_def g8_def Let_def hide_steps [OF assms(1), symmetric] hide_calls [symmetric])
  ultimately show ?thesis
    using n by (simp add: hide_running [OF assms(1)])
qed

lemma hide_start:
  assumes "rclcpp_down E" and "ros2_nodeless g" and "Ros2_start E sv pb g = (r, g')"
  shows "ros2_nodeless g' \<and> Ros2_portable_start E sv pb (hide g) = (r, hide g')"
proof -
  define g0 where "g0 = (if rc_enable_udp_transport (r2_config g) \<and> side_udp_transport g = None
      then Ros2_enable_someip_udp_bridge E g else g)"
  have n: "ros2_nodeless g0" "ros2_nodeless (call (Udp_start h) g0)" for h using assms(2) by (simp_all add: g0_def)
  have h0: "(if rc_enable_udp_transport (r2_config (hide g)) \<and> side_udp_transport (hide g) = None
      then Ros2_enable_someip_udp_bridge E (hide g) else hide g) = hide g0"
    by (simp add: g0_def hide_udp_bridge [OF assms(1)])
  show ?thesis
    using assms(3) hide_started [OF assms(1) n(1), of sv pb] hide_started [OF assms(1) n(2), of sv pb] n
    unfolding Ros2_start_def Ros2_portable_start_def Let_def h0 g0_def [symmetric]
    by (auto simp: rclcpp_downD [OF assms(1)] hide_call split: option.splits if_splits)
qed

lemma hide_stop:
  assumes "rclcpp_down E" and "ros2_nodeless g" and "Ros2_stop E sv pb g = (r, g')"
  shows "ros2_nodeless g' \<and> Ros2_portable_stop E sv pb (hide g) = (r, hide g')"
proof -
  have i: "Ros2_impl_stop g = g" using assms(2) by (simp add: Ros2_impl_stop_def ros2_nodeless_def)
  show ?thesis
    using assms(2,3) unfolding Ros2_stop_def Ros2_portable_stop_def Ros2_portable_impl_stop_def i Let_def
    by (auto simp: hide_steps [OF assms(1), symmetric] hide_calls [symmetric])
qed

lemma hide_records:
  "hide (record_someip_to_external n g) = record_someip_to_external n (hide g)"
  "hide (record_external_to_someip n g) = record_external_to_someip n (hide g)"
  "hide (record_translation_error g) = record_translation_error (hide g)"
  by (simp_all add: record_someip_to_external_def record_external_to_someip_def record_translation_error_def hide_updates)

lemma hide_emits:
  "hide (emit_ros2_publish t b g) = emit_ros2_publish t b (hide g)"
  "hide (emit_to_sink m g) = emit_to_sink m (hide g)"
  by (simp_all add: emit_ros2_publish_def emit_to_sink_def hide_call)

lemma hide_validate: "rclcpp_down E \<Longrightarrow> side_e2e_validate E u c m (hide g) = apsnd hide (side_e2e_validate E u c m g)"
  by (simp add: side_e2e_validate_def rclcpp_downD hide_call split: option.split)

lemma hide_protect: "rclcpp_down E \<Longrightarrow> Ros2_e2e_protect E m (hide g) = apsnd hide (Ros2_e2e_protect E m g)"
  by (simp add: Ros2_e2e_protect_def rclcpp_downD hide_call split: option.split)

lemma nodeless_message_steps [simp]:
  "ros2_nodeless (record_someip_to_external n g) = ros2_nodeless g"
  "ros2_nodeless (record_external_to_someip n g) = ros2_nodeless g"
  "ros2_nodeless (record_translation_error g) = ros2_nodeless g"
  "ros2_nodeless (emit_ros2_publish t b g) = ros2_nodeless g" "ros2_nodeless (emit_to_sink m g) = ros2_nodeless g"
  "ros2_nodeless (snd (side_e2e_validate E u c m g)) = ros2_nodeless g"
  "ros2_nodeless (snd (Ros2_e2e_protect E m g)) = ros2_nodeless g"
  "ros2_nodeless (g\<lparr>r2_session := x\<rparr>) = ros2_nodeless g"
  by (simp_all add: ros2_nodeless_def record_someip_to_external_def record_external_to_someip_def record_translation_error_def
      emit_ros2_publish_def emit_to_sink_def side_e2e_validate_def Ros2_e2e_protect_def call_def split: option.split)

lemma hide_message:
  assumes "rclcpp_down E" and "ros2_nodeless g" and "Ros2_on_someip_message A E m g = (r, g')"
  shows "ros2_nodeless g' \<and> Ros2_portable_on_someip_message A E m (hide g) = (r, hide g')"
proof (cases "find_inbound_mapping (get_service_id A m) (rc_default_someip_instance_id (r2_config g)) g")
  case None
  with assms show ?thesis
    by (auto simp: Ros2_on_someip_message_def Ros2_portable_on_someip_message_def is_running_def split: if_splits)
next
  case (Some mapping)
  obtain vr g1 where v: "side_e2e_validate E (rc_use_e2e (r2_config g)) (rc_e2e_config (r2_config g)) m g = (vr, g1)" by fastforce
  have n: "ros2_nodeless g1" using assms(2) nodeless_message_steps(6) v by (metis snd_conv)
  then have p: "publish_to_ros2_side E t q b g1 = emit_ros2_publish t b g1" for t q b
    by (simp add: publish_to_ros2_side_def Ros2_impl_publish_def ros2_nodeless_def)
  show ?thesis
    using assms(2,3) n v hide_validate [OF assms(1), of "rc_use_e2e (r2_config g)" "rc_e2e_config (r2_config g)" m g]
    unfolding Ros2_on_someip_message_def Ros2_portable_on_someip_message_def Ros2_portable_impl_publish_def
    by (auto simp: Some p is_running_def Let_def hide_records hide_emits split: if_splits)
qed

lemma hide_inject:
  assumes "rclcpp_down E" and "ros2_nodeless g" and "inject_ros2_message A E t b g = (r, g')"
  shows "ros2_nodeless g' \<and> inject_ros2_message A E t b (hide g) = (r, hide g')"
proof (cases "find_mapping_by_ros_topic t g")
  case None
  with assms show ?thesis by (auto simp: inject_ros2_message_def is_running_def split: if_splits)
next
  case (Some mapping)
  define g1 where "g1 = g\<lparr>r2_session := r2_session g + 1\<rparr>"
  have h1: "(hide g)\<lparr>r2_session := r2_session g + 1\<rparr> = hide g1" by (simp add: g1_def hide_updates)
  have n1: "ros2_nodeless (snd (Ros2_e2e_protect E x g1))" for x using assms(2) by (simp add: g1_def)
  show ?thesis
    using assms(2,3) n1 unfolding inject_ros2_message_def
    by (auto simp: Some is_running_def Let_def hide_protect [OF assms(1)] hide_records hide_emits hide_call h1
        g1_def [symmetric] case_prod_unfold split: if_splits option.splits)
qed

text \<open>C22: The ROS 2 gateway built without rclcpp behaves, over every sequence of starts, stops, messages and injected messages, exactly like
  the full build in a process where rclcpp is down: the same results and the same state, up to the question \<open>rclcpp::ok()\<close> that only
  the full build asks. In particular every message that may go out is handed to the publish callback, if one is set.\<close>

theorem ros2_portable_build:
  assumes "rclcpp_down E" and "ros2_nodeless g" and "run_ops (ros2_op_step A E) ops g = (rs, g')"
  shows "run_ops (ros2_portable_step A E) ops (hide g) = (rs, hide g') \<and> ros2_nodeless g'"
  using assms(2,3)
proof (induction ops arbitrary: g rs)
  case (Cons op ops)
  obtain r g1 where s: "ros2_op_step A E op g = (r, g1)" by fastforce
  obtain rs1 where t: "run_ops (ros2_op_step A E) ops g1 = (rs1, g')" "rs = r # rs1"
    using Cons.prems(2) s by (auto split: prod.splits)
  have "ros2_nodeless g1 \<and> ros2_portable_step A E op (hide g) = (r, hide g1)"
    using s hide_start [OF assms(1) Cons.prems(1)] hide_stop [OF assms(1) Cons.prems(1)] hide_message [OF assms(1) Cons.prems(1)]
      hide_inject [OF assms(1) Cons.prems(1)] by (cases op) auto
  with Cons.IH [OF _ t(1)] t(2) show ?case by simp
qed simp

text \<open>An environment in which rclcpp is down.\<close>

definition rosless_env :: "(ref_message, unit) ros_env" where
  "rosless_env = ref_env\<lparr>answer_now := (\<lambda>h. 1), answer_new := (\<lambda>h. 7), answer_bool := (\<lambda>h ev. ev \<noteq> External Rclcpp_ok)\<rparr>"

theorem ros2_portable_build_witness:
  "rclcpp_down rosless_env \<and>
   run_ops (ros2_portable_step ref_api rosless_env) [Ros2_op_start [] [], Ros2_op_inject ''/t'' [1], Ros2_op_stop [] []]
       (hide (Ros2Gateway_new Ros2Config_default)) =
     (let (rs, g) = run_ops (ros2_op_step ref_api rosless_env) [Ros2_op_start [] [], Ros2_op_inject ''/t'' [1], Ros2_op_stop [] []]
          (Ros2Gateway_new Ros2Config_default)
      in (rs, hide g))"
proof -
  have d: "rclcpp_down rosless_env" by (simp add: rclcpp_down_def rosless_env_def ref_env_def)
  moreover have "ros2_nodeless (Ros2Gateway_new Ros2Config_default :: (ref_message, unit) Ros2Gateway)"
    by (simp add: ros2_nodeless_def Ros2Gateway_new_def)
  ultimately show ?thesis
    using ros2_portable_build [of rosless_env "Ros2Gateway_new Ros2Config_default" ref_api
      "[Ros2_op_start [] [], Ros2_op_inject ''/t'' [1], Ros2_op_stop [] []]"]
    by (simp split: prod.split)
qed

end
