(* ===== verification/Iceoryx2_Gateway.thy ===== *)
theory Iceoryx2_Gateway
  imports Gateway_Lifecycle Owned_Objects Bounded_Queue Iceoryx2_Translator
begin

text \<open>
  \<open>gateway-iceoryx2/include/opensomeip/gateway/iceoryx2/iceoryx2_gateway.h\<close> and
  \<open>gateway-iceoryx2/src/iceoryx2_gateway.cpp\<close>: the iceoryx2 gateway. The unique pointers are optional
  handles, the \<open>std::map\<close> tables red-black trees in key order. The set of subscribed event groups, a
  static variable of the file, is the field \<open>ix_eventgroups\<close>: it is cleared by every start and stop, so
  the model is that of one gateway per process. The configuration objects that are only handed to the
  library (\<open>sd_config\<close>, \<open>udp_config\<close>) are left out.
\<close>

subsection \<open>Configuration and state\<close>

record Iceoryx2ShmSettings =
  max_sample_bytes :: nat
  subscriber_max_buffer_size :: nat
  publisher_history_size :: nat
  max_publishers :: nat
  max_subscribers :: nat
  enable_safe_overflow :: bool

record Iceoryx2Config =
  ic_gateway_name :: string
  ic_service_name_prefix :: string
  ic_shm :: Iceoryx2ShmSettings
  ic_someip_client_id :: u16
  ic_enable_sd_proxy :: bool
  ic_enable_someip_udp_listener :: bool
  ic_someip_listen_endpoint :: endpoint
  ic_use_inprocess_shm_simulation :: bool

definition Iceoryx2Config_default :: Iceoryx2Config where
  "Iceoryx2Config_default = \<lparr>ic_gateway_name = ''iceoryx2-gateway'', ic_service_name_prefix = ''someip'',
     ic_shm = \<lparr>max_sample_bytes = 65536, subscriber_max_buffer_size = 8, publisher_history_size = 0,
               max_publishers = 8, max_subscribers = 16, enable_safe_overflow = True\<rparr>,
     ic_someip_client_id = 0x4200, ic_enable_sd_proxy = True, ic_enable_someip_udp_listener = False,
     ic_someip_listen_endpoint = (''0.0.0.0'', 30500), ic_use_inprocess_shm_simulation = False\<rparr>"

type_synonym bus_item = "string \<times> bytes"

datatype iceoryx2_call = Outbound_hook string bytes

record ('m, 'c) Iceoryx2Gateway = "('m, 'c, iceoryx2_call) GatewayBase" +
  ix_config :: Iceoryx2Config
  ix_outbound_hook :: bool
  ix_event_publishers :: "(u16 \<times> u16, handle) rbt"
  ix_event_subscriber :: "handle option"
  ix_rpc_client :: "handle option"
  ix_rpc_servers :: "(u16, handle) rbt"
  ix_sd_client :: "handle option"
  ix_sd_server :: "handle option"
  ix_udp_transport :: "handle option"
  ix_udp_listener :: bool
  ix_sd_offers_sent :: u64
  ix_sd_finds_handled :: u64
  ix_inprocess_bus :: "bus_item list option"
  ix_eventgroups :: "(u16 \<times> u16 \<times> u16) list"

type_synonym ('m, 'c) ix_env = "('m, 'c, iceoryx2_call) env"

definition Iceoryx2Gateway_new :: "Iceoryx2Config \<Rightarrow> ('m, 'c) Iceoryx2Gateway" where
  "Iceoryx2Gateway_new config = \<lparr>
     gw_name = ic_gateway_name config, gw_protocol = ''iceoryx2'', gw_running = False,
     gw_stats = GatewayStats_default, gw_service_mappings = [], gw_external_message_callback = False, gw_io = [],
     ix_config = config, ix_outbound_hook = False, ix_event_publishers = RBT.empty, ix_event_subscriber = None,
     ix_rpc_client = None, ix_rpc_servers = RBT.empty, ix_sd_client = None, ix_sd_server = None,
     ix_udp_transport = None, ix_udp_listener = False, ix_sd_offers_sent = 0, ix_sd_finds_handled = 0,
     ix_inprocess_bus = None, ix_eventgroups = []\<rparr>"


subsection \<open>The in-process bus\<close>

definition kMaxDepth :: nat where
  "kMaxDepth = 1024"

function bus_trim :: "bus_item list \<Rightarrow> bus_item list" where
  "bus_trim q = (if length q \<ge> kMaxDepth then bus_trim (tl q) else q)"
  by pat_completeness auto
termination by (relation "measure length") (auto simp: kMaxDepth_def)

declare bus_trim.simps [simp del]

definition bus_push :: "string \<Rightarrow> bytes \<Rightarrow> bus_item list \<Rightarrow> bus_item list" where
  "bus_push name sample q = bus_trim q @ [(name, sample)]"


subsection \<open>Publishing\<close>

definition set_iceoryx2_outbound_hook :: "bool \<Rightarrow> ('m, 'c) Iceoryx2Gateway \<Rightarrow> ('m, 'c) Iceoryx2Gateway" where
  "set_iceoryx2_outbound_hook hook g = g\<lparr>ix_outbound_hook := hook\<rparr>"

definition publish_toward_iceoryx2 ::
  "string \<Rightarrow> bytes \<Rightarrow> ServiceMapping option \<Rightarrow> ('m, 'c) Iceoryx2Gateway \<Rightarrow> Result \<times> ('m, 'c) Iceoryx2Gateway" where
  "publish_toward_iceoryx2 iceoryx2_name sample mapping g =
     (let g1 = (case mapping of
                  Some m \<Rightarrow> if should_forward_to_external m then record_someip_to_external (length sample) g else g
                | None \<Rightarrow> record_someip_to_external (length sample) g);
          g2 = (if ix_outbound_hook g1 then call (External (Outbound_hook iceoryx2_name sample)) g1 else g1);
          g3 = (if ic_use_inprocess_shm_simulation (ix_config g2)
                then g2\<lparr>ix_inprocess_bus := map_option (bus_push iceoryx2_name sample) (ix_inprocess_bus g2)\<rparr>
                else g2)
      in (SUCCESS, g3))"

text \<open>The name and sample of a message under a mapping.\<close>

definition bridge_toward ::
  "'m message_api \<Rightarrow> ('s, 'd) serializer_api \<Rightarrow> char \<Rightarrow> 'm \<Rightarrow> ServiceMapping \<Rightarrow> ('m, 'c) Iceoryx2Gateway \<Rightarrow>
   Result \<times> ('m, 'c) Iceoryx2Gateway" where
  "bridge_toward A S kind msg mapping g =
     publish_toward_iceoryx2
       (build_iceoryx2_service_name (ic_service_name_prefix (ix_config g)) (someip_service_id mapping)
          (someip_instance_id mapping) (get_method_id A msg) kind)
       (someip_to_sample A S msg (someip_instance_id mapping) (mode mapping)) (Some mapping) g"

definition bridge_pub_sub_someip_to_external ::
  "'m message_api \<Rightarrow> ('s, 'd) serializer_api \<Rightarrow> 'm \<Rightarrow> ServiceMapping \<Rightarrow> ('m, 'c) Iceoryx2Gateway \<Rightarrow>
   Result \<times> ('m, 'c) Iceoryx2Gateway" where
  "bridge_pub_sub_someip_to_external A S msg mapping g =
     bridge_toward A S (if get_message_type A msg = mt_NOTIFICATION A then CHR ''N'' else CHR ''P'') msg mapping g"

definition bridge_rpc_someip_to_external ::
  "'m message_api \<Rightarrow> ('s, 'd) serializer_api \<Rightarrow> 'm \<Rightarrow> ServiceMapping \<Rightarrow> ('m, 'c) Iceoryx2Gateway \<Rightarrow>
   Result \<times> ('m, 'c) Iceoryx2Gateway" where
  "bridge_rpc_someip_to_external A S msg mapping g = bridge_toward A S CHR ''R'' msg mapping g"

text \<open>The first mapping of a service, looked up again under its instance.\<close>

definition first_mapping_of_service :: "u16 \<Rightarrow> ('m, 'c, 'x, 'z) GatewayBase_scheme \<Rightarrow> ServiceMapping option" where
  "first_mapping_of_service service_id g =
     (case find (\<lambda>sm. someip_service_id sm = service_id) (get_service_mappings g) of
        Some sm \<Rightarrow> find_mapping_for_service service_id (someip_instance_id sm) g
      | None \<Rightarrow> None)"

definition Iceoryx2_find_mapping :: "u16 \<Rightarrow> ('m, 'c, 'x, 'z) GatewayBase_scheme \<Rightarrow> ServiceMapping option" where
  "Iceoryx2_find_mapping service_id g =
     (case find_mapping_for_service service_id 0x0001 g of
        Some m \<Rightarrow> Some m
      | None \<Rightarrow>
          (case find_mapping_for_service service_id 0x0000 g of
             Some m \<Rightarrow> Some m
           | None \<Rightarrow> first_mapping_of_service service_id g))"

definition Iceoryx2_on_someip_message ::
  "'m message_api \<Rightarrow> ('s, 'd) serializer_api \<Rightarrow> 'm \<Rightarrow> ('m, 'c) Iceoryx2Gateway \<Rightarrow> Result \<times> ('m, 'c) Iceoryx2Gateway" where
  "Iceoryx2_on_someip_message A S msg g =
     (if \<not> is_running g then (INVALID_STATE, g)
      else case Iceoryx2_find_mapping (get_service_id A msg) g of
        None \<Rightarrow> (INVALID_SERVICE_ID, g)
      | Some m \<Rightarrow>
          if \<not> should_forward_to_external m then (SUCCESS, g)
          else if get_message_type A msg = mt_NOTIFICATION A then bridge_pub_sub_someip_to_external A S msg m g
          else if is_request A msg \<or> get_message_type A msg = mt_REQUEST_NO_RETURN A
            then bridge_rpc_someip_to_external A S msg m g
          else publish_toward_iceoryx2
                 (build_iceoryx2_service_name (ic_service_name_prefix (ix_config g)) (someip_service_id m)
                    (someip_instance_id m) (get_method_id A msg) CHR ''R'')
                 (someip_to_sample A S msg (someip_instance_id m) (mode m)) (Some m) g)"


subsection \<open>Samples from iceoryx2\<close>

definition Iceoryx2_inbound_event ::
  "'m message_api \<Rightarrow> Iceoryx2Envelope \<Rightarrow> ('m, 'c) Iceoryx2Gateway \<Rightarrow> ('m, 'c) Iceoryx2Gateway" where
  "Iceoryx2_inbound_event A env g =
     (let sm = envelope_to_someip A env
      in case RBT.lookup (ix_event_publishers g) (env_service_id env, env_instance_id env) of
           Some h \<Rightarrow>
             record_external_to_someip (length (get_payload A sm))
               (call (EventPublisher_publish_event h (env_method_or_event_id env) (get_payload A sm)) g)
         | None \<Rightarrow> g)"

definition Iceoryx2_inbound_request ::
  "'m message_api \<Rightarrow> ('s, 'd) serializer_api \<Rightarrow> ('m, 'c) ix_env \<Rightarrow> handle \<Rightarrow> Iceoryx2Envelope \<Rightarrow> ServiceMapping \<Rightarrow>
   ('m, 'c) Iceoryx2Gateway \<Rightarrow> ('m, 'c) Iceoryx2Gateway" where
  "Iceoryx2_inbound_request A S E h env mapping g =
     (let c = RpcClient_call_method_sync h (env_service_id env) (env_method_or_event_id env) (env_payload env);
          (result, return_values) = answer_rpc E (gw_io g) c;
          g1 = call c g;
          mt = (if result = RPC_SUCCESS then mt_RESPONSE A else mt_ERROR A);
          resp = set_payload A return_values
                   (Message_ctor A (env_service_id env, env_method_or_event_id env) (env_client_id env, env_session_id env) mt);
          out_sample = someip_to_sample A S resp (env_instance_id env) (env_mode env);
          rname = build_iceoryx2_service_name (ic_service_name_prefix (ix_config g1)) (env_service_id env)
                    (env_instance_id env) (env_method_or_event_id env) CHR ''R'';
          g2 = snd (publish_toward_iceoryx2 rname out_sample (Some mapping) g1)
      in record_external_to_someip (length return_values) g2)"

definition handle_incoming_envelope ::
  "'m message_api \<Rightarrow> ('s, 'd) serializer_api \<Rightarrow> ('m, 'c) ix_env \<Rightarrow> Iceoryx2Envelope \<Rightarrow> string \<Rightarrow>
   ('m, 'c) Iceoryx2Gateway \<Rightarrow> ('m, 'c) Iceoryx2Gateway" where
  "handle_incoming_envelope A S E env iceoryx2_name g =
     (let mapping = (case find_mapping_for_service (env_service_id env) (env_instance_id env) g of
                       Some m \<Rightarrow> Some m | None \<Rightarrow> first_mapping_of_service (env_service_id env) g);
          g1 = (case mapping of
                  Some m \<Rightarrow>
                    if should_forward_to_someip m
                    then if env_message_type env = mt_NOTIFICATION A then Iceoryx2_inbound_event A env g
                         else if env_message_type env = mt_REQUEST A \<or> env_message_type env = mt_REQUEST_NO_RETURN A
                         then (case ix_rpc_client g of
                                 Some h \<Rightarrow> Iceoryx2_inbound_request A S E h env m g | None \<Rightarrow> g)
                         else g
                    else g
                | None \<Rightarrow> g)
      in if gw_external_message_callback g1
         then let ext = envelope_to_external A env iceoryx2_name
              in call (External_callback (source_service_id ext) (source_method_id ext) (ext_payload ext)) g1
         else g1)"

definition inject_iceoryx2_sample ::
  "'m message_api \<Rightarrow> ('s, 'd) serializer_api \<Rightarrow> ('m, 'c) ix_env \<Rightarrow> string \<Rightarrow> bytes \<Rightarrow>
   ('m, 'c) Iceoryx2Gateway \<Rightarrow> ('m, 'c) Iceoryx2Gateway" where
  "inject_iceoryx2_sample A S E iceoryx2_service_name sample g =
     (case parse_sample S sample of
        None \<Rightarrow> record_translation_error g
      | Some env \<Rightarrow> handle_incoming_envelope A S E env iceoryx2_service_name g)"


subsection \<open>Callbacks registered with the library\<close>

text \<open>
  The method handler of \<open>setup_rpc_server_for_mapping\<close>. It leaves the out parameter alone.
\<close>

definition Iceoryx2_rpc_handler ::
  "'m message_api \<Rightarrow> ('s, 'd) serializer_api \<Rightarrow> result_api \<Rightarrow> ServiceMapping \<Rightarrow> u16 \<Rightarrow> u16 \<Rightarrow> u16 \<Rightarrow> bytes \<Rightarrow>
   ('m, 'c) Iceoryx2Gateway \<Rightarrow> RpcResult \<times> ('m, 'c) Iceoryx2Gateway" where
  "Iceoryx2_rpc_handler A S P mapping mid client_id session_id inp g =
     (let req = set_payload A inp
                  (Message_ctor A (someip_service_id mapping, mid) (client_id, session_id) (mt_REQUEST A));
          (pr, g1) = publish_toward_iceoryx2
                       (build_iceoryx2_service_name (ic_service_name_prefix (ix_config g)) (someip_service_id mapping)
                          (someip_instance_id mapping) mid CHR ''R'')
                       (someip_to_sample A S req (someip_instance_id mapping) (mode mapping)) (Some mapping) g
      in (if \<not> is_success P pr then RPC_INTERNAL_ERROR else RPC_SUCCESS, g1))"

definition Iceoryx2_on_event_notification ::
  "'m message_api \<Rightarrow> ('s, 'd) serializer_api \<Rightarrow> ServiceMapping \<Rightarrow> EventNotification \<Rightarrow>
   ('m, 'c) Iceoryx2Gateway \<Rightarrow> ('m, 'c) Iceoryx2Gateway" where
  "Iceoryx2_on_event_notification A S mapping n g =
     snd (bridge_pub_sub_someip_to_external A S (notification_message A n) mapping g)"

definition Iceoryx2_on_services_found :: "('m, 'c) Iceoryx2Gateway \<Rightarrow> ('m, 'c) Iceoryx2Gateway" where
  "Iceoryx2_on_services_found g = g\<lparr>ix_sd_finds_handled := ix_sd_finds_handled g + 1\<rparr>"


subsection \<open>Life cycle\<close>

definition Iceoryx2_register_methods ::
  "('m, 'c) ix_env \<Rightarrow> handle \<Rightarrow> u16 list \<Rightarrow> ('m, 'c) Iceoryx2Gateway \<Rightarrow> ('m, 'c) Iceoryx2Gateway" where
  "Iceoryx2_register_methods E h mids g = fold (\<lambda>mid. call (RpcServer_register_method h mid)) mids g"

definition setup_rpc_server_for_mapping ::
  "('m, 'c) ix_env \<Rightarrow> ServiceMapping \<Rightarrow> ('m, 'c) Iceoryx2Gateway \<Rightarrow> ('m, 'c) Iceoryx2Gateway" where
  "setup_rpc_server_for_mapping E mapping g =
     (let sid = someip_service_id mapping
      in case RBT.lookup (ix_rpc_servers g) sid of
           Some h \<Rightarrow> Iceoryx2_register_methods E h (someip_method_ids mapping) g
         | None \<Rightarrow>
             (let (h, g1) = make_object E (\<lambda>h. RpcServer_new h sid) g;
                  (ok, g2) = call_bool E (RpcServer_initialize h) g1
              in if \<not> ok then g2
                 else Iceoryx2_register_methods E h (someip_method_ids mapping)
                        (g2\<lparr>ix_rpc_servers := RBT.insert sid h (ix_rpc_servers g2)\<rparr>)))"

definition Iceoryx2_subscribe ::
  "handle \<Rightarrow> ServiceMapping \<Rightarrow> u16 \<Rightarrow> ('m, 'c) Iceoryx2Gateway \<Rightarrow> ('m, 'c) Iceoryx2Gateway" where
  "Iceoryx2_subscribe h mapping eg g =
     (let tup = (someip_service_id mapping, someip_instance_id mapping, eg)
      in if tup \<in> set (ix_eventgroups g) then g
         else call (EventSubscriber_subscribe_eventgroup h (someip_service_id mapping) (someip_instance_id mapping) eg)
                (g\<lparr>ix_eventgroups := tup # ix_eventgroups g\<rparr>))"

definition setup_event_subscriptions_for_mapping ::
  "ServiceMapping \<Rightarrow> ('m, 'c) Iceoryx2Gateway \<Rightarrow> ('m, 'c) Iceoryx2Gateway" where
  "setup_event_subscriptions_for_mapping mapping g =
     (case ix_event_subscriber g of
        Some h \<Rightarrow>
          if \<not> should_forward_to_external mapping then g
          else fold (Iceoryx2_subscribe h mapping) (someip_event_group_ids mapping) g
      | None \<Rightarrow> g)"

definition setup_sd_proxy_for_mapping ::
  "('m, 'c) ix_env \<Rightarrow> ServiceMapping \<Rightarrow> ('m, 'c) Iceoryx2Gateway \<Rightarrow> Result \<times> ('m, 'c) Iceoryx2Gateway" where
  "setup_sd_proxy_for_mapping E mapping g =
     (case (ix_sd_client g, ix_sd_server g) of
        (Some c, Some s) \<Rightarrow>
          (let g1 = call (SdClient_find_service c (someip_service_id mapping)) g;
               (addr, port) = ic_someip_listen_endpoint (ix_config g1);
               ep = addr @ '':'' @ show_dec (unat port);
               (ok, g2) = call_bool E (SdServer_offer_service s (someip_service_id mapping) (someip_instance_id mapping) ep) g1
           in (SUCCESS, if ok then g2\<lparr>ix_sd_offers_sent := ix_sd_offers_sent g2 + 1\<rparr> else g2))
      | _ \<Rightarrow> (NOT_INITIALIZED, g))"

definition Iceoryx2_stop :: "('m, 'c) ix_env \<Rightarrow> ('m, 'c) Iceoryx2Gateway \<Rightarrow> Result \<times> ('m, 'c) Iceoryx2Gateway" where
  "Iceoryx2_stop E g =
     (let g0 = set_running E False g;
          g1 = (call_on Udp_stop (ix_udp_transport g0) g0)\<lparr>ix_udp_transport := None, ix_udp_listener := False\<rparr>;
          g2 = (call_entries EventPublisher_shutdown (ix_event_publishers g1) g1)\<lparr>ix_event_publishers := RBT.empty\<rparr>;
          g3 = (call_on EventSubscriber_shutdown (ix_event_subscriber g2) g2)\<lparr>ix_event_subscriber := None\<rparr>;
          g4 = (call_entries RpcServer_shutdown (ix_rpc_servers g3) g3)\<lparr>ix_rpc_servers := RBT.empty\<rparr>;
          g5 = (call_on RpcClient_shutdown (ix_rpc_client g4) g4)\<lparr>ix_rpc_client := None\<rparr>;
          g6 = (call_on SdClient_shutdown (ix_sd_client g5) g5)\<lparr>ix_sd_client := None\<rparr>;
          g7 = (call_on SdServer_shutdown (ix_sd_server g6) g6)\<lparr>ix_sd_server := None\<rparr>
      in (SUCCESS, g7\<lparr>ix_inprocess_bus := None, ix_eventgroups := []\<rparr>))"

text \<open>The publishers of \<open>start\<close>; the flag is false when one of them does not initialize.\<close>

definition Iceoryx2_publisher_for ::
  "('m, 'c) ix_env \<Rightarrow> ServiceMapping \<Rightarrow> ('m, 'c) Iceoryx2Gateway \<Rightarrow> bool \<times> handle \<times> ('m, 'c) Iceoryx2Gateway" where
  "Iceoryx2_publisher_for E m g =
     (let key = (someip_service_id m, someip_instance_id m)
      in case RBT.lookup (ix_event_publishers g) key of
           Some h \<Rightarrow> (True, h, g)
         | None \<Rightarrow>
             (let (h, g1) = make_object E (\<lambda>h. EventPublisher_new h (someip_service_id m) (someip_instance_id m)) g;
                  (ok, g2) = call_bool E (EventPublisher_initialize h) g1
              in if \<not> ok then (False, h, g2)
                 else (True, h, g2\<lparr>ix_event_publishers := RBT.insert key h (ix_event_publishers g2)\<rparr>)))"

definition Iceoryx2_register_events ::
  "ServiceMapping \<Rightarrow> handle \<Rightarrow> ('m, 'c) Iceoryx2Gateway \<Rightarrow> ('m, 'c) Iceoryx2Gateway" where
  "Iceoryx2_register_events m h g =
     (let eg = (case someip_event_group_ids m of [] \<Rightarrow> 0 | e # _ \<Rightarrow> e)
      in fold (\<lambda>eid. call (EventPublisher_register_event h eid eg)) (someip_method_ids m) g)"

fun Iceoryx2_add_publishers ::
  "('m, 'c) ix_env \<Rightarrow> ServiceMapping list \<Rightarrow> ('m, 'c) Iceoryx2Gateway \<Rightarrow> bool \<times> ('m, 'c) Iceoryx2Gateway" where
  "Iceoryx2_add_publishers E [] g = (True, g)"
| "Iceoryx2_add_publishers E (m # ms) g =
     (if should_forward_to_someip m
      then let (ok, h, g1) = Iceoryx2_publisher_for E m g
           in if \<not> ok then (False, g1) else Iceoryx2_add_publishers E ms (Iceoryx2_register_events m h g1)
      else Iceoryx2_add_publishers E ms g)"

definition Iceoryx2_setup_mapping ::
  "('m, 'c) ix_env \<Rightarrow> ServiceMapping \<Rightarrow> ('m, 'c) Iceoryx2Gateway \<Rightarrow> ('m, 'c) Iceoryx2Gateway" where
  "Iceoryx2_setup_mapping E m g = setup_event_subscriptions_for_mapping m (setup_rpc_server_for_mapping E m g)"

definition Iceoryx2_start_sd ::
  "('m, 'c) ix_env \<Rightarrow> ServiceMapping list \<Rightarrow> ('m, 'c) Iceoryx2Gateway \<Rightarrow> bool \<times> ('m, 'c) Iceoryx2Gateway" where
  "Iceoryx2_start_sd E mappings g =
     (if \<not> ic_enable_sd_proxy (ix_config g) then (True, g)
      else let (c, g1) = make_object E SdClient_new g;
               (s, g2) = make_object E SdServer_new (g1\<lparr>ix_sd_client := Some c\<rparr>);
               (ok1, g3) = call_bool E (SdClient_initialize c) (g2\<lparr>ix_sd_server := Some s\<rparr>)
           in if \<not> ok1 then (False, g3)
              else let (ok2, g4) = call_bool E (SdServer_initialize s) g3
                   in if \<not> ok2 then (False, g4)
                      else (True, fold (\<lambda>m g. snd (setup_sd_proxy_for_mapping E m g)) mappings g4))"

definition Iceoryx2_start_udp ::
  "result_api \<Rightarrow> ('m, 'c) ix_env \<Rightarrow> ('m, 'c) Iceoryx2Gateway \<Rightarrow> bool \<times> ('m, 'c) Iceoryx2Gateway" where
  "Iceoryx2_start_udp P E g =
     (if \<not> ic_enable_someip_udp_listener (ix_config g) then (True, g)
      else let (u, g1) = make_object E Udp_new g;
               g2 = call (Udp_set_listener u) (g1\<lparr>ix_udp_transport := Some u, ix_udp_listener := True\<rparr>);
               r = answer_result E (gw_io g2) (Udp_start u)
           in (\<not> is_error P r, call (Udp_start u) g2))"

text \<open>
  The part of \<open>start\<close> after the event subscriber: every failure calls \<open>stop\<close> and returns the code.
\<close>

definition Iceoryx2_start_rest ::
  "result_api \<Rightarrow> ('m, 'c) ix_env \<Rightarrow> ('m, 'c) Iceoryx2Gateway \<Rightarrow> Result \<times> ('m, 'c) Iceoryx2Gateway" where
  "Iceoryx2_start_rest P E g =
     (let (h, g1) = make_object E (\<lambda>h. RpcClient_new h (ic_someip_client_id (ix_config g))) g;
          g2 = call (RpcClient_set_remote_endpoint h) (g1\<lparr>ix_rpc_client := Some h\<rparr>);
          (ok, g3) = call_bool E (RpcClient_initialize h) g2
      in if \<not> ok then (NOT_INITIALIZED, snd (Iceoryx2_stop E g3))
         else let mappings = get_service_mappings g3; (ok, g4) = Iceoryx2_add_publishers E mappings g3
              in if \<not> ok then (NOT_INITIALIZED, snd (Iceoryx2_stop E g4))
                 else let (ok, g5) = Iceoryx2_start_sd E mappings (fold (Iceoryx2_setup_mapping E) mappings g4)
                      in if \<not> ok then (NETWORK_ERROR, snd (Iceoryx2_stop E g5))
                         else let (ok, g6) = Iceoryx2_start_udp P E g5
                              in if \<not> ok then (NETWORK_ERROR, snd (Iceoryx2_stop E g6))
                                 else (SUCCESS, set_running E True g6))"

definition Iceoryx2_start ::
  "result_api \<Rightarrow> ('m, 'c) ix_env \<Rightarrow> ('m, 'c) Iceoryx2Gateway \<Rightarrow> Result \<times> ('m, 'c) Iceoryx2Gateway" where
  "Iceoryx2_start P E g =
     (if is_running g then (SUCCESS, g)
      else let g1 = g\<lparr>ix_eventgroups := []\<rparr>;
               g2 = (if ic_use_inprocess_shm_simulation (ix_config g1) then g1\<lparr>ix_inprocess_bus := Some []\<rparr> else g1);
               (h, g3) = make_object E (\<lambda>h. EventSubscriber_new h (ic_someip_client_id (ix_config g2))) g2;
               (ok, g4) = call_bool E (EventSubscriber_initialize h) (g3\<lparr>ix_event_subscriber := Some h\<rparr>)
           in if \<not> ok then (NOT_INITIALIZED, g4\<lparr>ix_event_subscriber := None, ix_inprocess_bus := None\<rparr>)
              else Iceoryx2_start_rest P E g4)"

definition Iceoryx2_destroy :: "('m, 'c) ix_env \<Rightarrow> ('m, 'c) Iceoryx2Gateway \<Rightarrow> ('m, 'c) Iceoryx2Gateway" where
  "Iceoryx2_destroy E g = snd (Iceoryx2_stop E g)"

definition get_sd_offer_count :: "('m, 'c) Iceoryx2Gateway \<Rightarrow> u64" where
  "get_sd_offer_count g = ix_sd_offers_sent g"

definition get_sd_discovery_notifications :: "('m, 'c) Iceoryx2Gateway \<Rightarrow> u64" where
  "get_sd_discovery_notifications g = ix_sd_finds_handled g"

subsection \<open>The bus as a bounded queue\<close>

lemma bus_trim_newest: "bus_trim q = newest (kMaxDepth - 1) q"
proof (induction q rule: bus_trim.induct)
  case (1 q)
  show ?case
  proof (cases "length q \<ge> kMaxDepth")
    case True
    then have "bus_trim q = newest (kMaxDepth - 1) (tl q)" using 1 by (subst bus_trim.simps) simp
    also have "\<dots> = newest (kMaxDepth - 1) q"
      using True by (cases q) (auto simp: newest_def kMaxDepth_def drop_Cons' Suc_diff_le)
    finally show ?thesis .
  next
    case False
    then show ?thesis by (subst bus_trim.simps) (simp add: kMaxDepth_def)
  qed
qed

lemma newest_snoc: "0 < n \<Longrightarrow> newest (n - 1) q @ [x] = newest n (q @ [x])"
  by (cases n) (auto simp: newest_def)

lemma kMaxDepth_pos [simp]: "0 < kMaxDepth"
  by (simp add: kMaxDepth_def)

lemma bus_push_newest: "bus_push nm smp q = newest kMaxDepth (q @ [(nm, smp)])"
  using newest_snoc [OF kMaxDepth_pos, of q "(nm, smp)"] by (simp add: bus_push_def bus_trim_newest)

interpretation ix_bus: drop_oldest_queue "\<lambda>(nm, smp) q. Some (bus_push nm smp q)" "\<lambda>q. q" "\<lambda>_. kMaxDepth"
  by unfold_locales (auto simp: bus_push_newest)


subsection \<open>Lookup\<close>

lemma first_mapping_first:
  "first_mapping_of_service sid g = find (\<lambda>m. someip_service_id m = sid) (gw_service_mappings g)"
proof -
  have "find (\<lambda>m. someip_service_id m = sid) xs = Some sm \<Longrightarrow>
    find (\<lambda>m. someip_service_id m = sid \<and> someip_instance_id m = someip_instance_id sm) xs = Some sm" for xs sm
    by (induction xs) (auto split: if_splits)
  then show ?thesis
    by (auto simp: first_mapping_of_service_def find_mapping_for_service_def get_service_mappings_def split: option.split)
qed

lemma Iceoryx2_find_mapping_Some:
  "Iceoryx2_find_mapping sid g = Some m \<Longrightarrow> m \<in> set (gw_service_mappings g) \<and> someip_service_id m = sid"
  by (auto simp: Iceoryx2_find_mapping_def first_mapping_first find_Some_iff split: option.splits
      dest: find_mapping_for_service_Some)

lemma Iceoryx2_find_mapping_None:
  "Iceoryx2_find_mapping sid g = None \<longleftrightarrow> sid \<notin> someip_service_id ` set (gw_service_mappings g)"
  by (auto simp: Iceoryx2_find_mapping_def first_mapping_first find_None_iff find_mapping_for_service_def
      split: option.splits dest!: find_Some_iff [THEN iffD1])


subsection \<open>The contract of the message handler\<close>

text \<open>The kind letter of a message and the item it becomes.\<close>

definition ix_kind :: "'m message_api \<Rightarrow> 'm \<Rightarrow> char" where
  "ix_kind A msg = (if get_message_type A msg = mt_NOTIFICATION A then CHR ''N'' else CHR ''R'')"

definition ix_item ::
  "'m message_api \<Rightarrow> ('s, 'd) serializer_api \<Rightarrow> ('m, 'c) Iceoryx2Gateway \<Rightarrow> 'm \<Rightarrow> bus_item option" where
  "ix_item A S g msg =
     (case Iceoryx2_find_mapping (get_service_id A msg) g of
        Some m \<Rightarrow>
          if should_forward_to_external m
          then Some (build_iceoryx2_service_name (ic_service_name_prefix (ix_config g)) (someip_service_id m)
                       (someip_instance_id m) (get_method_id A msg) (ix_kind A msg),
                     someip_to_sample A S msg (someip_instance_id m) (mode m))
          else None
      | None \<Rightarrow> None)"

definition ix_result :: "'m message_api \<Rightarrow> ('m, 'c) Iceoryx2Gateway \<Rightarrow> 'm \<Rightarrow> Result" where
  "ix_result A g msg =
     (if Iceoryx2_find_mapping (get_service_id A msg) g = None then INVALID_SERVICE_ID else SUCCESS)"

text \<open>What one item does to the gateway: counters, hook, bus.\<close>

definition ix_emit :: "bus_item \<Rightarrow> ('m, 'c) Iceoryx2Gateway \<Rightarrow> ('m, 'c) Iceoryx2Gateway" where
  "ix_emit it g = g\<lparr>
     gw_stats := run_fetch_adds (steps_someip_to_external (length (snd it))) (gw_stats g),
     gw_io := gw_io g @ (if ix_outbound_hook g then [External (Outbound_hook (fst it) (snd it))] else []),
     ix_inprocess_bus := (if ic_use_inprocess_shm_simulation (ix_config g)
       then map_option (\<lambda>q. newest kMaxDepth (q @ [it])) (ix_inprocess_bus g) else ix_inprocess_bus g)\<rparr>"

lemma publish_emit:
  "should_forward_to_external m \<Longrightarrow> publish_toward_iceoryx2 nm smp (Some m) g = (SUCCESS, ix_emit (nm, smp) g)"
  by (simp add: publish_toward_iceoryx2_def ix_emit_def Let_def call_def record_someip_to_external_def
      bus_push_newest [abs_def] run_fetch_adds_def steps_someip_to_external_def)

lemma Iceoryx2_message_step:
  assumes "gw_running g"
  shows "Iceoryx2_on_someip_message A S msg g =
    (ix_result A g msg, (case ix_item A S g msg of Some it \<Rightarrow> ix_emit it g | None \<Rightarrow> g))"
  using assms
  by (auto simp: Iceoryx2_on_someip_message_def is_running_def ix_result_def ix_item_def ix_kind_def
      bridge_pub_sub_someip_to_external_def bridge_rpc_someip_to_external_def bridge_toward_def publish_emit
      split: option.split)

lemma ix_item_permits: "ix_item A S g msg = Some it \<Longrightarrow> permits_service g (get_service_id A msg)"
  by (auto simp: ix_item_def split: option.splits if_splits dest!: Iceoryx2_find_mapping_Some intro: permitsI)

lemma Iceoryx2_forward_step:
  assumes "Iceoryx2_on_someip_message A S msg g = (r, g')"
  shows "forward_step (get_service_id A msg) g r g'"
proof (cases "gw_running g")
  case False
  with assms show ?thesis by (simp add: Iceoryx2_on_someip_message_def is_running_def)
next
  case True
  show ?thesis
  proof (cases "ix_item A S g msg")
    case None
    with True assms show ?thesis by (simp add: Iceoryx2_message_step)
  next
    case (Some it)
    then have "ix_result A g msg = SUCCESS" by (auto simp: ix_item_def ix_result_def split: option.splits)
    with Some True assms ix_item_permits [OF Some] show ?thesis
      by (auto simp: Iceoryx2_message_step ix_emit_def same_base_def intro!: forward_step.forwarded)
  qed
qed

interpretation iceoryx2: guarded_forwarder "\<lambda>m g. Some (Iceoryx2_on_someip_message A S m g)" "get_service_id A" for A S
  by unfold_locales (auto simp: Iceoryx2_forward_step Iceoryx2_on_someip_message_def is_running_def)

interpretation iceoryx2_total: total_forwarder "\<lambda>m g. Some (Iceoryx2_on_someip_message A S m g)" "get_service_id A"
    "\<lambda>g. True" for A S
  by unfold_locales (simp add: prod_eq_iff)

text \<open>A sequence of items.\<close>

definition ix_emits :: "bus_item list \<Rightarrow> ('m, 'c) Iceoryx2Gateway \<Rightarrow> ('m, 'c) Iceoryx2Gateway" where
  "ix_emits its g = g\<lparr>
     gw_stats := run_fetch_adds (concat (map (\<lambda>it. steps_someip_to_external (length (snd it))) its)) (gw_stats g),
     gw_io := gw_io g @ (if ix_outbound_hook g then map (\<lambda>(nm, smp). External (Outbound_hook nm smp)) its else []),
     ix_inprocess_bus := (if ic_use_inprocess_shm_simulation (ix_config g)
       then map_option (\<lambda>q. newest kMaxDepth (q @ its)) (ix_inprocess_bus g) else ix_inprocess_bus g)\<rparr>"

lemma Iceoryx2_find_mapping_frame:
  "gw_service_mappings g' = gw_service_mappings g \<Longrightarrow> Iceoryx2_find_mapping sid g' = Iceoryx2_find_mapping sid g"
  by (simp add: Iceoryx2_find_mapping_def first_mapping_first find_mapping_for_service_def split: option.split)

lemma ix_frame:
  "ix_item A S (g\<lparr>gw_stats := st, gw_io := h, ix_inprocess_bus := b\<rparr>) = ix_item A S g"
  "ix_result A (g\<lparr>gw_stats := st, gw_io := h, ix_inprocess_bus := b\<rparr>) = ix_result A g"
  using Iceoryx2_find_mapping_frame [of "g\<lparr>gw_stats := st, gw_io := h, ix_inprocess_bus := b\<rparr>" g]
  by (simp_all add: fun_eq_iff ix_item_def ix_result_def split: option.split)

lemma ix_emits_Cons: "ix_emits its (ix_emit it g) = ix_emits (it # its) g"
  by (auto simp: ix_emits_def ix_emit_def run_fetch_adds_append newest_append option.map_comp comp_def split: prod.split)

definition bus_bounded :: "('m, 'c) Iceoryx2Gateway \<Rightarrow> bool" where
  "bus_bounded g \<longleftrightarrow> (case ix_inprocess_bus g of Some q \<Rightarrow> length q \<le> kMaxDepth | None \<Rightarrow> True)"

lemma ix_emits_Nil: "bus_bounded g \<Longrightarrow> ix_emits [] g = g"
  by (auto simp: ix_emits_def bus_bounded_def run_fetch_adds_def split: option.splits)

lemma Iceoryx2_all_effect:
  assumes "gw_running g" and "bus_bounded g"
  shows "deliver_all (\<lambda>m g. Some (Iceoryx2_on_someip_message A S m g)) ms g =
    Some (map (ix_result A g) ms, ix_emits (List.map_filter (ix_item A S g) ms) g)"
  using assms
proof (induction ms arbitrary: g)
  case Nil
  then show ?case by (simp add: ix_emits_Nil List.map_filter_def)
next
  case (Cons m ms)
  show ?case
  proof (cases "ix_item A S g m")
    case None
    with Cons show ?thesis by (simp add: Iceoryx2_message_step List.map_filter_def)
  next
    case (Some it)
    have "gw_running (ix_emit it g)" "bus_bounded (ix_emit it g)"
      using Cons.prems by (auto simp: ix_emit_def bus_bounded_def split: option.split)
    moreover have "ix_item A S (ix_emit it g) = ix_item A S g" "ix_result A (ix_emit it g) = ix_result A g"
      by (simp_all add: ix_emit_def ix_frame)
    ultimately show ?thesis
      using Some Cons.prems(1) by (simp add: Cons.IH Iceoryx2_message_step ix_emits_Cons List.map_filter_def)
  qed
qed

lemma counted_items:
  "run_fetch_adds (concat (map (\<lambda>it. steps_someip_to_external (length (snd it))) its)) s =
     s\<lparr>messages_someip_to_external := messages_someip_to_external s + word_of_nat (length its),
       bytes_someip_to_external := bytes_someip_to_external s + word_of_nat (\<Sum>it\<leftarrow>its. length (snd it))\<rparr>"
  by (induction its arbitrary: s)
    (simp_all add: run_fetch_adds_append, simp_all add: run_fetch_adds_def steps_someip_to_external_def ac_simps)

subsection \<open>What start sets up\<close>

text \<open>Steps of \<open>start\<close> that only add publishers, servers, subscriptions and offers.\<close>

definition sets_up :: "('m, 'c) Iceoryx2Gateway \<Rightarrow> ('m, 'c) Iceoryx2Gateway \<Rightarrow> bool" where
  "sets_up g g' \<longleftrightarrow>
     gw_running g' = gw_running g \<and> gw_service_mappings g' = gw_service_mappings g \<and> ix_config g' = ix_config g \<and>
     ix_event_subscriber g' = ix_event_subscriber g \<and> ix_rpc_client g' = ix_rpc_client g \<and>
     ix_inprocess_bus g' = ix_inprocess_bus g \<and> ix_sd_client g' = ix_sd_client g \<and>
     ix_sd_server g' = ix_sd_server g \<and> ix_udp_transport g' = ix_udp_transport g \<and>
     (distinct (ix_eventgroups g) \<longrightarrow> distinct (ix_eventgroups g'))"

lemma sets_up_refl [simp]: "sets_up g g"
  by (simp add: sets_up_def)

lemma sets_up_trans: "sets_up g g1 \<Longrightarrow> sets_up g1 g2 \<Longrightarrow> sets_up g g2"
  by (simp add: sets_up_def)

lemma sets_up_fold: "(\<And>x g. sets_up g (f x g)) \<Longrightarrow> sets_up g (fold f xs g)"
  by (induction xs arbitrary: g) (auto intro: sets_up_trans)

lemma sets_up_call [simp]: "sets_up g (call ev g1) = sets_up g g1"
  by (simp add: sets_up_def call_def)

lemma sets_up_make: "make_object E c g = (h, g1) \<Longrightarrow> sets_up g g1"
  by (auto simp: make_object_def Let_def)

lemma sets_up_bool: "call_bool E c g = (b, g1) \<Longrightarrow> sets_up g g1"
  by (auto simp: call_bool_def)

lemma sets_up_tables [simp]:
  "sets_up g (g1\<lparr>ix_rpc_servers := t\<rparr>) = sets_up g g1" "sets_up g (g1\<lparr>ix_event_publishers := p\<rparr>) = sets_up g g1"
  "sets_up g (g1\<lparr>ix_sd_offers_sent := k\<rparr>) = sets_up g g1"
  by (simp_all add: sets_up_def)

lemma setup_rpc_server_sets_up: "sets_up g (setup_rpc_server_for_mapping E m g)"
proof -
  have r: "sets_up g (Iceoryx2_register_methods E h ms g)" for h ms g
    by (simp add: Iceoryx2_register_methods_def sets_up_fold)
  show ?thesis
  proof (cases "RBT.lookup (ix_rpc_servers g) (someip_service_id m)")
    case None
    obtain h g1 where 1: "make_object E (\<lambda>h. RpcServer_new h (someip_service_id m)) g = (h, g1)" by fastforce
    obtain ok g2 where 2: "call_bool E (RpcServer_initialize h) g1 = (ok, g2)" by fastforce
    have "sets_up g g2" using sets_up_trans [OF sets_up_make [OF 1] sets_up_bool [OF 2]] .
    with None 1 2 show ?thesis
      by (auto simp: setup_rpc_server_for_mapping_def intro: sets_up_trans [OF _ r])
  qed (simp add: setup_rpc_server_for_mapping_def r)
qed

lemma subscribe_sets_up: "sets_up g (Iceoryx2_subscribe h m eg g)"
  by (simp add: Iceoryx2_subscribe_def sets_up_def call_def Let_def)

lemma Iceoryx2_setup_sets_up: "sets_up g (fold (Iceoryx2_setup_mapping E) ms g)"
proof (rule sets_up_fold)
  fix m g
  have "sets_up g' (setup_event_subscriptions_for_mapping m g')" for g'
    by (simp add: setup_event_subscriptions_for_mapping_def sets_up_fold subscribe_sets_up split: option.split)
  then show "sets_up g (Iceoryx2_setup_mapping E m g)"
    unfolding Iceoryx2_setup_mapping_def by (rule sets_up_trans [OF setup_rpc_server_sets_up])
qed

lemma Iceoryx2_publisher_sets_up: "Iceoryx2_publisher_for E m g = (ok, h, g1) \<Longrightarrow> sets_up g g1"
  by (auto simp: Iceoryx2_publisher_for_def make_object_def call_bool_def Let_def split: option.splits if_splits
      intro: sets_up_trans)

lemma Iceoryx2_add_publishers_sets_up: "Iceoryx2_add_publishers E ms g = (ok, g1) \<Longrightarrow> sets_up g g1"
proof (induction E ms g arbitrary: ok rule: Iceoryx2_add_publishers.induct)
  case (2 E m ms g)
  obtain ok' h g' where p: "Iceoryx2_publisher_for E m g = (ok', h, g')" by (cases "Iceoryx2_publisher_for E m g") auto
  have "sets_up g' (Iceoryx2_register_events m h g')"
    by (simp add: Iceoryx2_register_events_def sets_up_fold Let_def)
  with Iceoryx2_publisher_sets_up [OF p] have "sets_up g (Iceoryx2_register_events m h g')" by (rule sets_up_trans)
  with 2 p Iceoryx2_publisher_sets_up [OF p] show ?case by (auto split: if_splits intro: sets_up_trans)
qed simp

lemma setup_sd_sets_up: "sets_up g (snd (setup_sd_proxy_for_mapping E m g))"
  by (auto simp: setup_sd_proxy_for_mapping_def call_bool_def Let_def intro: sets_up_trans split: option.split prod.split)

text \<open>Nothing of the library is attached.\<close>

definition ix_idle :: "('m, 'c) Iceoryx2Gateway \<Rightarrow> bool" where
  "ix_idle g \<longleftrightarrow>
     ix_event_publishers g = RBT.empty \<and> ix_event_subscriber g = None \<and> ix_rpc_client g = None \<and>
     ix_rpc_servers g = RBT.empty \<and> ix_sd_client g = None \<and> ix_sd_server g = None \<and> ix_udp_transport g = None \<and>
     \<not> ix_udp_listener g \<and> ix_inprocess_bus g = None \<and> ix_eventgroups g = []"

text \<open>Everything the configuration asks for is attached.\<close>

definition ix_attached :: "('m, 'c) Iceoryx2Gateway \<Rightarrow> bool" where
  "ix_attached g \<longleftrightarrow>
     ix_event_subscriber g \<noteq> None \<and> ix_rpc_client g \<noteq> None \<and>
     (ic_enable_sd_proxy (ix_config g) \<longrightarrow> ix_sd_client g \<noteq> None \<and> ix_sd_server g \<noteq> None) \<and>
     (ic_enable_someip_udp_listener (ix_config g) \<longrightarrow> ix_udp_transport g \<noteq> None) \<and>
     (ic_use_inprocess_shm_simulation (ix_config g) \<longrightarrow> ix_inprocess_bus g \<noteq> None)"

definition ix_inv :: "('m, 'c) Iceoryx2Gateway \<Rightarrow> bool" where
  "ix_inv g \<longleftrightarrow> (if gw_running g then ix_attached g else ix_idle g) \<and> distinct (ix_eventgroups g) \<and> bus_bounded g"

lemma Iceoryx2_stop_effect:
  "case Iceoryx2_stop E g of (r, g') \<Rightarrow>
     r = SUCCESS \<and> \<not> gw_running g' \<and> ix_idle g' \<and> ix_config g' = ix_config g \<and>
     gw_service_mappings g' = gw_service_mappings g \<and>
     gw_io g' = gw_io g @ calls_on Udp_stop (ix_udp_transport g) @
       entry_calls EventPublisher_shutdown (ix_event_publishers g) @
       calls_on EventSubscriber_shutdown (ix_event_subscriber g) @
       entry_calls RpcServer_shutdown (ix_rpc_servers g) @ calls_on RpcClient_shutdown (ix_rpc_client g) @
       calls_on SdClient_shutdown (ix_sd_client g) @ calls_on SdServer_shutdown (ix_sd_server g)"
  by (simp add: Iceoryx2_stop_def Let_def call_on_eq call_entries_eq set_running_def ix_idle_def)

lemma Iceoryx2_stop_inv: "ix_inv (snd (Iceoryx2_stop E g))"
  using Iceoryx2_stop_effect [where E = E and g = g] by (auto simp: ix_inv_def ix_idle_def bus_bounded_def)

lemma Iceoryx2_start_sd_effect:
  assumes "Iceoryx2_start_sd E ms g = (True, g1)"
  shows "gw_running g1 = gw_running g \<and> ix_config g1 = ix_config g \<and> ix_event_subscriber g1 = ix_event_subscriber g \<and>
    ix_rpc_client g1 = ix_rpc_client g \<and> ix_inprocess_bus g1 = ix_inprocess_bus g \<and>
    (distinct (ix_eventgroups g) \<longrightarrow> distinct (ix_eventgroups g1)) \<and>
    (ic_enable_sd_proxy (ix_config g) \<longrightarrow> ix_sd_client g1 \<noteq> None \<and> ix_sd_server g1 \<noteq> None)"
proof (cases "ic_enable_sd_proxy (ix_config g)")
  case True
  define c where "c = answer_new E (gw_io g)"
  define s where "s = answer_new E (gw_io g @ [SdClient_new c])"
  define g' where "g' = call (SdServer_initialize s) (call (SdClient_initialize c) ((call (SdServer_new s)
      ((call (SdClient_new c) g)\<lparr>ix_sd_client := Some c\<rparr>))\<lparr>ix_sd_server := Some s\<rparr>))"
  have "g1 = fold (\<lambda>m g. snd (setup_sd_proxy_for_mapping E m g)) ms g'"
    using assms True
    by (simp add: Iceoryx2_start_sd_def make_object_def call_bool_def Let_def c_def s_def g'_def call_def split: if_splits)
  then have "sets_up g' g1" by (simp add: sets_up_fold setup_sd_sets_up)
  then show ?thesis by (simp add: sets_up_def g'_def call_def)
qed (use assms in \<open>simp add: Iceoryx2_start_sd_def\<close>)

lemma Iceoryx2_start_udp_effect:
  assumes "Iceoryx2_start_udp P E g = (ok, g1)"
  shows "gw_running g1 = gw_running g \<and> ix_config g1 = ix_config g \<and> ix_event_subscriber g1 = ix_event_subscriber g \<and>
    ix_rpc_client g1 = ix_rpc_client g \<and> ix_inprocess_bus g1 = ix_inprocess_bus g \<and>
    ix_eventgroups g1 = ix_eventgroups g \<and> ix_sd_client g1 = ix_sd_client g \<and> ix_sd_server g1 = ix_sd_server g \<and>
    (ic_enable_someip_udp_listener (ix_config g) \<longrightarrow> ix_udp_transport g1 \<noteq> None)"
  using assms by (auto simp: Iceoryx2_start_udp_def make_object_def Let_def call_def split: if_splits)

text \<open>The outcome of \<open>start\<close>: a running gateway with everything attached, or an error and nothing attached.\<close>

definition ix_outcome :: "Iceoryx2Config \<Rightarrow> Result \<times> ('m, 'c) Iceoryx2Gateway \<Rightarrow> bool" where
  "ix_outcome cfg rg \<longleftrightarrow>
     (case rg of (r, g') \<Rightarrow> ix_inv g' \<and> ix_config g' = cfg \<and>
        (if r = SUCCESS then gw_running g' else \<not> gw_running g' \<and> r \<in> {NOT_INITIALIZED, NETWORK_ERROR}))"

lemma stop_outcome:
  "ix_config g = cfg \<Longrightarrow> r \<in> {NOT_INITIALIZED, NETWORK_ERROR} \<Longrightarrow> ix_outcome cfg (r, snd (Iceoryx2_stop E g))"
  using Iceoryx2_stop_effect [where E = E and g = g] Iceoryx2_stop_inv [where E = E and g = g]
  by (auto simp: ix_outcome_def)

lemma sd_offers_config: "ix_config (fold (\<lambda>m g. snd (setup_sd_proxy_for_mapping E m g)) ms g) = ix_config g"
proof -
  have "sets_up g (fold (\<lambda>m g. snd (setup_sd_proxy_for_mapping E m g)) ms g)"
    by (rule sets_up_fold) (rule setup_sd_sets_up)
  then show ?thesis by (simp add: sets_up_def)
qed

lemma Iceoryx2_start_sd_config: "ix_config (snd (Iceoryx2_start_sd E ms g)) = ix_config g"
  by (simp add: Iceoryx2_start_sd_def make_object_def call_bool_def Let_def sd_offers_config) (simp add: call_def)

lemma Iceoryx2_start_rest_outcome:
  assumes "\<not> gw_running g" and "ix_event_subscriber g \<noteq> None" and "distinct (ix_eventgroups g)" and "bus_bounded g"
    and "ic_use_inprocess_shm_simulation (ix_config g) \<longrightarrow> ix_inprocess_bus g \<noteq> None"
  shows "ix_outcome (ix_config g) (Iceoryx2_start_rest P E g)"
proof -
  define h where "h = answer_new E (gw_io g)"
  define g3 where "g3 = call (RpcClient_initialize h) (call (RpcClient_set_remote_endpoint h)
    ((call (RpcClient_new h (ic_someip_client_id (ix_config g))) g)\<lparr>ix_rpc_client := Some h\<rparr>))"
  obtain ok4 g4 where 4: "Iceoryx2_add_publishers E (gw_service_mappings g) g3 = (ok4, g4)" by fastforce
  define g4' where "g4' = fold (Iceoryx2_setup_mapping E) (gw_service_mappings g) g4"
  obtain ok5 g5 where 5: "Iceoryx2_start_sd E (gw_service_mappings g) g4' = (ok5, g5)" by fastforce
  obtain ok6 g6 where 6: "Iceoryx2_start_udp P E g5 = (ok6, g6)" by fastforce
  have g3: "gw_running g3 = gw_running g" "ix_config g3 = ix_config g" "ix_event_subscriber g3 = ix_event_subscriber g"
    "ix_eventgroups g3 = ix_eventgroups g" "ix_inprocess_bus g3 = ix_inprocess_bus g" "ix_rpc_client g3 = Some h"
    by (simp_all add: g3_def call_def)
  have s4: "sets_up g3 g4" by (rule Iceoryx2_add_publishers_sets_up [OF 4])
  then have s4': "sets_up g3 g4'" unfolding g4'_def by (rule sets_up_trans [OF _ Iceoryx2_setup_sets_up])
  have c5: "ix_config g5 = ix_config g"
    using Iceoryx2_start_sd_config [of E "gw_service_mappings g" g4'] s4' g3 5 by (simp add: sets_up_def)
  have eq: "Iceoryx2_start_rest P E g = (
      if \<not> answer_bool E (gw_io g @ [RpcClient_new h (ic_someip_client_id (ix_config g)), RpcClient_set_remote_endpoint h])
          (RpcClient_initialize h) then (NOT_INITIALIZED, snd (Iceoryx2_stop E g3))
      else if \<not> ok4 then (NOT_INITIALIZED, snd (Iceoryx2_stop E g4))
      else if \<not> ok5 then (NETWORK_ERROR, snd (Iceoryx2_stop E g5))
      else if \<not> ok6 then (NETWORK_ERROR, snd (Iceoryx2_stop E g6))
      else (SUCCESS, set_running E True g6))"
    using 4 5 6 unfolding g4'_def
    by (simp add: Iceoryx2_start_rest_def make_object_def call_bool_def Let_def h_def g3_def get_service_mappings_def call_def)
  have "ix_outcome (ix_config g) (SUCCESS, set_running E True g6)" if "ok5"
    using assms g3 s4' Iceoryx2_start_sd_effect [of E "gw_service_mappings g" g4' g5] 5 that Iceoryx2_start_udp_effect [OF 6]
    by (auto simp: ix_outcome_def ix_inv_def ix_attached_def bus_bounded_def set_running_def call_def Let_def sets_up_def)
  then show ?thesis
    unfolding eq using g3 s4 c5 Iceoryx2_start_udp_effect [OF 6] by (auto simp: sets_up_def intro!: stop_outcome)
qed

lemma Iceoryx2_start_outcome:
  assumes "ix_inv g"
  shows "ix_outcome (ix_config g) (Iceoryx2_start P E g)"
proof (cases "gw_running g")
  case True
  with assms show ?thesis by (simp add: Iceoryx2_start_def ix_outcome_def is_running_def)
next
  case False
  then have idle: "ix_idle g" using assms by (simp add: ix_inv_def)
  define g2 where "g2 = (if ic_use_inprocess_shm_simulation (ix_config g)
    then g\<lparr>ix_eventgroups := [], ix_inprocess_bus := Some []\<rparr> else g\<lparr>ix_eventgroups := []\<rparr>)"
  define h where "h = answer_new E (gw_io g)"
  define g4 where "g4 = call (EventSubscriber_initialize h)
    ((call (EventSubscriber_new h (ic_someip_client_id (ix_config g))) g2)\<lparr>ix_event_subscriber := Some h\<rparr>)"
  have eq: "Iceoryx2_start P E g =
     (if \<not> answer_bool E (gw_io g @ [EventSubscriber_new h (ic_someip_client_id (ix_config g))]) (EventSubscriber_initialize h)
      then (NOT_INITIALIZED, g4\<lparr>ix_event_subscriber := None, ix_inprocess_bus := None\<rparr>) else Iceoryx2_start_rest P E g4)"
    using False
    by (simp add: Iceoryx2_start_def is_running_def make_object_def call_bool_def Let_def g2_def h_def g4_def call_def)
  have g4: "\<not> gw_running g4" "ix_event_subscriber g4 \<noteq> None" "ix_eventgroups g4 = []" "ix_config g4 = ix_config g"
    "bus_bounded g4" "ic_use_inprocess_shm_simulation (ix_config g4) \<longrightarrow> ix_inprocess_bus g4 \<noteq> None"
    using False idle by (simp_all add: g4_def g2_def call_def bus_bounded_def ix_idle_def)
  from Iceoryx2_start_rest_outcome [OF g4(1,2) _ g4(5,6)] g4(3,4)
  have "ix_outcome (ix_config g) (Iceoryx2_start_rest P E g4)" by simp
  moreover have "ix_outcome (ix_config g) (NOT_INITIALIZED, g4\<lparr>ix_event_subscriber := None, ix_inprocess_bus := None\<rparr>)"
    using False idle by (simp add: ix_outcome_def ix_inv_def g4_def g2_def call_def ix_idle_def bus_bounded_def)
  ultimately show ?thesis unfolding eq by simp
qed

subsection \<open>Reachable states\<close>

text \<open>
  Every public operation, the registered callbacks and the injection of samples, in any order. Callbacks
  reach a gateway only through objects it is attached to, but no rule depends on that.
\<close>

inductive ix_reachable ::
  "'m message_api \<Rightarrow> ('s, 'd) serializer_api \<Rightarrow> result_api \<Rightarrow> ('m, 'c) ix_env \<Rightarrow> Iceoryx2Config \<Rightarrow>
   ('m, 'c) Iceoryx2Gateway \<Rightarrow> bool" for A S P E config where
  created: "ix_reachable A S P E config (Iceoryx2Gateway_new config)"
| started: "ix_reachable A S P E config g \<Longrightarrow> ix_reachable A S P E config (snd (Iceoryx2_start P E g))"
| stopped: "ix_reachable A S P E config g \<Longrightarrow> ix_reachable A S P E config (snd (Iceoryx2_stop E g))"
| mapped: "ix_reachable A S P E config g \<Longrightarrow> ix_reachable A S P E config (add_service_mapping mp g)"
| hooked: "ix_reachable A S P E config g \<Longrightarrow> ix_reachable A S P E config (set_iceoryx2_outbound_hook b g)"
| callback_set: "ix_reachable A S P E config g \<Longrightarrow> ix_reachable A S P E config (set_external_message_callback b g)"
| message: "ix_reachable A S P E config g \<Longrightarrow> ix_reachable A S P E config (snd (Iceoryx2_on_someip_message A S msg g))"
| injected: "ix_reachable A S P E config g \<Longrightarrow> ix_reachable A S P E config (inject_iceoryx2_sample A S E nm smp g)"
| method_called: "ix_reachable A S P E config g \<Longrightarrow>
    ix_reachable A S P E config (snd (Iceoryx2_rpc_handler A S P mp mid c s inp g))"
| notified: "ix_reachable A S P E config g \<Longrightarrow> ix_reachable A S P E config (Iceoryx2_on_event_notification A S mp n g)"
| found: "ix_reachable A S P E config g \<Longrightarrow> ix_reachable A S P E config (Iceoryx2_on_services_found g)"

text \<open>Operations that leave the attached objects alone.\<close>

definition ix_same :: "('m, 'c) Iceoryx2Gateway \<Rightarrow> ('m, 'c) Iceoryx2Gateway \<Rightarrow> bool" where
  "ix_same g g' \<longleftrightarrow> (ix_inv g \<longrightarrow> ix_inv g') \<and> ix_config g' = ix_config g"

lemma ix_same_trans: "ix_same g g1 \<Longrightarrow> ix_same g1 g2 \<Longrightarrow> ix_same g g2"
  by (simp add: ix_same_def)

lemma ix_same_simps [simp]:
  "ix_same g g" "ix_same g (call ev g1) = ix_same g g1" "ix_same g (g1\<lparr>gw_stats := st\<rparr>) = ix_same g g1"
  "ix_same g (g1\<lparr>gw_service_mappings := mps\<rparr>) = ix_same g g1" "ix_same g (g1\<lparr>ix_outbound_hook := b\<rparr>) = ix_same g g1"
  "ix_same g (g1\<lparr>gw_external_message_callback := b\<rparr>) = ix_same g g1"
  "ix_same g (g1\<lparr>ix_sd_finds_handled := k\<rparr>) = ix_same g g1"
  by (simp_all add: ix_same_def ix_inv_def ix_idle_def ix_attached_def bus_bounded_def call_def)

lemma publish_same: "ix_same g (snd (publish_toward_iceoryx2 nm smp mp g))"
  by (auto simp: publish_toward_iceoryx2_def Let_def record_someip_to_external_def ix_same_def ix_inv_def ix_idle_def
      ix_attached_def bus_bounded_def bus_push_newest call_def split: option.splits)

lemmas ix_bridge_defs = bridge_pub_sub_someip_to_external_def bridge_rpc_someip_to_external_def bridge_toward_def

lemma message_same: "ix_same g (snd (Iceoryx2_on_someip_message A S msg g))"
  by (simp add: Iceoryx2_on_someip_message_def ix_bridge_defs publish_same split: option.split)

lemma inject_same: "ix_same g (inject_iceoryx2_sample A S E nm smp g)"
proof -
  have r: "ix_same g (Iceoryx2_inbound_request A S E h env mp g)" for h env mp
    by (auto simp: Iceoryx2_inbound_request_def record_external_to_someip_def Let_def split: prod.split
        intro: ix_same_trans [OF _ publish_same])
  show ?thesis
    by (auto simp: inject_iceoryx2_sample_def record_translation_error_def handle_incoming_envelope_def
        Iceoryx2_inbound_event_def record_external_to_someip_def Let_def r split: option.split)
qed

lemma ix_reachable_inv: "ix_reachable A S P E config g \<Longrightarrow> ix_inv g \<and> ix_config g = config"
proof (induction rule: ix_reachable.induct)
  case created
  then show ?case by (simp add: Iceoryx2Gateway_new_def ix_inv_def ix_idle_def bus_bounded_def)
next
  case (started g)
  with Iceoryx2_start_outcome [of g P E] show ?case by (auto simp: ix_outcome_def split: prod.splits)
next
  case (stopped g)
  then show ?case using Iceoryx2_stop_effect [where E = E and g = g] Iceoryx2_stop_inv by auto
next
  case (mapped g mp)
  have "ix_same g (add_service_mapping mp g)" by (simp add: add_service_mapping_def)
  with mapped show ?case by (simp add: ix_same_def)
next
  case (hooked g b)
  have "ix_same g (set_iceoryx2_outbound_hook b g)" by (simp add: set_iceoryx2_outbound_hook_def)
  with hooked show ?case by (simp add: ix_same_def)
next
  case (callback_set g b)
  have "ix_same g (set_external_message_callback b g)" by (simp add: set_external_message_callback_def)
  with callback_set show ?case by (simp add: ix_same_def)
next
  case (message g msg)
  then show ?case using message_same [of g A S msg] by (simp add: ix_same_def)
next
  case (injected g nm smp)
  then show ?case using inject_same [of g A S E nm smp] by (simp add: ix_same_def)
next
  case (method_called g mp mid c s inp)
  then show ?case using publish_same [of g]
    by (auto simp: Iceoryx2_rpc_handler_def Let_def ix_same_def split_beta)
next
  case (notified g mp n)
  then show ?case using publish_same [of g]
    by (auto simp: Iceoryx2_on_event_notification_def ix_bridge_defs ix_same_def)
next
  case (found g)
  have "ix_same g (Iceoryx2_on_services_found g)" by (simp add: Iceoryx2_on_services_found_def)
  with found show ?case by (simp add: ix_same_def)
qed

subsection \<open>Samples for the witnesses\<close>

definition sample_ix_config :: Iceoryx2Config where
  "sample_ix_config = Iceoryx2Config_default\<lparr>ic_use_inprocess_shm_simulation := True\<rparr>"

definition sample_ix_mapping :: ServiceMapping where
  "sample_ix_mapping = \<lparr>someip_service_id = 0x1234, someip_instance_id = 1, someip_method_ids = [0x42],
     someip_event_group_ids = [1], external_identifier = [], direction = BIDIRECTIONAL, mode = OPAQUE\<rparr>"

definition sample_ix :: "(ref_message, unit) Iceoryx2Gateway" where
  "sample_ix = (add_service_mapping sample_ix_mapping (Iceoryx2Gateway_new sample_ix_config))
     \<lparr>gw_running := True, ix_outbound_hook := True, ix_inprocess_bus := Some [], ix_rpc_client := Some 3\<rparr>"

lemma sample_ix_simps [simp]:
  "gw_running sample_ix" "ix_outbound_hook sample_ix" "ix_inprocess_bus sample_ix = Some []" "gw_io sample_ix = []"
  "ix_rpc_client sample_ix = Some 3" "gw_service_mappings sample_ix = [sample_ix_mapping]"
  "\<not> gw_external_message_callback sample_ix" "ic_use_inprocess_shm_simulation (ix_config sample_ix)"
  "ic_service_name_prefix (ix_config sample_ix) = ''someip''"
  by (simp_all add: sample_ix_def add_service_mapping_def Iceoryx2Gateway_new_def sample_ix_config_def
      Iceoryx2Config_default_def)

definition sample_ix_request :: ref_message where
  "sample_ix_request = \<lparr>ref_service = 0x1234, ref_method = 0x42, ref_client = 7, ref_session = 9, ref_type = 0,
     ref_return = 0, ref_payload = [1, 2, 3]\<rparr>"


subsection \<open>Properties\<close>

text \<open>C2: Outbound. A running gateway answers every message: \<open>INVALID_SERVICE_ID\<close> without a mapping of its
  service, \<open>SUCCESS\<close> otherwise. Exactly the permitted messages become items (service name with its kind
  letter and sample), in order: the hook is called once per item, the counters advance by the number of
  items and their bytes, and the in-process bus implements the abstract queue that keeps the newest
  1024 items. Nothing else changes.\<close>

theorem iceoryx2_messages_delivered:
  assumes "gw_running g" and "bus_bounded g" and "items = List.map_filter (ix_item A S g) ms"
  shows "deliver_all (\<lambda>m g. Some (Iceoryx2_on_someip_message A S m g)) ms g =
    Some (map (ix_result A g) ms, g\<lparr>
      gw_stats := (gw_stats g)\<lparr>
        messages_someip_to_external := messages_someip_to_external (gw_stats g) + word_of_nat (length items),
        bytes_someip_to_external := bytes_someip_to_external (gw_stats g) + word_of_nat (\<Sum>it\<leftarrow>items. length (snd it))\<rparr>,
      gw_io := gw_io g @ (if ix_outbound_hook g then map (\<lambda>(nm, smp). External (Outbound_hook nm smp)) items else []),
      ix_inprocess_bus := (if ic_use_inprocess_shm_simulation (ix_config g)
        then map_option (\<lambda>q. newest 1024 (q @ items)) (ix_inprocess_bus g) else ix_inprocess_bus g)\<rparr>)"
  using Iceoryx2_all_effect [OF assms(1,2), of A S ms]
  by (simp add: assms(3) ix_emits_def counted_items kMaxDepth_def)

theorem iceoryx2_messages_delivered_witness:
  "\<exists>g'. deliver_all (\<lambda>m g. Some (Iceoryx2_on_someip_message ref_api ref_serializer m g))
      [sample_ix_request] sample_ix = Some ([SUCCESS], g') \<and>
     ix_inprocess_bus g' = Some [(build_iceoryx2_service_name ''someip'' 0x1234 1 0x42 CHR ''R'',
       someip_to_sample ref_api ref_serializer sample_ix_request 1 OPAQUE)]"
proof -
  have b: "bus_bounded sample_ix" by (simp add: bus_bounded_def)
  have m: "Iceoryx2_find_mapping 0x1234 sample_ix = Some sample_ix_mapping"
    by (simp add: Iceoryx2_find_mapping_def find_mapping_for_service_def sample_ix_mapping_def)
  have i: "ix_item ref_api ref_serializer sample_ix sample_ix_request = Some (build_iceoryx2_service_name ''someip'' 0x1234 1 0x42 CHR ''R'',
      someip_to_sample ref_api ref_serializer sample_ix_request 1 OPAQUE)"
    using m by (simp add: ix_item_def ix_kind_def sample_ix_request_def ref_simps sample_ix_mapping_def
        should_forward_to_external_def)
  have "ix_result ref_api sample_ix sample_ix_request = SUCCESS"
    using m by (simp add: ix_result_def sample_ix_request_def ref_simps)
  with i iceoryx2_messages_delivered [OF sample_ix_simps(1) b refl, of ref_api ref_serializer "[sample_ix_request]"]
  show ?thesis by (simp add: List.map_filter_def)
qed

text \<open>C11: In every state that operations and callbacks can reach, a running gateway has everything attached its
  configuration asks for and a stopped one has nothing attached, no event group is subscribed twice and
  the in-process bus holds at most 1024 items. A start from there either succeeds and runs, or fails with
  \<open>NOT_INITIALIZED\<close> or \<open>NETWORK_ERROR\<close> and leaves nothing attached.\<close>

theorem iceoryx2_no_leak:
  assumes "ix_reachable A S P E config g"
  shows "(if gw_running g then ix_attached g else ix_idle g) \<and> distinct (ix_eventgroups g) \<and> bus_bounded g \<and>
    (case Iceoryx2_start P E g of (r, g') \<Rightarrow>
       if r = SUCCESS then gw_running g' \<and> ix_attached g'
       else \<not> gw_running g' \<and> ix_idle g' \<and> (r = NOT_INITIALIZED \<or> r = NETWORK_ERROR))"
proof -
  have i: "ix_inv g" using ix_reachable_inv [OF assms] by simp
  from Iceoryx2_start_outcome [OF i, of P E] i show ?thesis
    by (auto simp: ix_outcome_def ix_inv_def split: prod.splits if_splits)
qed

theorem iceoryx2_no_leak_witness:
  "ix_reachable ref_api ref_serializer ref_results ref_env sample_ix_config
     (snd (Iceoryx2_start ref_results ref_env (Iceoryx2Gateway_new sample_ix_config))) \<and>
   bus_bounded (snd (Iceoryx2_start ref_results ref_env (Iceoryx2Gateway_new sample_ix_config)))"
proof -
  have r: "ix_reachable ref_api ref_serializer ref_results ref_env sample_ix_config
     (snd (Iceoryx2_start ref_results ref_env (Iceoryx2Gateway_new sample_ix_config)))"
    by (intro ix_reachable.started ix_reachable.created)
  with iceoryx2_no_leak [OF r] show ?thesis by simp
qed

text \<open>\<open>stop\<close> always succeeds, releases everything in the order transport, publishers (by key), subscriber,
  servers (by key), client, discovery, with exactly one shut-down call for each attached object, and
  every message after it is refused without effect.\<close>

lemma iceoryx2_stop_releases:
  "case Iceoryx2_stop E g of (r, g') \<Rightarrow>
     r = SUCCESS \<and> \<not> gw_running g' \<and> ix_idle g' \<and>
     gw_io g' = gw_io g @ calls_on Udp_stop (ix_udp_transport g) @
       map (\<lambda>(k, h). EventPublisher_shutdown h) (RBT.entries (ix_event_publishers g)) @
       calls_on EventSubscriber_shutdown (ix_event_subscriber g) @
       map (\<lambda>(k, h). RpcServer_shutdown h) (RBT.entries (ix_rpc_servers g)) @
       calls_on RpcClient_shutdown (ix_rpc_client g) @
       calls_on SdClient_shutdown (ix_sd_client g) @ calls_on SdServer_shutdown (ix_sd_server g) \<and>
     (\<exists>rs. deliver_all (\<lambda>m g. Some (Iceoryx2_on_someip_message A S m g)) ms g' = Some (rs, g') \<and> SUCCESS \<notin> set rs)"
  using Iceoryx2_stop_effect [where E = E and g = g]
    iceoryx2.all_stopped [of "snd (Iceoryx2_stop E g)" A S ms]
  by (auto simp: entry_calls_def split: prod.splits)

text \<open>C14: Request and response across the gateway. A request sample that another gateway made from a SOME/IP
  request, injected into a gateway with a bidirectional mapping and an RPC client, makes exactly one RPC
  call with the request's service, method and payload and publishes exactly one sample under the RPC
  name of the method; that sample parses to the response of the call: the request's service, method,
  client and session, type \<open>RESPONSE\<close> (or \<open>ERROR\<close> when the call failed) and the returned bytes.\<close>

theorem iceoryx2_request_answered:
  assumes "message_laws A" and "serializer_laws S e at" and "length (get_payload A req) \<le> 16 * 1024 * 1024"
    and "get_message_type A req = mt_REQUEST A"
    and "find_mapping_for_service (get_service_id A req) iid g = Some m" and "direction m = BIDIRECTIONAL"
    and "ix_rpc_client g = Some h" and "ix_outbound_hook g" and "\<not> gw_external_message_callback g"
    and "answer_rpc E (gw_io g) (RpcClient_call_method_sync h (get_service_id A req) (get_method_id A req) (get_payload A req)) =
           (res, ret)" and "length ret \<le> 16 * 1024 * 1024"
  shows "\<exists>out env. gw_io (inject_iceoryx2_sample A S E nm (someip_to_sample A S req iid OPAQUE) g) = gw_io g @
      [RpcClient_call_method_sync h (get_service_id A req) (get_method_id A req) (get_payload A req),
       External (Outbound_hook (build_iceoryx2_service_name (ic_service_name_prefix (ix_config g)) (get_service_id A req)
         iid (get_method_id A req) CHR ''R'') out)] \<and>
    parse_sample S out = Some env \<and> env_instance_id env = iid \<and>
    header_of A (envelope_to_someip A env) =
      (get_service_id A req, get_method_id A req, get_client_id A req, get_session_id A req,
       if res = RPC_SUCCESS then mt_RESPONSE A else mt_ERROR A, rc_E_OK A) \<and>
    get_payload A (envelope_to_someip A env) = ret"
proof -
  define resp where "resp = set_payload A ret (Message_ctor A (get_service_id A req, get_method_id A req)
    (get_client_id A req, get_session_id A req) (if res = RPC_SUCCESS then mt_RESPONSE A else mt_ERROR A))"
  have n: "mt_REQUEST A \<noteq> mt_NOTIFICATION A"
    using distinct_message_types [OF assms(1)] by (simp add: message_types_def)
  have f: "should_forward_to_someip m" "should_forward_to_external m"
    using assms(6) by (simp_all add: should_forward_to_someip_def should_forward_to_external_def)
  have io: "gw_io (inject_iceoryx2_sample A S E nm (someip_to_sample A S req iid OPAQUE) g) = gw_io g @
      [RpcClient_call_method_sync h (get_service_id A req) (get_method_id A req) (get_payload A req),
       External (Outbound_hook (build_iceoryx2_service_name (ic_service_name_prefix (ix_config g)) (get_service_id A req)
         iid (get_method_id A req) CHR ''R'') (someip_to_sample A S resp iid OPAQUE))]"
    using assms(4,5,7-10) n f opaque_sample_parses [OF assms(2,3)]
    by (simp add: inject_iceoryx2_sample_def handle_incoming_envelope_def Iceoryx2_inbound_request_def publish_emit
        ix_emit_def record_external_to_someip_def call_def Let_def resp_def)
  have "get_payload A resp = ret" using assms(1) by (simp add: resp_def)
  with opaque_sample_parses [OF assms(2), of A resp iid] assms(1,11) io show ?thesis
    by (simp add: resp_def envelope_to_someip_def header_of_def)
qed

theorem iceoryx2_request_answered_witness:
  "\<exists>out env. gw_io (inject_iceoryx2_sample ref_api ref_serializer ref_env ''in''
       (someip_to_sample ref_api ref_serializer sample_ix_request 1 OPAQUE) sample_ix) =
     [RpcClient_call_method_sync 3 0x1234 0x42 [1, 2, 3],
      External (Outbound_hook (build_iceoryx2_service_name ''someip'' 0x1234 1 0x42 CHR ''R'') out)] \<and>
     parse_sample ref_serializer out = Some env \<and> get_payload ref_api (envelope_to_someip ref_api env) = [1, 2, 3]"
proof -
  have q: "get_service_id ref_api sample_ix_request = 0x1234" "get_method_id ref_api sample_ix_request = 0x42"
    "get_payload ref_api sample_ix_request = [1, 2, 3]" "get_message_type ref_api sample_ix_request = mt_REQUEST ref_api"
    by (simp_all add: sample_ix_request_def ref_simps)
  have m: "find_mapping_for_service (get_service_id ref_api sample_ix_request) 1 sample_ix = Some sample_ix_mapping"
    "direction sample_ix_mapping = BIDIRECTIONAL"
    by (simp_all add: q find_mapping_for_service_def sample_ix_mapping_def)
  have a: "answer_rpc ref_env (gw_io sample_ix) (RpcClient_call_method_sync 3 (get_service_id ref_api sample_ix_request)
      (get_method_id ref_api sample_ix_request) (get_payload ref_api sample_ix_request)) = (RPC_SUCCESS, [1, 2, 3])"
    by (simp add: ref_env_def q)
  have l: "length (get_payload ref_api sample_ix_request) \<le> 16 * 1024 * 1024" "length [1, 2, 3 :: u8] \<le> 16 * 1024 * 1024"
    by (simp_all add: q)
  from iceoryx2_request_answered [OF ref_api_laws ref_serializer_laws l(1) q(4) m sample_ix_simps(5,2,7) a l(2), of "''in''"]
  show ?thesis unfolding q by auto
qed


subsection \<open>The life cycle\<close>

lemma Iceoryx2_stop_running: "fst (Iceoryx2_stop E g) = SUCCESS \<and> \<not> gw_running (snd (Iceoryx2_stop E g))"
  using Iceoryx2_stop_effect [where E = E and g = g] by (auto split: prod.splits)

interpretation iceoryx2_life: total_life_cycle True "\<lambda>g. Some (Iceoryx2_start P E g)" "\<lambda>g. Some (Iceoryx2_stop E g)"
  "\<lambda>m g. Some (Iceoryx2_on_someip_message A S m g)" "\<lambda>g. True" for A S P E
proof
  show "gw_running g' = (r = SUCCESS \<or> gw_running g)" if "Some (Iceoryx2_start P E g) = Some (r, g')" for g r g'
    using that Iceoryx2_stop_running [of E]
    by (auto simp: Iceoryx2_start_def Iceoryx2_start_rest_def is_running_def set_running_def Let_def make_object_def call_bool_def 
          split: prod.splits if_splits)
  show "r = SUCCESS \<and> \<not> gw_running g'" if "Some (Iceoryx2_stop E g) = Some (r, g')" for g r g'
    using that Iceoryx2_stop_running [of E g] by auto
  show "gw_running g' = gw_running g" if "Some (Iceoryx2_on_someip_message A S m g) = Some (r, g')" for m g r g'
    using forward_step_same_base [OF iceoryx2.step [OF that]] by (simp add: same_base_def)
  show "r \<noteq> SUCCESS \<and> g' = g" if "\<not> gw_running g" "Some (Iceoryx2_on_someip_message A S m g) = Some (r, g')" for g m r g'
    using iceoryx2.stopped [OF that(1), of A S m] that(2) by auto
qed (simp_all add: prod_eq_iff)

end
