(* ===== verification/Grpc_Translator.thy ===== *)
theory Grpc_Translator
  imports Translator
begin

text \<open>
  \<open>gateway-grpc/include/opensomeip/gateway/grpc/grpc_translator.h\<close> and
  \<open>gateway-grpc/src/grpc_translator.cpp\<close>: status codes and the protobuf envelope.

  The enumerators of \<open>someip::ReturnCode\<close> are header bytes of the opensomeip library and enter as the
  record \<open>return_codes\<close>, distinct by \<open>return_codes_distinct\<close>; \<open>grpc::StatusCode\<close> is a datatype of the
  enumerators the sources name, and every other value of the C enumeration is a value of the last
  constructor. \<open>SomeIpEnvelope\<close> has the fields of \<open>gateway-grpc/protos/gateway.proto\<close>. The two tables are
  association lists searched from the front, as \<open>std::unordered_map\<close> keeps the first of equal keys.

  The properties show which status codes survive the trip through a SOME/IP return code, that success
  and only success maps to success, and that the envelope carries a message without loss.
\<close>

record return_codes =
  E_OK :: ReturnCode
  E_NOT_OK :: ReturnCode
  E_UNKNOWN_SERVICE :: ReturnCode
  E_UNKNOWN_METHOD :: ReturnCode
  E_NOT_READY :: ReturnCode
  E_NOT_REACHABLE :: ReturnCode
  E_TIMEOUT :: ReturnCode
  E_WRONG_PROTOCOL_VERSION :: ReturnCode
  E_WRONG_INTERFACE_VERSION :: ReturnCode
  E_MALFORMED_MESSAGE :: ReturnCode
  E_WRONG_MESSAGE_TYPE :: ReturnCode
  E_E2E_REPEATED :: ReturnCode
  E_E2E_WRONG_SEQUENCE :: ReturnCode
  E_E2E :: ReturnCode
  E_E2E_NOT_AVAILABLE :: ReturnCode
  E_E2E_NO_NEW_DATA :: ReturnCode
  ReturnCode_to_string :: "ReturnCode \<Rightarrow> string"

definition return_codes_distinct :: "return_codes \<Rightarrow> bool" where
  "return_codes_distinct R \<longleftrightarrow>
     distinct [E_OK R, E_NOT_OK R, E_UNKNOWN_SERVICE R, E_UNKNOWN_METHOD R, E_NOT_READY R, E_NOT_REACHABLE R,
       E_TIMEOUT R, E_WRONG_PROTOCOL_VERSION R, E_WRONG_INTERFACE_VERSION R, E_MALFORMED_MESSAGE R,
       E_WRONG_MESSAGE_TYPE R, E_E2E_REPEATED R, E_E2E_WRONG_SEQUENCE R, E_E2E R, E_E2E_NOT_AVAILABLE R,
       E_E2E_NO_NEW_DATA R]"

datatype StatusCode =
    SC_OK | SC_CANCELLED | SC_UNKNOWN | SC_INVALID_ARGUMENT | SC_DEADLINE_EXCEEDED | SC_NOT_FOUND
  | SC_ALREADY_EXISTS | SC_PERMISSION_DENIED | SC_RESOURCE_EXHAUSTED | SC_FAILED_PRECONDITION | SC_ABORTED
  | SC_OUT_OF_RANGE | SC_UNIMPLEMENTED | SC_INTERNAL | SC_UNAVAILABLE | SC_DATA_LOSS | SC_UNAUTHENTICATED
  | StatusCode_other int

record Status =
  status_code :: StatusCode
  status_message :: string

record SomeIpEnvelope =
  pb_service_id :: u32
  pb_method_or_event_id :: u32
  pb_client_id :: u32
  pb_session_id :: u32
  pb_message_type :: u32
  pb_return_code :: u32
  pb_payload :: bytes
  pb_instance_id :: u32
  pb_serialized_someip_frame :: bytes

definition SomeIpEnvelope_default :: SomeIpEnvelope where
  "SomeIpEnvelope_default = \<lparr>pb_service_id = 0, pb_method_or_event_id = 0, pb_client_id = 0, pb_session_id = 0,
     pb_message_type = 0, pb_return_code = 0, pb_payload = [], pb_instance_id = 0, pb_serialized_someip_frame = []\<rparr>"

definition kReturnToGrpc :: "return_codes \<Rightarrow> (ReturnCode \<times> StatusCode) list" where
  "kReturnToGrpc R =
     [(E_OK R, SC_OK), (E_NOT_OK R, SC_INTERNAL), (E_UNKNOWN_SERVICE R, SC_NOT_FOUND),
      (E_UNKNOWN_METHOD R, SC_UNIMPLEMENTED), (E_NOT_READY R, SC_FAILED_PRECONDITION),
      (E_NOT_REACHABLE R, SC_UNAVAILABLE), (E_TIMEOUT R, SC_DEADLINE_EXCEEDED),
      (E_WRONG_PROTOCOL_VERSION R, SC_FAILED_PRECONDITION), (E_WRONG_INTERFACE_VERSION R, SC_FAILED_PRECONDITION),
      (E_MALFORMED_MESSAGE R, SC_INVALID_ARGUMENT), (E_WRONG_MESSAGE_TYPE R, SC_INVALID_ARGUMENT),
      (E_E2E_REPEATED R, SC_ABORTED), (E_E2E_WRONG_SEQUENCE R, SC_ABORTED), (E_E2E R, SC_DATA_LOSS),
      (E_E2E_NOT_AVAILABLE R, SC_UNAVAILABLE), (E_E2E_NO_NEW_DATA R, SC_FAILED_PRECONDITION)]"

definition kGrpcToReturn :: "return_codes \<Rightarrow> (StatusCode \<times> ReturnCode) list" where
  "kGrpcToReturn R =
     [(SC_OK, E_OK R), (SC_CANCELLED, E_NOT_OK R), (SC_UNKNOWN, E_NOT_OK R),
      (SC_INVALID_ARGUMENT, E_MALFORMED_MESSAGE R), (SC_DEADLINE_EXCEEDED, E_TIMEOUT R),
      (SC_NOT_FOUND, E_UNKNOWN_SERVICE R), (SC_ALREADY_EXISTS, E_NOT_OK R), (SC_PERMISSION_DENIED, E_NOT_OK R),
      (SC_RESOURCE_EXHAUSTED, E_NOT_READY R), (SC_FAILED_PRECONDITION, E_NOT_READY R), (SC_ABORTED, E_E2E R),
      (SC_OUT_OF_RANGE, E_MALFORMED_MESSAGE R), (SC_UNIMPLEMENTED, E_UNKNOWN_METHOD R), (SC_INTERNAL, E_NOT_OK R),
      (SC_UNAVAILABLE, E_NOT_REACHABLE R), (SC_DATA_LOSS, E_E2E R), (SC_UNAUTHENTICATED, E_NOT_OK R)]"

definition return_code_to_grpc_status_code :: "return_codes \<Rightarrow> ReturnCode \<Rightarrow> StatusCode" where
  "return_code_to_grpc_status_code R code =
     (case map_of (kReturnToGrpc R) code of Some s \<Rightarrow> s | None \<Rightarrow> SC_UNKNOWN)"

definition grpc_status_code_to_return_code :: "return_codes \<Rightarrow> StatusCode \<Rightarrow> ReturnCode" where
  "grpc_status_code_to_return_code R code =
     (case map_of (kGrpcToReturn R) code of Some c \<Rightarrow> c | None \<Rightarrow> E_NOT_OK R)"

definition return_code_to_grpc_status :: "return_codes \<Rightarrow> ReturnCode \<Rightarrow> string \<Rightarrow> Status" where
  "return_code_to_grpc_status R code message =
     \<lparr>status_code = return_code_to_grpc_status_code R code,
      status_message = (if message = [] then ReturnCode_to_string R code else message)\<rparr>"

fun rpc_result_to_return_code :: "return_codes \<Rightarrow> RpcResult \<Rightarrow> ReturnCode" where
  "rpc_result_to_return_code R RPC_SUCCESS = E_OK R"
| "rpc_result_to_return_code R RPC_TIMEOUT = E_TIMEOUT R"
| "rpc_result_to_return_code R RPC_NETWORK_ERROR = E_NOT_REACHABLE R"
| "rpc_result_to_return_code R RPC_INVALID_PARAMETERS = E_MALFORMED_MESSAGE R"
| "rpc_result_to_return_code R RPC_METHOD_NOT_FOUND = E_UNKNOWN_METHOD R"
| "rpc_result_to_return_code R RPC_SERVICE_NOT_AVAILABLE = E_UNKNOWN_SERVICE R"
| "rpc_result_to_return_code R RPC_INTERNAL_ERROR = E_NOT_OK R"
| "rpc_result_to_return_code R (RpcResult_other n) = E_NOT_OK R"

definition rpc_result_to_grpc_status_code :: "return_codes \<Rightarrow> RpcResult \<Rightarrow> StatusCode" where
  "rpc_result_to_grpc_status_code R result = return_code_to_grpc_status_code R (rpc_result_to_return_code R result)"

text \<open>\<open>static_cast<int>\<close> of the enumerator is an argument; gRPC's codes are not negative.\<close>

definition grpc_status_code_name :: "(StatusCode \<Rightarrow> nat) \<Rightarrow> StatusCode \<Rightarrow> string" where
  "grpc_status_code_name enum_value code = show_dec (enum_value code)"

definition envelope_to_message :: "'m message_api \<Rightarrow> SomeIpEnvelope \<Rightarrow> 'm \<Rightarrow> bool \<times> 'm" where
  "envelope_to_message A env out =
     (if pb_serialized_someip_frame env \<noteq> [] then deserialize A (pb_serialized_someip_frame env) False out
      else let msg = set_payload A (pb_payload env)
             (Message_ctor_rc A (ucast (pb_service_id env), ucast (pb_method_or_event_id env))
                (ucast (pb_client_id env), ucast (pb_session_id env))
                (ucast (pb_message_type env)) (ucast (pb_return_code env)))
           in (has_valid_header A msg, msg))"

definition message_to_envelope :: "'m message_api \<Rightarrow> 'm \<Rightarrow> SomeIpEnvelope \<Rightarrow> SomeIpEnvelope" where
  "message_to_envelope A msg env = env\<lparr>
     pb_service_id := ucast (get_service_id A msg), pb_method_or_event_id := ucast (get_method_id A msg),
     pb_client_id := ucast (get_client_id A msg), pb_session_id := ucast (get_session_id A msg),
     pb_message_type := ucast (get_message_type A msg), pb_return_code := ucast (get_return_code A msg),
     pb_payload := get_payload A msg, pb_instance_id := 0\<rparr>"


subsection \<open>Lemmas\<close>

lemma narrow_u16 [simp]: "ucast (ucast (v :: u16) :: u32) = v"
  by (intro bit_word_eqI) (auto simp: bit_simps)

lemma narrow_u8 [simp]: "ucast (ucast (v :: u8) :: u32) = v"
  by (intro bit_word_eqI) (auto simp: bit_simps)

lemma return_code_lookup:
  assumes "return_codes_distinct R" and "(c, s) \<in> set (kReturnToGrpc R)"
  shows "return_code_to_grpc_status_code R c = s"
proof -
  have "distinct (map fst (kReturnToGrpc R))"
    using assms(1) by (simp only: return_codes_distinct_def kReturnToGrpc_def list.map fst_conv)
  from map_of_is_SomeI [OF this assms(2)] show ?thesis by (simp add: return_code_to_grpc_status_code_def)
qed

definition ref_codes :: return_codes where
  "ref_codes = \<lparr>E_OK = 0, E_NOT_OK = 1, E_UNKNOWN_SERVICE = 2, E_UNKNOWN_METHOD = 3, E_NOT_READY = 4,
     E_NOT_REACHABLE = 5, E_TIMEOUT = 6, E_WRONG_PROTOCOL_VERSION = 7, E_WRONG_INTERFACE_VERSION = 8,
     E_MALFORMED_MESSAGE = 9, E_WRONG_MESSAGE_TYPE = 10, E_E2E_REPEATED = 11, E_E2E_WRONG_SEQUENCE = 12, E_E2E = 13,
     E_E2E_NOT_AVAILABLE = 14, E_E2E_NO_NEW_DATA = 15, ReturnCode_to_string = (\<lambda>_. ''code'')\<rparr>"

lemma ref_codes_distinct: "return_codes_distinct ref_codes"
  by (simp add: return_codes_distinct_def ref_codes_def)


subsection \<open>Properties\<close>

text \<open>Status codes: success maps to success and nothing else does, in both directions and for RPC
  results; and a gRPC status sent through a SOME/IP return code and back is kept exactly for nine
  codes, becomes \<open>INTERNAL\<close>, \<open>INVALID_ARGUMENT\<close>, \<open>FAILED_PRECONDITION\<close> or \<open>DATA_LOSS\<close> otherwise.\<close>

lemma grpc_status_codes:
  assumes "return_codes_distinct R"
  shows "(return_code_to_grpc_status_code R c = SC_OK \<longleftrightarrow> c = E_OK R) \<and>
    (grpc_status_code_to_return_code R s = E_OK R \<longleftrightarrow> s = SC_OK) \<and>
    (rpc_result_to_grpc_status_code R r = SC_OK \<longleftrightarrow> r = RPC_SUCCESS) \<and>
    return_code_to_grpc_status_code R (grpc_status_code_to_return_code R s) =
      (if s \<in> {SC_OK, SC_INVALID_ARGUMENT, SC_DEADLINE_EXCEEDED, SC_NOT_FOUND, SC_FAILED_PRECONDITION,
               SC_UNIMPLEMENTED, SC_INTERNAL, SC_UNAVAILABLE, SC_DATA_LOSS} then s
       else if s = SC_OUT_OF_RANGE then SC_INVALID_ARGUMENT
       else if s = SC_RESOURCE_EXHAUSTED then SC_FAILED_PRECONDITION
       else if s = SC_ABORTED then SC_DATA_LOSS
       else SC_INTERNAL)"
proof -
  note d = assms [unfolded return_codes_distinct_def]
  have 1: "return_code_to_grpc_status_code R c = SC_OK \<longleftrightarrow> c = E_OK R" for c
    using d by (auto simp: return_code_to_grpc_status_code_def kReturnToGrpc_def split: if_splits)
  have 2: "grpc_status_code_to_return_code R s = E_OK R \<longleftrightarrow> s = SC_OK"
    using d by (cases s) (auto simp: grpc_status_code_to_return_code_def kGrpcToReturn_def)
  have 3: "rpc_result_to_grpc_status_code R r = SC_OK \<longleftrightarrow> r = RPC_SUCCESS"
    unfolding rpc_result_to_grpc_status_code_def 1 using d by (cases r) auto
  have look: "return_code_to_grpc_status_code R c = t" if "(c, t) \<in> set (kReturnToGrpc R)" for c t
    using return_code_lookup [OF assms that] .
  have "return_code_to_grpc_status_code R (grpc_status_code_to_return_code R s) =
      (if s \<in> {SC_OK, SC_INVALID_ARGUMENT, SC_DEADLINE_EXCEEDED, SC_NOT_FOUND, SC_FAILED_PRECONDITION,
               SC_UNIMPLEMENTED, SC_INTERNAL, SC_UNAVAILABLE, SC_DATA_LOSS} then s
       else if s = SC_OUT_OF_RANGE then SC_INVALID_ARGUMENT
       else if s = SC_RESOURCE_EXHAUSTED then SC_FAILED_PRECONDITION
       else if s = SC_ABORTED then SC_DATA_LOSS
       else SC_INTERNAL)"
    by (rule look) (cases s; simp add: grpc_status_code_to_return_code_def kGrpcToReturn_def kReturnToGrpc_def)
  with 1 2 3 show ?thesis by blast
qed

lemma grpc_status_codes_witness:
  "return_code_to_grpc_status_code ref_codes (grpc_status_code_to_return_code ref_codes SC_ABORTED) = SC_DATA_LOSS"
  using grpc_status_codes [OF ref_codes_distinct, where s = SC_ABORTED] by simp

text \<open>The protobuf envelope is lossless: a message written into a fresh envelope and read back has the
  same six header fields and payload, and the conversion succeeds exactly when the library accepts the
  header; an envelope with a serialized frame is decoded from the frame alone.\<close>

lemma grpc_envelope_round_trip:
  assumes "message_laws A"
  shows "(case envelope_to_message A (message_to_envelope A m SomeIpEnvelope_default) out of (ok, m') \<Rightarrow>
            ok = has_valid_header A m' \<and> header_of A m' = header_of A m \<and> get_payload A m' = get_payload A m) \<and>
         (frame = [] \<or>
          envelope_to_message A ((message_to_envelope A m env)\<lparr>pb_serialized_someip_frame := frame\<rparr>) out =
            deserialize A frame False out)"
  using assms
  by (auto simp: envelope_to_message_def message_to_envelope_def SomeIpEnvelope_default_def Let_def header_of_def)

lemma grpc_envelope_round_trip_witness:
  "get_payload ref_api (snd (envelope_to_message ref_api
      (message_to_envelope ref_api (set_payload ref_api [1, 2] (Message_default ref_api)) SomeIpEnvelope_default)
      (Message_default ref_api))) = [1, 2]"
  using grpc_envelope_round_trip [OF ref_api_laws, where m = "set_payload ref_api [1, 2] (Message_default ref_api)"
      and out = "Message_default ref_api" and frame = "[]" and env = SomeIpEnvelope_default]
  by (simp add: split_beta)

end
