(* ===== verification/Grpc_Gateway.thy ===== *)
theory Grpc_Gateway
  imports Gateway_Lifecycle Owned_Objects Grpc_Translator
begin

text \<open>
  \<open>gateway-grpc/include/opensomeip/gateway/grpc/grpc_config.h\<close>, \<open>grpc_gateway.h\<close> and
  \<open>gateway-grpc/src/grpc_gateway.cpp\<close>: the gRPC gateway and its service \<open>SomeIpGatewayGrpcService\<close>.

  gRPC, protobuf and the file system are the record \<open>grpc_lib\<close>: the size of an encoded envelope, the
  content of a file, the server and port that \<open>BuildAndStart\<close> yields and the answer of a remote stub.
  Event streams share sinks between threads through \<open>shared_ptr\<close> and \<open>weak_ptr\<close>, so sinks live in a store
  (\<open>gr_sinks\<close>, addressed by numbers): locking an expired pointer is looking up a free address. The
  multimap of subscribers is a list in key order. The handler \<open>StreamSomeIpEvents\<close> is split at the points
  where other threads can run: opening, one pass of its loop, closing; the steps of several threads are
  sequences of such operations.
\<close>

subsection \<open>Configuration\<close>

record GrpcTlsServerOptions =
  srv_enabled :: bool
  srv_cert_chain_pem_path :: string
  srv_private_key_pem_path :: string
  srv_client_ca_pem_path :: string
  srv_require_client_cert :: bool

record GrpcTlsClientOptions =
  cl_enabled :: bool
  cl_root_ca_pem_path :: string
  cl_client_cert_chain_pem_path :: string
  cl_client_private_key_pem_path :: string
  cl_target_authority_override :: string

record GrpcCloudTarget =
  target_name :: string
  target_grpc_uri :: string
  target_tls :: GrpcTlsClientOptions

record 'c GrpcConfig =
  gc_gateway_name :: string
  gc_server_listen_address :: string
  gc_server_tls :: GrpcTlsServerOptions
  gc_cloud_targets :: "GrpcCloudTarget list"
  gc_max_concurrent_streams :: int
  gc_someip_bridge_client_id :: u16
  gc_rpc_response_timeout :: int
  gc_enable_sd_client :: bool
  gc_enable_sd_server :: bool
  gc_enable_e2e_bridge :: bool
  gc_e2e_config :: 'c

definition GrpcConfig_default :: "'c \<Rightarrow> 'c GrpcConfig" where
  "GrpcConfig_default e2e = \<lparr>gc_gateway_name = ''grpc-gateway'', gc_server_listen_address = ''0.0.0.0:50051'',
     gc_server_tls = \<lparr>srv_enabled = False, srv_cert_chain_pem_path = [], srv_private_key_pem_path = [],
                      srv_client_ca_pem_path = [], srv_require_client_cert = False\<rparr>,
     gc_cloud_targets = [], gc_max_concurrent_streams = 100, gc_someip_bridge_client_id = 0x7001,
     gc_rpc_response_timeout = 5000, gc_enable_sd_client = False, gc_enable_sd_server = False,
     gc_enable_e2e_bridge = False, gc_e2e_config = e2e\<rparr>"


subsection \<open>Messages, calls and state\<close>

record UnaryRpcRequest =
  req_envelope :: "SomeIpEnvelope option"
  req_cloud_target_name :: string

record UnaryRpcResponse =
  resp_envelope :: "SomeIpEnvelope option"

type_synonym EventFrame = SomeIpEnvelope

text \<open>\<open>EventStreamKey\<close>: service, instance and event group, with its \<open>operator<\<close>.\<close>

datatype EventStreamKey =
  EventStreamKey (key_service_id: u32) (key_instance_id: u32) (key_event_group_id: u32)

definition EventStreamKey_less :: "EventStreamKey \<Rightarrow> EventStreamKey \<Rightarrow> bool" where
  "EventStreamKey_less k k' =
     (if key_service_id k \<noteq> key_service_id k' then key_service_id k < key_service_id k'
      else if key_instance_id k \<noteq> key_instance_id k' then key_instance_id k < key_instance_id k'
      else key_event_group_id k < key_event_group_id k')"

text \<open>It is a linear order, as \<open>std::multimap\<close> needs, and the sorted lists of the library apply to the keys.\<close>

instantiation EventStreamKey :: linorder
begin

definition less_EventStreamKey :: "EventStreamKey \<Rightarrow> EventStreamKey \<Rightarrow> bool" where
  "less_EventStreamKey = EventStreamKey_less"

definition less_eq_EventStreamKey :: "EventStreamKey \<Rightarrow> EventStreamKey \<Rightarrow> bool" where
  "less_eq_EventStreamKey k k' \<longleftrightarrow> k = k' \<or> EventStreamKey_less k k'"

instance
  by standard (auto simp: less_EventStreamKey_def less_eq_EventStreamKey_def EventStreamKey_less_def
      intro: EventStreamKey.expand split: if_splits)

end

lemma EventStreamKey_less_order [simp]: "EventStreamKey_less k k' \<longleftrightarrow> k < k'"
  by (simp add: less_EventStreamKey_def)

type_synonym sink_id = nat

record EventStreamSink =
  sink_closed :: bool
  sink_pending :: "EventFrame list"

datatype grpc_credentials =
    InsecureCredentials
  | SslServerCredentials string string string bool
  | SslCredentials string string string

datatype grpc_call =
    Grpc_BuildAndStart string grpc_credentials int
  | Grpc_Shutdown handle
  | Grpc_CreateCustomChannel handle string grpc_credentials string
  | Grpc_stub_UnarySomeIp handle UnaryRpcRequest
  | Grpc_IsCancelled sink_id
  | Grpc_Write sink_id EventFrame

record ('m, 'c) grpc_lib =
  ByteSizeLong :: "SomeIpEnvelope \<Rightarrow> nat"
  file_content :: "string \<Rightarrow> string option"
  built_server :: "('m, 'c, grpc_call) history \<Rightarrow> handle option \<times> int"
  stub_answer :: "('m, 'c, grpc_call) history \<Rightarrow> handle \<Rightarrow> UnaryRpcRequest \<Rightarrow> Status \<times> UnaryRpcResponse"

record ('m, 'c) GrpcGateway = "('m, 'c, grpc_call) GatewayBase" +
  gr_config :: "'c GrpcConfig"
  gr_channels :: "string \<rightharpoonup> handle"
  gr_rpc_client :: handle
  gr_event_subscriber :: handle
  gr_sd_client :: "handle option"
  gr_sd_server :: "handle option"
  gr_e2e_protection :: bool
  gr_vehicle_rpc_servers :: "u16 \<rightharpoonup> handle"
  gr_grpc_service :: bool
  gr_grpc_server :: "handle option"
  gr_streams :: "(EventStreamKey \<times> sink_id) list"
  gr_sinks :: "sink_id \<rightharpoonup> EventStreamSink"
  gr_next_sink :: sink_id

type_synonym ('m, 'c) grpc_env = "('m, 'c, grpc_call) env"

text \<open>The constructor creates the RPC client and the event subscriber.\<close>

definition GrpcGateway_new :: "('m, 'c) grpc_env \<Rightarrow> 'c GrpcConfig \<Rightarrow> ('m, 'c) GrpcGateway" where
  "GrpcGateway_new E config =
     (let c = answer_new E [];
          io1 = [RpcClient_new c (gc_someip_bridge_client_id config)];
          s = answer_new E io1;
          io2 = io1 @ [EventSubscriber_new s (gc_someip_bridge_client_id config), RpcClient_set_remote_endpoint c]
      in \<lparr>gw_name = gc_gateway_name config, gw_protocol = ''grpc'', gw_running = False,
          gw_stats = GatewayStats_default, gw_service_mappings = [], gw_external_message_callback = False, gw_io = io2,
          gr_config = config, gr_channels = Map.empty, gr_rpc_client = c, gr_event_subscriber = s,
          gr_sd_client = None, gr_sd_server = None, gr_e2e_protection = False, gr_vehicle_rpc_servers = Map.empty,
          gr_grpc_service = False, gr_grpc_server = None, gr_streams = [], gr_sinks = Map.empty, gr_next_sink = 0\<rparr>)"


subsection \<open>Credentials and channels\<close>

definition read_file_or_empty :: "('m, 'c) grpc_lib \<Rightarrow> string \<Rightarrow> string" where
  "read_file_or_empty L p = (if p = [] then [] else case file_content L p of None \<Rightarrow> [] | Some s \<Rightarrow> s)"

definition build_server_credentials :: "('m, 'c) grpc_lib \<Rightarrow> ('m, 'c) GrpcGateway \<Rightarrow> grpc_credentials" where
  "build_server_credentials L g =
     (let t = gc_server_tls (gr_config g)
      in if \<not> srv_enabled t then InsecureCredentials
         else SslServerCredentials (read_file_or_empty L (srv_client_ca_pem_path t))
                (read_file_or_empty L (srv_private_key_pem_path t)) (read_file_or_empty L (srv_cert_chain_pem_path t))
                (srv_require_client_cert t))"

definition build_channel_credentials :: "('m, 'c) grpc_lib \<Rightarrow> GrpcTlsClientOptions \<Rightarrow> grpc_credentials" where
  "build_channel_credentials L tls =
     (if \<not> cl_enabled tls then InsecureCredentials
      else SslCredentials (read_file_or_empty L (cl_root_ca_pem_path tls))
             (read_file_or_empty L (cl_client_cert_chain_pem_path tls))
             (read_file_or_empty L (cl_client_private_key_pem_path tls)))"

text \<open>
  \<open>channel_for_target\<close>: the cached channel, or a new one for the first configured target of the name.
  The last argument of the call is the authority override, empty when it is not set.
\<close>

definition channel_for_target ::
  "('m, 'c) grpc_lib \<Rightarrow> ('m, 'c) grpc_env \<Rightarrow> string \<Rightarrow> ('m, 'c) GrpcGateway \<Rightarrow> handle option \<times> ('m, 'c) GrpcGateway" where
  "channel_for_target L E name g =
     (case gr_channels g name of
        Some ch \<Rightarrow> (Some ch, g)
      | None \<Rightarrow>
          (case find (\<lambda>t. target_name t = name) (gc_cloud_targets (gr_config g)) of
             None \<Rightarrow> (None, g)
           | Some t \<Rightarrow>
               (let (ch, g1) = make_object E (\<lambda>h. External (Grpc_CreateCustomChannel h (target_grpc_uri t)
                       (build_channel_credentials L (target_tls t)) (cl_target_authority_override (target_tls t)))) g
                in (Some ch, g1\<lparr>gr_channels := (gr_channels g1)(name \<mapsto> ch)\<rparr>))))"

definition register_vehicle_rpc_server :: "u16 \<Rightarrow> handle \<Rightarrow> ('m, 'c) GrpcGateway \<Rightarrow> ('m, 'c) GrpcGateway" where
  "register_vehicle_rpc_server service_id server g =
     g\<lparr>gr_vehicle_rpc_servers := (gr_vehicle_rpc_servers g)(service_id \<mapsto> server)\<rparr>"


subsection \<open>Event streams\<close>

text \<open>\<open>std::multimap::emplace\<close> inserts behind the entries of an equal key.\<close>

definition register_event_stream :: "EventStreamKey \<Rightarrow> sink_id \<Rightarrow> ('m, 'c) GrpcGateway \<Rightarrow> ('m, 'c) GrpcGateway" where
  "register_event_stream key sink g =
     g\<lparr>gr_streams := takeWhile (\<lambda>(k, s). \<not> EventStreamKey_less key k) (gr_streams g) @ [(key, sink)] @
                      dropWhile (\<lambda>(k, s). \<not> EventStreamKey_less key k) (gr_streams g)\<rparr>"

text \<open>The loop from the lower bound of the key over its equal range.\<close>

definition unregister_event_stream :: "EventStreamKey \<Rightarrow> sink_id \<Rightarrow> ('m, 'c) GrpcGateway \<Rightarrow> ('m, 'c) GrpcGateway" where
  "unregister_event_stream key sink g =
     (let below = takeWhile (\<lambda>(k, s). EventStreamKey_less k key) (gr_streams g);
          rest = dropWhile (\<lambda>(k, s). EventStreamKey_less k key) (gr_streams g);
          equal = takeWhile (\<lambda>(k, s). k = key) rest;
          above = dropWhile (\<lambda>(k, s). k = key) rest
      in g\<lparr>gr_streams := below @ filter (\<lambda>(k, s). gr_sinks g s \<noteq> None \<and> s \<noteq> sink) equal @ above\<rparr>)"

definition deliver_event_frame :: "sink_id option \<Rightarrow> EventFrame \<Rightarrow> ('m, 'c) GrpcGateway \<Rightarrow> ('m, 'c) GrpcGateway" where
  "deliver_event_frame sink frame g =
     (case sink of
        None \<Rightarrow> g
      | Some s \<Rightarrow>
          (case gr_sinks g s of
             Some k \<Rightarrow>
               if sink_closed k then g
               else g\<lparr>gr_sinks := (gr_sinks g)(s \<mapsto> k\<lparr>sink_pending := sink_pending k @ [frame]\<rparr>)\<rparr>
           | None \<Rightarrow> g))"

text \<open>\<open>weak_ptr::lock\<close>.\<close>

definition lock_sink :: "sink_id \<Rightarrow> ('m, 'c) GrpcGateway \<Rightarrow> sink_id option" where
  "lock_sink s g = (if gr_sinks g s = None then None else Some s)"

definition broadcast_notification ::
  "u32 \<Rightarrow> u32 \<Rightarrow> EventFrame \<Rightarrow> ('m, 'c) GrpcGateway \<Rightarrow> ('m, 'c) GrpcGateway" where
  "broadcast_notification service_id instance_id frame g =
     fold (\<lambda>(key, s) g.
             if key_service_id key \<noteq> service_id then g
             else if key_instance_id key \<noteq> instance_id then g
             else (case lock_sink s g of Some sp \<Rightarrow> deliver_event_frame (Some sp) frame g | None \<Rightarrow> g))
       (gr_streams g) g"

definition Grpc_on_someip_message ::
  "'m message_api \<Rightarrow> ('m, 'c) grpc_lib \<Rightarrow> 'm \<Rightarrow> ('m, 'c) GrpcGateway \<Rightarrow> Result \<times> ('m, 'c) GrpcGateway" where
  "Grpc_on_someip_message A L msg g =
     (if get_message_type A msg = mt_NOTIFICATION A
      then let inst = (case find_mapping_for_service (get_service_id A msg) 0 g of
                         Some mp \<Rightarrow> someip_instance_id mp | None \<Rightarrow> 0);
               frame = message_to_envelope A msg SomeIpEnvelope_default;
               g1 = broadcast_notification (ucast (get_service_id A msg)) (ucast inst) frame g
           in (SUCCESS, record_someip_to_external (ByteSizeLong L frame) g1)
      else (SUCCESS, record_external_to_someip (get_total_size A msg) g))"


subsection \<open>StreamSomeIpEvents\<close>

text \<open>
  Up to the loop: the sink is allocated and registered, the event group subscribed. When that fails the
  handler returns a status at once.
\<close>

definition close_sink :: "sink_id \<Rightarrow> ('m, 'c) GrpcGateway \<Rightarrow> ('m, 'c) GrpcGateway" where
  "close_sink s g =
     (case gr_sinks g s of
        Some k \<Rightarrow> g\<lparr>gr_sinks := (gr_sinks g)(s \<mapsto> k\<lparr>sink_closed := True\<rparr>)\<rparr> | None \<Rightarrow> g)"

definition stream_open ::
  "('m, 'c) grpc_env \<Rightarrow> EventStreamKey \<Rightarrow> ('m, 'c) GrpcGateway \<Rightarrow> Status option \<times> sink_id \<times> ('m, 'c) GrpcGateway" where
  "stream_open E key g =
     (let s = gr_next_sink g;
          g1 = g\<lparr>gr_next_sink := s + 1, gr_sinks := (gr_sinks g)(s \<mapsto> \<lparr>sink_closed = False, sink_pending = []\<rparr>)\<rparr>;
          g2 = register_event_stream key s g1;
          (sub_ok, g3) = call_bool E (EventSubscriber_subscribe_eventgroup (gr_event_subscriber g2)
                           (ucast (key_service_id key)) (ucast (key_instance_id key)) (ucast (key_event_group_id key))) g2
      in if \<not> sub_ok
         then (Some \<lparr>status_code = SC_FAILED_PRECONDITION,
                     status_message = ''EventSubscriber::subscribe_eventgroup failed''\<rparr>, s,
               close_sink s (unregister_event_stream key s g3))
         else (None, s, g3))"

text \<open>The subscription callback of the stream.\<close>

definition stream_on_event ::
  "'m message_api \<Rightarrow> ('m, 'c) grpc_lib \<Rightarrow> sink_id \<Rightarrow> EventNotification \<Rightarrow> ('m, 'c) GrpcGateway \<Rightarrow> ('m, 'c) GrpcGateway" where
  "stream_on_event A L s n g =
     (let frame = message_to_envelope A (notification_message_rc A n) SomeIpEnvelope_default
      in record_someip_to_external (ByteSizeLong L frame) (deliver_event_frame (Some s) frame g))"

text \<open>One pass of the loop; the flag says whether the loop goes on.\<close>

definition stream_pass ::
  "('m, 'c) grpc_env \<Rightarrow> sink_id \<Rightarrow> ('m, 'c) GrpcGateway \<Rightarrow> bool \<times> ('m, 'c) GrpcGateway" where
  "stream_pass E s g =
     (let (cancelled, g1) = call_bool E (External (Grpc_IsCancelled s)) g
      in if cancelled then (False, g1)
         else case gr_sinks g1 s of
           None \<Rightarrow> (False, g1)
         | Some k \<Rightarrow>
             (case sink_pending k of
                [] \<Rightarrow> (\<not> sink_closed k, g1)
              | frame # rest \<Rightarrow>
                  call_bool E (External (Grpc_Write s frame))
                    (g1\<lparr>gr_sinks := (gr_sinks g1)(s \<mapsto> k\<lparr>sink_pending := rest\<rparr>)\<rparr>)))"

definition stream_close ::
  "EventStreamKey \<Rightarrow> sink_id \<Rightarrow> ('m, 'c) GrpcGateway \<Rightarrow> Status \<times> ('m, 'c) GrpcGateway" where
  "stream_close key s g =
     (let g1 = call (EventSubscriber_unsubscribe_eventgroup (gr_event_subscriber g)
                 (ucast (key_service_id key)) (ucast (key_instance_id key)) (ucast (key_event_group_id key))) g
      in (\<lparr>status_code = SC_OK, status_message = []\<rparr>, close_sink s (unregister_event_stream key s g1)))"


subsection \<open>UnarySomeIp\<close>

definition invalid_argument :: "string \<Rightarrow> Status" where
  "invalid_argument msg = \<lparr>status_code = SC_INVALID_ARGUMENT, status_message = msg\<rparr>"

definition Grpc_e2e_validate ::
  "('m, 'c) grpc_env \<Rightarrow> 'm \<Rightarrow> ('m, 'c) GrpcGateway \<Rightarrow> Result \<times> ('m, 'c) GrpcGateway" where
  "Grpc_e2e_validate E msg g =
     (if gc_enable_e2e_bridge (gr_config g) \<and> gr_e2e_protection g
      then (answer_result E (gw_io g) (E2e_validate msg (gc_e2e_config (gr_config g))),
            call (E2e_validate msg (gc_e2e_config (gr_config g))) g)
      else (SUCCESS, g))"

definition Grpc_e2e_protect ::
  "('m, 'c) grpc_env \<Rightarrow> 'm \<Rightarrow> ('m, 'c) GrpcGateway \<Rightarrow> 'm \<times> ('m, 'c) GrpcGateway" where
  "Grpc_e2e_protect E msg g =
     (if gc_enable_e2e_bridge (gr_config g) \<and> gr_e2e_protection g
      then (answer_message E (gw_io g) (E2e_protect msg (gc_e2e_config (gr_config g))),
            call (E2e_protect msg (gc_e2e_config (gr_config g))) g)
      else (msg, g))"

text \<open>The call on the vehicle network and the response made from it.\<close>

definition unary_call ::
  "'m message_api \<Rightarrow> return_codes \<Rightarrow> ('m, 'c) grpc_env \<Rightarrow> 'm \<Rightarrow> ('m, 'c) GrpcGateway \<Rightarrow> 'm \<times> ('m, 'c) GrpcGateway" where
  "unary_call A R E req_msg g =
     (let c = RpcClient_call_method_sync (gr_rpc_client g) (get_service_id A req_msg) (get_method_id A req_msg)
                (get_payload A req_msg);
          (result, return_values) = answer_rpc E (gw_io g) c;
          g1 = call c g;
          mid = (get_service_id A req_msg, get_method_id A req_msg);
          rid = (get_client_id A req_msg, get_session_id A req_msg)
      in (if result = RPC_SUCCESS
          then set_payload A return_values (Message_ctor_rc A mid rid (mt_RESPONSE A) (rc_E_OK A))
          else Message_ctor_rc A mid rid (mt_ERROR A) (rpc_result_to_return_code R result), g1))"

definition unary_local ::
  "'m message_api \<Rightarrow> return_codes \<Rightarrow> ('m, 'c) grpc_lib \<Rightarrow> ('m, 'c) grpc_env \<Rightarrow> 'm \<Rightarrow> UnaryRpcResponse \<Rightarrow>
   ('m, 'c) GrpcGateway \<Rightarrow> Status \<times> UnaryRpcResponse \<times> ('m, 'c) GrpcGateway" where
  "unary_local A R L E req_msg response g =
     (if \<not> is_request A req_msg then (invalid_argument ''envelope must be a SOME/IP request'', response, g)
      else let (out0, g1) = unary_call A R E req_msg g;
               (out, g2) = Grpc_e2e_protect E out0 g1;
               env = message_to_envelope A out
                       (case resp_envelope response of Some e \<Rightarrow> e | None \<Rightarrow> SomeIpEnvelope_default)
           in (\<lparr>status_code = SC_OK, status_message = []\<rparr>, response\<lparr>resp_envelope := Some env\<rparr>,
               record_someip_to_external (ByteSizeLong L env) g2))"

definition unary_dispatch ::
  "'m message_api \<Rightarrow> return_codes \<Rightarrow> ('m, 'c) grpc_lib \<Rightarrow> ('m, 'c) grpc_env \<Rightarrow> UnaryRpcRequest \<Rightarrow> 'm \<Rightarrow>
   UnaryRpcResponse \<Rightarrow> ('m, 'c) GrpcGateway \<Rightarrow> Status \<times> UnaryRpcResponse \<times> ('m, 'c) GrpcGateway" where
  "unary_dispatch A R L E request req_msg response g =
     (if req_cloud_target_name request \<noteq> []
      then let (channel, g1) = channel_for_target L E (req_cloud_target_name request) g
           in case channel of
                None \<Rightarrow> (\<lparr>status_code = SC_NOT_FOUND, status_message = ''unknown cloud_target_name''\<rparr>, response, g1)
              | Some ch \<Rightarrow>
                  (let fwd = request\<lparr>req_cloud_target_name := []\<rparr>;
                       (st, resp) = stub_answer L (gw_io g1) ch fwd
                   in (st, resp, call (External (Grpc_stub_UnarySomeIp ch fwd)) g1))
      else case gr_vehicle_rpc_servers g (get_service_id A req_msg) of
             None \<Rightarrow> unary_local A R L E req_msg response g
           | Some srv \<Rightarrow>
               (let (registered, g1) = call_bool E (RpcServer_is_method_registered srv (get_method_id A req_msg)) g
                in if \<not> registered then (return_code_to_grpc_status R (E_UNKNOWN_METHOD R) [], response, g1)
                   else unary_local A R L E req_msg response g1))"

definition UnarySomeIp ::
  "'m message_api \<Rightarrow> return_codes \<Rightarrow> ('m, 'c) grpc_lib \<Rightarrow> ('m, 'c) grpc_env \<Rightarrow> UnaryRpcRequest \<Rightarrow>
   UnaryRpcResponse \<Rightarrow> ('m, 'c) GrpcGateway \<Rightarrow> Status \<times> UnaryRpcResponse \<times> ('m, 'c) GrpcGateway" where
  "UnarySomeIp A R L E request response g =
     (case req_envelope request of
        None \<Rightarrow> (invalid_argument ''missing envelope'', response, g)
      | Some env \<Rightarrow>
          (let (ok, req_msg) = envelope_to_message A env (Message_default A)
           in if \<not> ok then (invalid_argument ''invalid SOME/IP envelope'', response, g)
              else let (vr, g1) = Grpc_e2e_validate E req_msg g
                   in if vr \<noteq> SUCCESS
                      then (return_code_to_grpc_status R (E_E2E R) ''E2E validation failed'', response, g1)
                      else unary_dispatch A R L E request req_msg response g1))"


subsection \<open>Life cycle\<close>

definition Grpc_start_sd_client :: "('m, 'c) grpc_env \<Rightarrow> ('m, 'c) GrpcGateway \<Rightarrow> bool \<times> ('m, 'c) GrpcGateway" where
  "Grpc_start_sd_client E g =
     (if gc_enable_sd_client (gr_config g)
      then let (h, g1) = make_object E SdClient_new g
           in call_bool E (SdClient_initialize h) (g1\<lparr>gr_sd_client := Some h\<rparr>)
      else (True, g))"

definition Grpc_start_sd_server :: "('m, 'c) grpc_env \<Rightarrow> ('m, 'c) GrpcGateway \<Rightarrow> bool \<times> ('m, 'c) GrpcGateway" where
  "Grpc_start_sd_server E g =
     (if gc_enable_sd_server (gr_config g)
      then let (h, g1) = make_object E SdServer_new g
           in call_bool E (SdServer_initialize h) (g1\<lparr>gr_sd_server := Some h\<rparr>)
      else (True, g))"

definition Grpc_start_server ::
  "('m, 'c) grpc_lib \<Rightarrow> ('m, 'c) grpc_env \<Rightarrow> ('m, 'c) GrpcGateway \<Rightarrow> Result \<times> ('m, 'c) GrpcGateway" where
  "Grpc_start_server L E g =
     (let g1 = (if gc_enable_e2e_bridge (gr_config g) then g\<lparr>gr_e2e_protection := True\<rparr> else g);
          g2 = g1\<lparr>gr_grpc_service := True\<rparr>;
          (server, selected_port) = built_server L (gw_io g2);
          g3 = (call (External (Grpc_BuildAndStart (gc_server_listen_address (gr_config g2)) (build_server_credentials L g2)
                  (gc_max_concurrent_streams (gr_config g2)))) g2)\<lparr>gr_grpc_server := server\<rparr>
      in if server = None \<or> selected_port = 0 then (INTERNAL_ERROR, g3) else (SUCCESS, set_running E True g3))"

definition Grpc_start ::
  "('m, 'c) grpc_lib \<Rightarrow> ('m, 'c) grpc_env \<Rightarrow> ('m, 'c) GrpcGateway \<Rightarrow> Result \<times> ('m, 'c) GrpcGateway" where
  "Grpc_start L E g =
     (if is_running g then (SUCCESS, g)
      else let (ok1, g1) = call_bool E (RpcClient_initialize (gr_rpc_client g)) g
           in if \<not> ok1 then (NOT_INITIALIZED, g1)
      else let (ok2, g2) = call_bool E (EventSubscriber_initialize (gr_event_subscriber g1)) g1
           in if \<not> ok2 then (NOT_INITIALIZED, g2)
      else let (ok3, g3) = Grpc_start_sd_client E g2
           in if \<not> ok3 then (NOT_INITIALIZED, g3)
      else let (ok4, g4) = Grpc_start_sd_server E g3
           in if \<not> ok4 then (NOT_INITIALIZED, g4)
      else Grpc_start_server L E g4)"

definition Grpc_stop :: "('m, 'c) grpc_env \<Rightarrow> ('m, 'c) GrpcGateway \<Rightarrow> Result \<times> ('m, 'c) GrpcGateway" where
  "Grpc_stop E g =
     (if \<not> is_running g then (SUCCESS, g)
      else let g1 = (call_on (\<lambda>h. External (Grpc_Shutdown h)) (gr_grpc_server g) g)\<lparr>gr_grpc_server := None, gr_grpc_service := False\<rparr>;
               g2 = (call_on SdClient_shutdown (gr_sd_client g1) g1)\<lparr>gr_sd_client := None\<rparr>;
               g3 = (call_on SdServer_shutdown (gr_sd_server g2) g2)\<lparr>gr_sd_server := None\<rparr>;
               g4 = call (EventSubscriber_shutdown (gr_event_subscriber g3)) g3;
               g5 = (call (RpcClient_shutdown (gr_rpc_client g4)) g4)\<lparr>gr_e2e_protection := False\<rparr>;
               g6 = g5\<lparr>gr_channels := Map.empty, gr_streams := []\<rparr>
           in (SUCCESS, set_running E False g6))"

definition Grpc_destroy :: "('m, 'c) grpc_env \<Rightarrow> ('m, 'c) GrpcGateway \<Rightarrow> ('m, 'c) GrpcGateway" where
  "Grpc_destroy E g = snd (Grpc_stop E g)"

subsection \<open>The table of streams\<close>

lemma sorted_split:
  assumes "sorted (map fst xs)"
  shows "takeWhile (\<lambda>(k, s). k < key) xs = filter (\<lambda>(k, s). k < key) xs"
    and "dropWhile (\<lambda>(k, s). k < key) xs = filter (\<lambda>(k, s). \<not> k < key) xs"
    and "takeWhile (\<lambda>(k, s). k \<le> key) xs = filter (\<lambda>(k, s). k \<le> key) xs"
    and "dropWhile (\<lambda>(k, s). k \<le> key) xs = filter (\<lambda>(k, s). \<not> k \<le> key) xs"
  using assms by (induction xs) (fastforce simp: filter_empty_conv split: prod.splits intro!: filter_True [symmetric] filter_False [symmetric])+

lemma sorted_filter_fst: "sorted (map fst xs) \<Longrightarrow> sorted (map fst (filter P xs))"
  by (rule sorted_filter)

lemma sorted_emplace:
  fixes key :: "'k::linorder"
  assumes "sorted (map fst xs)"
  shows "sorted (map fst (takeWhile (\<lambda>(k, s). k \<le> key) xs @ [(key, v)] @ dropWhile (\<lambda>(k, s). k \<le> key) xs))"
proof -
  have "sorted (map fst (filter P xs))" for P by (rule sorted_filter_fst [OF assms])
  then show ?thesis by (fastforce simp: sorted_split [OF assms] sorted_append)
qed

lemma register_sorted:
  "sorted (map fst (gr_streams g)) \<Longrightarrow> sorted (map fst (gr_streams (register_event_stream key s g)))"
  using sorted_emplace [of "gr_streams g" key s] by (simp add: register_event_stream_def not_less)

lemma equal_range:
  assumes "sorted (map fst xs)"
  shows "takeWhile (\<lambda>(k, s). k = key) (filter (\<lambda>(k, s). \<not> k < key) xs) = filter (\<lambda>(k, s). k = key) xs"
    and "dropWhile (\<lambda>(k, s). k = key) (filter (\<lambda>(k, s). \<not> k < key) xs) = filter (\<lambda>(k, s). key < k) xs"
proof -
  let ?ys = "filter (\<lambda>(k, s). \<not> k < key) xs"
  have s: "sorted (map fst ?ys)" by (rule sorted_filter_fst [OF assms])
  have "takeWhile (\<lambda>(k, s). k = key) ?ys = takeWhile (\<lambda>(k, s). k \<le> key) ?ys"
    "dropWhile (\<lambda>(k, s). k = key) ?ys = dropWhile (\<lambda>(k, s). k \<le> key) ?ys"
    by (auto intro!: takeWhile_cong dropWhile_cong)
  then show "takeWhile (\<lambda>(k, s). k = key) ?ys = filter (\<lambda>(k, s). k = key) xs"
    "dropWhile (\<lambda>(k, s). k = key) ?ys = filter (\<lambda>(k, s). key < k) xs"
    by (auto simp: sorted_split [OF s] intro!: filter_cong)
qed

lemma sorted_partition:
  fixes key :: "'k::linorder"
  assumes "sorted (map fst xs)"
  shows "filter (\<lambda>(k, s). k < key) xs @ filter (\<lambda>(k, s). P s) (filter (\<lambda>(k, s). k = key) xs) @ filter (\<lambda>(k, s). key < k) xs =
    filter (\<lambda>(k, s). k \<noteq> key \<or> P s) xs"
  using assms
proof (induction xs)
  case (Cons x xs)
  obtain k s where x: "x = (k, s)" by fastforce
  consider "k < key" | "k = key" | "key < k" by fastforce
  then show ?case
  proof cases
    case 2
    with Cons.prems x have "filter (\<lambda>(k, s). k < key) xs = []" by (auto simp: filter_empty_conv)
    with Cons x 2 show ?thesis by auto
  next
    case 3
    with Cons.prems x have "filter (\<lambda>(k, s). k < key) xs = []" "filter (\<lambda>(k, s). k = key) xs = []"
      by (auto simp: filter_empty_conv)
    with Cons x 3 show ?thesis by auto
  qed (use Cons x in auto)
qed simp

lemma unregister_filter:
  assumes "sorted (map fst (gr_streams g))"
  shows "gr_streams (unregister_event_stream key s g) =
    filter (\<lambda>(k, x). k \<noteq> key \<or> gr_sinks g x \<noteq> None \<and> x \<noteq> s) (gr_streams g)"
  using sorted_partition [OF assms, of key "\<lambda>x. gr_sinks g x \<noteq> None \<and> x \<noteq> s"]
  by (simp add: unregister_event_stream_def Let_def sorted_split [OF assms] equal_range [OF assms])

lemma register_entries:
  "mset (gr_streams (register_event_stream key s g)) = add_mset (key, s) (mset (gr_streams g))"
proof -
  have "mset (takeWhile P xs) + mset (dropWhile P xs) = mset xs" for P and xs :: "(EventStreamKey \<times> sink_id) list"
    by (simp flip: mset_append)
  then show ?thesis by (simp add: register_event_stream_def)
qed


subsection \<open>Delivery\<close>

text \<open>The frames waiting in a sink, and the frames handed to the writer of its stream.\<close>

definition queued :: "sink_id \<Rightarrow> ('m, 'c) GrpcGateway \<Rightarrow> EventFrame list" where
  "queued s g = (case gr_sinks g s of Some k \<Rightarrow> sink_pending k | None \<Rightarrow> [])"

fun written_to :: "sink_id \<Rightarrow> ('m, 'c, grpc_call) history \<Rightarrow> EventFrame list" where
  "written_to s [] = []"
| "written_to s (External (Grpc_Write s' f) # h) = (if s' = s then f # written_to s h else written_to s h)"
| "written_to s (ev # h) = written_to s h"

lemma written_append [simp]: "written_to s (h @ h') = written_to s h @ written_to s h'"
  by (induction s h rule: written_to.induct) auto

definition open_sink :: "sink_id \<Rightarrow> ('m, 'c) GrpcGateway \<Rightarrow> bool" where
  "open_sink s g \<longleftrightarrow> (\<exists>k. gr_sinks g s = Some k \<and> \<not> sink_closed k)"

definition push_frames :: "EventFrame list \<Rightarrow> EventStreamSink \<Rightarrow> EventStreamSink" where
  "push_frames fs k = (if sink_closed k then k else k\<lparr>sink_pending := sink_pending k @ fs\<rparr>)"

lemma push_frames_simps [simp]: "push_frames [] = (\<lambda>k. k)" "push_frames ys (push_frames xs k) = push_frames (xs @ ys) k"
  "sink_closed (push_frames xs k) = sink_closed k"
  by (simp_all add: push_frames_def fun_eq_iff)

lemma deliver_eq:
  "deliver_event_frame (Some s) f g = g\<lparr>gr_sinks := (\<lambda>x. map_option (push_frames (if x = s then [f] else [])) (gr_sinks g x))\<rparr>"
proof (cases "gr_sinks g s")
  case None
  then have "(\<lambda>x. map_option (push_frames (if x = s then [f] else [])) (gr_sinks g x)) = gr_sinks g"
    by (auto simp: fun_eq_iff option.map_ident)
  with None show ?thesis by (simp add: deliver_event_frame_def)
next
  case (Some k)
  then have "(\<lambda>x. map_option (push_frames (if x = s then [f] else [])) (gr_sinks g x)) =
      (if sink_closed k then gr_sinks g else (gr_sinks g)(s \<mapsto> k\<lparr>sink_pending := sink_pending k @ [f]\<rparr>))"
    by (auto simp: fun_eq_iff push_frames_def option.map_ident split: option.split)
  with Some show ?thesis by (simp add: deliver_event_frame_def)
qed

text \<open>The sinks of the streams for a service and instance.\<close>

definition streams_at :: "u32 \<Rightarrow> u32 \<Rightarrow> ('m, 'c) GrpcGateway \<Rightarrow> sink_id list" where
  "streams_at sv inst g = map snd (filter (\<lambda>(key, s). key_service_id key = sv \<and> key_instance_id key = inst) (gr_streams g))"

lemma broadcast_loop:
  "fold (\<lambda>(key, s) g.
      if key_service_id key \<noteq> sv then g else if key_instance_id key \<noteq> inst then g
      else (case lock_sink s g of Some sp \<Rightarrow> deliver_event_frame (Some sp) f g | None \<Rightarrow> g)) xs g =
   g\<lparr>gr_sinks := (\<lambda>x. map_option (push_frames (replicate (count_list (map snd (filter (\<lambda>(key, s).
      key_service_id key = sv \<and> key_instance_id key = inst) xs)) x) f)) (gr_sinks g x))\<rparr>"
proof (induction xs arbitrary: g)
  case Nil
  then show ?case by (simp add: option.map_ident)
next
  case (Cons e xs)
  obtain key s where e: "e = (key, s)" by (metis prod.exhaust)
  have l: "(case lock_sink s g of Some sp \<Rightarrow> deliver_event_frame (Some sp) f g | None \<Rightarrow> g) = deliver_event_frame (Some s) f g"
    by (simp add: lock_sink_def deliver_event_frame_def)
  have r: "push_frames (replicate n f) \<circ> push_frames [f] = push_frames (replicate (Suc n) f)"
    "push_frames (replicate n f) \<circ> (\<lambda>k. k) = push_frames (replicate n f)" for n
    by (auto simp: fun_eq_iff)
  show ?case
    by (auto simp: e l Cons.IH deliver_eq option.map_comp r fun_eq_iff intro!: arg_cong [where f = "\<lambda>f. gr_sinks_update f g"])
qed

lemma broadcast_eq:
  "broadcast_notification sv inst f g =
     g\<lparr>gr_sinks := (\<lambda>x. map_option (push_frames (replicate (count_list (streams_at sv inst g) x) f)) (gr_sinks g x))\<rparr>"
  unfolding broadcast_notification_def streams_at_def by (rule broadcast_loop)

subsection \<open>Threads\<close>

text \<open>
  The operations of the threads that share the sinks: a SOME/IP message, an event for the callback of a
  stream, the start of a stream, a pass of a stream's loop (followed by its end when the loop ends), a
  unary call, start and stop. Any interleaving of the threads is a list of such operations.
\<close>

datatype 'm grpc_op =
    Op_message 'm
  | Op_event sink_id EventNotification
  | Op_open EventStreamKey
  | Op_pass EventStreamKey sink_id
  | Op_unary UnaryRpcRequest UnaryRpcResponse
  | Op_start
  | Op_stop

definition grpc_step ::
  "'m message_api \<Rightarrow> return_codes \<Rightarrow> ('m, 'c) grpc_lib \<Rightarrow> ('m, 'c) grpc_env \<Rightarrow> 'm grpc_op \<Rightarrow>
   ('m, 'c) GrpcGateway \<Rightarrow> ('m, 'c) GrpcGateway" where
  "grpc_step A R L E op g =
     (case op of
        Op_message msg \<Rightarrow> snd (Grpc_on_someip_message A L msg g)
      | Op_event s n \<Rightarrow> stream_on_event A L s n g
      | Op_open key \<Rightarrow> snd (snd (stream_open E key g))
      | Op_pass key s \<Rightarrow>
          (let (more, g1) = stream_pass E s g in if more then g1 else snd (stream_close key s g1))
      | Op_unary request response \<Rightarrow> snd (snd (UnarySomeIp A R L E request response g))
      | Op_start \<Rightarrow> snd (Grpc_start L E g)
      | Op_stop \<Rightarrow> snd (Grpc_stop E g))"

text \<open>The frames an operation puts into an open sink.\<close>

definition frames_for :: "'m message_api \<Rightarrow> 'm grpc_op \<Rightarrow> sink_id \<Rightarrow> ('m, 'c) GrpcGateway \<Rightarrow> EventFrame list" where
  "frames_for A op s g =
     (if \<not> open_sink s g then []
      else case op of
        Op_message msg \<Rightarrow>
          if get_message_type A msg = mt_NOTIFICATION A
          then replicate (count_list (streams_at (ucast (get_service_id A msg)) 0 g) s)
                 (message_to_envelope A msg SomeIpEnvelope_default)
          else []
      | Op_event s' n \<Rightarrow>
          if s' = s then [message_to_envelope A (notification_message_rc A n) SomeIpEnvelope_default] else []
      | _ \<Rightarrow> [])"

fun grpc_run ::
  "'m message_api \<Rightarrow> return_codes \<Rightarrow> ('m, 'c) grpc_lib \<Rightarrow> ('m, 'c) grpc_env \<Rightarrow> 'm grpc_op list \<Rightarrow> sink_id \<Rightarrow>
   ('m, 'c) GrpcGateway \<Rightarrow> EventFrame list \<times> ('m, 'c) GrpcGateway" where
  "grpc_run A R L E [] s g = ([], g)"
| "grpc_run A R L E (op # ops) s g =
     (let (fs, g') = grpc_run A R L E ops s (grpc_step A R L E op g) in (frames_for A op s g @ fs, g'))"

text \<open>Everything handed to the writer or still queued.\<close>

definition stream_content :: "sink_id \<Rightarrow> ('m, 'c) GrpcGateway \<Rightarrow> EventFrame list" where
  "stream_content s g = written_to s (gw_io g) @ queued s g"

text \<open>Steps that neither touch the sinks nor write to a stream, nor the next sink number.\<close>

definition off_stream :: "('m, 'c) GrpcGateway \<Rightarrow> ('m, 'c) GrpcGateway \<Rightarrow> bool" where
  "off_stream g g' \<longleftrightarrow> gr_sinks g' = gr_sinks g \<and> gr_next_sink g' = gr_next_sink g \<and>
     (\<forall>s. written_to s (gw_io g') = written_to s (gw_io g))"

lemma off_stream_refl [simp]: "off_stream g g"
  by (simp add: off_stream_def)

lemma off_stream_trans: "off_stream g g1 \<Longrightarrow> off_stream g1 g2 \<Longrightarrow> off_stream g g2"
  by (simp add: off_stream_def)

lemma off_stream_updates [simp]:
  "off_stream g (g1\<lparr>gw_stats := st\<rparr>) = off_stream g g1" "off_stream g (g1\<lparr>gw_running := r\<rparr>) = off_stream g g1"
  "off_stream g (g1\<lparr>gr_channels := cs\<rparr>) = off_stream g g1" "off_stream g (g1\<lparr>gr_sd_client := c\<rparr>) = off_stream g g1"
  "off_stream g (g1\<lparr>gr_sd_server := c\<rparr>) = off_stream g g1" "off_stream g (g1\<lparr>gr_e2e_protection := b\<rparr>) = off_stream g g1"
  "off_stream g (g1\<lparr>gr_grpc_service := b\<rparr>) = off_stream g g1" "off_stream g (g1\<lparr>gr_grpc_server := sv\<rparr>) = off_stream g g1"
  "off_stream g (g1\<lparr>gr_streams := t\<rparr>) = off_stream g g1"
  by (simp_all add: off_stream_def)

lemma gr_fields_call [simp]:
  "gr_sinks (call ev g) = gr_sinks g" "gr_next_sink (call ev g) = gr_next_sink g" "gr_streams (call ev g) = gr_streams g"
  "gr_config (call ev g) = gr_config g" "gr_event_subscriber (call ev g) = gr_event_subscriber g"
  "gr_rpc_client (call ev g) = gr_rpc_client g"
  by (simp_all add: call_def)

lemma off_stream_call [simp]: "(\<And>s. written_to s [ev] = []) \<Longrightarrow> off_stream g (call ev g1) = off_stream g g1"
  by (simp add: off_stream_def)

lemma off_stream_call_on [simp]:
  "(\<And>s h. written_to s [f h] = []) \<Longrightarrow> off_stream g (call_on f p g1) = off_stream g g1"
  by (simp add: call_on_def split: option.split)

lemma off_stream_e2e:
  "off_stream g (snd (Grpc_e2e_validate E m g))" "off_stream g (snd (Grpc_e2e_protect E m g))"
  by (simp_all add: Grpc_e2e_validate_def Grpc_e2e_protect_def)

lemma off_stream_unary_local: "off_stream g (snd (snd (unary_local A R L E m resp g)))"
proof -
  have "off_stream g (snd (unary_call A R E m g))" by (simp add: unary_call_def Let_def split_beta)
  then have "off_stream g (snd (Grpc_e2e_protect E m' (snd (unary_call A R E m g))))" for m'
    by (rule off_stream_trans) (rule off_stream_e2e)
  then show ?thesis by (simp add: unary_local_def Let_def split_beta record_someip_to_external_def)
qed

lemma off_stream_channel: "off_stream g (snd (channel_for_target L E nm g))"
  by (simp add: channel_for_target_def make_object_def Let_def split: option.split)

lemma off_stream_unary: "off_stream g (snd (snd (UnarySomeIp A R L E req resp g)))"
proof -
  have d: "off_stream g (snd (snd (unary_dispatch A R L E req m resp g)))" for m g
    using off_stream_channel [of g L E "req_cloud_target_name req"]
    by (auto simp: unary_dispatch_def call_bool_def Let_def split_beta off_stream_unary_local split: option.split
        intro: off_stream_trans [OF _ off_stream_unary_local])
  show ?thesis
    by (auto simp: UnarySomeIp_def Let_def split_beta off_stream_e2e split: option.split
        intro: off_stream_trans [OF off_stream_e2e(1) d])
qed

lemma off_stream_start: "off_stream g (snd (Grpc_start L E g))"
proof -
  have s: "off_stream g (snd (Grpc_start_server L E g))" for g
    by (simp add: Grpc_start_server_def Let_def split_beta set_running_def)
  have "off_stream g (snd (Grpc_start_sd_client E g))" "off_stream g (snd (Grpc_start_sd_server E g))" for g
    by (simp_all add: Grpc_start_sd_client_def Grpc_start_sd_server_def make_object_def call_bool_def Let_def)
  note sd = this off_stream_trans [OF this(1) this(2)]
  show ?thesis
    by (auto simp: Grpc_start_def call_bool_def Let_def split_beta
        intro!: off_stream_trans [OF _ s] off_stream_trans [OF _ sd(1)] off_stream_trans [OF _ sd(2)])
qed

lemma off_stream_stop: "off_stream g (snd (Grpc_stop E g))"
  by (simp add: Grpc_stop_def Let_def set_running_def)

lemma off_stream_content: "off_stream g g' \<Longrightarrow> stream_content s g' = stream_content s g \<and> gr_next_sink g' = gr_next_sink g"
  by (simp add: off_stream_def stream_content_def queued_def)

lemma queued_push:
  "queued s (g\<lparr>gr_sinks := (\<lambda>x. map_option (push_frames (fs x)) (gr_sinks g x))\<rparr>) =
     queued s g @ (if open_sink s g then fs s else [])"
  by (auto simp: queued_def open_sink_def push_frames_def split: option.split)

lemma instance_zero:
  "(case find_mapping_for_service sid 0 g of Some mp \<Rightarrow> someip_instance_id mp | None \<Rightarrow> 0) = 0"
  by (auto split: option.split dest: find_mapping_for_service_Some)

lemma Grpc_notification_eq:
  assumes "get_message_type A msg = mt_NOTIFICATION A"
  defines "frame \<equiv> message_to_envelope A msg SomeIpEnvelope_default"
  shows "Grpc_on_someip_message A L msg g = (SUCCESS, record_someip_to_external (ByteSizeLong L frame) (g\<lparr>gr_sinks :=
    (\<lambda>x. map_option (push_frames (replicate (count_list (streams_at (ucast (get_service_id A msg)) 0 g) x) frame)) (gr_sinks g x))\<rparr>))"
  using assms(1) by (simp add: Grpc_on_someip_message_def Let_def instance_zero broadcast_eq frame_def)

lemma stream_tables_frame [simp]:
  "gr_sinks (register_event_stream key s g) = gr_sinks g" "gr_sinks (unregister_event_stream key s g) = gr_sinks g"
  "gw_io (register_event_stream key s g) = gw_io g" "gw_io (unregister_event_stream key s g) = gw_io g"
  "gr_next_sink (register_event_stream key s g) = gr_next_sink g"
  "gr_next_sink (unregister_event_stream key s g) = gr_next_sink g"
  by (simp_all add: register_event_stream_def unregister_event_stream_def Let_def)

lemma close_sink_frame [simp]:
  "gw_io (close_sink s g) = gw_io g" "gr_next_sink (close_sink s g) = gr_next_sink g" "queued x (close_sink s g) = queued x g"
  by (simp_all add: close_sink_def queued_def split: option.split)

lemma queued_frame [simp]:
  "queued x (register_event_stream key s g) = queued x g" "queued x (unregister_event_stream key s g) = queued x g"
  "queued x (call ev g) = queued x g" "queued x (record_someip_to_external n g) = queued x g"
  "queued x (record_external_to_someip n g) = queued x g"
  by (simp_all add: queued_def record_someip_to_external_def record_external_to_someip_def)

lemma stream_close_content: "stream_content x (snd (stream_close key s g)) = stream_content x g"
  by (simp add: stream_close_def stream_content_def Let_def split_beta)

lemma stream_pass_content: "stream_content x (snd (stream_pass E s g)) = stream_content x g"
  by (auto simp: stream_pass_def call_bool_def stream_content_def queued_def Let_def split: option.split list.split)

lemma stream_open_content:
  assumes "x < gr_next_sink g"
  shows "stream_content x (snd (snd (stream_open E key g))) = stream_content x g"
  using assms
  by (simp add: stream_open_def call_bool_def stream_content_def Let_def split_beta) (simp add: queued_def)

lemma next_sink_mono: "gr_next_sink g \<le> gr_next_sink (grpc_step A R L E op g)"
proof (cases op)
  case (Op_pass key s)
  have "gr_next_sink (snd (stream_pass E s g)) = gr_next_sink g"
    by (simp add: stream_pass_def call_bool_def Let_def split: option.split list.split)
  with Op_pass show ?thesis by (simp add: grpc_step_def split_beta Let_def stream_close_def)
qed (use off_stream_content [OF off_stream_unary [of g A R L E]] off_stream_content [OF off_stream_start [of g L E]]
    off_stream_content [OF off_stream_stop [of g E]] in
    \<open>auto simp: grpc_step_def stream_on_event_def Grpc_on_someip_message_def broadcast_eq deliver_eq stream_open_def
      call_bool_def record_someip_to_external_def record_external_to_someip_def Let_def split_beta\<close>)

lemma grpc_step_content:
  assumes "s < gr_next_sink g"
  shows "stream_content s (grpc_step A R L E op g) = stream_content s g @ frames_for A op s g"
proof (cases op)
  case (Op_message msg)
  show ?thesis
  proof (cases "get_message_type A msg = mt_NOTIFICATION A")
    case True
    then show ?thesis
      by (simp add: Op_message grpc_step_def Grpc_notification_eq frames_for_def stream_content_def queued_push)
         (simp add: record_someip_to_external_def)
  next
    case False
    then show ?thesis
      by (simp add: Op_message grpc_step_def Grpc_on_someip_message_def frames_for_def stream_content_def)
         (simp add: record_external_to_someip_def)
  qed
next
  case (Op_event s' n)
  then show ?thesis
    by (simp add: grpc_step_def stream_on_event_def Let_def deliver_eq frames_for_def stream_content_def queued_push)
       (simp add: record_someip_to_external_def)
next
  case (Op_open key)
  with stream_open_content [OF assms] show ?thesis by (simp add: grpc_step_def frames_for_def)
next
  case (Op_pass key s')
  then show ?thesis
    by (simp add: grpc_step_def Let_def split_beta stream_close_content stream_pass_content frames_for_def)
next
  case (Op_unary request response)
  with off_stream_content [OF off_stream_unary [of g A R L E request response]] show ?thesis by (simp add: grpc_step_def frames_for_def)
next
  case Op_start
  with off_stream_content [OF off_stream_start [of g L E]] show ?thesis by (simp add: grpc_step_def frames_for_def)
next
  case Op_stop
  with off_stream_content [OF off_stream_stop [of g E]] show ?thesis by (simp add: grpc_step_def frames_for_def)
qed

lemma grpc_run_content:
  "s < gr_next_sink g \<Longrightarrow> grpc_run A R L E ops s g = (fs, g') \<Longrightarrow> stream_content s g' = stream_content s g @ fs"
proof (induction ops arbitrary: g fs)
  case (Cons op ops)
  from Cons.prems(1) next_sink_mono [of g A R L E op] have n: "s < gr_next_sink (grpc_step A R L E op g)" by simp
  from Cons.prems(2) obtain fs1 where "grpc_run A R L E ops s (grpc_step A R L E op g) = (fs1, g')"
    "fs = frames_for A op s g @ fs1" by (auto split: prod.splits)
  with Cons.IH [OF n] grpc_step_content [OF Cons.prems(1)] show ?case by simp
qed simp

lemma stream_pass_writes:
  assumes "\<And>h. \<not> answer_bool E h (External (Grpc_IsCancelled s))" and "\<And>h f. answer_bool E h (External (Grpc_Write s f))"
    and "queued s g = f # fs"
  shows "fst (stream_pass E s g) \<and> queued s (snd (stream_pass E s g)) = fs \<and>
    written_to s (gw_io (snd (stream_pass E s g))) = written_to s (gw_io g) @ [f]"
  using assms by (auto simp: stream_pass_def call_bool_def queued_def Let_def split: option.splits)

lemma stream_passes_write:
  assumes "\<And>h. \<not> answer_bool E h (External (Grpc_IsCancelled s))" and "\<And>h f. answer_bool E h (External (Grpc_Write s f))"
  shows "queued s g = fs @ rest \<Longrightarrow> queued s (((\<lambda>g. snd (stream_pass E s g)) ^^ length fs) g) = rest \<and>
    written_to s (gw_io (((\<lambda>g. snd (stream_pass E s g)) ^^ length fs) g)) = written_to s (gw_io g) @ fs"
proof (induction fs arbitrary: g)
  case (Cons f fs)
  from stream_pass_writes [OF assms, of g f "fs @ rest"] Cons.prems
  have "queued s (snd (stream_pass E s g)) = fs @ rest"
    "written_to s (gw_io (snd (stream_pass E s g))) = written_to s (gw_io g) @ [f]" by simp_all
  with Cons.IH show ?case by (simp add: funpow_Suc_right del: funpow.simps)
qed simp


subsection \<open>Unary calls and life cycle\<close>

text \<open>The calls on the vehicle network in a history.\<close>

fun vehicle_call :: "('m, 'c, grpc_call) io \<Rightarrow> bool" where
  "vehicle_call (RpcClient_call_method_sync h s m p) = True"
| "vehicle_call ev = False"

text \<open>A refused call: the response is untouched, nothing is counted and no call goes to the vehicle network.\<close>

definition refused ::
  "UnaryRpcResponse \<Rightarrow> ('m, 'c) GrpcGateway \<Rightarrow> Status \<times> UnaryRpcResponse \<times> ('m, 'c) GrpcGateway \<Rightarrow> bool" where
  "refused response g res \<longleftrightarrow>
     (case res of (st, resp, g') \<Rightarrow> status_code st \<noteq> SC_OK \<and> resp = response \<and> gw_stats g' = gw_stats g \<and>
        filter vehicle_call (gw_io g') = filter vehicle_call (gw_io g))"

text \<open>An answered call: the status is OK, one call went out and one message is counted.\<close>

definition answered ::
  "('m, 'c) GrpcGateway \<Rightarrow> Status \<times> UnaryRpcResponse \<times> ('m, 'c) GrpcGateway \<Rightarrow> bool" where
  "answered g res \<longleftrightarrow>
     (case res of (st, resp, g') \<Rightarrow> status_code st = SC_OK \<and> resp_envelope resp \<noteq> None \<and>
        messages_someip_to_external (gw_stats g') = messages_someip_to_external (gw_stats g) + 1 \<and>
        (\<exists>c. filter vehicle_call (gw_io g') = filter vehicle_call (gw_io g) @ [c]))"

lemma unary_local_outcome:
  "if is_request A m then answered g (unary_local A R L E m resp g) else refused resp g (unary_local A R L E m resp g)"
  by (auto simp: unary_local_def unary_call_def Grpc_e2e_protect_def answered_def refused_def invalid_argument_def
      record_someip_to_external_def Let_def split_beta)

lemma Grpc_e2e_frame:
  "gw_stats (snd (Grpc_e2e_validate E m g)) = gw_stats g"
  "filter vehicle_call (gw_io (snd (Grpc_e2e_validate E m g))) = filter vehicle_call (gw_io g)"
  by (simp_all add: Grpc_e2e_validate_def)

lemma error_status:
  assumes "return_codes_distinct R"
  shows "status_code (return_code_to_grpc_status R (E_E2E R) m) = SC_DATA_LOSS"
    and "status_code (return_code_to_grpc_status R (E_UNKNOWN_METHOD R) m) = SC_UNIMPLEMENTED"
  using return_code_lookup [OF assms, of "E_E2E R" SC_DATA_LOSS]
    return_code_lookup [OF assms, of "E_UNKNOWN_METHOD R" SC_UNIMPLEMENTED]
  by (simp_all add: return_code_to_grpc_status_def kReturnToGrpc_def)

lemma Grpc_start_outcome:
  assumes "\<not> gw_running g" and "Grpc_start L E g = (r, g')"
  shows "gw_running g' = (r = SUCCESS)" and "r \<in> {SUCCESS, NOT_INITIALIZED, INTERNAL_ERROR}"
    and "\<exists>h. gw_io g' = gw_io g @ RpcClient_initialize (gr_rpc_client g) # h"
  using assms
  by (auto simp: Grpc_start_def Grpc_start_sd_client_def Grpc_start_sd_server_def Grpc_start_server_def call_bool_def
      make_object_def is_running_def set_running_def Let_def split_beta split: if_splits)

subsection \<open>Samples for the witnesses\<close>

definition sample_grpc_lib :: "(ref_message, unit) grpc_lib" where
  "sample_grpc_lib = \<lparr>ByteSizeLong = (\<lambda>e. 20 + length (pb_payload e)), file_content = (\<lambda>_. None),
     built_server = (\<lambda>_. (None, 0)),
     stub_answer = (\<lambda>_ _ _. (\<lparr>status_code = SC_OK, status_message = []\<rparr>, \<lparr>resp_envelope = None\<rparr>))\<rparr>"

definition sample_grpc_env :: "(ref_message, unit) grpc_env" where
  "sample_grpc_env = ref_env\<lparr>answer_bool := (\<lambda>_ ev. case ev of External (Grpc_IsCancelled s) \<Rightarrow> False | _ \<Rightarrow> True)\<rparr>"

text \<open>A gateway with one open stream for service 0x1234, instance 0.\<close>

definition sample_grpc :: "(ref_message, unit) GrpcGateway" where
  "sample_grpc = (GrpcGateway_new sample_grpc_env (GrpcConfig_default ()))
     \<lparr>gr_streams := [(EventStreamKey 0x1234 0 1, 0)], gr_sinks := [0 \<mapsto> \<lparr>sink_closed = False, sink_pending = []\<rparr>], gr_next_sink := 1\<rparr>"

definition sample_grpc_event :: ref_message where
  "sample_grpc_event = \<lparr>ref_service = 0x1234, ref_method = 0x8001, ref_client = 0, ref_session = 0, ref_type = 2,
     ref_return = 0, ref_payload = [5]\<rparr>"

definition sample_grpc_request :: UnaryRpcRequest where
  "sample_grpc_request = \<lparr>req_envelope = Some (SomeIpEnvelope_default\<lparr>pb_service_id := 0x1234, pb_method_or_event_id := 7,
     pb_client_id := 1, pb_session_id := 2, pb_payload := [4, 5]\<rparr>), req_cloud_target_name = []\<rparr>"

lemma sample_grpc_simps [simp]:
  "gr_next_sink sample_grpc = 1" "gr_streams sample_grpc = [(EventStreamKey 0x1234 0 1, 0)]"
  "gr_sinks sample_grpc = [0 \<mapsto> \<lparr>sink_closed = False, sink_pending = []\<rparr>]" "\<not> gw_running sample_grpc"
  "gr_vehicle_rpc_servers sample_grpc = Map.empty" "\<not> gc_enable_e2e_bridge (gr_config sample_grpc)"
  "get_message_type ref_api sample_grpc_event = mt_NOTIFICATION ref_api"
  by (simp_all add: sample_grpc_def GrpcGateway_new_def GrpcConfig_default_def Let_def sample_grpc_event_def ref_simps)

lemma sample_grpc_written [simp]: "written_to s (gw_io sample_grpc) = []"
  by (simp add: sample_grpc_def GrpcGateway_new_def Let_def)


subsection \<open>Properties\<close>

text \<open>C5: Event streams lose, duplicate and reorder nothing. However the threads interleave (messages, event
  callbacks, passes of every stream's loop, streams that open and close, unary calls, start and stop),
  the frames handed to the writer of a stream followed by the frames still queued are the earlier ones
  followed by exactly the frames that were delivered to the stream meanwhile, in order.\<close>

theorem grpc_streams_lossless:
  assumes "s < gr_next_sink g" and "grpc_run A R L E ops s g = (fs, g')"
  shows "written_to s (gw_io g') @ queued s g' = written_to s (gw_io g) @ queued s g @ fs"
  using grpc_run_content [OF assms] by (simp add: stream_content_def)

theorem grpc_streams_lossless_witness:
  "let (fs, g') = grpc_run ref_api ref_codes sample_grpc_lib sample_grpc_env
       [Op_message sample_grpc_event, Op_pass (EventStreamKey 0x1234 0 1) 0] 0 sample_grpc
   in written_to 0 (gw_io g') @ queued 0 g' = fs \<and> fs = [message_to_envelope ref_api sample_grpc_event SomeIpEnvelope_default]"
proof -
  obtain fs g' where r: "grpc_run ref_api ref_codes sample_grpc_lib sample_grpc_env
       [Op_message sample_grpc_event, Op_pass (EventStreamKey 0x1234 0 1) 0] 0 sample_grpc = (fs, g')" by fastforce
  have n: "0 < gr_next_sink sample_grpc" by simp
  have "fs = [message_to_envelope ref_api sample_grpc_event SomeIpEnvelope_default]"
    using r by (simp add: frames_for_def open_sink_def streams_at_def split_beta) (auto simp: sample_grpc_event_def ref_simps)
  moreover have "queued 0 sample_grpc = []" by (simp add: queued_def)
  ultimately show ?thesis using r grpc_streams_lossless [OF n r] by simp
qed

text \<open>C36: A notification passed to \<open>on_someip_message\<close> reaches every open stream registered for its service and
  instance 0, once per registration, and no other stream; the table, the mappings and everything else but
  the counters stay. The instance is always 0, whatever mappings exist, because the mapping is looked up
  under instance 0.\<close>

theorem grpc_notification_fanout:
  assumes "get_message_type A msg = mt_NOTIFICATION A"
  shows "\<exists>st. Grpc_on_someip_message A L msg g = (SUCCESS, g\<lparr>gw_stats := st, gr_sinks := (\<lambda>s.
      case gr_sinks g s of
        None \<Rightarrow> None
      | Some k \<Rightarrow>
          Some (if sink_closed k then k
                else k\<lparr>sink_pending := sink_pending k @
                  replicate (count_list (map snd (filter (\<lambda>(key, x).
                      key_service_id key = ucast (get_service_id A msg) \<and> key_instance_id key = 0) (gr_streams g))) s)
                    (message_to_envelope A msg SomeIpEnvelope_default)\<rparr>))\<rparr>)"
proof -
  have "map_option (push_frames fs) o' = (case o' of None \<Rightarrow> None | Some k \<Rightarrow>
      Some (if sink_closed k then k else k\<lparr>sink_pending := sink_pending k @ fs\<rparr>))" for fs o'
    by (simp add: push_frames_def split: option.split)
  then show ?thesis
    unfolding Grpc_notification_eq [OF assms, of L g] record_someip_to_external_def
    by (intro exI [of _ "gw_stats (record_someip_to_external
          (ByteSizeLong L (message_to_envelope A msg SomeIpEnvelope_default)) g)"])
       (simp add: record_someip_to_external_def streams_at_def)
qed

theorem grpc_notification_fanout_witness:
  "queued 0 (snd (Grpc_on_someip_message ref_api sample_grpc_lib sample_grpc_event sample_grpc)) =
     [message_to_envelope ref_api sample_grpc_event SomeIpEnvelope_default]"
  using grpc_notification_fanout [OF sample_grpc_simps(7), of sample_grpc_lib sample_grpc]
  by (auto simp: queued_def) (simp_all add: sample_grpc_event_def ref_simps)



text \<open>C24: The subscriber table. On a table in key order, \<open>register_event_stream\<close> keeps the order and adds
  exactly one entry, and \<open>unregister_event_stream\<close>, which only visits the range of its key, computes what
  filtering the whole table would: the entries of this stream and the expired ones of its key go, all
  others stay in place.\<close>

theorem grpc_stream_table:
  assumes "sorted (map fst (gr_streams g))"
  shows "sorted (map fst (gr_streams (register_event_stream key s g))) \<and>
    mset (gr_streams (register_event_stream key s g)) = add_mset (key, s) (mset (gr_streams g)) \<and>
    gr_streams (unregister_event_stream key s g) =
      filter (\<lambda>(k, x). k \<noteq> key \<or> gr_sinks g x \<noteq> None \<and> x \<noteq> s) (gr_streams g)"
  using register_sorted [OF assms] register_entries [of key s g] unregister_filter [OF assms] by simp

theorem grpc_stream_table_witness:
  "gr_streams (unregister_event_stream (EventStreamKey 0x1234 0 1) 0 sample_grpc) = [] \<and>
   mset (gr_streams (register_event_stream (EventStreamKey 1 0 0) 7 sample_grpc)) = {#(EventStreamKey 1 0 0, 7), (EventStreamKey 0x1234 0 1, 0)#}"
  using grpc_stream_table [of sample_grpc "(EventStreamKey 0x1234 0 1)" 0] grpc_stream_table [of sample_grpc "(EventStreamKey 1 0 0)" 7] by simp

text \<open>C15: Every unary call without a cloud target is either answered or refused. It is answered (status OK, a
  response envelope, one call on the vehicle network, one message counted) exactly when the request has
  a valid envelope that passes the end-to-end check, no vehicle server denies the method, and the message
  is a request; otherwise the status is an error, the response is untouched, nothing is counted and no
  call goes to the vehicle network.\<close>

theorem grpc_unary_answered_or_refused:
  assumes "return_codes_distinct R" and "req_cloud_target_name request = []"
  shows "if (case req_envelope request of None \<Rightarrow> False | Some env \<Rightarrow>
          (case envelope_to_message A env (Message_default A) of (ok, m) \<Rightarrow>
             ok \<and> fst (Grpc_e2e_validate E m g) = SUCCESS \<and>
             (case gr_vehicle_rpc_servers g (get_service_id A m) of None \<Rightarrow> True | Some srv \<Rightarrow>
                answer_bool E (gw_io (snd (Grpc_e2e_validate E m g))) (RpcServer_is_method_registered srv (get_method_id A m))) \<and>
             is_request A m))
     then answered g (UnarySomeIp A R L E request response g)
     else refused response g (UnarySomeIp A R L E request response g)"
proof (cases "req_envelope request")
  case None
  then show ?thesis by (simp add: UnarySomeIp_def refused_def invalid_argument_def)
next
  case (Some env)
  obtain ok m where m: "envelope_to_message A env (Message_default A) = (ok, m)" by fastforce
  obtain vr g1 where v: "Grpc_e2e_validate E m g = (vr, g1)" by fastforce
  have f: "gw_stats g1 = gw_stats g" "filter vehicle_call (gw_io g1) = filter vehicle_call (gw_io g)"
    "gr_vehicle_rpc_servers g1 = gr_vehicle_rpc_servers g"
    using Grpc_e2e_frame [of E m g] v by (auto simp: Grpc_e2e_validate_def call_def split: if_splits)
  have l: "if is_request A m then answered g (unary_local A R L E m response g2)
      else refused response g (unary_local A R L E m response g2)"
    if "gw_stats g2 = gw_stats g" "filter vehicle_call (gw_io g2) = filter vehicle_call (gw_io g)" for g2
    using unary_local_outcome [of A m g2 R L E response] that by (auto simp: answered_def refused_def split: if_splits prod.splits)
  have r: "refused response g (st, response, g')"
    if "status_code st \<noteq> SC_OK" "gw_stats g' = gw_stats g" "filter vehicle_call (gw_io g') = filter vehicle_call (gw_io g)" for st g'
    using that by (simp add: refused_def)
  show ?thesis
  proof (cases "ok \<and> vr = SUCCESS")
    case False
    with Some m v f show ?thesis
      by (auto simp: UnarySomeIp_def invalid_argument_def error_status [OF assms(1)] intro!: r)
  next
    case True
    then show ?thesis
      using Some m v f l [of g1] l [of "call (RpcServer_is_method_registered srv (get_method_id A m)) g1" for srv]
      by (simp add: UnarySomeIp_def unary_dispatch_def assms(2) call_bool_def r error_status [OF assms(1)] split: option.split)
  qed
qed

theorem grpc_unary_answered_or_refused_witness:
  "answered sample_grpc (UnarySomeIp ref_api ref_codes sample_grpc_lib sample_grpc_env sample_grpc_request
     \<lparr>resp_envelope = None\<rparr> sample_grpc)"
proof -
  have c: "req_cloud_target_name sample_grpc_request = []" by (simp add: sample_grpc_request_def)
  from grpc_unary_answered_or_refused [OF ref_codes_distinct c, where A = ref_api and E = sample_grpc_env
      and g = sample_grpc and L = sample_grpc_lib and response = "\<lparr>resp_envelope = None\<rparr>"]
  show ?thesis
    by (simp add: sample_grpc_request_def envelope_to_message_def SomeIpEnvelope_default_def ref_simps
        Grpc_e2e_validate_def Let_def)
qed

text \<open>Life cycle. A start of a stopped gateway ends in \<open>SUCCESS\<close> and a running gateway, or in
  \<open>NOT_INITIALIZED\<close> or \<open>INTERNAL_ERROR\<close> and a stopped one. A running gateway is stopped with one
  shut-down call per object in a fixed order, and its channels and stream table are emptied. After a
  failed start, though the RPC client was already initialized, neither \<open>stop\<close> nor the destructor
  shuts anything down.\<close>

lemma grpc_lifecycle:
  "(if gw_running g
    then case Grpc_stop E g of (r, g') \<Rightarrow>
      r = SUCCESS \<and> \<not> gw_running g' \<and> gr_streams g' = [] \<and> gr_channels g' = Map.empty \<and> gr_grpc_server g' = None \<and>
      gr_sd_client g' = None \<and> gr_sd_server g' = None \<and> \<not> gr_e2e_protection g' \<and>
      gw_io g' = gw_io g @ calls_on (\<lambda>h. External (Grpc_Shutdown h)) (gr_grpc_server g) @
        calls_on SdClient_shutdown (gr_sd_client g) @ calls_on SdServer_shutdown (gr_sd_server g) @
        [EventSubscriber_shutdown (gr_event_subscriber g), RpcClient_shutdown (gr_rpc_client g)]
    else case Grpc_start L E g of (r, g') \<Rightarrow>
      (if r = SUCCESS then gw_running g'
       else r \<in> {NOT_INITIALIZED, INTERNAL_ERROR} \<and> \<not> gw_running g' \<and>
         (\<exists>h. gw_io g' = gw_io g @ RpcClient_initialize (gr_rpc_client g) # h) \<and>
         Grpc_stop E g' = (SUCCESS, g') \<and> Grpc_destroy E g' = g'))"
proof (cases "gw_running g")
  case True
  then show ?thesis
    by (simp add: Grpc_stop_def is_running_def Let_def call_on_eq set_running_def) (simp add: call_def)
next
  case False
  obtain r g' where s: "Grpc_start L E g = (r, g')" by fastforce
  from Grpc_start_outcome [OF False s] False s show ?thesis
    by (auto simp: Grpc_stop_def Grpc_destroy_def is_running_def)
qed


subsection \<open>The life cycle\<close>

interpretation grpc_life: total_life_cycle False "\<lambda>g. Some (Grpc_start L E g)" "\<lambda>g. Some (Grpc_stop E g)"
  "\<lambda>m g. Some (Grpc_on_someip_message A L m g)" "\<lambda>g. True" for A L E
proof
  show "gw_running g' = (r = SUCCESS \<or> gw_running g)" if "Some (Grpc_start L E g) = Some (r, g')" for g r g'
    using that Grpc_start_outcome(1) [of g L E r g'] by (cases "gw_running g") (auto simp: Grpc_start_def is_running_def)
  show "r = SUCCESS \<and> \<not> gw_running g'" if "Some (Grpc_stop E g) = Some (r, g')" for g r g'
    using that by (auto simp: Grpc_stop_def is_running_def set_running_def Let_def split: if_splits)
  show "gw_running g' = gw_running g" if "Some (Grpc_on_someip_message A L m g) = Some (r, g')" for m g r g'
    using that by (auto simp: Grpc_on_someip_message_def record_someip_to_external_def record_external_to_someip_def broadcast_eq Let_def split: if_splits)
qed (simp_all add: prod_eq_iff)

end
