(* ===== verification/Gateway_Chains.thy ===== *)
theory Gateway_Chains
  imports Ros2_Gateway Iceoryx2_Gateway Grpc_Gateway
begin

text \<open>
  Gateways behind gateways. One gateway's output is what another one (or the same one) receives: a gRPC gateway that hands a call on
  to a cloud target, which is a gRPC gateway too; an event that crosses iceoryx2; and a ROS 2 topic that a gateway both publishes and
  subscribes. The operations are those of \<open>Grpc_Gateway\<close>, \<open>Iceoryx2_Gateway\<close> and \<open>Ros2_Gateway\<close>.
\<close>

subsection \<open>A call handed on to a cloud target\<close>

text \<open>The calls on stubs in a history.\<close>

fun stub_call :: "('m, 'c, grpc_call) io \<Rightarrow> bool" where
  "stub_call (External (Grpc_stub_UnarySomeIp ch req)) = True"
| "stub_call ev = False"

text \<open>The message of a request that has a valid envelope and passes the end-to-end check.\<close>

definition accepted_message ::
  "'m message_api \<Rightarrow> ('m, 'c) grpc_env \<Rightarrow> UnaryRpcRequest \<Rightarrow> ('m, 'c) GrpcGateway \<Rightarrow> 'm option" where
  "accepted_message A E request g =
     (case req_envelope request of
        None \<Rightarrow> None
      | Some env \<Rightarrow>
          (case envelope_to_message A env (Message_default A) of
             (ok, m) \<Rightarrow> if ok \<and> fst (Grpc_e2e_validate E m g) = SUCCESS then Some m else None))"

definition known_target :: "string \<Rightarrow> ('m, 'c) GrpcGateway \<Rightarrow> bool" where
  "known_target nm g \<longleftrightarrow> gr_channels g nm \<noteq> None \<or> nm \<in> target_name ` set (gc_cloud_targets (gr_config g))"

lemma Grpc_validate_frame:
  assumes "Grpc_e2e_validate E m g = (r, g')"
  shows "gw_stats g' = gw_stats g" "filter vehicle_call (gw_io g') = filter vehicle_call (gw_io g)"
    "filter stub_call (gw_io g') = filter stub_call (gw_io g)" "gr_channels g' = gr_channels g" "gr_config g' = gr_config g"
    "gr_vehicle_rpc_servers g' = gr_vehicle_rpc_servers g" "gr_rpc_client g' = gr_rpc_client g"
  using assms by (auto simp: Grpc_e2e_validate_def call_def split: if_splits)

lemma UnarySomeIp_accepted:
  assumes "accepted_message A E request g = Some m"
  shows "UnarySomeIp A R L E request response g = unary_dispatch A R L E request m response (snd (Grpc_e2e_validate E m g))"
  using assms by (auto simp: accepted_message_def UnarySomeIp_def split: option.splits prod.splits if_splits)

lemma UnarySomeIp_not_accepted:
  assumes "return_codes_distinct R" and "accepted_message A E request g = None"
    and "UnarySomeIp A R L E request response g = (st, resp, g')"
  shows "status_code st \<noteq> SC_OK \<and> resp = response \<and> gw_stats g' = gw_stats g \<and>
    filter vehicle_call (gw_io g') = filter vehicle_call (gw_io g) \<and> filter stub_call (gw_io g') = filter stub_call (gw_io g)"
  using assms(2,3) error_status [OF assms(1)]
  by (auto simp: accepted_message_def UnarySomeIp_def invalid_argument_def Grpc_validate_frame
      split: option.splits prod.splits if_splits)

text \<open>The channel of a target: none for an unknown name, and otherwise one that the table has from then on.\<close>

lemma channel_for_target_cases:
  assumes "channel_for_target L E nm g = (c, g')"
  shows "gw_stats g' = gw_stats g" "filter vehicle_call (gw_io g') = filter vehicle_call (gw_io g)"
    "filter stub_call (gw_io g') = filter stub_call (gw_io g)"
    "if known_target nm g then (\<exists>ch. c = Some ch \<and> gr_channels g' nm = Some ch \<and>
        (\<forall>ch0. gr_channels g nm = Some ch0 \<longrightarrow> ch0 = ch \<and> g' = g))
     else c = None \<and> g' = g"
  using assms
  by (cases "gr_channels g nm"; auto simp: channel_for_target_def make_object_def known_target_def Let_def find_None_iff
      find_Some_iff call_def split: option.splits)+

text \<open>C17: A unary call that names a cloud target. Without a valid envelope, without the end-to-end check or with a target that is neither
  configured nor open, it is refused with an error status: the response stays and no call leaves. Otherwise the caller gets
  exactly the status and response of one call on the target's channel, with the same envelope and no target name, and the channel is kept
  in the table, an open one unchanged. In both cases nothing is counted and the vehicle network of this gateway is not called.\<close>

theorem grpc_cloud_call:
  assumes "return_codes_distinct R" and "req_cloud_target_name request \<noteq> []"
    and "UnarySomeIp A R L E request response g = (st, resp, g')" and "nm = req_cloud_target_name request"
  shows "gw_stats g' = gw_stats g \<and> filter vehicle_call (gw_io g') = filter vehicle_call (gw_io g) \<and>
    (if accepted_message A E request g \<noteq> None \<and> known_target nm g
     then \<exists>ch h. gr_channels g' nm = Some ch \<and> (\<forall>ch0. gr_channels g nm = Some ch0 \<longrightarrow> ch0 = ch) \<and>
       gw_io g' = h @ [External (Grpc_stub_UnarySomeIp ch (request\<lparr>req_cloud_target_name := []\<rparr>))] \<and>
       filter stub_call h = filter stub_call (gw_io g) \<and>
       (st, resp) = stub_answer L h ch (request\<lparr>req_cloud_target_name := []\<rparr>)
     else status_code st \<noteq> SC_OK \<and> resp = response \<and> filter stub_call (gw_io g') = filter stub_call (gw_io g))"
proof (cases "accepted_message A E request g")
  case None
  with UnarySomeIp_not_accepted [OF assms(1) None assms(3)] show ?thesis by simp
next
  case (Some m)
  obtain vr g1 where v: "Grpc_e2e_validate E m g = (vr, g1)" by fastforce
  obtain c g2 where c: "channel_for_target L E nm g1 = (c, g2)" by fastforce
  note f1 = Grpc_validate_frame [OF v] and f2 = channel_for_target_cases [OF c]
  have k: "known_target nm g1 = known_target nm g" using f1 by (simp add: known_target_def)
  have u: "unary_dispatch A R L E request m response g1 = (st, resp, g')"
    using assms(3) UnarySomeIp_accepted [OF Some] v by simp
  show ?thesis
  proof (cases "known_target nm g")
    case False
    with u c f1 f2 k assms(2,4) Some show ?thesis by (auto simp: unary_dispatch_def)
  next
    case True
    with f2(4) k obtain ch where ch: "c = Some ch" "gr_channels g2 nm = Some ch"
      "\<forall>ch0. gr_channels g1 nm = Some ch0 \<longrightarrow> ch0 = ch" by auto
    have "st = fst (stub_answer L (gw_io g2) ch (request\<lparr>req_cloud_target_name := []\<rparr>))"
      "resp = snd (stub_answer L (gw_io g2) ch (request\<lparr>req_cloud_target_name := []\<rparr>))"
      "g' = call (External (Grpc_stub_UnarySomeIp ch (request\<lparr>req_cloud_target_name := []\<rparr>))) g2"
      using u c ch(1) assms(2,4) by (auto simp: unary_dispatch_def Let_def split: prod.splits)
    with True ch f1 f2 Some show ?thesis by (auto simp: call_def intro!: exI [of _ ch] exI [of _ "gw_io g2"])
  qed
qed

text \<open>A call of the sample gateway for a target the configuration has.\<close>

definition sample_cloud_target :: GrpcCloudTarget where
  "sample_cloud_target = \<lparr>target_name = ''fleet'', target_grpc_uri = ''fleet:443'',
     target_tls = \<lparr>cl_enabled = False, cl_root_ca_pem_path = [], cl_client_cert_chain_pem_path = [],
       cl_client_private_key_pem_path = [], cl_target_authority_override = []\<rparr>\<rparr>"

definition sample_edge :: "(ref_message, unit) GrpcGateway" where
  "sample_edge = sample_grpc\<lparr>gr_config := (gr_config sample_grpc)\<lparr>gc_cloud_targets := [sample_cloud_target]\<rparr>,
     gr_channels := Map.empty\<rparr>"

definition sample_cloud_request :: UnaryRpcRequest where
  "sample_cloud_request = sample_grpc_request\<lparr>req_cloud_target_name := ''fleet''\<rparr>"

lemma sample_cloud_facts:
  "req_cloud_target_name sample_cloud_request \<noteq> []" "known_target (req_cloud_target_name sample_cloud_request) sample_edge"
  "accepted_message ref_api sample_grpc_env sample_cloud_request sample_edge \<noteq> None"
  by (simp_all add: sample_cloud_request_def known_target_def sample_edge_def sample_cloud_target_def accepted_message_def
      sample_grpc_request_def envelope_to_message_def SomeIpEnvelope_default_def ref_simps Grpc_e2e_validate_def Let_def)

theorem grpc_cloud_call_witness:
  "\<exists>st resp g' ch h. UnarySomeIp ref_api ref_codes sample_grpc_lib sample_grpc_env sample_cloud_request \<lparr>resp_envelope = None\<rparr>
       sample_edge = (st, resp, g') \<and>
     gw_stats g' = gw_stats sample_edge \<and>
     gw_io g' = h @ [External (Grpc_stub_UnarySomeIp ch (sample_cloud_request\<lparr>req_cloud_target_name := []\<rparr>))] \<and>
     (st, resp) = stub_answer sample_grpc_lib h ch (sample_cloud_request\<lparr>req_cloud_target_name := []\<rparr>)"
proof -
  obtain st resp g' where u: "UnarySomeIp ref_api ref_codes sample_grpc_lib sample_grpc_env sample_cloud_request
      \<lparr>resp_envelope = None\<rparr> sample_edge = (st, resp, g')" by (metis prod_cases3)
  from grpc_cloud_call [OF ref_codes_distinct sample_cloud_facts(1) u refl] sample_cloud_facts(2,3) u
  show ?thesis by auto
qed

text \<open>The channel leads to another gateway: its stub answers what that gateway answers to the same request.\<close>

definition leads_to ::
  "('m, 'c) grpc_lib \<Rightarrow> handle \<Rightarrow> (UnaryRpcRequest \<Rightarrow> UnaryRpcResponse \<Rightarrow> Status \<times> UnaryRpcResponse \<times> 'g) \<Rightarrow> bool" where
  "leads_to L ch remote \<longleftrightarrow>
     (\<forall>h req. stub_answer L h ch req =
        (case remote req \<lparr>resp_envelope = None\<rparr> of (st, resp, g) \<Rightarrow> (st, resp)))"

lemma unary_dispatch_local:
  assumes "req_cloud_target_name request = []" and "return_codes_distinct R"
    and "unary_dispatch A R L E request m response g = (st, resp, g')"
  shows "filter stub_call (gw_io g') = filter stub_call (gw_io g) \<and>
    filter vehicle_call (gw_io g') = filter vehicle_call (gw_io g) @
      (if status_code st = SC_OK
       then [RpcClient_call_method_sync (gr_rpc_client g) (get_service_id A m) (get_method_id A m) (get_payload A m)] else [])"
  using assms(1,3) error_status [OF assms(2)]
  by (auto simp: unary_dispatch_def unary_local_def unary_call_def call_bool_def Grpc_e2e_protect_def invalid_argument_def
      record_someip_to_external_def call_def Let_def split: option.splits prod.splits if_splits)

text \<open>C16: Two gRPC gateways in a row. A call for an open channel that leads to a second gateway is answered by what that gateway answers to
  the same envelope, and the call ends there: the second gateway calls no further stub, and it makes one call on its own vehicle
  network, with the service, method and payload of the envelope, exactly when the caller is told OK.\<close>

theorem grpc_cloud_chain:
  assumes "return_codes_distinct R" and "req_cloud_target_name request \<noteq> []"
    and "gr_channels g (req_cloud_target_name request) = Some ch" and "accepted_message A E request g \<noteq> None"
    and "leads_to L ch (\<lambda>req resp. UnarySomeIp A R L' E' req resp cloud)"
    and "UnarySomeIp A R L E request response g = (st, resp, g')"
  shows "\<exists>cloud'. UnarySomeIp A R L' E' (request\<lparr>req_cloud_target_name := []\<rparr>) \<lparr>resp_envelope = None\<rparr> cloud = (st, resp, cloud') \<and>
    filter stub_call (gw_io cloud') = filter stub_call (gw_io cloud) \<and>
    filter vehicle_call (gw_io cloud') = filter vehicle_call (gw_io cloud) @
      (if status_code st = SC_OK
       then case envelope_to_message A (the (req_envelope request)) (Message_default A) of (ok, m) \<Rightarrow>
         [RpcClient_call_method_sync (gr_rpc_client cloud) (get_service_id A m) (get_method_id A m) (get_payload A m)]
       else []) \<and>
    filter vehicle_call (gw_io g') = filter vehicle_call (gw_io g)"
proof -
  let ?fwd = "request\<lparr>req_cloud_target_name := []\<rparr>"
  obtain m where m: "accepted_message A E request g = Some m" using assms(4) by auto
  obtain vr g1 where v: "Grpc_e2e_validate E m g = (vr, g1)" by fastforce
  obtain st' resp' cloud' where r: "UnarySomeIp A R L' E' ?fwd \<lparr>resp_envelope = None\<rparr> cloud = (st', resp', cloud')"
    by (metis prod_cases3)
  have a: "stub_answer L h ch ?fwd = (st', resp')" for h
    using assms(5) r by (simp add: leads_to_def)
  have d: "unary_dispatch A R L E request m response g1 = (st, resp, g')"
    using assms(6) UnarySomeIp_accepted [OF m] v by simp
  have s: "st = st'" "resp = resp'" "filter vehicle_call (gw_io g') = filter vehicle_call (gw_io g)"
    using d a assms(2,3) Grpc_validate_frame [OF v] by (auto simp: unary_dispatch_def channel_for_target_def call_def Let_def)
  show ?thesis
  proof (cases "accepted_message A E' ?fwd cloud")
    case None
    with UnarySomeIp_not_accepted [OF assms(1) None r] r s show ?thesis by auto
  next
    case (Some m')
    obtain vr' c1 where v': "Grpc_e2e_validate E' m' cloud = (vr', c1)" by fastforce
    have d': "unary_dispatch A R L' E' ?fwd m' \<lparr>resp_envelope = None\<rparr> c1 = (st', resp', cloud')"
      using r UnarySomeIp_accepted [OF Some] v' by simp
    have e: "envelope_to_message A (the (req_envelope request)) (Message_default A) = (True, m')"
      using Some by (auto simp: accepted_message_def split: option.splits prod.splits if_splits)
    show ?thesis
      using unary_dispatch_local [OF _ assms(1) d'] Grpc_validate_frame [OF v'] r s e by auto
  qed
qed

text \<open>The sample gateway as the cloud side of another one.\<close>

definition sample_chain_lib :: "(ref_message, unit) grpc_lib" where
  "sample_chain_lib = sample_grpc_lib\<lparr>stub_answer := (\<lambda>h ch req.
     case UnarySomeIp ref_api ref_codes sample_grpc_lib sample_grpc_env req \<lparr>resp_envelope = None\<rparr> sample_grpc of
       (st, resp, g) \<Rightarrow> (st, resp))\<rparr>"

definition sample_linked :: "(ref_message, unit) GrpcGateway" where
  "sample_linked = sample_edge\<lparr>gr_channels := [''fleet'' \<mapsto> 5]\<rparr>"

theorem grpc_cloud_chain_witness:
  "\<exists>st resp g' cloud'. UnarySomeIp ref_api ref_codes sample_chain_lib sample_grpc_env sample_cloud_request \<lparr>resp_envelope = None\<rparr>
       sample_linked = (st, resp, g') \<and>
     UnarySomeIp ref_api ref_codes sample_grpc_lib sample_grpc_env sample_grpc_request \<lparr>resp_envelope = None\<rparr> sample_grpc =
       (st, resp, cloud')"
proof -
  obtain st resp g' where u: "UnarySomeIp ref_api ref_codes sample_chain_lib sample_grpc_env sample_cloud_request
      \<lparr>resp_envelope = None\<rparr> sample_linked = (st, resp, g')" by (metis prod_cases3)
  have c: "gr_channels sample_linked (req_cloud_target_name sample_cloud_request) = Some 5"
    by (simp add: sample_linked_def sample_cloud_request_def)
  have a: "accepted_message ref_api sample_grpc_env sample_cloud_request sample_linked \<noteq> None"
    using sample_cloud_facts(3) by (simp add: sample_linked_def accepted_message_def Grpc_e2e_validate_def sample_edge_def
        split: option.splits prod.splits)
  have l: "leads_to sample_chain_lib 5
      (\<lambda>req resp. UnarySomeIp ref_api ref_codes sample_grpc_lib sample_grpc_env req resp sample_grpc)"
    by (simp add: leads_to_def sample_chain_lib_def)
  have f: "sample_cloud_request\<lparr>req_cloud_target_name := []\<rparr> = sample_grpc_request"
    by (simp add: sample_cloud_request_def sample_grpc_request_def)
  from grpc_cloud_chain [OF ref_codes_distinct sample_cloud_facts(1) c a l u] u show ?thesis
    unfolding f by blast
qed


subsection \<open>An event across iceoryx2\<close>

lemma mode_sample_parses:
  fixes A :: "'m message_api"
  assumes "serializer_laws S e at" and "md \<in> {OPAQUE, TYPED}"
    and "p = (if md = TYPED then payload_to_json A m else get_payload A m)" and "length p \<le> 16 * 1024 * 1024"
  shows "\<exists>env. parse_sample S (someip_to_sample A S m iid md) = Some env \<and> env_service_id env = get_service_id A m \<and>
    env_instance_id env = iid \<and> env_method_or_event_id env = get_method_id A m \<and> env_message_type env = get_message_type A m \<and>
    env_payload env = p"
  using iceoryx2_sample_round_trip [OF assms(1-3), of iid] assms(4) by simp

text \<open>C8: An event crosses iceoryx2. A notification that one gateway accepts leaves it as one sample, handed to the hook under the name of
  its mapping. Injected into a second gateway that maps the service in the other direction and has a publisher for it, the sample is
  published as the same event with the same payload, once; both gateways count it. In typed mode what arrives is the JSON document
  that was made of the payload: the receiver does not turn it into the payload again.\<close>

theorem iceoryx2_event_crosses:
  fixes A :: "'m message_api"
  assumes "message_laws A" and "serializer_laws S e at"
    and "gw_running ga" and "ix_outbound_hook ga" and "get_message_type A msg = mt_NOTIFICATION A"
    and "Iceoryx2_find_mapping (get_service_id A msg) ga = Some m" and "should_forward_to_external m" and "mode m \<in> {OPAQUE, TYPED}"
    and "p = (if mode m = TYPED then payload_to_json A msg else get_payload A msg)" and "length p \<le> 16 * 1024 * 1024"
    and "find_mapping_for_service (get_service_id A msg) (someip_instance_id m) gb = Some m'" and "should_forward_to_someip m'"
    and "RBT.lookup (ix_event_publishers gb) (get_service_id A msg, someip_instance_id m) = Some h"
    and "\<not> gw_external_message_callback gb"
  shows "\<exists>ga' nm smp. Iceoryx2_on_someip_message A S msg ga = (SUCCESS, ga') \<and>
    gw_io ga' = gw_io ga @ [External (Outbound_hook nm smp)] \<and>
    messages_someip_to_external (gw_stats ga') = messages_someip_to_external (gw_stats ga) + 1 \<and>
    inject_iceoryx2_sample A S E nm smp gb =
      gb\<lparr>gw_io := gw_io gb @ [EventPublisher_publish_event h (get_method_id A msg) p],
         gw_stats := (gw_stats gb)\<lparr>
           messages_external_to_someip := messages_external_to_someip (gw_stats gb) + 1,
           bytes_external_to_someip := bytes_external_to_someip (gw_stats gb) + word_of_nat (length p)\<rparr>\<rparr>"
proof -
  let ?smp = "someip_to_sample A S msg (someip_instance_id m) (mode m)"
  obtain nm where i: "ix_item A S ga msg = Some (nm, ?smp)"
    using assms(6,7) by (simp add: ix_item_def)
  have "ix_result A ga msg = SUCCESS" using assms(6) by (simp add: ix_result_def)
  with Iceoryx2_message_step [OF assms(3), of A S msg] i
  have o: "Iceoryx2_on_someip_message A S msg ga = (SUCCESS, ix_emit (nm, ?smp) ga)" by simp
  obtain env where e: "parse_sample S ?smp = Some env" "env_service_id env = get_service_id A msg"
    "env_instance_id env = someip_instance_id m" "env_method_or_event_id env = get_method_id A msg"
    "env_message_type env = get_message_type A msg" "env_payload env = p"
    using mode_sample_parses [OF assms(2,8,9,10)] by blast
  have p: "get_payload A (envelope_to_someip A env) = p"
    using assms(1) e(6) by (simp add: envelope_to_someip_def Let_def json_to_payload_def)
  have "inject_iceoryx2_sample A S E nm ?smp gb =
      record_external_to_someip (length p) (call (EventPublisher_publish_event h (get_method_id A msg) p) gb)"
    using assms(5,11-14) e p
    by (simp add: inject_iceoryx2_sample_def handle_incoming_envelope_def Iceoryx2_inbound_event_def record_external_to_someip_def
        call_def Let_def)
  with o assms(4) show ?thesis
    by (auto simp: ix_emit_def record_external_to_someip_def call_def run_fetch_adds_def steps_someip_to_external_def
        intro!: exI [of _ nm] exI [of _ ?smp])
qed

text \<open>A notification of the sample service, received by a gateway with a publisher for it.\<close>

definition sample_ix_event :: ref_message where
  "sample_ix_event = sample_ix_request\<lparr>ref_type := 2, ref_method := 0x8001\<rparr>"

definition sample_ix_peer :: "(ref_message, unit) Iceoryx2Gateway" where
  "sample_ix_peer = sample_ix\<lparr>ix_event_publishers := RBT.insert (0x1234, 1) 6 RBT.empty\<rparr>"

theorem iceoryx2_event_crosses_witness:
  "\<exists>nm smp. gw_io (snd (Iceoryx2_on_someip_message ref_api ref_serializer sample_ix_event sample_ix)) = [External (Outbound_hook nm smp)] \<and>
     gw_io (inject_iceoryx2_sample ref_api ref_serializer ref_env nm smp sample_ix_peer) =
       [EventPublisher_publish_event 6 0x8001 [1, 2, 3]]"
proof -
  have q: "get_service_id ref_api sample_ix_event = 0x1234" "get_method_id ref_api sample_ix_event = 0x8001"
    "get_payload ref_api sample_ix_event = [1, 2, 3]" "get_message_type ref_api sample_ix_event = mt_NOTIFICATION ref_api"
    by (simp_all add: sample_ix_event_def sample_ix_request_def ref_simps)
  have m: "Iceoryx2_find_mapping (get_service_id ref_api sample_ix_event) sample_ix = Some sample_ix_mapping"
    by (simp add: q Iceoryx2_find_mapping_def find_mapping_for_service_def sample_ix_mapping_def)
  have d: "should_forward_to_external sample_ix_mapping" "should_forward_to_someip sample_ix_mapping"
    "mode sample_ix_mapping = OPAQUE" "someip_instance_id sample_ix_mapping = 1" "someip_service_id sample_ix_mapping = 0x1234"
    by (simp_all add: sample_ix_mapping_def should_forward_to_external_def should_forward_to_someip_def)
  have b: "find_mapping_for_service (get_service_id ref_api sample_ix_event) (someip_instance_id sample_ix_mapping) sample_ix_peer =
      Some sample_ix_mapping"
    "RBT.lookup (ix_event_publishers sample_ix_peer) (get_service_id ref_api sample_ix_event, someip_instance_id sample_ix_mapping) =
      Some 6"
    "\<not> gw_external_message_callback sample_ix_peer" "gw_io sample_ix_peer = []"
    by (simp_all add: q d find_mapping_for_service_def sample_ix_peer_def)
  have md: "mode sample_ix_mapping \<in> {OPAQUE, TYPED}"
    "get_payload ref_api sample_ix_event = (if mode sample_ix_mapping = TYPED then payload_to_json ref_api sample_ix_event
       else get_payload ref_api sample_ix_event)" "length (get_payload ref_api sample_ix_event) \<le> 16 * 1024 * 1024"
    by (simp_all add: d q)
  from iceoryx2_event_crosses [OF ref_api_laws ref_serializer_laws sample_ix_simps(1,2) q(4) m d(1) md b(1) d(2) b(2,3), of ref_env]
  show ?thesis by (auto simp: q b(4))
qed


subsection \<open>A ROS 2 topic in both directions\<close>

lemma Ros2_add_subscriptions_subs:
  "r2_subs (fold Ros2_add_subscription ms g) =
     r2_subs g @ map external_identifier (filter (\<lambda>m. should_forward_to_someip m \<and> external_identifier m \<noteq> []) ms)"
  by (induction ms arbitrary: g) (simp_all add: Ros2_add_subscription_def call_def Let_def)

lemma Ros2_impl_start_subs:
  assumes "r2_node (Ros2_impl_start E g)"
  shows "r2_subs (Ros2_impl_start E g) =
    map external_identifier (filter (\<lambda>m. should_forward_to_someip m \<and> external_identifier m \<noteq> []) (gw_service_mappings g))"
  using assms
  by (auto simp: Ros2_impl_start_def Ros2_add_subscriptions_subs get_service_mappings_def call_def Let_def split: if_splits)

text \<open>What the steps of \<open>start\<close> keep.\<close>

definition ros_setup :: "('m, 'c) Ros2Gateway \<Rightarrow> ServiceMapping list \<times> 'c Ros2Config \<times> bool" where
  "ros_setup g = (gw_service_mappings g, r2_config g, side_outbound_sink g)"

lemma ros_setup_call_table [simp]: "ros_setup (call_table f order tbl g) = ros_setup g"
  by (induction order arbitrary: g) (simp_all add: call_table_def ros_setup_def call_on_def call_def split: option.split)

lemma ros_setup_steps [simp]:
  "ros_setup (call ev g) = ros_setup g" "ros_setup (call_on f p g) = ros_setup g" "ros_setup (set_running E b g) = ros_setup g"
  "ros_setup (Ros2_create_rpc_client E g) = ros_setup g" "ros_setup (Ros2_create_sd E g) = ros_setup g"
  "ros_setup (snd (side_ensure_event_subscriber E c g)) = ros_setup g"
  "ros_setup (Ros2_enable_someip_udp_bridge E g) = ros_setup g"
  by (simp_all add: ros_setup_def call_def call_on_def set_running_def Ros2_create_rpc_client_def Ros2_create_sd_def
      side_ensure_event_subscriber_def Ros2_enable_someip_udp_bridge_def side_enable_someip_udp_bridge_def Let_def split: option.split)

lemma ros_setup_impl_start [simp]: "ros_setup (Ros2_impl_start E g) = ros_setup g"
  using Ros2_impl_start_frame [of E g] by (auto simp: ros_setup_def)

lemma Ros2_start_subscribes:
  assumes "Ros2_start E sv pb g = (SUCCESS, g1)"
  shows "ros_setup g1 = ros_setup g \<and> gw_running g1 \<and>
    (r2_node g1 \<longrightarrow> r2_subs g1 =
       map external_identifier (filter (\<lambda>m. should_forward_to_someip m \<and> external_identifier m \<noteq> []) (gw_service_mappings g)))"
proof -
  obtain g8 where g8: "g1 = set_running E True (Ros2_impl_start E g8)" "ros_setup g8 = ros_setup g"
    using assms by (auto simp: Ros2_start_def Ros2_started_def Let_def split: option.splits if_splits)
  then have "gw_service_mappings g8 = gw_service_mappings g" by (simp add: ros_setup_def)
  with g8 Ros2_impl_start_subs [of E g8] show ?thesis
    unfolding g8(1) ros_setup_steps ros_setup_impl_start by (simp add: set_running_def call_def Let_def)
qed

lemma Ros2_start_node:
  assumes "Ros2_start E sv pb g = (SUCCESS, g1)" and "\<And>h. answer_bool E h (External Rclcpp_ok)"
  shows "r2_node g1"
proof -
  have "r2_node (set_running E True (Ros2_impl_start E g'))" for g'
    using Ros2_impl_start_frame [of E g'] assms(2) by (auto simp: set_running_def call_def Let_def)
  with assms(1) show ?thesis
    by (auto simp: Ros2_start_def Ros2_started_def Let_def split: option.splits if_splits)
qed

lemma inject_one_request:
  assumes "message_laws A" and "gw_running g" and "\<not> rc_use_e2e (r2_config g)" and "find_mapping_by_ros_topic t g = Some m"
    and "should_forward_to_someip m"
  shows "\<exists>req. gw_io (snd (inject_ros2_message A E t pl g)) = gw_io g @
      (case side_rpc_client g of
         Some h \<Rightarrow> [RpcClient_call_method_sync h (someip_service_id m) (command_method_for_mapping m) pl]
       | None \<Rightarrow> if side_outbound_sink g then [Outbound_sink req] else []) \<and>
    get_service_id A req = someip_service_id m \<and> get_method_id A req = command_method_for_mapping m \<and>
    get_message_type A req = mt_REQUEST A \<and> get_payload A req = pl"
    and "messages_someip_to_external (gw_stats (snd (inject_ros2_message A E t pl g))) = messages_someip_to_external (gw_stats g)"
    and "messages_external_to_someip (gw_stats (snd (inject_ros2_message A E t pl g))) = messages_external_to_someip (gw_stats g) + 1"
  using assms
  by (auto simp: inject_ros2_message_def is_running_def Ros2_e2e_protect_def convert_ros2_bytes_to_someip_def
      record_external_to_someip_def emit_to_sink_def call_def Let_def split: option.splits
      intro: exI [of _ "set_payload A pl (Message_ctor_rc A (someip_service_id m, command_method_for_mapping m)
        (rc_rpc_client_id (r2_config g), r2_session g) (mt_REQUEST A) (rc_E_OK A))"])

lemma publish_with_node:
  assumes "r2_node g"
  shows "\<exists>h hist p. publish_to_ros2_side E t q b g = g\<lparr>gw_io := hist @ [External (Rclcpp_publish h b)], r2_pubs := p\<rparr> \<and>
    p t = Some h"
proof (cases "r2_pubs g t")
  case None
  with assms show ?thesis
    by (intro exI [of _ "answer_new E (gw_io g)"] exI [of _ "gw_io g @ [External (Rclcpp_create_publisher t (qos_from_profile q))]"]
        exI [of _ "(r2_pubs g)(t \<mapsto> answer_new E (gw_io g))"])
      (simp add: publish_to_ros2_side_def Ros2_impl_publish_def call_def Let_def)
next
  case (Some h)
  with assms show ?thesis
    by (intro exI [of _ h] exI [of _ "gw_io g"] exI [of _ "r2_pubs g"])
      (simp add: publish_to_ros2_side_def Ros2_impl_publish_def call_def)
qed

text \<open>C28: A bidirectional mapping with a topic name is an echo. After a start with a node the gateway subscribes the very topic it
  publishes the mapping's messages on, and a sample from there becomes a SOME/IP request of the same service: the payload of a message that
  the gateway published itself, delivered to its own subscription as rclcpp does by default, leaves again as a call of the mapping's
  first method (1 without methods), to the RPC client or the sink, and both directions are counted. This needs a host that spins the
  node; the gateway does not.\<close>

theorem ros2_bidirectional_echo:
  assumes "message_laws A" and "\<not> rc_use_e2e (r2_config g)" and "Ros2_start E sv pb g = (SUCCESS, g1)" and "r2_node g1"
    and "find_inbound_mapping (get_service_id A msg) (rc_default_someip_instance_id (r2_config g)) g = Some m"
    and "direction m = BIDIRECTIONAL" and "external_identifier m \<noteq> []"
    and "find_mapping_by_ros_topic (external_identifier m) g = Some m"
    and "Ros2_on_someip_message A E msg g1 = (r, g2)"
    and "g3 = Ros2_on_subscription A E (external_identifier m) (Some (get_payload A msg)) g2"
  shows "r = SUCCESS \<and> external_identifier m \<in> set (r2_subs g2) \<and>
    (\<exists>h hist. r2_pubs g2 (external_identifier m) = Some h \<and>
      gw_io g2 = hist @ [External (Rclcpp_publish h (get_payload A msg))]) \<and>
    (\<exists>req. gw_io g3 = gw_io g2 @
       (case side_rpc_client g1 of
          Some h \<Rightarrow> [RpcClient_call_method_sync h (someip_service_id m) (command_method_for_mapping m) (get_payload A msg)]
        | None \<Rightarrow> if side_outbound_sink g then [Outbound_sink req] else []) \<and>
       get_service_id A req = someip_service_id m \<and> get_method_id A req = command_method_for_mapping m \<and>
       get_message_type A req = mt_REQUEST A \<and> get_payload A req = get_payload A msg) \<and>
    messages_someip_to_external (gw_stats g3) = messages_someip_to_external (gw_stats g1) + 1 \<and>
    messages_external_to_someip (gw_stats g3) = messages_external_to_someip (gw_stats g1) + 1"
proof -
  have f: "should_forward_to_someip m" "should_forward_to_external m"
    using assms(6) by (simp_all add: should_forward_to_someip_def should_forward_to_external_def)
  from Ros2_start_subscribes [OF assms(3)] assms(4) have s: "gw_service_mappings g1 = gw_service_mappings g" "r2_config g1 = r2_config g"
    "side_outbound_sink g1 = side_outbound_sink g" "gw_running g1"
    "r2_subs g1 = map external_identifier (filter (\<lambda>m. should_forward_to_someip m \<and> external_identifier m \<noteq> []) (gw_service_mappings g))"
    by (simp_all add: ros_setup_def)
  have m: "m \<in> set (gw_service_mappings g)"
    using assms(8) by (auto simp: find_mapping_by_ros_topic_def find_mapping_if_def find_Some_iff)
  have i: "find_inbound_mapping (get_service_id A msg) (rc_default_someip_instance_id (r2_config g1)) g1 = Some m"
    "find_mapping_by_ros_topic (external_identifier m) g1 = Some m"
    using assms(5,8) s(1,2) by (simp_all add: find_inbound_mapping_def find_mapping_for_service_def find_mapping_by_ros_topic_def
        find_mapping_if_def cong: option.case_cong)
  define p where "p = publish_to_ros2_side E (external_identifier m)
    (qos_for_someip_transport (rc_default_someip_transport (r2_config g1))) (get_payload A msg) g1"
  obtain h hist q where p1: "p = g1\<lparr>gw_io := hist @ [External (Rclcpp_publish h (get_payload A msg))], r2_pubs := q\<rparr>"
    "q (external_identifier m) = Some h"
    using publish_with_node [OF assms(4)] unfolding p_def by blast
  have o: "r = SUCCESS" "g2 = record_someip_to_external (length (get_payload A msg)) p"
    using assms(2,7,9) f(2) s i(1)
    by (auto simp: Ros2_on_someip_message_def is_running_def side_e2e_validate_def route_someip_to_ros2_topic_def
        convert_someip_to_ros2_bytes_def p_def Let_def split: option.splits)
  have g2: "gw_running g2" "gw_service_mappings g2 = gw_service_mappings g1" "r2_config g2 = r2_config g1"
    "side_rpc_client g2 = side_rpc_client g1" "side_outbound_sink g2 = side_outbound_sink g1" "r2_subs g2 = r2_subs g1"
    "gw_io g2 = hist @ [External (Rclcpp_publish h (get_payload A msg))]" "r2_pubs g2 (external_identifier m) = Some h"
    "gw_stats g2 = (gw_stats g1)\<lparr>messages_someip_to_external := messages_someip_to_external (gw_stats g1) + 1,
       bytes_someip_to_external := bytes_someip_to_external (gw_stats g1) + word_of_nat (length (get_payload A msg))\<rparr>"
    unfolding o(2) record_someip_to_external_def
    by (subst p1(1); use p1(2) s(4) in simp)+
  have "find_mapping_by_ros_topic (external_identifier m) g2 = Some m"
    using i(2) g2(2) by (simp add: find_mapping_by_ros_topic_def find_mapping_if_def)
  note this assms(2) s(2) g2(3) f(1)
  then have j: "gw_io g3 = gw_io (snd (inject_ros2_message A E (external_identifier m) (get_payload A msg) g2))"
    "gw_stats g3 = gw_stats (snd (inject_ros2_message A E (external_identifier m) (get_payload A msg) g2))"
    "\<not> rc_use_e2e (r2_config g2)" "find_mapping_by_ros_topic (external_identifier m) g2 = Some m"
    by (simp_all add: assms(10) Ros2_on_subscription_def)
  have "external_identifier m \<in> set (r2_subs g2)" using m f(1) assms(7) g2(6) s(5) by auto
  moreover have "\<exists>req. gw_io g3 = gw_io g2 @
       (case side_rpc_client g1 of
          Some h \<Rightarrow> [RpcClient_call_method_sync h (someip_service_id m) (command_method_for_mapping m) (get_payload A msg)]
        | None \<Rightarrow> if side_outbound_sink g then [Outbound_sink req] else []) \<and>
       get_service_id A req = someip_service_id m \<and> get_method_id A req = command_method_for_mapping m \<and>
       get_message_type A req = mt_REQUEST A \<and> get_payload A req = get_payload A msg"
    using inject_one_request(1) [OF assms(1) g2(1) j(3,4) f(1), of E "get_payload A msg"] unfolding j(1) g2(4,5) s(3) .
  moreover have "messages_someip_to_external (gw_stats g3) = messages_someip_to_external (gw_stats g1) + 1"
    "messages_external_to_someip (gw_stats g3) = messages_external_to_someip (gw_stats g1) + 1"
    using inject_one_request(2,3) [OF assms(1) g2(1) j(3,4) f(1), of E "get_payload A msg"] unfolding j(2) g2(9) by simp_all
  ultimately show ?thesis using o(1) g2(7,8) by blast
qed

text \<open>The sample gateway, started in a process where rclcpp runs.\<close>

theorem ros2_bidirectional_echo_witness:
  "\<exists>g1 g2 req. Ros2_start ref_env [] [] sample_ros2 = (SUCCESS, g1) \<and> ''/radar'' \<in> set (r2_subs g2) \<and>
     Ros2_on_someip_message ref_api ref_env sample_ros2_event g1 = (SUCCESS, g2) \<and>
     gw_io (Ros2_on_subscription ref_api ref_env ''/radar'' (Some [9, 8]) g2) =
       gw_io g2 @ (case side_rpc_client g1 of
          Some h \<Rightarrow> [RpcClient_call_method_sync h 0x1234 0x42 [9, 8]] | None \<Rightarrow> [Outbound_sink req])"
proof -
  let ?m = "\<lparr>someip_service_id = 0x1234, someip_instance_id = 1, someip_method_ids = [0x42], someip_event_group_ids = [],
         external_identifier = ''/radar'', direction = BIDIRECTIONAL, mode = OPAQUE\<rparr>"
  have g: "gw_service_mappings sample_ros2 = [?m]" "side_outbound_sink sample_ros2"
    by (simp_all add: sample_ros2_def add_service_mapping_def Ros2Gateway_new_def)
  have "fst (Ros2_start ref_env [] [] sample_ros2) = SUCCESS"
    by (simp add: Ros2_start_def Let_def ref_env_def split: option.split)
  then obtain g1 where s: "Ros2_start ref_env [] [] sample_ros2 = (SUCCESS, g1)" by (metis prod.collapse)
  have n: "r2_node g1" using Ros2_start_node [OF s] by (simp add: ref_env_def)
  have m: "find_inbound_mapping (get_service_id ref_api sample_ros2_event)
      (rc_default_someip_instance_id (r2_config sample_ros2)) sample_ros2 = Some ?m"
    "find_mapping_by_ros_topic (external_identifier ?m) sample_ros2 = Some ?m"
    using g by (simp_all add: find_inbound_mapping_def find_mapping_for_service_def find_mapping_by_ros_topic_def find_mapping_if_def
        ros_topic_matches_iff sample_ros2_event_def notification_message_rc_def ref_api_laws)
  have d: "direction ?m = BIDIRECTIONAL" "external_identifier ?m \<noteq> []" by simp_all
  obtain r g2 where o: "Ros2_on_someip_message ref_api ref_env sample_ros2_event g1 = (r, g2)" by fastforce
  from ros2_bidirectional_echo [OF ref_api_laws sample_ros2_ready(3) s n m(1) d m(2) o refl] s o g(2)
  show ?thesis by (auto simp: command_method_for_mapping_def cong: option.case_cong)
qed

end
