(* ===== verification/Spec2Isabelle.thy ===== *)
theory Spec2Isabelle
  imports Mqtt_Threads Introspection_Document Example_Programs Zenoh_Gateway Portable_Builds Gateway_Chains
begin

text \<open>
  \<^bold>\<open>Verification of the OpenSOME/IP gateways.\<close>

  The program bridges SOME/IP to seven middlewares. \<open>common/\<close> has the configuration enumerations, the
  base class every gateway inherits and the common message translator; each \<open>gateway-<x>/\<close> has a
  translator (names, payload encodings, quality of service) and a gateway class that owns transports,
  service discovery, RPC and event objects of the opensomeip library and the objects of its middleware.
  A host or a UDP listener hands SOME/IP messages to \<open>on_someip_message\<close>; the middleware's callbacks
  hand external messages to the inbound functions; \<open>start\<close> and \<open>stop\<close> create and release the objects.

  \<^bold>\<open>Theories and sources.\<close>
  \<^item> \<open>Gateway_Prelude\<close>: machine integers, C++ strings and number conversions (\<open>std::stoul\<close>, stream
    output, \<open>std::string::find\<close>), the collections of simplification rules.
  \<^item> \<open>Someip_Api\<close>: the opensomeip library as a parameter (see below).
  \<^item> \<open>Config\<close>: \<open>common/src/config.cpp\<close>. \<open>Gateway_Base\<close>: \<open>common/src/gateway_base.cpp\<close> and its header.
    \<open>Translator\<close>: \<open>common/src/translator.cpp\<close>.
  \<^item> \<open>Someip_Side\<close>: the members and functions the MQTT, D-Bus, DDS and ROS 2 gateways repeat.
    \<open>Owned_Objects\<close>: the objects the Zenoh, iceoryx2 and gRPC gateways create in \<open>start\<close>.
    \<open>Bounded_Queue\<close>: the specification of a queue that drops its oldest element.
  \<^item> \<open>X_Translator\<close> and \<open>X_Gateway\<close> for \<open>X\<close> one of \<open>Mqtt\<close>, \<open>Dbus\<close>, \<open>Dds\<close>, \<open>Ros2\<close>, \<open>Zenoh\<close>, \<open>Iceoryx2\<close> and
    \<open>Grpc\<close>: \<open>gateway-<x>/src/<x>_translator.cpp\<close> and \<open>gateway-<x>/src/<x>_gateway.cpp\<close> with their headers.
  \<^item> \<open>Gateway_Lifecycle\<close>: the life cycle that the interface \<open>IGateway\<close> stands for, as an abstract machine.
    \<open>Mqtt_Threads\<close>: \<open>publish_mqtt\<close> and \<open>flush_offline_buffer\<close> again, step by step under every schedule of threads.
    \<open>Portable_Builds\<close>: the D-Bus and ROS 2 gateways as they are compiled without libsystemd and without rclcpp.
  \<^item> \<open>External_Names\<close>: the built names against the naming rules of D-Bus, ROS 2, MQTT and Zenoh.
    \<open>Wire_Formats\<close>: the JSON and CBOR documents against readers written from RFC 8259 and RFC 8949.
    \<open>Introspection_Document\<close>: the D-Bus introspection data against an XML reader and the registered table.
    \<open>Gateway_Chains\<close>: what one gateway sends as the input of another one, or of itself.
    \<open>Example_Programs\<close>: the \<open>main\<close> functions of \<open>gateway-mqtt/examples\<close>, \<open>gateway-ros2/examples\<close> and
    \<open>gateway-dds/examples\<close>, with the text they print.
  \<^item> this theory: properties of all gateways together.

  \<^bold>\<open>State and operations.\<close> A class is a record whose fields are its data members; a gateway record extends
  \<open>GatewayBase\<close>. A member function is a definition of the same name that takes the state and returns the
  result and the new state; where several classes have a function of one name the definition carries the
  gateway's name in front (\<open>Mqtt_start\<close>). An enumeration is a datatype, with a further constructor for a cast
  byte where the code can see one. Integers are words of the width of the source; sizes are naturals.
  \<open>std::map\<close> is a map, and a red-black tree where the code walks it. A lambda given to a library is a definition of
  its own (\<open>X_on_event_notification\<close>, \<open>X_rpc_handler\<close>). A function guarded by one mutex is one step;
  the statistics are atomics and modelled as single additions that any schedule may interleave.

  The preprocessor selects the bodies of two private classes: \<open>Dbus_Gateway\<close> and \<open>Ros2_Gateway\<close> have those with the
  middleware, \<open>Portable_Builds\<close> those without.

  \<^bold>\<open>Failures.\<close> A C++ exception or undefined behaviour is never hidden: \<open>None\<close> (an MQTT ring buffer of
  capacity 0 pops from an empty deque), \<open>Inl\<close> of an exception (number conversions, the Zenoh JSON decoder), and
  the \<open>outcome\<close> of the Zenoh gateway, which has an exception and an undefined case. The one loop that may
  run forever, \<open>flush_offline_buffer\<close>, is a partial function whose value \<open>None\<close> is non-termination; its
  property says exactly when it returns. Every other loop is a terminating recursion. The DDS reader thread
  and the gRPC stream loop, which run until they are stopped from outside, are modelled pass by pass.

  \<^bold>\<open>Parameters.\<close> \<open>message_api\<close> with \<open>message_laws\<close> (getters return what constructors and setters stored),
  \<open>serializer_api\<close> with \<open>serializer_laws\<close> (reading inverts writing), \<open>result_api\<close> with \<open>result_laws\<close>, the
  distinctness of the return codes, and \<open>env\<close>: every call on a library or middleware object is appended to
  the history \<open>gw_io\<close>, and the environment answers it as any function of the history. Theorems without a
  hypothesis on the environment hold for every behaviour of these libraries. \<open>ref_api\<close>, \<open>ref_serializer\<close>,
  \<open>ref_results\<close> and \<open>ref_env\<close> are instances on which the witnesses are evaluated.

  \<^bold>\<open>Interfaces.\<close> \<open>someip_forwarder\<close>, \<open>guarded_forwarder\<close> and \<open>total_forwarder\<close> are the contract of
  \<open>on_someip_message\<close>: what one message may do to the inherited state, refusal while stopped, and that it
  returns. They are interpreted by the MQTT, D-Bus, DDS, ROS 2 and iceoryx2 gateways; the Zenoh gateway satisfies the
  first only, and the gRPC gateway none of them, because it counts messages that are not notifications as inbound
  and looks at no mapping. \<open>life_cycle\<close> and \<open>total_life_cycle\<close> are the contract of \<open>start\<close>, \<open>stop\<close> and
  \<open>on_someip_message\<close> together, interpreted by all seven gateways. \<open>topic_scheme\<close> is the contract of the name builders, \<open>drop_oldest_queue\<close> that of the
  MQTT offline buffer and the iceoryx2 in-process bus.

  \<^bold>\<open>What is shown.\<close> Per gateway: which messages leave, in which order and in what form, and what is counted
  (\<open>mqtt_offline_traffic_buffered\<close>, \<open>ros2_messages_published\<close>, \<open>dbus_signals_of_messages\<close>,
  \<open>dds_success_means_written\<close>, \<open>iceoryx2_messages_delivered\<close>, \<open>grpc_streams_lossless\<close>); that messages and calls
  survive the way through the middleware (\<open>dds_sample_round_trip\<close>, \<open>zenoh_event_crosses\<close>, \<open>iceoryx2_event_crosses\<close>,
  \<open>zenoh_rpc_round_trip\<close>, \<open>iceoryx2_request_answered\<close>, \<open>grpc_unary_answered_or_refused\<close>, \<open>grpc_cloud_chain\<close>); invariants of the
  reachable states (\<open>dds_writes_only_live_writers\<close>, \<open>ros2_one_publisher_per_topic\<close>, \<open>iceoryx2_no_leak\<close>); and
  the life cycles, as a refinement of one machine for all (\<open>gateways_follow_life_cycle\<close>) and call by call in each
  gateway (\<open>mqtt_lifecycle\<close> and so on). The builds without a middleware library are equivalent to the full builds with the middleware
  switched off (\<open>dbus_portable_build\<close>, \<open>ros2_portable_build\<close>). \<open>mqtt_publishes_conserved\<close> is about every interleaving of threads that publish
  and flush. Per translator: round trips of keys, payloads and envelopes, and which names are valid for the
  middleware (\<open>dbus_names_valid\<close>, \<open>ros2_topics_valid\<close>, \<open>mqtt_zenoh_names_valid\<close>), and that the documents are what they claim to be
  (\<open>json_envelope_conforms\<close>, \<open>cbor_envelope_conforms\<close>, \<open>introspection_conforms\<close>). Per example program: what it returns, prints
  and leaves in the statistics. Several properties state where the code departs from its purpose: \<open>flush_returns_iff\<close>, \<open>cbor_payload_kept_iff_short\<close>,
  \<open>dds_start_after_failure\<close>, \<open>zenoh_message_defined\<close>, \<open>zenoh_start_needs_config_file\<close>,
  \<open>zenoh_event_direction\<close>, \<open>grpc_notification_fanout\<close>, \<open>dbus_low_services_cut_off\<close>, \<open>ros2_topics_valid\<close>, \<open>dds_peer_topics\<close>,
  \<open>mqtt_flush_races\<close>, \<open>cbor_envelope_conforms\<close> (payloads above 65535 bytes), \<open>dbus_portable_build\<close> (messages counted that go
  nowhere), \<open>ros2_bidirectional_echo\<close>.

  \<^bold>\<open>Bounds.\<close> Capacities and limits are those of the source (1024 bus items, 16 MiB envelopes, 16-bit sessions,
  64-bit counters). Lengths below \<open>2 ^ 64\<close> are assumed where the code stores a length in a \<open>size_t\<close>.

  \<^bold>\<open>Not modelled.\<close> The opensomeip library, zenoh, Cyclone DDS, rclcpp, sd-bus, gRPC and protobuf are
  separate projects and enter as parameters. The D-Bus, Zenoh, gRPC and iceoryx2 examples do not compile against the
  headers of the repository and have no behaviour. The tests run the modelled functions; documentation and build files
  have no behaviour. Functions the MQTT header declares without
  a body anywhere are absent. Outside \<open>Mqtt_Threads\<close> each operation is one step, and the histories range over every order of
  whole operations; data races between a callback and \<open>stop\<close> are not modelled. Configuration values that are only
  handed on to a library (TLS files, discovery settings) are kept as data.
\<close>


subsection \<open>Accounting in all gateways\<close>

text \<open>
  What a sequence of messages may do to the inherited state of a gateway, when it returns: the identity, the running
  flag and the mappings stay, forwarded messages and errors are bounded by the results, the inbound counters do
  not move, and nothing is counted as forwarded when no mapping of any message's service lets it out.
\<close>

definition accounted ::
  "('m \<Rightarrow> ('m, 'c, 'x, 'z) GatewayBase_scheme \<Rightarrow> (Result \<times> ('m, 'c, 'x, 'z) GatewayBase_scheme) option) \<Rightarrow>
   ('m \<Rightarrow> u16) \<Rightarrow> 'm list \<Rightarrow> ('m, 'c, 'x, 'z) GatewayBase_scheme \<Rightarrow> bool" where
  "accounted deliver service_of ms g =
     (case deliver_all deliver ms g of
        None \<Rightarrow> True
      | Some (rs, g') \<Rightarrow>
          same_base g g' \<and>
          (\<exists>k e. messages_someip_to_external (gw_stats g') = messages_someip_to_external (gw_stats g) + word_of_nat k \<and>
             translation_errors (gw_stats g') = translation_errors (gw_stats g) + word_of_nat e \<and>
             k \<le> count_list rs SUCCESS \<and> e + count_list rs SUCCESS \<le> length ms) \<and>
          messages_external_to_someip (gw_stats g') = messages_external_to_someip (gw_stats g) \<and>
          bytes_external_to_someip (gw_stats g') = bytes_external_to_someip (gw_stats g) \<and>
          (list_ex (\<lambda>m. permits_service g (service_of m)) ms \<or>
           messages_someip_to_external (gw_stats g') = messages_someip_to_external (gw_stats g) \<and>
           bytes_someip_to_external (gw_stats g') = bytes_someip_to_external (gw_stats g)))"

context someip_forwarder
begin

lemma all_messages_accounted: "accounted deliver service_of ms g"
proof (cases "deliver_all deliver ms g")
  case None
  then show ?thesis by (simp add: accounted_def)
next
  case (Some p)
  then obtain rs g' where d: "deliver_all deliver ms g = Some (rs, g')" by (cases p) simp
  have "list_ex (\<lambda>m. permits_service g (service_of m)) ms \<or>
      messages_someip_to_external (gw_stats g') = messages_someip_to_external (gw_stats g) \<and>
      bytes_someip_to_external (gw_stats g') = bytes_someip_to_external (gw_stats g)"
    using none_permitted [OF d] by (auto simp: list_ex_iff)
  with all_same_base [OF d] all_accounted [OF d] show ?thesis
    unfolding accounted_def d by auto
qed

end



subsection \<open>The life cycle of all gateways\<close>

text \<open>C3: Every gateway follows the life cycle of \<open>IGateway\<close>, over every sequence of starts, stops and messages and whatever the
  libraries answer: a start that reports \<open>SUCCESS\<close> leaves it running and a failed one as it was, a stop succeeds and leaves
  it stopped, and messages do not change the running flag. In the MQTT, D-Bus, DDS, ROS 2 and iceoryx2 gateways a message
  is refused while the gateway is stopped; the gRPC and Zenoh gateways do not promise that. All but the Zenoh gateway also return
  from every sequence (the MQTT gateway with an offline buffer that can hold something); the Zenoh gateway keeps to the machine
  as far as it returns.\<close>

theorem gateways_follow_life_cycle:
  "implements_life_cycle True buffer_ok (\<lambda>g. Some (Mqtt_start E1 g)) (\<lambda>g. Some (Mqtt_stop E1 g)) (Mqtt_on_someip_message A E1) \<and>
   implements_life_cycle True (\<lambda>g. True) (\<lambda>g. Some (Dbus_start E2 g)) (\<lambda>g. Some (Dbus_stop E2 g))
     (\<lambda>m g. Some (Dbus_on_someip_message A E2 m g)) \<and>
   implements_life_cycle True (\<lambda>g. True) (\<lambda>g. Some (Dds_start E3 g)) (\<lambda>g. Some (Dds_stop E3 g))
     (\<lambda>m g. Some (Dds_on_someip_message A E3 m g)) \<and>
   implements_life_cycle True (\<lambda>g. True) (\<lambda>g. Some (Ros2_start E4 sv pb g)) (\<lambda>g. Some (Ros2_stop E4 sv' pb' g))
     (\<lambda>m g. Some (Ros2_on_someip_message A E4 m g)) \<and>
   implements_life_cycle True (\<lambda>g. True) (\<lambda>g. Some (Iceoryx2_start P E5 g)) (\<lambda>g. Some (Iceoryx2_stop E5 g))
     (\<lambda>m g. Some (Iceoryx2_on_someip_message A S m g)) \<and>
   implements_life_cycle False (\<lambda>g. True) (\<lambda>g. Some (Grpc_start L E6 g)) (\<lambda>g. Some (Grpc_stop E6 g))
     (\<lambda>m g. Some (Grpc_on_someip_message A L m g)) \<and>
   refines_life_cycle False (\<lambda>g. outcome_result (Zenoh_start E7 g)) (\<lambda>g. Some (Zenoh_stop E7 g))
     (\<lambda>m g. outcome_result (Zenoh_on_someip_message A S' E7 intact m g))"
  by (intro conjI mqtt_life.implements dbus_life.implements dds_life.implements ros2_life.implements iceoryx2_life.implements
      grpc_life.implements zenoh_life.refines)


subsection \<open>Names on the external side\<close>

text \<open>No two SOME/IP addresses share a name on any middleware: under a fixed configuration the MQTT topic, the
  Zenoh event key and RPC key, the DDS topic, the ROS 2 topic and the iceoryx2 service name determine service,
  instance and method (and the kind, where it is part of the name), the D-Bus bus name and object path determine service
  and instance, and an event key is never an RPC key.\<close>

lemma external_names_determine_address:
  "(build_mqtt_topic tr s i m r = build_mqtt_topic tr s' i' m' r' \<longleftrightarrow> (s, i, m, r) = (s', i', m', r')) \<and>
   (build_key_expr pre s i m b = build_key_expr pre s' i' m' b \<longleftrightarrow> (s, i, m) = (s', i', m')) \<and>
   (build_rpc_key pre s i m = build_rpc_key pre s' i' m' \<longleftrightarrow> (s, i, m) = (s', i', m')) \<and>
   build_key_expr pre s i m b \<noteq> build_rpc_key pre s' i' m' \<and>
   (build_dds_topic s i m = build_dds_topic s' i' m' \<longleftrightarrow> (s, i, m) = (s', i', m')) \<and>
   (build_ros2_topic rt s i m = build_ros2_topic rt s' i' m' \<longleftrightarrow> (s, i, m) = (s', i', m')) \<and>
   (build_iceoryx2_service_name pre s i m k = build_iceoryx2_service_name pre s' i' m' k' \<longleftrightarrow>
      (s, i, m, k) = (s', i', m', k')) \<and>
   (build_bus_name dt s i = build_bus_name dt s' i' \<longleftrightarrow> (s, i) = (s', i')) \<and>
   (build_object_path dt s i = build_object_path dt s' i' \<longleftrightarrow> (s, i) = (s', i'))"
proof (intro conjI)
  show "build_key_expr pre s i m b \<noteq> build_rpc_key pre s' i' m'"
    by (metis parse_built_keys(1,2) ParsedZenohSomeipKey.ext_inject)
  show "build_iceoryx2_service_name pre s i m k = build_iceoryx2_service_name pre s' i' m' k' \<longleftrightarrow>
      (s, i, m, k) = (s', i', m', k')" by (simp add: topic_simps)
  show "build_bus_name dt s i = build_bus_name dt s' i' \<longleftrightarrow> (s, i) = (s', i')" by (simp add: topic_simps)
  show "build_object_path dt s i = build_object_path dt s' i' \<longleftrightarrow> (s, i) = (s', i')" by (simp add: topic_simps)
qed (simp_all add: build_mqtt_topic_inject zenoh_event.build_inject zenoh_rpc.build_inject dds_topic.build_inject
    ros2_topic.build_inject)

end
